(* ===== verification/Go_Prelude.thy ===== *)
theory Go_Prelude
  imports Main "HOL-Library.Word" "HOL-Library.Sublist" "HOL-Library.List_Lexorder" "HOL-Library.Char_ord"
begin

text \<open>
  What every theory of the development shares: Go's early returns as a bind on sums, machine
  integers of width 64 with the wrap-around written out, instants, the byte-string functions of
  the standard library the sources call, and lemmas on tables kept as lists of rows.
\<close>

named_theorems store_simps \<open>definitions of the store that a proof unfolds together\<close>
named_theorems frame_simps \<open>what an operation leaves unchanged\<close>

section \<open>Errors as values\<close>

text \<open>
  A Go call returning \<^verbatim>\<open>(value, error)\<close> is a value of a sum: \<^term>\<open>Inl\<close> carries the error,
  \<^term>\<open>Inr\<close> the value. The statement \<^verbatim>\<open>if err != nil { return err }\<close> is \<open>bindE\<close>.
\<close>

definition bindE :: "'e + 'a \<Rightarrow> ('a \<Rightarrow> 'e + 'b) \<Rightarrow> 'e + 'b" where
  "bindE m f = (case m of Inl e \<Rightarrow> Inl e | Inr x \<Rightarrow> f x)"

lemma bindE_Inl [simp]: "bindE (Inl e) f = Inl e"
  by (simp add: bindE_def)

lemma bindE_Inr [simp]: "bindE (Inr x) f = f x"
  by (simp add: bindE_def)

lemma bindE_eq_Inr_iff: "bindE m f = Inr y \<longleftrightarrow> (\<exists>x. m = Inr x \<and> f x = Inr y)"
  by (cases m) auto

lemma bindE_eq_Inl_iff: "bindE m f = Inl e \<longleftrightarrow> m = Inl e \<or> (\<exists>x. m = Inr x \<and> f x = Inl e)"
  by (cases m) auto

lemma bindE_InrE [elim!]:
  assumes "bindE m f = Inr y"
  obtains x where "m = Inr x" and "f x = Inr y"
  using assms by (auto simp: bindE_eq_Inr_iff)

lemma bindE_cong [fundef_cong]:
  "m = m' \<Longrightarrow> (\<And>x. m' = Inr x \<Longrightarrow> f x = f' x) \<Longrightarrow> bindE m f = bindE m' f'"
  by (cases m') auto

definition ensure :: "bool \<Rightarrow> 'e \<Rightarrow> 'e + unit" where
  "ensure c e = (if c then Inr () else Inl e)"

lemma ensure_eq_Inr_iff [simp]: "ensure c e = Inr u \<longleftrightarrow> c"
  by (simp add: ensure_def)

lemma ensure_eq_Inl_iff [simp]: "ensure c e = Inl e' \<longleftrightarrow> \<not> c \<and> e' = e"
  by (auto simp: ensure_def)

lemma ensure_True [simp]: "ensure True e = Inr ()"
  by (simp add: ensure_def)

lemma ensure_False [simp]: "ensure False e = Inl e"
  by (simp add: ensure_def)

section \<open>Machine integers\<close>

text \<open>
  Go's \<^verbatim>\<open>int64\<close> (and \<^verbatim>\<open>int\<close> on the supported platforms) is an integer in two's complement of
  width 64. Values are HOL integers; every sum, difference or product that can leave the range
  goes through \<open>wrap64\<close>, and a value of the type satisfies \<open>is_int64\<close>.
\<close>

definition maxInt64 :: int where
  "maxInt64 = 9223372036854775807"

definition minInt64 :: int where
  "minInt64 = - 9223372036854775808"

definition is_int64 :: "int \<Rightarrow> bool" where
  "is_int64 x \<longleftrightarrow> minInt64 \<le> x \<and> x \<le> maxInt64"

definition wrap64 :: "int \<Rightarrow> int" where
  "wrap64 x = (x + 9223372036854775808) mod 18446744073709551616 - 9223372036854775808"

lemmas int64_defs = maxInt64_def minInt64_def is_int64_def

lemma wrap64_range: "is_int64 (wrap64 x)"
  by (simp add: wrap64_def int64_defs)

lemma wrap64_id [simp]: "is_int64 x \<Longrightarrow> wrap64 x = x"
  by (simp add: wrap64_def int64_defs)

lemma wrap64_word: "wrap64 x = sint (word_of_int x :: 64 word)"
  by (simp add: wrap64_def sint_sbintrunc' signed_take_bit_eq_take_bit_shift take_bit_eq_mod)

lemma is_int64_0 [simp]: "is_int64 0" and is_int64_1 [simp]: "is_int64 1"
  by (simp_all add: int64_defs)

text \<open>\<^verbatim>\<open>big.Int.QuoRem\<close> truncates towards zero.\<close>

definition go_quo :: "int \<Rightarrow> int \<Rightarrow> int" where
  "go_quo a b = sgn a * sgn b * (\<bar>a\<bar> div \<bar>b\<bar>)"

definition go_rem :: "int \<Rightarrow> int \<Rightarrow> int" where
  "go_rem a b = a - b * go_quo a b"

lemma go_quo_nonneg: "0 \<le> a \<Longrightarrow> 0 < b \<Longrightarrow> go_quo a b = a div b"
  by (cases "a = 0") (auto simp: go_quo_def sgn_if)

lemma go_rem_nonneg: "0 \<le> a \<Longrightarrow> 0 < b \<Longrightarrow> go_rem a b = a mod b"
  by (simp add: go_rem_def go_quo_nonneg minus_mult_div_eq_mod)

section \<open>Instants\<close>

text \<open>
  A \<^verbatim>\<open>time.Time\<close> is the instant it denotes, in nanoseconds since the Unix epoch; its location
  only matters to calendar functions, which are given the offset explicitly. A
  \<^verbatim>\<open>time.Duration\<close> is an \<^verbatim>\<open>int64\<close> of nanoseconds, so a product that makes one wraps.
\<close>

type_synonym instant = int

definition second_ns :: int where "second_ns = 1000000000"
definition minute_ns :: int where "minute_ns = 60 * second_ns"
definition day_ns :: int where "day_ns = 86400 * second_ns"

definition zero_time :: instant where
  "zero_time = - 62135596800 * second_ns"

lemmas time_units = second_ns_def minute_ns_def day_ns_def

section \<open>Byte strings\<close>

text \<open>
  A Go string is its bytes. \<^verbatim>\<open>unicode.IsSpace\<close> holds for the six ASCII spaces, U+0085, U+00A0,
  U+1680, U+2000 to U+200A, U+2028, U+2029, U+202F, U+205F and U+3000; these are their UTF-8
  encodings. UTF-8 is self-synchronising, so a string begins (ends) with one of these characters
  exactly when its bytes begin (end) with the encoding.
\<close>

definition space_runes :: "string list" where
  "space_runes =
     [[CHR 0x09], [CHR 0x0A], [CHR 0x0B], [CHR 0x0C], [CHR 0x0D], [CHR 0x20],
      [CHR 0xC2, CHR 0x85], [CHR 0xC2, CHR 0xA0], [CHR 0xE1, CHR 0x9A, CHR 0x80],
      [CHR 0xE2, CHR 0x80, CHR 0x80], [CHR 0xE2, CHR 0x80, CHR 0x81], [CHR 0xE2, CHR 0x80, CHR 0x82],
      [CHR 0xE2, CHR 0x80, CHR 0x83], [CHR 0xE2, CHR 0x80, CHR 0x84], [CHR 0xE2, CHR 0x80, CHR 0x85],
      [CHR 0xE2, CHR 0x80, CHR 0x86], [CHR 0xE2, CHR 0x80, CHR 0x87], [CHR 0xE2, CHR 0x80, CHR 0x88],
      [CHR 0xE2, CHR 0x80, CHR 0x89], [CHR 0xE2, CHR 0x80, CHR 0x8A], [CHR 0xE2, CHR 0x80, CHR 0xA8],
      [CHR 0xE2, CHR 0x80, CHR 0xA9], [CHR 0xE2, CHR 0x80, CHR 0xAF], [CHR 0xE2, CHR 0x81, CHR 0x9F],
      [CHR 0xE3, CHR 0x80, CHR 0x80]]"

lemma space_runes_nonempty: "w \<in> set space_runes \<Longrightarrow> w \<noteq> []"
  by (auto simp: space_runes_def)

text \<open>Dropping from the front any of the given non-empty words, as often as one is there.\<close>

function strip_front :: "string list \<Rightarrow> string \<Rightarrow> string" where
  "strip_front ws s =
     (case find (\<lambda>w. w \<noteq> [] \<and> prefix w s) ws of
        None \<Rightarrow> s
      | Some w \<Rightarrow> strip_front ws (drop (length w) s))"
  by pat_completeness auto
termination
  by (relation "measure (\<lambda>(ws, s). length s)")
     (auto simp: find_Some_iff prefix_def)

declare strip_front.simps [simp del]

definition TrimSpace :: "string \<Rightarrow> string" where
  "TrimSpace s = rev (strip_front (map rev space_runes) (rev (strip_front space_runes s)))"

definition required :: "string \<Rightarrow> bool" where
  "required value = (TrimSpace value \<noteq> [])"

text \<open>\<^verbatim>\<open>strings.ToLower\<close> on the ASCII letters; other bytes are kept.\<close>

definition lower_char :: "char \<Rightarrow> char" where
  "lower_char c = (let n = of_char c :: nat in if 65 \<le> n \<and> n \<le> 90 then char_of (n + 32) else c)"

definition ToLower :: "string \<Rightarrow> string" where
  "ToLower s = map lower_char s"

text \<open>The verb \<^verbatim>\<open>%d\<close> of \<^verbatim>\<open>fmt\<close>.\<close>

fun decimal_nat :: "nat \<Rightarrow> string" where
  "decimal_nat n = (if n < 10 then [char_of (n + 48)] else decimal_nat (n div 10) @ [char_of (n mod 10 + 48)])"

definition decimal :: "int \<Rightarrow> string" where
  "decimal n = (if n < 0 then CHR ''-'' # decimal_nat (nat (- n)) else decimal_nat (nat n))"

declare decimal_nat.simps [simp del]

lemma strip_front_stops:
  "w \<in> set ws \<Longrightarrow> w \<noteq> [] \<Longrightarrow> \<not> prefix w (strip_front ws s)"
proof (induction ws s rule: strip_front.induct)
  case (1 ws s)
  show ?case
  proof (cases "find (\<lambda>w. w \<noteq> [] \<and> prefix w s) ws")
    case None
    then have "strip_front ws s = s" by (simp add: strip_front.simps [of ws s])
    with 1 None show ?thesis by (auto simp: find_None_iff)
  next
    case (Some v)
    with 1 show ?thesis by (simp add: strip_front.simps [of ws s])
  qed
qed

lemma strip_front_id:
  "(\<And>w. w \<in> set ws \<Longrightarrow> w \<noteq> [] \<Longrightarrow> \<not> prefix w s) \<Longrightarrow> strip_front ws s = s"
proof -
  assume "\<And>w. w \<in> set ws \<Longrightarrow> w \<noteq> [] \<Longrightarrow> \<not> prefix w s"
  then have "find (\<lambda>w. w \<noteq> [] \<and> prefix w s) ws = None" by (auto simp: find_None_iff)
  then show ?thesis by (simp add: strip_front.simps [of ws s])
qed

lemma strip_front_suffix: "suffix (strip_front ws s) s"
proof (induction ws s rule: strip_front.induct)
  case (1 ws s)
  then show ?case
    by (cases "find (\<lambda>w. w \<noteq> [] \<and> prefix w s) ws")
       (auto simp: strip_front.simps [of ws s] intro: suffix_order.trans suffix_drop)
qed

lemma TrimSpace_Nil [simp]: "TrimSpace [] = []"
  using strip_front_suffix [of _ "[]"] by (simp add: TrimSpace_def)

text \<open>Evaluation waits for the text to be known.\<close>

lemma TrimSpace_eval [code]:
  "TrimSpace [] = []"
  "TrimSpace (c # cs) = rev (strip_front (map rev space_runes) (rev (strip_front space_runes (c # cs))))"
  by simp (simp only: TrimSpace_def)

lemma TrimSpace_prefix: "prefix (TrimSpace s) (strip_front space_runes s)"
  using strip_front_suffix [of "map rev space_runes" "rev (strip_front space_runes s)"]
  by (simp add: TrimSpace_def suffix_to_prefix)

lemma TrimSpace_no_lead: "w \<in> set space_runes \<Longrightarrow> \<not> prefix w (TrimSpace s)"
  using TrimSpace_prefix prefix_order.trans strip_front_stops space_runes_nonempty by blast

lemma TrimSpace_no_trail: "w \<in> set space_runes \<Longrightarrow> \<not> prefix (rev w) (rev (TrimSpace s))"
  using strip_front_stops [of "rev w" "map rev space_runes"] space_runes_nonempty
  by (simp add: TrimSpace_def)

lemma TrimSpace_idem [simp]: "TrimSpace (TrimSpace s) = TrimSpace s"
proof -
  have front: "strip_front space_runes (TrimSpace s) = TrimSpace s"
    by (rule strip_front_id) (rule TrimSpace_no_lead)
  have "strip_front (map rev space_runes) (rev (TrimSpace s)) = rev (TrimSpace s)"
    by (rule strip_front_id) (auto dest: TrimSpace_no_trail)
  with front show ?thesis by (simp add: TrimSpace_def [of "TrimSpace s"])
qed

text \<open>A text of ASCII characters above the space is already trimmed.\<close>

definition graphic :: "char \<Rightarrow> bool" where
  "graphic c = (33 \<le> (of_char c :: nat) \<and> (of_char c :: nat) \<le> 126)"

lemma graphic_not_prefix:
  assumes "list_all graphic s" and "w \<in> set space_runes \<or> w \<in> set (map rev space_runes)"
  shows "\<not> prefix w s"
proof -
  have "w \<noteq> [] \<and> \<not> graphic (hd w)"
    using assms(2) by (auto simp: space_runes_def graphic_def)
  with assms(1) show ?thesis by (cases w; cases s) auto
qed

lemma TrimSpace_graphic: "list_all graphic s \<Longrightarrow> TrimSpace s = s"
proof -
  assume s: "list_all graphic s"
  then have "strip_front space_runes s = s"
    using graphic_not_prefix by (intro strip_front_id) blast
  moreover have "strip_front (map rev space_runes) (rev s) = rev s"
    using s graphic_not_prefix [of "rev s"] by (intro strip_front_id) (auto simp: list_all_iff)
  ultimately show ?thesis by (simp add: TrimSpace_def)
qed

section \<open>Tables as lists of rows\<close>

text \<open>A SQL \<^verbatim>\<open>UPDATE ... WHERE p\<close> applied to a table.\<close>

definition update_where :: "('r \<Rightarrow> bool) \<Rightarrow> ('r \<Rightarrow> 'r) \<Rightarrow> 'r list \<Rightarrow> 'r list" where
  "update_where p f rows = map (\<lambda>r. if p r then f r else r) rows"

lemma length_update_where [simp]: "length (update_where p f rows) = length rows"
  by (simp add: update_where_def)

lemma update_where_Nil [simp]: "update_where p f [] = []"
  by (simp add: update_where_def)

lemma update_where_Cons [simp]:
  "update_where p f (r # rows) = (if p r then f r else r) # update_where p f rows"
  by (simp add: update_where_def)

lemma map_update_where:
  "(\<And>r. p r \<Longrightarrow> g (f r) = g r) \<Longrightarrow> map g (update_where p f rows) = map g rows"
  by (induction rows) auto

lemma set_update_where: "set (update_where p f rows) = (\<lambda>r. if p r then f r else r) ` set rows"
  by (simp add: update_where_def)

text \<open>
  A row found by its primary key: with distinct keys the row found is the only one, and after an
  update that keeps keys the row found is the old one, updated if it satisfied the condition.
\<close>

lemma find_key_Some:
  "find (\<lambda>r. k r = x) rows = Some r \<Longrightarrow> r \<in> set rows \<and> k r = x"
  by (auto simp: find_Some_iff)

lemma find_Some_mem: "find p rows = Some r \<Longrightarrow> r \<in> set rows \<and> p r"
  by (auto simp: find_Some_iff)

lemma find_key_None: "find (\<lambda>r. k r = x) rows = None \<longleftrightarrow> x \<notin> k ` set rows"
  by (auto simp: find_None_iff)

lemma find_key_unique:
  "distinct (map k rows) \<Longrightarrow> r \<in> set rows \<Longrightarrow> find (\<lambda>r. k r = k r0) rows = Some r0 \<Longrightarrow> k r = k r0 \<Longrightarrow> r = r0"
  by (induction rows) (auto simp: image_iff split: if_splits dest: find_key_Some)

lemma find_key_mem:
  "distinct (map k rows) \<Longrightarrow> r \<in> set rows \<Longrightarrow> find (\<lambda>r'. k r' = k r) rows = Some r"
  by (induction rows) (auto simp: image_iff)

lemma find_key_update_where:
  assumes "\<And>r. p r \<Longrightarrow> k (f r) = k r"
  shows "find (\<lambda>r. k r = x) (update_where p f rows)
       = map_option (\<lambda>r. if p r then f r else r) (find (\<lambda>r. k r = x) rows)"
  using assms by (induction rows) auto

lemma find_append: "find p (xs @ ys) = (case find p xs of None \<Rightarrow> find p ys | Some x \<Rightarrow> Some x)"
  by (induction xs) auto

text \<open>One more row in a sum over the rows that satisfy a condition.\<close>

lemma sum_filter_insert:
  fixes f :: "'r \<Rightarrow> int"
  assumes "distinct (map k rows)" and "r \<in> set rows" and "\<not> p r"
  shows "(\<Sum>x\<leftarrow>filter (\<lambda>x. p x \<or> k x = k r) rows. f x) = (\<Sum>x\<leftarrow>filter p rows. f x) + f r"
  using assms
proof (induction rows)
  case (Cons y ys)
  show ?case
  proof (cases "y = r")
    case True
    then have "filter (\<lambda>x. p x \<or> k x = k r) ys = filter p ys"
      using Cons.prems(1) by (intro filter_cong) (auto simp: image_iff)
    with True Cons.prems(3) show ?thesis by simp
  next
    case False
    with Cons.prems have "k y \<noteq> k r" by (auto simp: image_iff)
    with False Cons show ?thesis by simp
  qed
qed simp

end
