(* ===== verification/Currency_Code.thy ===== *)
theory Currency_Code
  imports Go_Prelude
begin

text \<open>
  Package \<^verbatim>\<open>internal/currency\<close>: the currency codes, their minor-unit scale, and the one
  settlement currency.
\<close>

type_synonym Code = string

definition TWD :: Code where "TWD = ''TWD''"
definition USD :: Code where "USD = ''USD''"
definition CNY :: Code where "CNY = ''CNY''"

definition Settlement :: Code where "Settlement = TWD"

definition MinorDigits :: "Code \<Rightarrow> int \<times> bool" where
  "MinorDigits code =
     (if code = TWD then (0, True)
      else if code = USD \<or> code = CNY then (2, True)
      else (0, False))"

definition CanSettle :: "Code \<Rightarrow> bool" where
  "CanSettle code = (code = Settlement)"

lemmas currency_defs = TWD_def USD_def CNY_def Settlement_def

lemma CanSettle_iff: "CanSettle code \<longleftrightarrow> code = ''TWD''"
  by (simp add: CanSettle_def currency_defs)

text \<open>What can be settled is known and has no minor digits: one minor unit is one dollar.\<close>

lemma CanSettle_zero_decimal: "CanSettle code \<Longrightarrow> MinorDigits code = (0, True)"
  by (simp add: CanSettle_def MinorDigits_def currency_defs)

end
