(* ===== verification/Billing_Money.thy ===== *)
theory Billing_Money
  imports Currency_Code
begin

text \<open>
  Package \<^verbatim>\<open>internal/billing\<close>, first part: the data (\<^verbatim>\<open>types.go\<close>) and the arithmetic of
  prices, taxes and invoice totals (\<^verbatim>\<open>money.go\<close>). \<^verbatim>\<open>big.Int\<close> values are HOL integers; a
  conversion back to \<^verbatim>\<open>int64\<close> is guarded by \<^term>\<open>is_int64\<close> as the code guards it with
  \<^verbatim>\<open>IsInt64\<close>.
\<close>

section \<open>Errors\<close>

datatype billing_error =
    BillingErrInvalidAmount | BillingErrInvalidScale | BillingErrInvalidRounding
  | BillingErrOverflow | BillingErrInvoiceMismatch
  | BillingErrInvalidInvoice | BillingErrInvoiceIssued
  | BillingErrRateNotFound string string string
  | BillingErrProfileConfigurationRequired
  | BillingErrOTACardReview string
  | BillingPanic

section \<open>Data (types.go)\<close>

datatype RoundingMode = RoundingHalfUp | RoundingDown | RoundingUp | RoundingUnset | RoundingOther string

datatype TaxCalculationMode = TaxModeLine | TaxModeInvoiceTotal | TaxModeUnset | TaxModeOther string

datatype InvoiceState =
    InvoiceStateDraft | InvoiceStateIssued | InvoiceStateSettled | InvoiceStatePartiallySettled
  | InvoiceStateOverdue | InvoiceStateVoid | InvoiceStateUnset | InvoiceStateOther string

record BillingProfile =
  bp_OwnershipVersion :: "int option"
  bp_RequiresConfiguration :: bool
  bp_OrganizationID :: string
  bp_LegalName :: string
  bp_TaxIdentifier :: string
  bp_BillingAddress :: string
  bp_ContactEmail :: string
  bp_Locale :: string
  bp_Timezone :: string
  bp_DeliveryPreference :: string
  bp_Version :: int
  bp_CreatedAt :: instant
  bp_UpdatedAt :: instant

record PricingRate =
  pr_ID :: string
  pr_PricingVersionID :: string
  pr_ServiceCode :: string
  pr_MetricCode :: string
  pr_Description :: string
  pr_Unit :: string
  pr_UnitPriceMinor :: int
  pr_UnitPriceScale :: int
  pr_QuantityScale :: "int option"
  pr_RoundingMode :: RoundingMode
  pr_TaxCategory :: "string option"
  pr_TaxRateBasisPoints :: int

record OTAStorageObjectEvidence =
  ose_ObjectSHA256 :: string
  ose_ByteMicroseconds :: string

record OTAGrantEvidence =
  oge_ProductServiceRevision :: int
  oge_ServiceGrantSHA256 :: string
  oge_AuthorizedAt :: instant

record UsageFact =
  uf_ID :: string
  uf_UsageID :: string
  uf_OrganizationID :: string
  uf_ProductID :: string
  uf_ServiceCode :: string
  uf_MetricCode :: string
  uf_Quantity :: int
  uf_QuantityScale :: int
  uf_Unit :: string
  uf_WindowStart :: instant
  uf_WindowEnd :: instant
  uf_Source :: string
  uf_SourceSHA256 :: string
  uf_OTAGrant :: "OTAGrantEvidence option"
  uf_OTAStorageObject :: "OTAStorageObjectEvidence option"

record InvoiceLine =
  il_ID :: string
  il_PricingRateID :: string
  il_ProductID :: string
  il_ServiceCode :: string
  il_MetricCode :: string
  il_Description :: string
  il_Quantity :: int
  il_QuantityScale :: int
  il_Unit :: string
  il_UnitPriceMinor :: int
  il_UnitPriceScale :: int
  il_SubtotalMinor :: int
  il_TaxMinor :: int
  il_TotalMinor :: int
  il_RoundingMode :: RoundingMode
  il_UsageFactRefs :: "string list"

record InvoiceDocument =
  id_ContentType :: string
  id_ByteLength :: int
  id_SHA256 :: string
  id_RendererVersion :: string
  id_InvoiceVersion :: int
  id_GeneratedAt :: instant

record Invoice =
  iv_ID :: string
  iv_InvoiceNumber :: string
  iv_OrganizationID :: string
  iv_AccountID :: string
  iv_PeriodID :: string
  iv_PricingVersionID :: string
  iv_TaxMode :: TaxCalculationMode
  iv_InvoiceTaxRateBasisPoints :: "int option"
  iv_InvoiceTaxRoundingMode :: RoundingMode
  iv_InvoiceTaxCategory :: string
  iv_Currency :: Code
  iv_State :: InvoiceState
  iv_PeriodStart :: instant
  iv_PeriodEnd :: instant
  iv_SubtotalMinor :: int
  iv_TaxMinor :: int
  iv_TotalMinor :: int
  iv_AmountSettledMinor :: int
  iv_AmountDueMinor :: int
  iv_Recipient :: BillingProfile
  iv_Lines :: "InvoiceLine list"
  iv_Document :: "InvoiceDocument option"
  iv_SettlementLedgerID :: string
  iv_SettlementActivityID :: string
  iv_IssuedAt :: "instant option"
  iv_DueAt :: "instant option"
  iv_SettledAt :: "instant option"
  iv_Version :: int
  iv_CreatedAt :: instant
  iv_UpdatedAt :: instant

section \<open>Rounding and prices (money.go)\<close>

definition validRoundingMode :: "RoundingMode \<Rightarrow> bool" where
  "validRoundingMode mode = (mode = RoundingHalfUp \<or> mode = RoundingDown \<or> mode = RoundingUp)"

definition roundedInt64 :: "int \<Rightarrow> int \<Rightarrow> RoundingMode \<Rightarrow> billing_error + int" where
  "roundedInt64 numerator denominator mode =
     (if numerator < 0 \<or> denominator \<le> 0 then Inl BillingErrInvalidAmount
      else
        let quotient = go_quo numerator denominator;
            remainder = go_rem numerator denominator
        in bindE
             (if remainder \<noteq> 0 then
                (case mode of
                   RoundingDown \<Rightarrow> Inr quotient
                 | RoundingUp \<Rightarrow> Inr (quotient + 1)
                 | RoundingHalfUp \<Rightarrow>
                     Inr (if 2 * remainder \<ge> denominator then quotient + 1 else quotient)
                 | _ \<Rightarrow> Inl BillingErrInvalidRounding)
              else if mode \<noteq> RoundingDown \<and> mode \<noteq> RoundingUp \<and> mode \<noteq> RoundingHalfUp
              then Inl BillingErrInvalidRounding
              else Inr quotient)
             (\<lambda>quotient. if \<not> is_int64 quotient then Inl BillingErrOverflow else Inr quotient))"

definition pow10 :: "int \<Rightarrow> int" where
  "pow10 scale = 10 ^ nat scale"

definition PriceSubtotal :: "PricingRate \<Rightarrow> int \<Rightarrow> int \<Rightarrow> billing_error + int" where
  "PriceSubtotal rate quantity quantityScale =
     (if quantity < 0 \<or> pr_UnitPriceMinor rate < 0 then Inl BillingErrInvalidAmount
      else if quantityScale < 0 \<or> quantityScale > 9 \<or>
              pr_UnitPriceScale rate < 0 \<or> pr_UnitPriceScale rate > 9 \<or>
              (case pr_QuantityScale rate of None \<Rightarrow> False | Some q \<Rightarrow> q \<noteq> quantityScale)
      then Inl BillingErrInvalidScale
      else roundedInt64 (quantity * pr_UnitPriceMinor rate)
             (pow10 (quantityScale + pr_UnitPriceScale rate)) (pr_RoundingMode rate))"

definition PriceUsage :: "PricingRate \<Rightarrow> int \<Rightarrow> int \<Rightarrow> billing_error + (int \<times> int \<times> int)" where
  "PriceUsage rate quantity quantityScale =
     (if pr_TaxRateBasisPoints rate < 0 \<or> pr_TaxRateBasisPoints rate > 10000
      then Inl BillingErrInvalidAmount
      else bindE (PriceSubtotal rate quantity quantityScale) (\<lambda>subtotal.
           bindE (roundedInt64 (subtotal * pr_TaxRateBasisPoints rate) 10000 (pr_RoundingMode rate))
             (\<lambda>tax. if \<not> is_int64 (subtotal + tax) then Inl BillingErrOverflow
                    else Inr (subtotal, tax, subtotal + tax))))"

section \<open>Invoice totals (money.go)\<close>

definition line_mismatch :: "InvoiceLine \<Rightarrow> bool" where
  "line_mismatch line =
     (let lineTotal = il_SubtotalMinor line + il_TaxMinor line
      in il_SubtotalMinor line < 0 \<or> il_TaxMinor line < 0 \<or> il_TotalMinor line < 0 \<or>
         \<not> is_int64 lineTotal \<or> lineTotal \<noteq> il_TotalMinor line)"

fun sum_lines :: "int \<Rightarrow> int \<Rightarrow> InvoiceLine list \<Rightarrow> billing_error + (int \<times> int)" where
  "sum_lines subtotal tax [] = Inr (subtotal, tax)"
| "sum_lines subtotal tax (line # rest) =
     (if line_mismatch line then Inl BillingErrInvoiceMismatch
      else sum_lines (subtotal + il_SubtotalMinor line) (tax + il_TaxMinor line) rest)"

definition ValidateInvoiceTotals :: "Invoice \<Rightarrow> billing_error + unit" where
  "ValidateInvoiceTotals invoice =
     bindE (sum_lines 0 0 (iv_Lines invoice)) (\<lambda>(subtotal, tax).
       if \<not> is_int64 subtotal \<or> \<not> is_int64 tax then Inl BillingErrOverflow
       else
         let invoiceTotal = iv_SubtotalMinor invoice + iv_TaxMinor invoice;
             settlementTotal = iv_AmountSettledMinor invoice + iv_AmountDueMinor invoice
         in if subtotal \<noteq> iv_SubtotalMinor invoice \<or> tax \<noteq> iv_TaxMinor invoice \<or>
               \<not> is_int64 invoiceTotal \<or> invoiceTotal \<noteq> iv_TotalMinor invoice \<or>
               iv_AmountSettledMinor invoice < 0 \<or> iv_AmountDueMinor invoice < 0 \<or>
               \<not> is_int64 settlementTotal \<or> settlementTotal \<noteq> iv_TotalMinor invoice
            then Inl BillingErrInvoiceMismatch
            else if iv_TaxMode invoice = TaxModeInvoiceTotal then
              (case iv_InvoiceTaxRateBasisPoints invoice of
                 None \<Rightarrow> Inl BillingErrInvoiceMismatch
               | Some r \<Rightarrow>
                   if r < 0 \<or> r > 10000 \<or> iv_InvoiceTaxCategory invoice = [] \<or>
                      \<not> validRoundingMode (iv_InvoiceTaxRoundingMode invoice)
                   then Inl BillingErrInvoiceMismatch
                   else (case roundedInt64 (iv_SubtotalMinor invoice * r) 10000
                                (iv_InvoiceTaxRoundingMode invoice) of
                           Inl _ \<Rightarrow> Inl BillingErrInvoiceMismatch
                         | Inr expectedTax \<Rightarrow>
                             if expectedTax \<noteq> iv_TaxMinor invoice then Inl BillingErrInvoiceMismatch
                             else Inr ()))
            else if iv_TaxMode invoice \<noteq> TaxModeUnset \<and> iv_TaxMode invoice \<noteq> TaxModeLine \<or>
                    iv_InvoiceTaxRateBasisPoints invoice \<noteq> None \<or>
                    iv_InvoiceTaxRoundingMode invoice \<noteq> RoundingUnset \<or>
                    iv_InvoiceTaxCategory invoice \<noteq> []
            then Inl BillingErrInvoiceMismatch
            else Inr ())"

section \<open>The contract of a rounding\<close>

text \<open>
  What the tax allocation relies on: a rounding, where it answers, answers with the floor or the
  ceiling of the quotient. From this alone follows that what is left over when every part is
  rounded down is between zero and the number of parts that do not divide.
\<close>

locale rounding =
  fixes rnd :: "int \<Rightarrow> int \<Rightarrow> int option"
  assumes rnd_floor: "0 \<le> n \<Longrightarrow> 0 < d \<Longrightarrow> rnd n d = Some q \<Longrightarrow> n div d \<le> q"
    and rnd_ceiling: "0 \<le> n \<Longrightarrow> 0 < d \<Longrightarrow> rnd n d = Some q \<Longrightarrow> d * q < n + d"
begin

lemma rnd_exact:
  assumes "0 \<le> n" and "0 < d" and "d dvd n" and "rnd n d = Some q"
  shows "q = n div d"
proof -
  from assms(3) obtain k where n: "n = d * k" by (elim dvdE)
  have "k \<le> q" using rnd_floor [OF assms(1,2,4)] assms(2) n by simp
  moreover have "d * q < d * (k + 1)"
    using rnd_ceiling [OF assms(1,2,4)] n by (simp add: algebra_simps)
  then have "q < k + 1" using assms(2) by (simp only: mult_less_cancel_left_pos)
  ultimately show ?thesis using assms(2) n by simp
qed

lemma rnd_upper: "0 \<le> n \<Longrightarrow> 0 < d \<Longrightarrow> rnd n d = Some q \<Longrightarrow> n \<le> d * m \<Longrightarrow> q \<le> m"
proof -
  assume "0 \<le> n" and d: "0 < d" and "rnd n d = Some q" and "n \<le> d * m"
  then have "d * q < d * (m + 1)" using rnd_ceiling by (fastforce simp: algebra_simps)
  then show ?thesis using d by (simp only: mult_less_cancel_left_pos)
qed

lemma leftover_bounds:
  assumes "0 < d" and "\<forall>n \<in> set parts. 0 \<le> n" and "rnd (sum_list parts) d = Some q"
  shows "0 \<le> q - (\<Sum>n\<leftarrow>parts. n div d)"
    and "q - (\<Sum>n\<leftarrow>parts. n div d) \<le> int (length (filter (\<lambda>n. n mod d \<noteq> 0) parts))"
proof -
  have nonneg: "0 \<le> sum_list parts" using assms(2) by (induction parts) auto
  have split: "sum_list parts = d * (\<Sum>n\<leftarrow>parts. n div d) + (\<Sum>n\<leftarrow>parts. n mod d)" for parts
    by (induction parts) (auto simp: algebra_simps)
  have mods: "0 \<le> (\<Sum>n\<leftarrow>parts. n mod d)
      \<and> (\<Sum>n\<leftarrow>parts. n mod d) \<le> (d - 1) * int (length (filter (\<lambda>n. n mod d \<noteq> 0) parts))" for parts
  proof (induction parts)
    case (Cons n ns)
    have "n mod d \<le> d - 1" and "0 \<le> n mod d" using assms(1) by (simp_all add: zle_diff1_eq)
    with Cons show ?case by (auto simp: algebra_simps)
  qed simp
  have "(\<Sum>n\<leftarrow>parts. n div d) \<le> sum_list parts div d"
    using split [of parts] mods [of parts] assms(1)
    by (metis add_increasing2 div_by_1 mult.commute nonzero_mult_div_cancel_left order.refl
        order_less_imp_not_eq2 zdiv_mono1)
  then show "0 \<le> q - (\<Sum>n\<leftarrow>parts. n div d)"
    using rnd_floor [OF nonneg assms(1,3)] by simp
  let ?k = "int (length (filter (\<lambda>n. n mod d \<noteq> 0) parts))"
  have "sum_list parts \<le> d * ((\<Sum>n\<leftarrow>parts. n div d) + ?k)"
    using split [of parts] mods [of parts] by (auto simp: algebra_simps)
  then have "q \<le> (\<Sum>n\<leftarrow>parts. n div d) + ?k"
    using rnd_upper [OF nonneg assms(1,3)] by blast
  then show "q - (\<Sum>n\<leftarrow>parts. n div d) \<le> ?k" by simp
qed

end

text \<open>\<open>roundedInt64\<close> at any fixed mode keeps the contract.\<close>

definition rounded_option :: "RoundingMode \<Rightarrow> int \<Rightarrow> int \<Rightarrow> int option" where
  "rounded_option mode n d = (case roundedInt64 n d mode of Inl _ \<Rightarrow> None | Inr q \<Rightarrow> Some q)"

lemma rounded_option_Some: "rounded_option mode n d = Some q \<longleftrightarrow> roundedInt64 n d mode = Inr q"
  by (auto simp: rounded_option_def split: sum.splits)

lemma roundedInt64_Inr_iff:
  "roundedInt64 n d mode = Inr q \<longleftrightarrow>
     0 \<le> n \<and> 0 < d \<and> validRoundingMode mode \<and> is_int64 q \<and>
     q = n div d + (if n mod d \<noteq> 0 \<and> (mode = RoundingUp \<or> mode = RoundingHalfUp \<and> d \<le> 2 * (n mod d))
                    then 1 else 0)"
  by (cases mode)
     (auto simp: roundedInt64_def Let_def go_quo_nonneg go_rem_nonneg validRoundingMode_def bindE_eq_Inr_iff
           split: if_splits)

interpretation rounded: rounding "rounded_option mode" for mode
proof
  fix n d q :: int
  assume nd: "0 \<le> n" "0 < d" and q: "rounded_option mode n d = Some q"
  from q show "n div d \<le> q" by (auto simp: rounded_option_Some roundedInt64_Inr_iff)
  have n: "n = d * (n div d) + n mod d" and m: "0 \<le> n mod d" using nd by simp_all
  have "q = n div d \<or> q = n div d + 1 \<and> n mod d \<noteq> 0"
    using q by (auto simp: rounded_option_Some roundedInt64_Inr_iff)
  then have "d * q = d * (n div d) \<or> d * q = d * (n div d) + d \<and> n mod d \<noteq> 0"
    by (auto simp: algebra_simps)
  then show "d * q < n + d" using nd n m by linarith
qed

section \<open>Prices\<close>

lemma ceil_le: "(x::int) \<le> s * 10000 \<Longrightarrow> x mod 10000 \<noteq> 0 \<Longrightarrow> x div 10000 + 1 \<le> s"
proof -
  assume "x \<le> s * 10000" and "x mod 10000 \<noteq> 0"
  moreover have "x = 10000 * (x div 10000) + x mod 10000" and "0 \<le> x mod 10000" by simp_all
  ultimately show ?thesis by linarith
qed

lemma roundedInt64_small_tax:
  assumes "0 \<le> s" and "is_int64 s" and "0 \<le> r" and "r \<le> 10000" and "validRoundingMode mode"
  shows "\<exists>t. roundedInt64 (s * r) 10000 mode = Inr t \<and> 0 \<le> t \<and> t \<le> s"
proof -
  define t where "t = s * r div 10000 +
    (if s * r mod 10000 \<noteq> 0 \<and> (mode = RoundingUp \<or> mode = RoundingHalfUp \<and> 10000 \<le> 2 * (s * r mod 10000))
     then 1 else 0)"
  have le: "s * r \<le> s * 10000" using assms by (simp add: mult_left_mono)
  have nonneg: "0 \<le> s * r" using assms by simp
  have "t \<le> s" using le ceil_le [OF le] by (auto simp: t_def)
  moreover have "0 \<le> t" using nonneg by (simp add: t_def)
  moreover have "roundedInt64 (s * r) 10000 mode = Inr t"
    using assms nonneg calculation
    unfolding roundedInt64_Inr_iff t_def [symmetric] by (simp add: int64_defs)
  ultimately show ?thesis by blast
qed

lemma PriceSubtotal_Inr:
  assumes "PriceSubtotal rate q s = Inr sub"
  shows "0 \<le> sub \<and> is_int64 sub \<and> 0 \<le> q \<and> validRoundingMode (pr_RoundingMode rate)"
  using assms
  by (auto simp: PriceSubtotal_def roundedInt64_Inr_iff pow10_def pos_imp_zdiv_nonneg_iff split: if_splits)

lemma PriceUsage_Inr:
  assumes "PriceUsage rate q s = Inr (sub, tax, tot)"
  shows "PriceSubtotal rate q s = Inr sub \<and> 0 \<le> tax \<and> tax \<le> sub \<and> tot = sub + tax \<and> is_int64 tot"
proof -
  from assms have sub: "PriceSubtotal rate q s = Inr sub"
    and tax: "roundedInt64 (sub * pr_TaxRateBasisPoints rate) 10000 (pr_RoundingMode rate) = Inr tax"
    and tot: "tot = sub + tax" "is_int64 tot"
    and bp: "0 \<le> pr_TaxRateBasisPoints rate" "pr_TaxRateBasisPoints rate \<le> 10000"
    by (auto simp: PriceUsage_def split: if_splits)
  from PriceSubtotal_Inr [OF sub]
  obtain t where "roundedInt64 (sub * pr_TaxRateBasisPoints rate) 10000 (pr_RoundingMode rate) = Inr t"
    and "0 \<le> t" and "t \<le> sub"
    using roundedInt64_small_tax bp by blast
  with tax have "0 \<le> tax \<and> tax \<le> sub" by simp
  with sub tot show ?thesis by simp
qed

section \<open>Totals\<close>

lemma sum_lines_Inr_iff:
  "sum_lines s t ls = Inr (s', t') \<longleftrightarrow>
     (\<forall>l \<in> set ls. \<not> line_mismatch l) \<and>
     s' = s + (\<Sum>l\<leftarrow>ls. il_SubtotalMinor l) \<and> t' = t + (\<Sum>l\<leftarrow>ls. il_TaxMinor l)"
  by (induction ls arbitrary: s t) auto

lemma lines_ok_iff:
  "(\<forall>l \<in> set ls. \<not> line_mismatch l) \<longleftrightarrow>
     (\<forall>l \<in> set ls. 0 \<le> il_SubtotalMinor l \<and> 0 \<le> il_TaxMinor l \<and>
        il_TotalMinor l = il_SubtotalMinor l + il_TaxMinor l \<and> is_int64 (il_TotalMinor l))"
  by (rule ball_cong) (auto simp: line_mismatch_def Let_def)

text \<open>The tax section of an invoice is consistent with its mode.\<close>

definition tax_section_ok :: "Invoice \<Rightarrow> bool" where
  "tax_section_ok v =
     (if iv_TaxMode v = TaxModeInvoiceTotal then
        (case iv_InvoiceTaxRateBasisPoints v of
           None \<Rightarrow> False
         | Some r \<Rightarrow> 0 \<le> r \<and> r \<le> 10000 \<and> iv_InvoiceTaxCategory v \<noteq> [] \<and>
             validRoundingMode (iv_InvoiceTaxRoundingMode v) \<and>
             roundedInt64 (iv_SubtotalMinor v * r) 10000 (iv_InvoiceTaxRoundingMode v) = Inr (iv_TaxMinor v))
      else (iv_TaxMode v = TaxModeUnset \<or> iv_TaxMode v = TaxModeLine) \<and>
           iv_InvoiceTaxRateBasisPoints v = None \<and> iv_InvoiceTaxRoundingMode v = RoundingUnset \<and>
           iv_InvoiceTaxCategory v = [])"

lemma ValidateInvoiceTotals_Inr_iff:
  "ValidateInvoiceTotals v = Inr u \<longleftrightarrow>
     (\<forall>l \<in> set (iv_Lines v). 0 \<le> il_SubtotalMinor l \<and> 0 \<le> il_TaxMinor l \<and>
        il_TotalMinor l = il_SubtotalMinor l + il_TaxMinor l \<and> is_int64 (il_TotalMinor l)) \<and>
     iv_SubtotalMinor v = (\<Sum>l\<leftarrow>iv_Lines v. il_SubtotalMinor l) \<and>
     iv_TaxMinor v = (\<Sum>l\<leftarrow>iv_Lines v. il_TaxMinor l) \<and>
     is_int64 (iv_SubtotalMinor v) \<and> is_int64 (iv_TaxMinor v) \<and>
     iv_TotalMinor v = iv_SubtotalMinor v + iv_TaxMinor v \<and> is_int64 (iv_TotalMinor v) \<and>
     0 \<le> iv_AmountSettledMinor v \<and> 0 \<le> iv_AmountDueMinor v \<and>
     iv_AmountSettledMinor v + iv_AmountDueMinor v = iv_TotalMinor v \<and>
     tax_section_ok v"
proof (cases "sum_lines 0 0 (iv_Lines v)")
  case (Inl e)
  then have "\<not> (\<forall>l \<in> set (iv_Lines v). \<not> line_mismatch l)"
    using sum_lines_Inr_iff by (metis sum.distinct(1))
  then show ?thesis
    unfolding lines_ok_iff ValidateInvoiceTotals_def Inl bindE_Inl by blast
next
  case (Inr st)
  then obtain s t where st: "sum_lines 0 0 (iv_Lines v) = Inr (s, t)" by (cases st) auto
  then have lines: "\<forall>l \<in> set (iv_Lines v). \<not> line_mismatch l"
    and s: "s = (\<Sum>l\<leftarrow>iv_Lines v. il_SubtotalMinor l)"
    and t: "t = (\<Sum>l\<leftarrow>iv_Lines v. il_TaxMinor l)"
    by (auto simp: sum_lines_Inr_iff)
  have tax: "(case iv_InvoiceTaxRateBasisPoints v of None \<Rightarrow> False | Some r \<Rightarrow> P r) \<longleftrightarrow>
      (\<exists>r. iv_InvoiceTaxRateBasisPoints v = Some r \<and> P r)" for P
    by (cases "iv_InvoiceTaxRateBasisPoints v") auto
  note lines [unfolded lines_ok_iff]
  then show ?thesis
    unfolding ValidateInvoiceTotals_def st bindE_Inr prod.case tax_section_ok_def tax s [symmetric] t [symmetric]
    by (cases "iv_InvoiceTaxRateBasisPoints v") (auto simp: Let_def split: sum.splits)
qed

end
