(* ===== verification/Billing_Ota.thy ===== *)
theory Billing_Ota
  imports Billing_Money
begin

text \<open>
  Package \<^verbatim>\<open>internal/billing\<close>, the OTA meters: which usage facts a trusted source may send,
  when a price book covers them (\<^verbatim>\<open>ota.go\<close>), and the review of a candidate price card against
  its base (\<^verbatim>\<open>ota_card_review.go\<close>). The JSON encoding and SHA-256 of the reviewed rate set are
  the argument \<open>digest\<close> of the review.
\<close>

section \<open>The civil calendar of package time\<close>

text \<open>
  Year, month and day of a day number (days since 1970-01-01, proleptic Gregorian), and back;
  years are counted from March so that the leap day is the last one.
\<close>

definition civil_from_days :: "int \<Rightarrow> int \<times> int \<times> int" where
  "civil_from_days z =
     (let z' = z + 719468;
          era = z' div 146097;
          doe = z' mod 146097;
          yoe = (doe - doe div 1460 + doe div 36524 - doe div 146096) div 365;
          doy = doe - (365 * yoe + yoe div 4 - yoe div 100);
          mp = (5 * doy + 2) div 153;
          d = doy - (153 * mp + 2) div 5 + 1;
          m = (if mp < 10 then mp + 3 else mp - 9);
          y = yoe + era * 400
      in (if m \<le> 2 then y + 1 else y, m, d))"

definition days_from_civil :: "int \<Rightarrow> int \<Rightarrow> int \<Rightarrow> int" where
  "days_from_civil y m d =
     (let y' = (if m \<le> 2 then y - 1 else y);
          era = y' div 400;
          yoe = y' mod 400;
          mp = (if m > 2 then m - 3 else m + 9);
          doy = (153 * mp + 2) div 5 + d - 1;
          doe = yoe * 365 + yoe div 4 - yoe div 100 + doy
      in era * 146097 + doe - 719468)"

text \<open>\<^verbatim>\<open>time.Date(year, month, 1, 0, 0, 0, 0, time.UTC)\<close> of an instant, and the first of the next
  month, which is what \<^verbatim>\<open>AddDate(0, 1, 0)\<close> gives there.\<close>

definition month_start :: "instant \<Rightarrow> instant" where
  "month_start t = (case civil_from_days (t div day_ns) of (y, m, d) \<Rightarrow> days_from_civil y m 1 * day_ns)"

definition next_month_start :: "instant \<Rightarrow> instant" where
  "next_month_start t =
     (case civil_from_days (t div day_ns) of (y, m, d) \<Rightarrow>
        (if m = 12 then days_from_civil (y + 1) 1 1 else days_from_civil y (m + 1) 1) * day_ns)"

section \<open>Meters (ota.go)\<close>

definition ServiceOTA :: string where "ServiceOTA = ''ota''"
definition MetricOTADeviceTask :: string where "MetricOTADeviceTask = ''device_task''"
definition MetricOTASuccessfulDownloadGiB :: string where
  "MetricOTASuccessfulDownloadGiB = ''successful_download_gib''"
definition MetricOTAArtifactStorageGiBMonth :: string where
  "MetricOTAArtifactStorageGiBMonth = ''artifact_storage_gib_month''"
definition MetricOTAArtifactWrite :: string where "MetricOTAArtifactWrite = ''artifact_write''"
definition UnitOTADeviceTask :: string where "UnitOTADeviceTask = ''tasks''"
definition UnitOTAGiB :: string where "UnitOTAGiB = ''GiB''"
definition UnitOTAGiBMonth :: string where "UnitOTAGiBMonth = ''GiB-month''"
definition UnitOTAArtifactWrite :: string where "UnitOTAArtifactWrite = ''requests''"
definition otaFractionalQuantityScale :: int where "otaFractionalQuantityScale = 9"

lemmas ota_consts = ServiceOTA_def MetricOTADeviceTask_def MetricOTASuccessfulDownloadGiB_def
  MetricOTAArtifactStorageGiBMonth_def MetricOTAArtifactWrite_def UnitOTADeviceTask_def
  UnitOTAGiB_def UnitOTAGiBMonth_def UnitOTAArtifactWrite_def otaFractionalQuantityScale_def

definition otaUTCMinuteWindow :: "UsageFact \<Rightarrow> bool" where
  "otaUTCMinuteWindow ufact =
     (let start = uf_WindowStart ufact
      in start \<noteq> zero_time \<and> start mod minute_ns = 0 \<and> uf_WindowEnd ufact = start + minute_ns)"

definition ValidOTAUsageFact :: "UsageFact \<Rightarrow> bool" where
  "ValidOTAUsageFact ufact =
     (if uf_ServiceCode ufact \<noteq> ServiceOTA then True
      else if uf_ProductID ufact = [] \<or> uf_Quantity ufact < 0 then False
      else if uf_MetricCode ufact = MetricOTADeviceTask then
        uf_Unit ufact = UnitOTADeviceTask \<and> uf_QuantityScale ufact = 0 \<and> uf_Quantity ufact = 1 \<and>
        otaUTCMinuteWindow ufact
      else if uf_MetricCode ufact = MetricOTASuccessfulDownloadGiB then
        uf_Unit ufact = UnitOTAGiB \<and> uf_QuantityScale ufact = otaFractionalQuantityScale \<and>
        uf_Quantity ufact > 0 \<and> otaUTCMinuteWindow ufact
      else if uf_MetricCode ufact = MetricOTAArtifactStorageGiBMonth then
        uf_Unit ufact = UnitOTAGiBMonth \<and> uf_QuantityScale ufact = otaFractionalQuantityScale \<and>
        uf_WindowStart ufact = month_start (uf_WindowStart ufact) \<and>
        uf_WindowEnd ufact = next_month_start (uf_WindowStart ufact)
      else if uf_MetricCode ufact = MetricOTAArtifactWrite then
        uf_Unit ufact = UnitOTAArtifactWrite \<and> uf_QuantityScale ufact = 0 \<and> uf_Quantity ufact = 1 \<and>
        otaUTCMinuteWindow ufact
      else False)"

definition ota_rate :: "string \<Rightarrow> string \<Rightarrow> string \<Rightarrow> int \<Rightarrow> int \<Rightarrow> int \<Rightarrow> PricingRate" where
  "ota_rate metric description unit price scale quantityScale =
     \<lparr>pr_ID = [], pr_PricingVersionID = [], pr_ServiceCode = ServiceOTA, pr_MetricCode = metric,
      pr_Description = description, pr_Unit = unit, pr_UnitPriceMinor = price,
      pr_UnitPriceScale = scale, pr_QuantityScale = Some quantityScale,
      pr_RoundingMode = RoundingHalfUp, pr_TaxCategory = None, pr_TaxRateBasisPoints = 0\<rparr>"

definition ProposedOTARates :: "PricingRate list" where
  "ProposedOTARates =
     [ota_rate MetricOTADeviceTask ''Firmware OTA device tasks'' UnitOTADeviceTask 96 3 0,
      ota_rate MetricOTASuccessfulDownloadGiB ''Verified firmware downloads'' UnitOTAGiB 96 2
        otaFractionalQuantityScale,
      ota_rate MetricOTAArtifactStorageGiBMonth ''Firmware artifact storage'' UnitOTAGiBMonth 96 2
        otaFractionalQuantityScale,
      ota_rate MetricOTAArtifactWrite ''Firmware artifact writes'' UnitOTAArtifactWrite 144 6 0]"

definition ProposedOTATaskRate :: PricingRate where
  "ProposedOTATaskRate = ProposedOTARates ! 0"

definition expected_ota :: "string \<rightharpoonup> PricingRate" where
  "expected_ota = map_of (map (\<lambda>rate. (pr_MetricCode rate, rate)) ProposedOTARates)"

definition approved_terms :: "PricingRate \<Rightarrow> PricingRate \<Rightarrow> bool" where
  "approved_terms approved rate =
     (pr_Unit rate = pr_Unit approved \<and> pr_UnitPriceMinor rate = pr_UnitPriceMinor approved \<and>
      pr_UnitPriceScale rate = pr_UnitPriceScale approved \<and>
      pr_RoundingMode rate = pr_RoundingMode approved \<and>
      pr_QuantityScale rate \<noteq> None \<and> pr_QuantityScale rate = pr_QuantityScale approved \<and>
      (case pr_TaxCategory rate of None \<Rightarrow> False | Some c \<Rightarrow> TrimSpace c \<noteq> []))"

fun ota_scan :: "string list \<Rightarrow> bool \<Rightarrow> PricingRate list \<Rightarrow> bool \<times> bool" where
  "ota_scan seen enabled [] = (enabled, \<not> enabled \<or> length seen = length ProposedOTARates)"
| "ota_scan seen enabled (rate # rates) =
     (if pr_ServiceCode rate \<noteq> ServiceOTA then ota_scan seen enabled rates
      else case expected_ota (pr_MetricCode rate) of
             None \<Rightarrow> (True, False)
           | Some approved \<Rightarrow>
               if pr_MetricCode rate \<in> set seen \<or> \<not> approved_terms approved rate then (True, False)
               else ota_scan (pr_MetricCode rate # seen) True rates)"

definition OTAPricingState :: "PricingRate list \<Rightarrow> bool \<times> bool" where
  "OTAPricingState rates = ota_scan [] False rates"

fun billable_loop :: "bool \<Rightarrow> UsageFact list \<Rightarrow> billing_error + UsageFact list" where
  "billable_loop enabled [] = Inr []"
| "billable_loop enabled (ufact # facts) =
     (if uf_ServiceCode ufact = ServiceOTA \<and> \<not> ValidOTAUsageFact ufact then Inl BillingErrInvalidInvoice
      else if uf_ServiceCode ufact = ServiceOTA \<and> \<not> enabled then billable_loop enabled facts
      else bindE (billable_loop enabled facts) (\<lambda>out. Inr (ufact # out)))"

definition BillableUsageFacts :: "UsageFact list \<Rightarrow> PricingRate list \<Rightarrow> billing_error + UsageFact list" where
  "BillableUsageFacts facts rates =
     (case OTAPricingState rates of
        (enabled, complete) \<Rightarrow>
          if \<not> complete then Inl BillingErrInvalidInvoice else billable_loop enabled facts)"

section \<open>The review of a candidate card (ota\_card\_review.go)\<close>

record canonicalRate =
  cr_ServiceCode :: string
  cr_MetricCode :: string
  cr_Unit :: string
  cr_Description :: string
  cr_UnitPriceMinor :: int
  cr_UnitPriceScale :: int
  cr_QuantityScale :: int
  cr_RoundingMode :: RoundingMode
  cr_TaxCategory :: string
  cr_TaxRateBasisPoints :: int

record OTACardReview =
  ocr_BaseVersionID :: string
  ocr_RateSetSHA256 :: string
  ocr_AddedOTARates :: "PricingRate list"

definition trimmed :: "string \<Rightarrow> bool" where
  "trimmed s = (TrimSpace s = s \<and> s \<noteq> [])"

definition canonicalPricingRate :: "PricingRate \<Rightarrow> canonicalRate option" where
  "canonicalPricingRate rate =
     (case (pr_QuantityScale rate, pr_TaxCategory rate) of
        (Some q, Some c) \<Rightarrow>
          if \<not> trimmed (pr_ServiceCode rate) \<or> \<not> trimmed (pr_MetricCode rate) \<or>
             \<not> trimmed (pr_Unit rate) \<or> \<not> trimmed (pr_Description rate) \<or>
             q < 0 \<or> q > 9 \<or> pr_UnitPriceMinor rate < 0 \<or>
             pr_UnitPriceScale rate < 0 \<or> pr_UnitPriceScale rate > 9 \<or>
             (pr_RoundingMode rate \<noteq> RoundingHalfUp \<and> pr_RoundingMode rate \<noteq> RoundingDown \<and>
              pr_RoundingMode rate \<noteq> RoundingUp) \<or>
             \<not> trimmed c \<or> pr_TaxRateBasisPoints rate < 0 \<or> pr_TaxRateBasisPoints rate > 10000
          then None
          else Some \<lparr>cr_ServiceCode = pr_ServiceCode rate, cr_MetricCode = pr_MetricCode rate,
                     cr_Unit = pr_Unit rate, cr_Description = pr_Description rate,
                     cr_UnitPriceMinor = pr_UnitPriceMinor rate,
                     cr_UnitPriceScale = pr_UnitPriceScale rate, cr_QuantityScale = q,
                     cr_RoundingMode = pr_RoundingMode rate, cr_TaxCategory = c,
                     cr_TaxRateBasisPoints = pr_TaxRateBasisPoints rate\<rparr>
      | _ \<Rightarrow> None)"

definition nul :: string where "nul = [CHR 0x00]"

definition rateIdentity :: "canonicalRate \<Rightarrow> string" where
  "rateIdentity rate = cr_ServiceCode rate @ nul @ cr_MetricCode rate @ nul @ cr_Unit rate"

definition rate_key :: "PricingRate \<Rightarrow> string" where
  "rate_key rate = pr_ServiceCode rate @ nul @ pr_MetricCode rate @ nul @ pr_Unit rate"

definition matchesBaseRate :: "PricingRate \<Rightarrow> canonicalRate \<Rightarrow> bool" where
  "matchesBaseRate base candidate =
     (pr_ServiceCode base = cr_ServiceCode candidate \<and> pr_MetricCode base = cr_MetricCode candidate \<and>
      pr_Unit base = cr_Unit candidate \<and> pr_Description base = cr_Description candidate \<and>
      pr_UnitPriceMinor base = cr_UnitPriceMinor candidate \<and>
      pr_UnitPriceScale base = cr_UnitPriceScale candidate \<and>
      pr_RoundingMode base = cr_RoundingMode candidate \<and>
      pr_TaxRateBasisPoints base = cr_TaxRateBasisPoints candidate \<and>
      (case pr_QuantityScale base of None \<Rightarrow> True | Some q \<Rightarrow> q = cr_QuantityScale candidate) \<and>
      (case pr_TaxCategory base of None \<Rightarrow> True | Some c \<Rightarrow> c = cr_TaxCategory candidate))"

fun review_base :: "(string \<times> PricingRate) list \<Rightarrow> PricingRate list \<Rightarrow>
    billing_error + (string \<times> PricingRate) list" where
  "review_base acc [] = Inr acc"
| "review_base acc (rate # rates) =
     (if pr_ServiceCode rate = ServiceOTA
      then Inl (BillingErrOTACardReview ''base already contains OTA'')
      else if \<not> trimmed (pr_ServiceCode rate) \<or> \<not> trimmed (pr_MetricCode rate) \<or> \<not> trimmed (pr_Unit rate)
      then Inl (BillingErrOTACardReview ''invalid base rate identity'')
      else if map_of acc (rate_key rate) \<noteq> None
      then Inl (BillingErrOTACardReview ''duplicate base rate'')
      else review_base ((rate_key rate, rate) # acc) rates)"

fun review_candidates :: "(string \<rightharpoonup> PricingRate) \<Rightarrow> string list \<Rightarrow> canonicalRate list \<Rightarrow>
    PricingRate list \<Rightarrow> PricingRate list \<Rightarrow>
    billing_error + (string list \<times> canonicalRate list \<times> PricingRate list)" where
  "review_candidates base seen ordered added [] = Inr (seen, ordered, added)"
| "review_candidates base seen ordered added (rate # rates) =
     (case canonicalPricingRate rate of
        None \<Rightarrow> Inl (BillingErrOTACardReview ''candidate rate has unresolved metadata'')
      | Some canonical \<Rightarrow>
          let key = rateIdentity canonical in
          if key \<in> set seen then Inl (BillingErrOTACardReview ''duplicate candidate rate'')
          else if pr_ServiceCode rate = ServiceOTA
          then review_candidates base (key # seen) (ordered @ [canonical]) (added @ [rate]) rates
          else if (case base key of None \<Rightarrow> True | Some prior \<Rightarrow> \<not> matchesBaseRate prior canonical)
          then Inl (BillingErrOTACardReview ''non-OTA rate was added or changed'')
          else review_candidates base (key # seen) (ordered @ [canonical]) added rates)"

definition ReviewOTACandidateRates :: "(canonicalRate list \<Rightarrow> string) \<Rightarrow> string \<Rightarrow> PricingRate list \<Rightarrow>
    PricingRate list \<Rightarrow> billing_error + OTACardReview" where
  "ReviewOTACandidateRates digest baseVersionID base candidate =
     (if TrimSpace baseVersionID = [] \<or> length base = 0 \<or>
         length candidate \<noteq> length base + length ProposedOTARates
      then Inl (BillingErrOTACardReview ''base identity or full rate count is missing'')
      else bindE (review_base [] base) (\<lambda>baseByIdentity.
        if OTAPricingState candidate \<noteq> (True, True)
        then Inl (BillingErrOTACardReview ''OTA meter set differs from approved prices'')
        else bindE (review_candidates (map_of baseByIdentity) [] [] [] candidate)
          (\<lambda>(seen, ordered, added).
             if length added \<noteq> length ProposedOTARates \<or>
                length seen \<noteq> length baseByIdentity + length added
             then Inl (BillingErrOTACardReview ''candidate does not preserve the complete base'')
             else Inr \<lparr>ocr_BaseVersionID = baseVersionID,
                       ocr_RateSetSHA256 = digest (sort_key rateIdentity ordered),
                       ocr_AddedOTARates = sort_key pr_MetricCode added\<rparr>)))"

section \<open>A complete price book\<close>

abbreviation ota_rates :: "PricingRate list \<Rightarrow> PricingRate list" where
  "ota_rates rates \<equiv> filter (\<lambda>r. pr_ServiceCode r = ServiceOTA) rates"

lemma length_ProposedOTARates [simp]: "length ProposedOTARates = 4"
  by (simp add: ProposedOTARates_def)

lemma distinct_proposed_metrics: "distinct (map pr_MetricCode ProposedOTARates)"
  by (simp add: ProposedOTARates_def ota_rate_def ota_consts)

lemma dom_expected_ota: "dom expected_ota = pr_MetricCode ` set ProposedOTARates"
  by (simp add: expected_ota_def dom_map_of_conv_image_fst image_image)

lemma ota_scan_complete:
  assumes "ota_scan seen enabled rates = (True, True)" and "distinct seen"
  shows "distinct (map pr_MetricCode (ota_rates rates) @ seen) \<and>
    (\<forall>r \<in> set (ota_rates rates). \<exists>a. expected_ota (pr_MetricCode r) = Some a \<and> approved_terms a r) \<and>
    length (ota_rates rates) + length seen = 4"
  using assms
proof (induction seen enabled rates rule: ota_scan.induct)
  case (2 seen enabled rate rates)
  show ?case
  proof (cases "pr_ServiceCode rate = ServiceOTA")
    case True
    with 2 obtain a where a: "expected_ota (pr_MetricCode rate) = Some a" "approved_terms a rate"
        "pr_MetricCode rate \<notin> set seen"
        "ota_scan (pr_MetricCode rate # seen) True rates = (True, True)"
      by (auto split: option.splits if_splits)
    with 2 True have "distinct (map pr_MetricCode (ota_rates rates) @ pr_MetricCode rate # seen) \<and>
      (\<forall>r \<in> set (ota_rates rates). \<exists>a. expected_ota (pr_MetricCode r) = Some a \<and> approved_terms a r) \<and>
      length (ota_rates rates) + length (pr_MetricCode rate # seen) = 4"
      by auto
    with True a show ?thesis by auto
  qed (use 2 in auto)
qed simp

text \<open>
  A price book that counts as enabled and complete has exactly the four approved meters, each
  once and each on the approved terms.
\<close>

lemma OTAPricingState_complete:
  assumes "OTAPricingState rates = (True, True)"
  shows "set (map pr_MetricCode (ota_rates rates)) = pr_MetricCode ` set ProposedOTARates \<and>
    distinct (map pr_MetricCode (ota_rates rates)) \<and>
    (\<forall>r \<in> set (ota_rates rates). \<exists>a. expected_ota (pr_MetricCode r) = Some a \<and> approved_terms a r)"
proof -
  let ?ms = "map pr_MetricCode (ota_rates rates)"
  from assms have dist: "distinct ?ms" and len: "length ?ms = 4"
    and ok: "\<forall>r \<in> set (ota_rates rates). \<exists>a. expected_ota (pr_MetricCode r) = Some a \<and> approved_terms a r"
    using ota_scan_complete [of "[]" False rates] by (auto simp: OTAPricingState_def)
  from ok have sub: "set ?ms \<subseteq> pr_MetricCode ` set ProposedOTARates"
    unfolding dom_expected_ota [symmetric] by auto
  have "card (pr_MetricCode ` set ProposedOTARates) = 4"
    using distinct_card [OF distinct_proposed_metrics] by simp
  moreover have "card (set ?ms) = 4" using distinct_card [OF dist] len by simp
  ultimately have "set ?ms = pr_MetricCode ` set ProposedOTARates"
    using sub by (intro card_subset_eq) simp_all
  with dist ok show ?thesis by blast
qed

lemma OTAPricingState_disabled:
  "OTAPricingState rates = (False, c) \<Longrightarrow> c \<and> ota_rates rates = []"
proof -
  have "ota_scan seen enabled rates = (False, c) \<Longrightarrow> \<not> enabled \<and> c \<and> ota_rates rates = []" for seen enabled
    by (induction seen enabled rates rule: ota_scan.induct) (auto split: if_splits option.splits)
  then show "OTAPricingState rates = (False, c) \<Longrightarrow> ?thesis" by (auto simp: OTAPricingState_def)
qed

lemma valid_other_service: "uf_ServiceCode f \<noteq> ServiceOTA \<Longrightarrow> ValidOTAUsageFact f"
  by (simp add: ValidOTAUsageFact_def)

lemma billable_loop_eq:
  "billable_loop enabled facts =
     (if \<forall>f \<in> set facts. ValidOTAUsageFact f
      then Inr (filter (\<lambda>f. uf_ServiceCode f \<noteq> ServiceOTA \<or> enabled) facts)
      else Inl BillingErrInvalidInvoice)"
  by (induction facts) (auto dest: valid_other_service)

lemma BillableUsageFacts_Inr:
  assumes "BillableUsageFacts facts rates = Inr out"
  shows "\<exists>enabled. OTAPricingState rates = (enabled, True) \<and> (\<forall>f \<in> set facts. ValidOTAUsageFact f) \<and>
    out = filter (\<lambda>f. uf_ServiceCode f \<noteq> ServiceOTA \<or> enabled) facts"
  using assms
  by (cases "OTAPricingState rates") (auto simp: BillableUsageFacts_def billable_loop_eq split: if_splits)

section \<open>A reviewed card preserves its base\<close>

lemma canonical_identity:
  "canonicalPricingRate r = Some c \<Longrightarrow> rateIdentity c = rate_key r"
  by (auto simp: canonicalPricingRate_def rateIdentity_def rate_key_def split: option.splits if_splits)

lemma review_base_Inr:
  "review_base acc base = Inr m \<Longrightarrow>
     m = rev (map (\<lambda>r. (rate_key r, r)) base) @ acc \<and> (distinct (map fst acc) \<longrightarrow> distinct (map fst m))"
proof (induction base arbitrary: acc)
  case (Cons r base)
  then have "map_of acc (rate_key r) = None"
    and "review_base ((rate_key r, r) # acc) base = Inr m"
    by (auto split: if_splits)
  with Cons.IH show ?case by (fastforce simp: map_of_eq_None_iff)
qed simp

lemma review_candidates_Inr:
  "review_candidates base seen ordered added cand = Inr (seen', ordered', added') \<Longrightarrow>
     seen' = rev (map rate_key cand) @ seen \<and> added' = added @ ota_rates cand \<and>
     (distinct seen \<longrightarrow> distinct (map rate_key cand @ seen)) \<and>
     (\<forall>r \<in> set cand. pr_ServiceCode r \<noteq> ServiceOTA \<longrightarrow>
        (\<exists>c prior. canonicalPricingRate r = Some c \<and> base (rate_key r) = Some prior \<and> matchesBaseRate prior c))"
proof (induction cand arbitrary: seen ordered added)
  case (Cons r cand)
  then obtain c where c: "canonicalPricingRate r = Some c" by (auto split: option.splits)
  note key = canonical_identity [OF c]
  show ?case
  proof (cases "pr_ServiceCode r = ServiceOTA")
    case True
    with Cons.prems c key have "rate_key r \<notin> set seen" and
      rest: "review_candidates base (rate_key r # seen) (ordered @ [c]) (added @ [r]) cand = Inr (seen', ordered', added')"
      by (auto simp: Let_def split: if_splits)
    with Cons.IH [OF rest] True show ?thesis by auto
  next
    case False
    with Cons.prems c key have "rate_key r \<notin> set seen" and
      rest: "review_candidates base (rate_key r # seen) (ordered @ [c]) added cand = Inr (seen', ordered', added')" and
      "\<exists>prior. base (rate_key r) = Some prior \<and> matchesBaseRate prior c"
      by (auto simp: Let_def split: if_splits option.splits)
    with Cons.IH [OF rest] False c show ?thesis by auto
  qed
qed simp

lemma distinct_subset_eq:
  assumes "distinct xs" and "distinct ys" and "set xs \<subseteq> set ys" and "length xs = length ys"
  shows "set xs = set ys"
  using assms by (intro card_subset_eq) (auto simp: distinct_card)

text \<open>
  A review that succeeds has found every base rate again in the candidate, with the same
  identity, description, price, rounding and tax rate, and with the quantity scale and tax
  category it had where it had one; what is added is the four approved OTA meters.
\<close>

lemma ReviewOTACandidateRates_preserves:
  assumes "ReviewOTACandidateRates digest v base cand = Inr review"
  shows "(\<forall>b \<in> set base. \<exists>r \<in> set cand. \<exists>c. canonicalPricingRate r = Some c \<and> matchesBaseRate b c) \<and>
    set (ocr_AddedOTARates review) = set (ota_rates cand) \<and>
    set (map pr_MetricCode (ota_rates cand)) = pr_MetricCode ` set ProposedOTARates"
proof -
  from assms obtain m seen ordered added where
      m: "review_base [] base = Inr m" and
      state: "OTAPricingState cand = (True, True)" and
      cands: "review_candidates (map_of m) [] [] [] cand = Inr (seen, ordered, added)" and
      counts: "length added = 4" "length seen = length m + length added" and
      review: "ocr_AddedOTARates review = sort_key pr_MetricCode added"
    by (auto simp: ReviewOTACandidateRates_def split: if_splits)
  from review_base_Inr [OF m] have
      m_eq: "m = rev (map (\<lambda>r. (rate_key r, r)) base)" and m_dist: "distinct (map fst m)" by auto
  from review_candidates_Inr [OF cands] have
      seen: "seen = rev (map rate_key cand)" and added: "added = ota_rates cand" and
      dist: "distinct (map rate_key cand)" and
      match: "\<And>r. r \<in> set cand \<Longrightarrow> pr_ServiceCode r \<noteq> ServiceOTA \<Longrightarrow>
        \<exists>c prior. canonicalPricingRate r = Some c \<and> map_of m (rate_key r) = Some prior \<and> matchesBaseRate prior c"
    by auto
  define kept where "kept = filter (\<lambda>r. pr_ServiceCode r \<noteq> ServiceOTA) cand"
  have base_keys: "distinct (map rate_key base)" "map fst m = rev (map rate_key base)"
    using m_dist by (simp_all add: m_eq comp_def flip: rev_map)
  have "length kept + length added = length cand"
    unfolding kept_def added by (rule sum_length_filter_compl [of "\<lambda>r. pr_ServiceCode r \<noteq> ServiceOTA", simplified])
  then have len: "length kept = length base" using counts seen m_eq by simp
  have "set (map rate_key kept) \<subseteq> set (map rate_key base)"
  proof
    fix k assume "k \<in> set (map rate_key kept)"
    then obtain r where r: "r \<in> set cand" "pr_ServiceCode r \<noteq> ServiceOTA" "k = rate_key r"
      by (auto simp: kept_def)
    with match obtain prior where "map_of m k = Some prior" by blast
    then have "k \<in> set (map fst m)" by (metis map_of_SomeD fst_conv image_eqI list.set_map)
    then show "k \<in> set (map rate_key base)" by (simp add: base_keys(2))
  qed
  moreover have "distinct (map rate_key kept)"
    using dist by (simp add: kept_def distinct_map_filter)
  ultimately have keys: "set (map rate_key kept) = set (map rate_key base)"
    using base_keys(1) len by (intro distinct_subset_eq) simp_all
  have "\<exists>r \<in> set cand. \<exists>c. canonicalPricingRate r = Some c \<and> matchesBaseRate b c" if b: "b \<in> set base" for b
  proof -
    from b keys obtain r where r: "r \<in> set kept" "rate_key r = rate_key b"
      by (metis (no_types, lifting) imageE image_eqI list.set_map)
    then obtain c prior where "canonicalPricingRate r = Some c" "map_of m (rate_key r) = Some prior"
        "matchesBaseRate prior c"
      using match [of r] by (auto simp: kept_def)
    moreover have "map_of m (rate_key b) = Some b"
      using b m_dist by (intro map_of_is_SomeI) (auto simp: m_eq)
    ultimately show ?thesis using r by (auto simp: kept_def)
  qed
  moreover have "set (map pr_MetricCode (ota_rates cand)) = pr_MetricCode ` set ProposedOTARates"
    using OTAPricingState_complete [OF state] by blast
  ultimately show ?thesis using review added by auto
qed

end
