(* ===== verification/Billing_Invoice.thy ===== *)
theory Billing_Invoice
  imports Billing_Ota "HOL-Library.AList" "HOL-Library.Multiset"
begin

text \<open>
  Package \<^verbatim>\<open>internal/billing\<close>, file \<^verbatim>\<open>invoice.go\<close>: rating the usage of a period into a draft
  invoice, the allocation of an invoice-level tax to its lines by largest remainder, and the
  issue and settlement of an invoice. Go maps are association lists with distinct keys; the code
  never depends on their order, since it sorts the keys before it reads them.
\<close>

section \<open>Rating a period\<close>

record aggregate =
  agg_quantity :: int
  agg_scale :: int
  agg_refs :: "string list"

definition zero_aggregate :: aggregate where
  "zero_aggregate = \<lparr>agg_quantity = 0, agg_scale = 0, agg_refs = []\<rparr>"

definition zero_rate :: PricingRate where
  "zero_rate =
     \<lparr>pr_ID = [], pr_PricingVersionID = [], pr_ServiceCode = [], pr_MetricCode = [],
      pr_Description = [], pr_Unit = [], pr_UnitPriceMinor = 0, pr_UnitPriceScale = 0,
      pr_QuantityScale = None, pr_RoundingMode = RoundingUnset, pr_TaxCategory = None,
      pr_TaxRateBasisPoints = 0\<rparr>"

fun index_rates :: "string \<Rightarrow> (string \<times> PricingRate) list \<Rightarrow> PricingRate list \<Rightarrow>
    billing_error + (string \<times> PricingRate) list" where
  "index_rates version acc [] = Inr acc"
| "index_rates version acc (rate # rates) =
     (if pr_PricingVersionID rate \<noteq> [] \<and> pr_PricingVersionID rate \<noteq> version
      then Inl BillingErrInvalidInvoice
      else if map_of acc (rate_key rate) \<noteq> None then Inl BillingErrInvalidInvoice
      else index_rates version ((rate_key rate, rate) # acc) rates)"

definition fact_in_period :: "Invoice \<Rightarrow> UsageFact \<Rightarrow> bool" where
  "fact_in_period invoice ufact =
     (uf_OrganizationID ufact = iv_OrganizationID invoice \<and>
      \<not> uf_WindowStart ufact < iv_PeriodStart invoice \<and> \<not> uf_WindowEnd ufact > iv_PeriodEnd invoice \<and>
      uf_WindowEnd ufact > uf_WindowStart ufact)"

definition fact_rate_key :: "UsageFact \<Rightarrow> string" where
  "fact_rate_key ufact = uf_ServiceCode ufact @ nul @ uf_MetricCode ufact @ nul @ uf_Unit ufact"

definition fact_key :: "UsageFact \<Rightarrow> string" where
  "fact_key ufact = fact_rate_key ufact @ nul @ uf_ProductID ufact"

definition lookup_aggregate :: "(string \<times> aggregate) list \<Rightarrow> string \<Rightarrow> aggregate" where
  "lookup_aggregate aggs key = (case map_of aggs key of None \<Rightarrow> zero_aggregate | Some a \<Rightarrow> a)"

fun aggregate_facts :: "(string \<rightharpoonup> PricingRate) \<Rightarrow> (string \<times> aggregate) list \<Rightarrow> UsageFact list \<Rightarrow>
    billing_error + (string \<times> aggregate) list" where
  "aggregate_facts rates aggs [] = Inr aggs"
| "aggregate_facts rates aggs (ufact # facts) =
     (if rates (fact_rate_key ufact) = None
      then Inl (BillingErrRateNotFound (uf_ServiceCode ufact) (uf_MetricCode ufact) (uf_Unit ufact))
      else
        let key = fact_key ufact; agg = lookup_aggregate aggs key in
        if agg_refs agg \<noteq> [] \<and> agg_scale agg \<noteq> uf_QuantityScale ufact then Inl BillingErrInvalidScale
        else if uf_Quantity ufact < 0 \<or>
                (uf_Quantity ufact > 0 \<and> agg_quantity agg > wrap64 (maxInt64 - uf_Quantity ufact))
        then Inl BillingErrOverflow
        else aggregate_facts rates
               (AList.update key
                  \<lparr>agg_quantity = wrap64 (agg_quantity agg + uf_Quantity ufact),
                   agg_scale = uf_QuantityScale ufact,
                   agg_refs = agg_refs agg @ [uf_UsageID ufact]\<rparr> aggs) facts)"

fun split_nul :: "string \<Rightarrow> string list" where
  "split_nul [] = [[]]"
| "split_nul (c # cs) =
     (if c = CHR 0x00 then [] # split_nul cs
      else (case split_nul cs of [] \<Rightarrow> [[c]] | p # ps \<Rightarrow> (c # p) # ps))"

definition join_nul :: "string list \<Rightarrow> string" where
  "join_nul parts = (case parts of [] \<Rightarrow> [] | p # ps \<Rightarrow> p @ concat (map (\<lambda>q. nul @ q) ps))"

definition price_line :: "TaxCalculationMode \<Rightarrow> PricingRate \<Rightarrow> aggregate \<Rightarrow>
    billing_error + (int \<times> int \<times> int)" where
  "price_line mode rate agg =
     (if mode = TaxModeInvoiceTotal
      then bindE (PriceSubtotal rate (agg_quantity agg) (agg_scale agg))
             (\<lambda>subtotal. Inr (subtotal, 0, subtotal))
      else PriceUsage rate (agg_quantity agg) (agg_scale agg))"

definition invoice_line :: "string \<Rightarrow> PricingRate \<Rightarrow> aggregate \<Rightarrow> int \<Rightarrow> int \<Rightarrow> int \<Rightarrow> InvoiceLine" where
  "invoice_line product rate agg subtotal tax tot =
     \<lparr>il_ID = [], il_PricingRateID = pr_ID rate, il_ProductID = product,
      il_ServiceCode = pr_ServiceCode rate, il_MetricCode = pr_MetricCode rate,
      il_Description = pr_Description rate, il_Quantity = agg_quantity agg,
      il_QuantityScale = agg_scale agg, il_Unit = pr_Unit rate,
      il_UnitPriceMinor = pr_UnitPriceMinor rate, il_UnitPriceScale = pr_UnitPriceScale rate,
      il_SubtotalMinor = subtotal, il_TaxMinor = tax, il_TotalMinor = tot,
      il_RoundingMode = pr_RoundingMode rate, il_UsageFactRefs = sort (agg_refs agg)\<rparr>"

fun build_lines :: "(string \<rightharpoonup> PricingRate) \<Rightarrow> (string \<times> aggregate) list \<Rightarrow> string list \<Rightarrow> Invoice \<Rightarrow>
    billing_error + Invoice" where
  "build_lines rates aggs [] invoice = Inr invoice"
| "build_lines rates aggs (key # keys) invoice =
     (let parts = split_nul key in
      if length parts < 4 then Inl BillingPanic
      else
        let rate = (case rates (join_nul (take 3 parts)) of None \<Rightarrow> zero_rate | Some r \<Rightarrow> r);
            agg = lookup_aggregate aggs key
        in bindE (price_line (iv_TaxMode invoice) rate agg) (\<lambda>(subtotal, tax, tot).
             if subtotal > wrap64 (maxInt64 - iv_SubtotalMinor invoice) \<or>
                tax > wrap64 (maxInt64 - iv_TaxMinor invoice) \<or>
                tot > wrap64 (maxInt64 - iv_TotalMinor invoice)
             then Inl BillingErrOverflow
             else build_lines rates aggs keys
               (invoice\<lparr>iv_Lines := iv_Lines invoice @
                          [invoice_line (parts ! 3) rate agg subtotal tax tot],
                        iv_SubtotalMinor := wrap64 (iv_SubtotalMinor invoice + subtotal),
                        iv_TaxMinor := wrap64 (iv_TaxMinor invoice + tax),
                        iv_TotalMinor := wrap64 (iv_TotalMinor invoice + tot)\<rparr>)))"

section \<open>Allocating an invoice-level tax\<close>

text \<open>
  The three loops of \<open>allocateInvoiceTax\<close>: every line gets the floor of its share, the units
  left over go one each to the lines with the largest remainders (a stable sort, so ties go to the
  earlier line), and the line totals are recomputed.
\<close>

fun floor_shares :: "int \<Rightarrow> int \<Rightarrow> int \<Rightarrow> nat \<Rightarrow> InvoiceLine list \<Rightarrow>
    billing_error + (InvoiceLine list \<times> (nat \<times> int) list \<times> int)" where
  "floor_shares rate tax allocated i [] = Inr ([], [], allocated)"
| "floor_shares rate tax allocated i (line # lines) =
     (let part = il_SubtotalMinor line * rate;
          quotient = go_quo part 10000;
          remainder = go_rem part 10000
      in if \<not> is_int64 quotient \<or> quotient > wrap64 (tax - allocated) then Inl BillingErrOverflow
         else bindE (floor_shares rate tax (wrap64 (allocated + quotient)) (Suc i) lines)
                (\<lambda>(lines', shares, allocated').
                   Inr (line\<lparr>il_TaxMinor := quotient\<rparr> # lines', (i, remainder) # shares, allocated')))"

definition bump_tax :: "InvoiceLine list \<Rightarrow> nat \<Rightarrow> InvoiceLine list" where
  "bump_tax lines i = lines[i := (lines ! i)\<lparr>il_TaxMinor := wrap64 (il_TaxMinor (lines ! i) + 1)\<rparr>]"

fun recompute_totals :: "InvoiceLine list \<Rightarrow> billing_error + InvoiceLine list" where
  "recompute_totals [] = Inr []"
| "recompute_totals (line # lines) =
     (if \<not> is_int64 (il_SubtotalMinor line + il_TaxMinor line) then Inl BillingErrOverflow
      else bindE (recompute_totals lines)
             (\<lambda>lines'. Inr (line\<lparr>il_TotalMinor := il_SubtotalMinor line + il_TaxMinor line\<rparr> # lines')))"

definition allocateInvoiceTax :: "Invoice \<Rightarrow> billing_error + Invoice" where
  "allocateInvoiceTax invoice =
     (case iv_InvoiceTaxRateBasisPoints invoice of
        None \<Rightarrow> Inl BillingPanic
      | Some rate \<Rightarrow>
          bindE (roundedInt64 (iv_SubtotalMinor invoice * rate) 10000 (iv_InvoiceTaxRoundingMode invoice))
            (\<lambda>tax.
          let tot = iv_SubtotalMinor invoice + tax in
          if \<not> is_int64 tot then Inl BillingErrOverflow
          else bindE (floor_shares rate tax 0 0 (iv_Lines invoice)) (\<lambda>(lines, shares, allocated).
          let ordered = sort_key (\<lambda>share. - snd share) shares;
              remaining = wrap64 (tax - allocated)
          in if remaining < 0 \<or> remaining > int (length ordered) then Inl BillingErrInvoiceMismatch
          else bindE (recompute_totals
                       (foldl bump_tax lines (map fst (take (nat remaining) ordered)))) (\<lambda>lines.
          Inr (invoice\<lparr>iv_Lines := lines, iv_TaxMinor := tax, iv_TotalMinor := tot\<rparr>)))))"

section \<open>Drafting, issuing, settling\<close>

definition draft_header_ok :: "Invoice \<Rightarrow> bool" where
  "draft_header_ok invoice =
     (\<not> (TrimSpace (iv_OrganizationID invoice) = [] \<or> TrimSpace (iv_PricingVersionID invoice) = [] \<or>
         \<not> CanSettle (iv_Currency invoice) \<or> \<not> iv_PeriodEnd invoice > iv_PeriodStart invoice))"

definition draft_tax_ok :: "Invoice \<Rightarrow> bool" where
  "draft_tax_ok invoice =
     (\<not> (iv_TaxMode invoice \<noteq> TaxModeLine \<and> iv_TaxMode invoice \<noteq> TaxModeInvoiceTotal) \<and>
      \<not> (iv_TaxMode invoice = TaxModeLine \<and>
         (iv_InvoiceTaxRateBasisPoints invoice \<noteq> None \<or>
          iv_InvoiceTaxRoundingMode invoice \<noteq> RoundingUnset \<or> iv_InvoiceTaxCategory invoice \<noteq> [])) \<and>
      (iv_TaxMode invoice = TaxModeInvoiceTotal \<longrightarrow>
         \<not> ((case iv_InvoiceTaxRateBasisPoints invoice of None \<Rightarrow> True | Some r \<Rightarrow> r < 0 \<or> r > 10000) \<or>
            TrimSpace (iv_InvoiceTaxCategory invoice) = [] \<or>
            \<not> validRoundingMode (iv_InvoiceTaxRoundingMode invoice))))"

definition BuildDraftInvoice :: "Invoice \<Rightarrow> UsageFact list \<Rightarrow> PricingRate list \<Rightarrow> billing_error + Invoice" where
  "BuildDraftInvoice invoice facts rates =
     (if \<not> draft_header_ok invoice then Inl BillingErrInvalidInvoice
      else if iv_State invoice \<noteq> InvoiceStateUnset \<and> iv_State invoice \<noteq> InvoiceStateDraft
      then Inl BillingErrInvoiceIssued
      else
        let invoice = (if iv_TaxMode invoice = TaxModeUnset
                       then invoice\<lparr>iv_TaxMode := TaxModeLine\<rparr> else invoice)
        in if \<not> draft_tax_ok invoice then Inl BillingErrInvalidInvoice
        else bindE (index_rates (iv_PricingVersionID invoice) [] rates) (\<lambda>rateByMetric.
        if \<not> list_all (fact_in_period invoice) facts then Inl BillingErrInvalidInvoice
        else bindE (BillableUsageFacts facts rates) (\<lambda>facts.
        bindE (aggregate_facts (map_of rateByMetric) [] facts) (\<lambda>aggregates.
        bindE (build_lines (map_of rateByMetric) aggregates (sort (map fst aggregates))
                (invoice\<lparr>iv_State := InvoiceStateDraft, iv_Lines := [], iv_SubtotalMinor := 0,
                         iv_TaxMinor := 0, iv_TotalMinor := 0\<rparr>)) (\<lambda>invoice.
        bindE (if iv_TaxMode invoice = TaxModeInvoiceTotal then allocateInvoiceTax invoice
               else Inr invoice) (\<lambda>invoice.
        let invoice = invoice\<lparr>iv_AmountSettledMinor := 0,
                              iv_AmountDueMinor := iv_TotalMinor invoice,
                              iv_Version := (if iv_Version invoice = 0 then 1 else iv_Version invoice)\<rparr>
        in bindE (ValidateInvoiceTotals invoice) (\<lambda>_. Inr invoice)))))))"

definition IssueInvoice :: "Invoice \<Rightarrow> string \<Rightarrow> instant \<Rightarrow> instant \<Rightarrow> billing_error + Invoice" where
  "IssueInvoice invoice number now dueAt =
     (if bp_RequiresConfiguration (iv_Recipient invoice) then Inl BillingErrProfileConfigurationRequired
      else if iv_State invoice \<noteq> InvoiceStateDraft \<or> iv_IssuedAt invoice \<noteq> None \<or>
              TrimSpace number = [] \<or> dueAt < now
      then Inl BillingErrInvalidInvoice
      else bindE (ValidateInvoiceTotals invoice) (\<lambda>_.
        Inr (invoice\<lparr>iv_State := InvoiceStateIssued, iv_InvoiceNumber := TrimSpace number,
                     iv_IssuedAt := Some now, iv_DueAt := Some dueAt,
                     iv_Version := wrap64 (iv_Version invoice + 1), iv_UpdatedAt := now\<rparr>)))"

definition SettleInvoice :: "Invoice \<Rightarrow> int \<Rightarrow> instant \<Rightarrow> billing_error + Invoice" where
  "SettleInvoice invoice settledMinor now =
     (if iv_State invoice = InvoiceStateDraft \<or> iv_State invoice = InvoiceStateVoid \<or>
         settledMinor < 0 \<or> settledMinor > iv_TotalMinor invoice
      then Inl BillingErrInvalidInvoice
      else
        let invoice = invoice\<lparr>iv_AmountSettledMinor := settledMinor,
                              iv_AmountDueMinor := wrap64 (iv_TotalMinor invoice - settledMinor),
                              iv_SettledAt := None\<rparr>;
            invoice =
              (if settledMinor = iv_TotalMinor invoice
               then invoice\<lparr>iv_State := InvoiceStateSettled, iv_SettledAt := Some now\<rparr>
               else if settledMinor > 0 then invoice\<lparr>iv_State := InvoiceStatePartiallySettled\<rparr>
               else invoice\<lparr>iv_State := InvoiceStateIssued\<rparr>);
            invoice = invoice\<lparr>iv_Version := wrap64 (iv_Version invoice + 1), iv_UpdatedAt := now\<rparr>
        in bindE (ValidateInvoiceTotals invoice) (\<lambda>_. Inr invoice))"

section \<open>The allocation is exact\<close>

abbreviation floor_tax :: "int \<Rightarrow> InvoiceLine \<Rightarrow> int" where
  "floor_tax r l \<equiv> il_SubtotalMinor l * r div 10000"

abbreviation rem_tax :: "int \<Rightarrow> InvoiceLine \<Rightarrow> int" where
  "rem_tax r l \<equiv> il_SubtotalMinor l * r mod 10000"

lemma floor_shares_eq:
  assumes "\<forall>l \<in> set lines. 0 \<le> il_SubtotalMinor l" and "0 \<le> rate" and "0 \<le> allocated"
    and "allocated + (\<Sum>l\<leftarrow>lines. floor_tax rate l) \<le> tax" and "is_int64 tax"
  shows "floor_shares rate tax allocated i lines =
    Inr (map (\<lambda>l. l\<lparr>il_TaxMinor := floor_tax rate l\<rparr>) lines,
         zip [i..<i + length lines] (map (rem_tax rate) lines),
         allocated + (\<Sum>l\<leftarrow>lines. floor_tax rate l))"
  using assms
proof (induction lines arbitrary: allocated i)
  case (Cons l lines)
  let ?q = "floor_tax rate l"
  have part: "0 \<le> il_SubtotalMinor l * rate" using Cons.prems by simp
  then have q: "go_quo (il_SubtotalMinor l * rate) 10000 = ?q"
    and r: "go_rem (il_SubtotalMinor l * rate) 10000 = rem_tax rate l" and q0: "0 \<le> ?q"
    by (simp_all add: go_quo_nonneg go_rem_nonneg)
  have rest0: "0 \<le> (\<Sum>l\<leftarrow>lines. floor_tax rate l)"
    using Cons.prems by (intro sum_list_nonneg) (auto simp: pos_imp_zdiv_nonneg_iff)
  have bounds: "is_int64 ?q" "is_int64 (allocated + ?q)" "is_int64 (tax - allocated)" "?q \<le> tax - allocated"
    using Cons.prems q0 rest0 by (auto simp: int64_defs)
  have "floor_shares rate tax (allocated + ?q) (Suc i) lines =
    Inr (map (\<lambda>l. l\<lparr>il_TaxMinor := floor_tax rate l\<rparr>) lines,
         zip [Suc i..<Suc i + length lines] (map (rem_tax rate) lines),
         allocated + ?q + (\<Sum>l\<leftarrow>lines. floor_tax rate l))"
    using Cons.prems q0 rest0 by (intro Cons.IH) auto
  moreover have "[i..<i + length (l # lines)] = i # [Suc i..<Suc i + length lines]"
    by (simp add: upt_conv_Cons del: upt_Suc)
  ultimately show ?case
    using bounds by (simp add: Let_def q r del: upt_Suc)
qed simp

lemma sum_list_update_int:
  "i < length xs \<Longrightarrow> sum_list (xs[i := x]) = sum_list xs + x - (xs ! i :: int)"
  by (induction xs arbitrary: i) (auto split: nat.splits)

lemma foldl_bump_tax:
  assumes "distinct is" and "\<forall>i \<in> set is. i < length ls \<and> is_int64 (il_TaxMinor (ls ! i) + 1)"
  shows "length (foldl bump_tax ls is) = length ls \<and>
    (\<forall>j < length ls. foldl bump_tax ls is ! j =
       (if j \<in> set is then (ls ! j)\<lparr>il_TaxMinor := il_TaxMinor (ls ! j) + 1\<rparr> else ls ! j)) \<and>
    (\<Sum>l\<leftarrow>foldl bump_tax ls is. il_TaxMinor l) = (\<Sum>l\<leftarrow>ls. il_TaxMinor l) + int (length is)"
  using assms
proof (induction "is" arbitrary: ls)
  case (Cons i "is")
  let ?ls = "bump_tax ls i"
  have i: "i < length ls" "is_int64 (il_TaxMinor (ls ! i) + 1)" "i \<notin> set is" "distinct is"
    using Cons.prems by auto
  have len: "length ?ls = length ls" by (simp add: bump_tax_def)
  have nth: "?ls ! j = (if j = i then (ls ! i)\<lparr>il_TaxMinor := il_TaxMinor (ls ! i) + 1\<rparr> else ls ! j)"
    if "j < length ls" for j
    using i that by (auto simp: bump_tax_def nth_list_update)
  have sum: "(\<Sum>l\<leftarrow>?ls. il_TaxMinor l) = (\<Sum>l\<leftarrow>ls. il_TaxMinor l) + 1"
    using i by (simp add: bump_tax_def map_update sum_list_update_int)
  have "\<forall>k \<in> set is. k < length ?ls \<and> is_int64 (il_TaxMinor (?ls ! k) + 1)"
    using Cons.prems i nth len by auto
  from Cons.IH [OF i(4) this] show ?case
    using nth len sum i(3) by auto
qed simp

lemma recompute_totals_eq:
  "recompute_totals ls =
     (if \<forall>l \<in> set ls. is_int64 (il_SubtotalMinor l + il_TaxMinor l)
      then Inr (map (\<lambda>l. l\<lparr>il_TotalMinor := il_SubtotalMinor l + il_TaxMinor l\<rparr>) ls)
      else Inl BillingErrOverflow)"
  by (induction ls) auto

text \<open>The first entries of a list sorted by decreasing remainder dominate the others.\<close>

lemma take_sorted_dominates:
  assumes "x \<in> set (take k (sort_key (\<lambda>s. - snd s) shares))"
    and "y \<in> set (drop k (sort_key (\<lambda>s. - snd s) shares))"
  shows "snd y \<le> (snd x :: int)"
proof -
  let ?o = "sort_key (\<lambda>s. - snd s) shares"
  have "sorted (map (\<lambda>s. - snd s) (take k ?o) @ map (\<lambda>s. - snd s) (drop k ?o))"
    unfolding map_append [symmetric] append_take_drop_id by simp
  with assms show ?thesis by (auto simp: sorted_append)
qed

text \<open>
  Which lines get one of the units left over: those whose index is among the first \<open>k\<close> shares.
\<close>

definition bumped :: "int \<Rightarrow> InvoiceLine list \<Rightarrow> nat \<Rightarrow> nat list" where
  "bumped r lines k =
     map fst (take k (sort_key (\<lambda>s. - snd s) (zip [0..<length lines] (map (rem_tax r) lines))))"

lemma distinct_bumped: "distinct (bumped r lines k)"
proof -
  let ?z = "zip [0..<length lines] (map (rem_tax r) lines)"
  have "mset (map fst (sort_key (\<lambda>s. - snd s) ?z)) = mset (map fst ?z)"
    by (simp only: mset_map mset_sort)
  then have "distinct (map fst (sort_key (\<lambda>s. - snd s) ?z))"
    by (simp only: distinct_count_atmost_1 set_mset_mset [symmetric])
       (simp add: distinct_count_atmost_1 [symmetric])
  then show ?thesis by (simp add: bumped_def take_map [symmetric])
qed

lemma set_bumped: "i \<in> set (bumped r lines k) \<Longrightarrow> i < length lines"
  by (auto simp: bumped_def dest!: in_set_takeD set_zip_leftD)

lemma length_bumped: "k \<le> length lines \<Longrightarrow> length (bumped r lines k) = k"
  by (simp add: bumped_def)

lemma bumped_dominates:
  assumes "i \<in> set (bumped r lines k)" and "j < length lines" and "j \<notin> set (bumped r lines k)"
  shows "rem_tax r (lines ! j) \<le> rem_tax r (lines ! i)"
proof -
  let ?z = "zip [0..<length lines] (map (rem_tax r) lines)"
  let ?o = "sort_key (\<lambda>s. - snd s) ?z"
  have z: "(a, b) \<in> set ?z \<longleftrightarrow> a < length lines \<and> b = rem_tax r (lines ! a)" for a b
    by (auto simp: set_zip intro!: exI [of _ a])
  from assms(1) obtain b where "(i, b) \<in> set (take k ?o)" by (auto simp: bumped_def)
  moreover from this have "b = rem_tax r (lines ! i)" using z by (auto dest!: in_set_takeD)
  moreover have "(j, rem_tax r (lines ! j)) \<in> set (drop k ?o)"
  proof -
    have "(j, rem_tax r (lines ! j)) \<in> set ?o" using assms(2) z by simp
    then have "(j, rem_tax r (lines ! j)) \<in> set (take k ?o) \<union> set (drop k ?o)"
      by (metis append_take_drop_id set_append)
    moreover have "(j, rem_tax r (lines ! j)) \<notin> set (take k ?o)"
      using assms(3) by (force simp: bumped_def)
    ultimately show ?thesis by blast
  qed
  ultimately show ?thesis using take_sorted_dominates by fastforce
qed

lemma floor_plus_one_le:
  assumes "i < length lines" and "\<forall>l \<in> set lines. 0 \<le> floor_tax r l"
    and "(\<Sum>l\<leftarrow>lines. floor_tax r l) + 1 \<le> tax"
  shows "floor_tax r (lines ! i) + 1 \<le> tax"
proof -
  have "floor_tax r (lines ! i) \<le> (\<Sum>l\<leftarrow>lines. floor_tax r l)"
    using assms(1,2) by (intro member_le_sum_list) auto
  with assms(3) show ?thesis by linarith
qed

text \<open>The invoice the allocation returns, in closed form.\<close>

definition taxed_line :: "int \<Rightarrow> int \<Rightarrow> InvoiceLine \<Rightarrow> InvoiceLine" where
  "taxed_line r b l = l\<lparr>il_TaxMinor := floor_tax r l + b,
     il_TotalMinor := il_SubtotalMinor l + (floor_tax r l + b)\<rparr>"

definition taxed_lines :: "int \<Rightarrow> int \<Rightarrow> InvoiceLine list \<Rightarrow> InvoiceLine list" where
  "taxed_lines r tax lines =
     (let k = nat (tax - (\<Sum>l\<leftarrow>lines. floor_tax r l))
      in map (\<lambda>i. taxed_line r (if i \<in> set (bumped r lines k) then 1 else 0) (lines ! i)) [0..<length lines])"

text \<open>
  When the allocation is called: a rate in range, non-negative line subtotals that sum to the
  subtotal of the invoice, and \<open>tax\<close> the rounded tax of that subtotal.
\<close>

definition allocatable :: "Invoice \<Rightarrow> int \<Rightarrow> int \<Rightarrow> bool" where
  "allocatable v r tax \<longleftrightarrow>
     iv_InvoiceTaxRateBasisPoints v = Some r \<and> 0 \<le> r \<and> r \<le> 10000 \<and>
     validRoundingMode (iv_InvoiceTaxRoundingMode v) \<and>
     (\<forall>l \<in> set (iv_Lines v). 0 \<le> il_SubtotalMinor l) \<and>
     iv_SubtotalMinor v = (\<Sum>l\<leftarrow>iv_Lines v. il_SubtotalMinor l) \<and> is_int64 (iv_SubtotalMinor v) \<and>
     roundedInt64 (iv_SubtotalMinor v * r) 10000 (iv_InvoiceTaxRoundingMode v) = Inr tax"

lemma allocatable_rate: "allocatable v r tax \<Longrightarrow> iv_InvoiceTaxRateBasisPoints v = Some r"
  by (simp add: allocatable_def)

lemma allocatable_tax: "allocatable v r tax \<Longrightarrow>
    roundedInt64 (iv_SubtotalMinor v * r) 10000 (iv_InvoiceTaxRoundingMode v) = Inr tax"
  unfolding allocatable_def by blast

abbreviation floor_total :: "int \<Rightarrow> Invoice \<Rightarrow> int" where
  "floor_total r v \<equiv> \<Sum>l\<leftarrow>iv_Lines v. floor_tax r l"

lemma leftover_of_allocatable:
  assumes "allocatable v r tax"
  shows "0 \<le> tax - floor_total r v"
    and "tax - floor_total r v \<le> int (length (filter (\<lambda>l. rem_tax r l \<noteq> 0) (iv_Lines v)))"
proof -
  define parts where "parts = map (\<lambda>l. il_SubtotalMinor l * r) (iv_Lines v)"
  have "sum_list parts = iv_SubtotalMinor v * r"
    using assms by (simp add: parts_def allocatable_def sum_list_mult_const)
  then have "rounded_option (iv_InvoiceTaxRoundingMode v) (sum_list parts) 10000 = Some tax"
    using allocatable_tax [OF assms] by (simp only: rounded_option_Some)
  moreover have "\<forall>n \<in> set parts. 0 \<le> n" using assms by (auto simp: parts_def allocatable_def)
  ultimately show "0 \<le> tax - floor_total r v"
    and "tax - floor_total r v \<le> int (length (filter (\<lambda>l. rem_tax r l \<noteq> 0) (iv_Lines v)))"
    using rounded.leftover_bounds [of 10000 parts "iv_InvoiceTaxRoundingMode v" tax]
    by (simp_all add: parts_def comp_def filter_map)
qed

lemma leftover_le_lines: "allocatable v r tax \<Longrightarrow> nat (tax - floor_total r v) \<le> length (iv_Lines v)"
  using leftover_of_allocatable(2) [of v r tax] length_filter_le [of "\<lambda>l. rem_tax r l \<noteq> 0" "iv_Lines v"]
  unfolding nat_le_iff by linarith

lemma allocatable_range:
  assumes "allocatable v r tax"
  shows "0 \<le> tax" and "tax \<le> iv_SubtotalMinor v" and "is_int64 tax"
    and "\<forall>l \<in> set (iv_Lines v). 0 \<le> floor_tax r l" and "0 \<le> floor_total r v"
proof -
  have "0 \<le> iv_SubtotalMinor v" using assms by (auto simp: allocatable_def intro!: sum_list_nonneg)
  then show "0 \<le> tax" "tax \<le> iv_SubtotalMinor v" "is_int64 tax"
    using roundedInt64_small_tax [of "iv_SubtotalMinor v" r "iv_InvoiceTaxRoundingMode v"] assms
    by (auto simp: allocatable_def roundedInt64_Inr_iff)
  show floor0: "\<forall>l \<in> set (iv_Lines v). 0 \<le> floor_tax r l"
    using assms by (auto simp: allocatable_def pos_imp_zdiv_nonneg_iff)
  then show "0 \<le> floor_total r v" by (auto intro!: sum_list_nonneg)
qed

definition floored :: "int \<Rightarrow> InvoiceLine list \<Rightarrow> InvoiceLine list" where
  "floored r lines = map (\<lambda>l. l\<lparr>il_TaxMinor := floor_tax r l\<rparr>) lines"

lemma bump_of_allocatable:
  assumes pre: "allocatable v r tax"
  defines "k \<equiv> nat (tax - floor_total r v)"
  defines "ls \<equiv> foldl bump_tax (floored r (iv_Lines v)) (bumped r (iv_Lines v) k)"
  shows "map (\<lambda>l. l\<lparr>il_TotalMinor := il_SubtotalMinor l + il_TaxMinor l\<rparr>) ls = taxed_lines r tax (iv_Lines v)"
    and "map il_SubtotalMinor ls = map il_SubtotalMinor (iv_Lines v)"
    and "\<forall>l \<in> set ls. 0 \<le> il_TaxMinor l"
    and "(\<Sum>l\<leftarrow>ls. il_TaxMinor l) = tax"
proof -
  let ?ls = "iv_Lines v" and ?is = "bumped r (iv_Lines v) k"
  note range = allocatable_range [OF pre]
  have "is_int64 (floor_tax r (?ls ! i) + 1)" if i: "i \<in> set ?is" for i
  proof -
    from i have "k \<noteq> 0" by (intro notI) (simp add: bumped_def)
    then have "floor_total r v + 1 \<le> tax" by (simp add: k_def)
    then have "floor_tax r (?ls ! i) + 1 \<le> tax"
      using floor_plus_one_le set_bumped i range(4) by blast
    moreover have "0 \<le> floor_tax r (?ls ! i)" using range(4) set_bumped i by auto
    ultimately show ?thesis using range(3) by (auto simp: int64_defs)
  qed
  then have "\<forall>i \<in> set ?is. i < length (floored r ?ls) \<and> is_int64 (il_TaxMinor (floored r ?ls ! i) + 1)"
    using set_bumped by (auto simp: floored_def)
  note bump = foldl_bump_tax [OF distinct_bumped this, folded ls_def]
  show "map (\<lambda>l. l\<lparr>il_TotalMinor := il_SubtotalMinor l + il_TaxMinor l\<rparr>) ls = taxed_lines r tax ?ls"
    using bump by (intro nth_equalityI) (auto simp: taxed_lines_def taxed_line_def Let_def floored_def k_def)
  show "map il_SubtotalMinor ls = map il_SubtotalMinor ?ls"
    using bump by (intro nth_equalityI) (auto simp: floored_def)
  show "\<forall>l \<in> set ls. 0 \<le> il_TaxMinor l"
  proof
    fix l assume "l \<in> set ls"
    then obtain j where j: "j < length ?ls" "l = ls ! j"
      using bump by (auto simp: in_set_conv_nth floored_def)
    then have "0 \<le> floor_tax r (?ls ! j)" using range(4) by simp
    with j bump show "0 \<le> il_TaxMinor l" by (auto simp: floored_def)
  qed
  have "(\<Sum>l\<leftarrow>floored r ?ls. il_TaxMinor l) = floor_total r v" by (simp add: floored_def comp_def)
  then show "(\<Sum>l\<leftarrow>ls. il_TaxMinor l) = tax"
    using bump leftover_of_allocatable(1) [OF pre] leftover_le_lines [OF pre]
    by (simp add: length_bumped k_def)
qed

lemma taxed_lines_sums:
  assumes "allocatable v r tax"
  shows "(\<Sum>l\<leftarrow>taxed_lines r tax (iv_Lines v). il_TaxMinor l) = tax"
    and "map il_SubtotalMinor (taxed_lines r tax (iv_Lines v)) = map il_SubtotalMinor (iv_Lines v)"
    and "\<forall>l \<in> set (taxed_lines r tax (iv_Lines v)). 0 \<le> il_TaxMinor l"
  using bump_of_allocatable(2-4) [OF assms] bump_of_allocatable(1) [OF assms, symmetric]
  by (simp_all add: comp_def)

lemma taxed_line_fits:
  assumes "allocatable v r tax" and "is_int64 (iv_SubtotalMinor v + tax)"
    and "l \<in> set (taxed_lines r tax (iv_Lines v))"
  shows "is_int64 (il_SubtotalMinor l + il_TaxMinor l)" and "0 \<le> il_SubtotalMinor l"
proof -
  note sums = taxed_lines_sums [OF assms(1)]
  have "il_SubtotalMinor l \<in> set (map il_SubtotalMinor (iv_Lines v))"
    using assms(3) sums(2) [symmetric] by simp
  then have sub: "0 \<le> il_SubtotalMinor l" "il_SubtotalMinor l \<le> iv_SubtotalMinor v"
    using assms(1) by (auto simp: allocatable_def intro!: member_le_sum_list)
  have "il_TaxMinor l \<le> (\<Sum>l\<leftarrow>taxed_lines r tax (iv_Lines v). il_TaxMinor l)"
    using assms(3) sums(3) by (intro member_le_sum_list) auto
  with sub sums(1,3) assms(2,3) show "is_int64 (il_SubtotalMinor l + il_TaxMinor l)"
    by (auto simp: int64_defs)
  show "0 \<le> il_SubtotalMinor l" by (rule sub)
qed

lemma allocateInvoiceTax_eq:
  assumes pre: "allocatable v r tax"
  shows "allocateInvoiceTax v =
      (if is_int64 (iv_SubtotalMinor v + tax)
       then Inr (v\<lparr>iv_Lines := taxed_lines r tax (iv_Lines v), iv_TaxMinor := tax,
                   iv_TotalMinor := iv_SubtotalMinor v + tax\<rparr>)
       else Inl BillingErrOverflow)"
proof -
  let ?ls = "iv_Lines v" and ?q = "floor_total r v"
  let ?ls2 = "foldl bump_tax (floored r ?ls) (bumped r ?ls (nat (tax - ?q)))"
  note range = allocatable_range [OF pre]
  have shares: "floor_shares r tax 0 0 ?ls =
      Inr (floored r ?ls, zip [0..<length ?ls] (map (rem_tax r) ?ls), ?q)"
    using floor_shares_eq [of ?ls r 0 tax 0] leftover_of_allocatable(1) [OF pre] range pre
    by (simp add: floored_def allocatable_def)
  have wrap: "wrap64 (tax - ?q) = tax - ?q"
    using leftover_of_allocatable(1) [OF pre] range by (auto simp: int64_defs intro!: wrap64_id)
  have fits: "is_int64 (il_SubtotalMinor l + il_TaxMinor l)"
    if "is_int64 (iv_SubtotalMinor v + tax)" and l: "l \<in> set ?ls2" for l
  proof -
    have "l\<lparr>il_TotalMinor := il_SubtotalMinor l + il_TaxMinor l\<rparr> \<in> set (taxed_lines r tax ?ls)"
      using l bump_of_allocatable(1) [OF pre, symmetric] by simp
    from taxed_line_fits(1) [OF pre that(1) this] show ?thesis by simp
  qed
  have "\<not> tax - ?q > int (length ?ls)" using leftover_le_lines [OF pre] by (simp add: nat_le_iff)
  moreover have "recompute_totals ?ls2 = Inr (taxed_lines r tax ?ls)" if "is_int64 (iv_SubtotalMinor v + tax)"
    using fits [OF that] bump_of_allocatable(1) [OF pre] by (simp add: recompute_totals_eq)
  ultimately show ?thesis
    using leftover_of_allocatable(1) [OF pre]
    by (simp add: allocateInvoiceTax_def allocatable_rate [OF pre] allocatable_tax [OF pre]
        Let_def shares wrap bumped_def)
qed

section \<open>Rating keeps the totals\<close>

text \<open>The invariant of the loop over the lines, which is also what the validation asks of them.\<close>

definition rated :: "Invoice \<Rightarrow> bool" where
  "rated v \<longleftrightarrow>
     (\<forall>l \<in> set (iv_Lines v). 0 \<le> il_SubtotalMinor l \<and> 0 \<le> il_TaxMinor l \<and>
        il_TotalMinor l = il_SubtotalMinor l + il_TaxMinor l \<and> is_int64 (il_TotalMinor l)) \<and>
     iv_SubtotalMinor v = (\<Sum>l\<leftarrow>iv_Lines v. il_SubtotalMinor l) \<and>
     iv_TaxMinor v = (\<Sum>l\<leftarrow>iv_Lines v. il_TaxMinor l) \<and>
     0 \<le> iv_SubtotalMinor v \<and> 0 \<le> iv_TaxMinor v \<and>
     iv_TotalMinor v = iv_SubtotalMinor v + iv_TaxMinor v \<and> is_int64 (iv_TotalMinor v)"

lemma rated_validates:
  assumes "rated v" and "tax_section_ok v"
    and "iv_AmountSettledMinor v = 0" and "iv_AmountDueMinor v = iv_TotalMinor v"
  shows "ValidateInvoiceTotals v = Inr ()"
  unfolding ValidateInvoiceTotals_Inr_iff using assms by (auto simp: rated_def int64_defs)

lemma roundedInt64_errors:
  "roundedInt64 n d m = Inl e \<Longrightarrow>
     e \<in> {BillingErrInvalidAmount, BillingErrInvalidRounding, BillingErrOverflow}"
  by (auto simp: roundedInt64_def Let_def bindE_eq_Inl_iff split: if_splits RoundingMode.splits)

lemma price_line_errors:
  "price_line mode rate agg = Inl e \<Longrightarrow>
     e \<in> {BillingErrInvalidAmount, BillingErrInvalidScale, BillingErrInvalidRounding, BillingErrOverflow}"
  by (auto simp: price_line_def PriceUsage_def PriceSubtotal_def bindE_eq_Inl_iff
           split: if_splits dest!: roundedInt64_errors)

lemma price_line_Inr:
  assumes "price_line mode rate agg = Inr (sub, tax, tot)"
  shows "0 \<le> sub \<and> 0 \<le> tax \<and> tot = sub + tax \<and> is_int64 tot"
proof (cases "mode = TaxModeInvoiceTotal")
  case True
  with assms have "PriceSubtotal rate (agg_quantity agg) (agg_scale agg) = Inr sub" "tax = 0" "tot = sub"
    by (auto simp: price_line_def)
  then show ?thesis using PriceSubtotal_Inr by auto
next
  case False
  with assms have usage: "PriceUsage rate (agg_quantity agg) (agg_scale agg) = Inr (sub, tax, tot)"
    by (simp add: price_line_def)
  from PriceUsage_Inr [OF usage] PriceSubtotal_Inr show ?thesis by auto
qed

lemma rated_add_line:
  assumes "rated v" and "0 \<le> sub" and "0 \<le> tax" and "tot = sub + tax" and "is_int64 tot"
    and "\<not> tot > wrap64 (maxInt64 - iv_TotalMinor v)"
  shows "rated (v\<lparr>iv_Lines := iv_Lines v @ [invoice_line p rate agg sub tax tot],
      iv_SubtotalMinor := wrap64 (iv_SubtotalMinor v + sub), iv_TaxMinor := wrap64 (iv_TaxMinor v + tax),
      iv_TotalMinor := wrap64 (iv_TotalMinor v + tot)\<rparr>)"
proof -
  have range: "0 \<le> iv_SubtotalMinor v" "0 \<le> iv_TaxMinor v"
      "iv_TotalMinor v = iv_SubtotalMinor v + iv_TaxMinor v" "is_int64 (iv_TotalMinor v)"
    using assms(1) by (auto simp: rated_def)
  then have "wrap64 (maxInt64 - iv_TotalMinor v) = maxInt64 - iv_TotalMinor v"
    by (auto simp: int64_defs intro!: wrap64_id)
  with assms range have "is_int64 (iv_TotalMinor v + tot)" "is_int64 (iv_SubtotalMinor v + sub)"
      "is_int64 (iv_TaxMinor v + tax)"
    by (auto simp: int64_defs)
  with assms range show ?thesis by (auto simp: rated_def invoice_line_def)
qed

text \<open>The fields of an invoice the rating of lines does not touch.\<close>

abbreviation same_header :: "Invoice \<Rightarrow> Invoice \<Rightarrow> bool" where
  "same_header v w \<equiv>
     w = v\<lparr>iv_Lines := iv_Lines w, iv_SubtotalMinor := iv_SubtotalMinor w,
           iv_TaxMinor := iv_TaxMinor w, iv_TotalMinor := iv_TotalMinor w\<rparr>"

lemma build_lines_rated:
  "build_lines rates aggs keys v = Inr w \<Longrightarrow> rated v \<Longrightarrow> rated w \<and> same_header v w"
proof (induction rates aggs keys v rule: build_lines.induct)
  case (2 rates aggs key keys v)
  define parts where "parts = split_nul key"
  define rate where "rate = (case rates (join_nul (take 3 parts)) of None \<Rightarrow> zero_rate | Some r \<Rightarrow> r)"
  define agg where "agg = lookup_aggregate aggs key"
  from 2(2) obtain sub tax tot where len: "\<not> length parts < 4"
      and price: "price_line (iv_TaxMode v) rate agg = Inr (sub, tax, tot)"
      and fits: "\<not> (sub > wrap64 (maxInt64 - iv_SubtotalMinor v) \<or> tax > wrap64 (maxInt64 - iv_TaxMinor v) \<or>
                   tot > wrap64 (maxInt64 - iv_TotalMinor v))"
      and rest: "build_lines rates aggs keys
        (v\<lparr>iv_Lines := iv_Lines v @ [invoice_line (parts ! 3) rate agg sub tax tot],
          iv_SubtotalMinor := wrap64 (iv_SubtotalMinor v + sub), iv_TaxMinor := wrap64 (iv_TaxMinor v + tax),
          iv_TotalMinor := wrap64 (iv_TotalMinor v + tot)\<rparr>) = Inr w"
    by (auto simp: parts_def [symmetric] rate_def [symmetric] agg_def [symmetric] Let_def
        split: if_splits)
  let ?v = "v\<lparr>iv_Lines := iv_Lines v @ [invoice_line (parts ! 3) rate agg sub tax tot],
      iv_SubtotalMinor := wrap64 (iv_SubtotalMinor v + sub), iv_TaxMinor := wrap64 (iv_TaxMinor v + tax),
      iv_TotalMinor := wrap64 (iv_TotalMinor v + tot)\<rparr>"
  have "rated ?v"
    using price_line_Inr [OF price] fits 2(3) by (intro rated_add_line) auto
  from 2(1) [OF parts_def len rate_def agg_def price refl refl fits rest this]
  show ?case by simp
qed simp

lemma build_lines_errors:
  "build_lines rates aggs keys v = Inl e \<Longrightarrow> (\<forall>k \<in> set keys. 4 \<le> length (split_nul k)) \<Longrightarrow>
   e \<in> {BillingErrInvalidAmount, BillingErrInvalidScale, BillingErrInvalidRounding, BillingErrOverflow}"
  by (induction rates aggs keys v rule: build_lines.induct)
     (auto simp: Let_def bindE_eq_Inl_iff split: if_splits dest!: price_line_errors)

end
