(* ===== verification/Billing_Draft.thy ===== *)
theory Billing_Draft
  imports Billing_Invoice
begin

text \<open>
  What rating a period guarantees: every billable usage fact is billed on exactly one line, with
  its quantity, under the rate of its service, metric and unit; a drafted invoice always passes
  its own validation; and the errors a caller can meet are exactly the documented ones.
\<close>

section \<open>Aggregation is conservative\<close>

abbreviation with_key :: "string \<Rightarrow> UsageFact list \<Rightarrow> UsageFact list" where
  "with_key key \<equiv> filter (\<lambda>f. fact_key f = key)"

text \<open>The aggregates represent the facts read so far.\<close>

definition represents :: "(string \<times> aggregate) list \<Rightarrow> UsageFact list \<Rightarrow> bool" where
  "represents aggs facts \<longleftrightarrow>
     distinct (map fst aggs) \<and> fst ` set aggs = fact_key ` set facts \<and>
     (\<forall>key. agg_refs (lookup_aggregate aggs key) = map uf_UsageID (with_key key facts) \<and>
            agg_quantity (lookup_aggregate aggs key) = (\<Sum>f\<leftarrow>with_key key facts. uf_Quantity f) \<and>
            0 \<le> (\<Sum>f\<leftarrow>with_key key facts. uf_Quantity f) \<and>
            is_int64 (\<Sum>f\<leftarrow>with_key key facts. uf_Quantity f) \<and>
            (\<forall>f \<in> set (with_key key facts). agg_scale (lookup_aggregate aggs key) = uf_QuantityScale f))"

lemma represents_empty: "represents [] []"
  by (simp add: represents_def lookup_aggregate_def zero_aggregate_def int64_defs)

lemma represents_keys:
  assumes "represents aggs facts"
  shows "sort (map fst aggs) = sorted_list_of_set (fact_key ` set facts)"
proof -
  have "sort (map fst aggs) = sorted_list_of_set (set (map fst aggs))"
    using assms unfolding represents_def sorted_list_of_set_sort_remdups by (simp add: distinct_remdups_id)
  also have "set (map fst aggs) = fact_key ` set facts"
    using assms by (simp add: represents_def)
  finally show ?thesis .
qed

lemma lookup_aggregate_update:
  "lookup_aggregate (AList.update key a aggs) k = (if k = key then a else lookup_aggregate aggs k)"
  by (simp add: lookup_aggregate_def update_conv')

lemma represents_step:
  assumes "represents aggs facts" and "is_int64 (uf_Quantity f)"
    and "\<not> (agg_refs (lookup_aggregate aggs (fact_key f)) \<noteq> [] \<and>
            agg_scale (lookup_aggregate aggs (fact_key f)) \<noteq> uf_QuantityScale f)"
    and "\<not> (uf_Quantity f < 0 \<or> (uf_Quantity f > 0 \<and>
            agg_quantity (lookup_aggregate aggs (fact_key f)) > wrap64 (maxInt64 - uf_Quantity f)))"
  shows "represents (AList.update (fact_key f)
      \<lparr>agg_quantity = wrap64 (agg_quantity (lookup_aggregate aggs (fact_key f)) + uf_Quantity f),
       agg_scale = uf_QuantityScale f,
       agg_refs = agg_refs (lookup_aggregate aggs (fact_key f)) @ [uf_UsageID f]\<rparr> aggs) (facts @ [f])"
proof -
  let ?a = "lookup_aggregate aggs (fact_key f)"
  have a: "agg_refs ?a = map uf_UsageID (with_key (fact_key f) facts)"
      "agg_quantity ?a = (\<Sum>g\<leftarrow>with_key (fact_key f) facts. uf_Quantity g)"
      "0 \<le> agg_quantity ?a" "is_int64 (agg_quantity ?a)"
      "\<forall>g \<in> set (with_key (fact_key f) facts). agg_scale ?a = uf_QuantityScale g"
    using assms(1) by (simp_all add: represents_def)
  have "is_int64 (agg_quantity ?a + uf_Quantity f)"
  proof -
    have "wrap64 (maxInt64 - uf_Quantity f) = maxInt64 - uf_Quantity f"
      using assms(2,4) by (intro wrap64_id) (auto simp: int64_defs)
    with assms(2,4) a(3,4) show ?thesis by (auto simp: int64_defs)
  qed
  moreover have "\<forall>g \<in> set (with_key (fact_key f) facts). uf_QuantityScale g = uf_QuantityScale f"
    using assms(3) a(1,5) by (auto simp: filter_empty_conv)
  ultimately show ?thesis
    using assms(1,4) a
    by (auto simp: represents_def lookup_aggregate_update distinct_update update_keys dom_update
             simp flip: set_map)
qed

lemma aggregate_facts_represents:
  assumes "aggregate_facts rates aggs facts = Inr aggs'" and "represents aggs seen"
    and "\<forall>f \<in> set facts. is_int64 (uf_Quantity f)"
  shows "represents aggs' (seen @ facts) \<and>
    (\<forall>f \<in> set facts. rates (fact_rate_key f) \<noteq> None \<and> 0 \<le> uf_Quantity f)"
  using assms
proof (induction facts arbitrary: aggs seen)
  case (Cons f facts)
  let ?a = "lookup_aggregate aggs (fact_key f)"
  let ?aggs = "AList.update (fact_key f)
      \<lparr>agg_quantity = wrap64 (agg_quantity ?a + uf_Quantity f), agg_scale = uf_QuantityScale f,
       agg_refs = agg_refs ?a @ [uf_UsageID f]\<rparr> aggs"
  from Cons.prems(1) have guards: "rates (fact_rate_key f) \<noteq> None"
      "\<not> (agg_refs ?a \<noteq> [] \<and> agg_scale ?a \<noteq> uf_QuantityScale f)"
      "\<not> (uf_Quantity f < 0 \<or> (uf_Quantity f > 0 \<and> agg_quantity ?a > wrap64 (maxInt64 - uf_Quantity f)))"
    and rest: "aggregate_facts rates ?aggs facts = Inr aggs'"
    by (auto simp: Let_def split: if_splits)
  have "represents ?aggs (seen @ [f])"
    using represents_step [OF Cons.prems(2) _ guards(2,3)] Cons.prems(3) by simp
  from Cons.IH [OF rest this] Cons.prems(3) guards show ?case by auto
qed simp

section \<open>Keys and rates\<close>

lemma length_split_nul: "length (split_nul s) = Suc (length (filter (\<lambda>c. c = CHR 0x00) s))"
  by (induction s) (auto split: list.splits)

lemma split_nul_no_nul: "CHR 0x00 \<notin> set s \<Longrightarrow> split_nul s = [s]"
  by (induction s) auto

lemma split_nul_append: "CHR 0x00 \<notin> set s \<Longrightarrow> split_nul (s @ nul @ t) = s # split_nul t"
  by (induction s) (auto simp: nul_def)

definition nul_free :: "UsageFact \<Rightarrow> bool" where
  "nul_free f \<longleftrightarrow> CHR 0x00 \<notin> set (uf_ServiceCode f) \<union> set (uf_MetricCode f) \<union> set (uf_Unit f) \<union> set (uf_ProductID f)"

lemma fact_key_parts: "4 \<le> length (split_nul (fact_key f))"
  by (simp add: length_split_nul fact_key_def fact_rate_key_def nul_def)

lemma split_fact_key:
  "nul_free f \<Longrightarrow> split_nul (fact_key f) = [uf_ServiceCode f, uf_MetricCode f, uf_Unit f, uf_ProductID f]"
  by (simp add: nul_free_def fact_key_def fact_rate_key_def split_nul_append split_nul_no_nul)

lemma rate_of_fact_key:
  "nul_free f \<Longrightarrow> join_nul (take 3 (split_nul (fact_key f))) = fact_rate_key f"
  by (simp add: split_fact_key join_nul_def fact_rate_key_def)

lemma index_rates_Inr:
  "index_rates version acc rates = Inr m \<Longrightarrow>
     map_of m k = Some r \<Longrightarrow> map_of acc k = Some r \<or> (r \<in> set rates \<and> rate_key r = k)"
  by (induction rates arbitrary: acc) (fastforce split: if_splits)+

section \<open>One line per key\<close>

definition line_for :: "TaxCalculationMode \<Rightarrow> (string \<rightharpoonup> PricingRate) \<Rightarrow> (string \<times> aggregate) list \<Rightarrow>
    string \<Rightarrow> InvoiceLine \<Rightarrow> bool" where
  "line_for mode rates aggs key l \<longleftrightarrow>
     (let rate = (case rates (join_nul (take 3 (split_nul key))) of None \<Rightarrow> zero_rate | Some r \<Rightarrow> r);
          agg = lookup_aggregate aggs key
      in \<exists>sub tax tot. price_line mode rate agg = Inr (sub, tax, tot) \<and>
           l = invoice_line (split_nul key ! 3) rate agg sub tax tot)"

lemma build_lines_shape:
  "build_lines rates aggs keys v = Inr w \<Longrightarrow>
     \<exists>ls. iv_Lines w = iv_Lines v @ ls \<and> list_all2 (line_for (iv_TaxMode v) rates aggs) keys ls"
proof (induction rates aggs keys v rule: build_lines.induct)
  case (2 rates aggs key keys v)
  define parts where "parts = split_nul key"
  define rate where "rate = (case rates (join_nul (take 3 parts)) of None \<Rightarrow> zero_rate | Some r \<Rightarrow> r)"
  define agg where "agg = lookup_aggregate aggs key"
  from 2(2) obtain sub tax tot where len: "\<not> length parts < 4"
      and price: "price_line (iv_TaxMode v) rate agg = Inr (sub, tax, tot)"
      and fits: "\<not> (sub > wrap64 (maxInt64 - iv_SubtotalMinor v) \<or> tax > wrap64 (maxInt64 - iv_TaxMinor v) \<or>
                   tot > wrap64 (maxInt64 - iv_TotalMinor v))"
      and rest: "build_lines rates aggs keys
        (v\<lparr>iv_Lines := iv_Lines v @ [invoice_line (parts ! 3) rate agg sub tax tot],
          iv_SubtotalMinor := wrap64 (iv_SubtotalMinor v + sub), iv_TaxMinor := wrap64 (iv_TaxMinor v + tax),
          iv_TotalMinor := wrap64 (iv_TotalMinor v + tot)\<rparr>) = Inr w"
    by (auto simp: parts_def [symmetric] rate_def [symmetric] agg_def [symmetric] Let_def
        split: if_splits)
  have "line_for (iv_TaxMode v) rates aggs key (invoice_line (parts ! 3) rate agg sub tax tot)"
    using price by (auto simp: line_for_def parts_def rate_def agg_def)
  with 2(1) [OF parts_def len rate_def agg_def price refl refl fits rest] show ?case by auto
qed simp

text \<open>What a line bills, which the allocation of the tax does not change.\<close>

definition untaxed :: "InvoiceLine \<Rightarrow> InvoiceLine" where
  "untaxed l = l\<lparr>il_TaxMinor := 0, il_TotalMinor := 0\<rparr>"

definition billed_key :: "UsageFact list \<Rightarrow> string \<Rightarrow> string list \<times> int" where
  "billed_key facts key =
     (sort (map uf_UsageID (with_key key facts)), \<Sum>f\<leftarrow>with_key key facts. uf_Quantity f)"

lemma line_for_billed:
  assumes "represents aggs facts" and "line_for mode rates aggs key l"
  shows "(il_UsageFactRefs l, il_Quantity l) = billed_key facts key"
  using assms by (auto simp: line_for_def represents_def Let_def invoice_line_def billed_key_def)

lemma taxed_lines_untaxed: "map untaxed (taxed_lines r tax ls) = map untaxed ls"
  by (rule nth_equalityI) (simp_all add: taxed_lines_def taxed_line_def untaxed_def Let_def)

section \<open>The draft as a whole\<close>

text \<open>The invoice as the loops start on it.\<close>

definition draft_start :: "Invoice \<Rightarrow> Invoice" where
  "draft_start v =
     v\<lparr>iv_TaxMode := (if iv_TaxMode v = TaxModeUnset then TaxModeLine else iv_TaxMode v),
       iv_State := InvoiceStateDraft, iv_Lines := [], iv_SubtotalMinor := 0,
       iv_TaxMinor := 0, iv_TotalMinor := 0\<rparr>"

lemma rated_draft_start: "rated (draft_start v)"
  by (simp add: rated_def draft_start_def int64_defs)

definition tax_step :: "Invoice \<Rightarrow> billing_error + Invoice" where
  "tax_step v = (if iv_TaxMode v = TaxModeInvoiceTotal then allocateInvoiceTax v else Inr v)"

definition draft_finish :: "Invoice \<Rightarrow> Invoice" where
  "draft_finish v =
     v\<lparr>iv_AmountSettledMinor := 0, iv_AmountDueMinor := iv_TotalMinor v,
       iv_Version := (if iv_Version v = 0 then 1 else iv_Version v)\<rparr>"

definition default_mode :: "Invoice \<Rightarrow> Invoice" where
  "default_mode v = (if iv_TaxMode v = TaxModeUnset then v\<lparr>iv_TaxMode := TaxModeLine\<rparr> else v)"

lemma BuildDraftInvoice_unfold:
  "BuildDraftInvoice v facts rates =
     (if \<not> draft_header_ok v then Inl BillingErrInvalidInvoice
      else if iv_State v \<noteq> InvoiceStateUnset \<and> iv_State v \<noteq> InvoiceStateDraft then Inl BillingErrInvoiceIssued
      else if \<not> draft_tax_ok (default_mode v) then Inl BillingErrInvalidInvoice
      else bindE (index_rates (iv_PricingVersionID v) [] rates) (\<lambda>m.
        if \<not> list_all (fact_in_period v) facts then Inl BillingErrInvalidInvoice
        else bindE (BillableUsageFacts facts rates) (\<lambda>facts.
        bindE (aggregate_facts (map_of m) [] facts) (\<lambda>aggs.
        bindE (build_lines (map_of m) aggs (sort (map fst aggs)) (draft_start v)) (\<lambda>w.
        bindE (tax_step w) (\<lambda>w.
        bindE (ValidateInvoiceTotals (draft_finish w)) (\<lambda>_. Inr (draft_finish w))))))))"
proof -
  have eq: "(default_mode v)\<lparr>iv_State := InvoiceStateDraft, iv_Lines := [], iv_SubtotalMinor := 0,
       iv_TaxMinor := 0, iv_TotalMinor := 0\<rparr> = draft_start v"
    by (simp add: default_mode_def draft_start_def)
  have keep: "iv_PricingVersionID (default_mode v) = iv_PricingVersionID v"
      "fact_in_period (default_mode v) = fact_in_period v"
    by (auto simp: default_mode_def fact_in_period_def fun_eq_iff)
  show ?thesis
    unfolding BuildDraftInvoice_def Let_def default_mode_def [symmetric] eq keep
      tax_step_def draft_finish_def ..
qed

lemma rated_allocatable:
  assumes "rated w" and "draft_tax_ok w" and "iv_TaxMode w = TaxModeInvoiceTotal"
  shows "\<exists>r tax. allocatable w r tax"
proof -
  from assms(2,3) obtain r where r: "iv_InvoiceTaxRateBasisPoints w = Some r" "0 \<le> r" "r \<le> 10000"
      "validRoundingMode (iv_InvoiceTaxRoundingMode w)"
    by (auto simp: draft_tax_ok_def split: option.splits)
  have w: "0 \<le> iv_SubtotalMinor w" "is_int64 (iv_SubtotalMinor w)"
      "iv_SubtotalMinor w = (\<Sum>l\<leftarrow>iv_Lines w. il_SubtotalMinor l)"
      "\<forall>l \<in> set (iv_Lines w). 0 \<le> il_SubtotalMinor l"
    using assms(1) by (auto simp: rated_def int64_defs)
  with roundedInt64_small_tax [OF w(1,2) r(2,3,4)] r show ?thesis
    unfolding allocatable_def by blast
qed

lemma taxed_lines_rated:
  assumes alloc: "allocatable w r tax" and fits: "is_int64 (iv_SubtotalMinor w + tax)"
  shows "rated (w\<lparr>iv_Lines := taxed_lines r tax (iv_Lines w), iv_TaxMinor := tax,
                  iv_TotalMinor := iv_SubtotalMinor w + tax\<rparr>)"
proof -
  let ?ls = "taxed_lines r tax (iv_Lines w)"
  note sums = taxed_lines_sums [OF alloc] and range = allocatable_range [OF alloc]
  have "il_TotalMinor l = il_SubtotalMinor l + il_TaxMinor l" if "l \<in> set ?ls" for l
    using that by (auto simp: taxed_lines_def taxed_line_def Let_def)
  moreover have "(\<Sum>l\<leftarrow>?ls. il_SubtotalMinor l) = iv_SubtotalMinor w"
    using alloc sums(2) by (simp add: allocatable_def)
  ultimately show ?thesis
    using sums(1,3) taxed_line_fits [OF alloc fits] range fits by (auto simp: rated_def)
qed

lemma tax_step_cases:
  assumes "rated w" and "draft_tax_ok w"
  shows "tax_step w = Inl BillingErrOverflow \<or>
    (\<exists>w'. tax_step w = Inr w' \<and> rated w' \<and> same_header w w' \<and> tax_section_ok w' \<and>
       map untaxed (iv_Lines w') = map untaxed (iv_Lines w))"
proof (cases "iv_TaxMode w = TaxModeInvoiceTotal")
  case True
  then obtain r tax where alloc: "allocatable w r tax" using rated_allocatable assms by blast
  have "tax_section_ok (w\<lparr>iv_Lines := ls, iv_TaxMinor := tax, iv_TotalMinor := t\<rparr>)" for ls t
    using True alloc assms(2)
    by (auto simp: tax_section_ok_def allocatable_def draft_tax_ok_def)
  then show ?thesis
    using True taxed_lines_rated [OF alloc] taxed_lines_untaxed
    by (auto simp: tax_step_def allocateInvoiceTax_eq [OF alloc])
next
  case False
  then have "tax_section_ok w" using assms(2) by (auto simp: tax_section_ok_def draft_tax_ok_def)
  with False assms(1) show ?thesis by (simp add: tax_step_def)
qed

text \<open>A successful draft, read through its stages.\<close>

lemma same_header_simps:
  assumes "same_header v w"
  shows "iv_TaxMode w = iv_TaxMode v" and "draft_tax_ok w = draft_tax_ok v" and "iv_State w = iv_State v"
    and "iv_OrganizationID w = iv_OrganizationID v" and "iv_PricingVersionID w = iv_PricingVersionID v"
    and "iv_Currency w = iv_Currency v" and "iv_PeriodStart w = iv_PeriodStart v"
    and "iv_PeriodEnd w = iv_PeriodEnd v"
  by (subst assms, simp add: draft_tax_ok_def)+

lemma draft_tax_ok_start: "draft_tax_ok (draft_start v) = draft_tax_ok (default_mode v)"
  by (simp add: draft_start_def default_mode_def draft_tax_ok_def)

lemma build_lines_stage:
  assumes "draft_tax_ok (default_mode v)"
    and "build_lines m aggs keys (draft_start v) = Inr w"
  shows "rated w" and "same_header (draft_start v) w" and "draft_tax_ok w"
  using build_lines_rated [OF assms(2) rated_draft_start] assms(1) same_header_simps(2)
  by (auto simp: draft_tax_ok_start)

lemma draft_finish_validates:
  assumes "rated w" and "tax_section_ok w"
  shows "ValidateInvoiceTotals (draft_finish w) = Inr ()"
proof (rule rated_validates)
  show "rated (draft_finish w)" using assms(1) by (auto simp: rated_def draft_finish_def)
  show "tax_section_ok (draft_finish w)" using assms(2) by (simp add: tax_section_ok_def draft_finish_def cong: option.case_cong)
qed (simp_all add: draft_finish_def)

lemma BuildDraftInvoice_stages:
  assumes "BuildDraftInvoice v facts rates = Inr w"
  obtains m billable aggs built taxed where
    "index_rates (iv_PricingVersionID v) [] rates = Inr m" and "list_all (fact_in_period v) facts"
    and "BillableUsageFacts facts rates = Inr billable"
    and "aggregate_facts (map_of m) [] billable = Inr aggs"
    and "build_lines (map_of m) aggs (sort (map fst aggs)) (draft_start v) = Inr built"
    and "tax_step built = Inr taxed" and "draft_tax_ok (default_mode v)" and "w = draft_finish taxed"
  using assms unfolding BuildDraftInvoice_unfold by (auto split: if_splits)

lemma tax_step_Inr:
  assumes "rated w" and "draft_tax_ok w" and "tax_step w = Inr w'"
  shows "rated w'" and "same_header w w'" and "tax_section_ok w'"
    and "map untaxed (iv_Lines w') = map untaxed (iv_Lines w)"
  using tax_step_cases [OF assms(1,2)] assms(3) by auto

lemma map_untaxed:
  assumes "map untaxed ls' = map untaxed ls" and "\<And>l. g (untaxed l) = g l"
  shows "map g ls' = map g ls"
proof -
  have "map g xs = map g (map untaxed xs)" for xs by (simp add: assms(2))
  with assms(1) show ?thesis by metis
qed

lemma draft_billed:
  assumes "BuildDraftInvoice v facts rates = Inr w" and "\<forall>f \<in> set facts. is_int64 (uf_Quantity f)"
    and "BillableUsageFacts facts rates = Inr billable"
  shows "map (\<lambda>l. (il_UsageFactRefs l, il_Quantity l)) (iv_Lines w) =
      map (billed_key billable) (sorted_list_of_set (fact_key ` set billable))"
proof -
  from assms(1,3) obtain m aggs built taxed where
      aggs: "aggregate_facts (map_of m) [] billable = Inr aggs"
      and built: "build_lines (map_of m) aggs (sort (map fst aggs)) (draft_start v) = Inr built"
      and taxed: "tax_step built = Inr taxed" and ok: "draft_tax_ok (default_mode v)"
      and w: "w = draft_finish taxed"
    by (elim BuildDraftInvoice_stages) auto
  have "set billable \<subseteq> set facts" using BillableUsageFacts_Inr [OF assms(3)] by auto
  then have rep: "represents aggs billable"
    using aggregate_facts_represents [OF aggs represents_empty] assms(2) by auto
  note keys = represents_keys [OF rep]
  have "list_all2 (line_for (iv_TaxMode (draft_start v)) (map_of m) aggs) (sort (map fst aggs)) (iv_Lines built)"
    using build_lines_shape [OF built] by (auto simp: draft_start_def)
  then have "map (\<lambda>l. (il_UsageFactRefs l, il_Quantity l)) (iv_Lines built) =
      map (billed_key billable) (sort (map fst aggs))"
    using line_for_billed [OF rep] by (auto simp: list_all2_conv_all_nth intro!: nth_equalityI)
  moreover have "map (\<lambda>l. (il_UsageFactRefs l, il_Quantity l)) (iv_Lines taxed) =
      map (\<lambda>l. (il_UsageFactRefs l, il_Quantity l)) (iv_Lines built)"
    using tax_step_Inr(4) [OF build_lines_stage(1,3) [OF ok built] taxed]
    by (rule map_untaxed) (simp_all add: untaxed_def)
  ultimately show ?thesis by (simp add: w keys draft_finish_def)
qed

lemma index_rates_errors: "index_rates version acc rates = Inl e \<Longrightarrow> e = BillingErrInvalidInvoice"
  by (induction rates arbitrary: acc) (auto split: if_splits)

lemma billable_errors: "BillableUsageFacts facts rates = Inl e \<Longrightarrow> e = BillingErrInvalidInvoice"
  by (auto simp: BillableUsageFacts_def billable_loop_eq split: prod.splits if_splits)

lemma aggregate_errors:
  "aggregate_facts m aggs facts = Inl e \<Longrightarrow>
     e \<notin> {BillingErrInvoiceMismatch, BillingPanic}"
  by (induction facts arbitrary: aggs) (auto simp: Let_def split: if_splits)

lemma aggregate_keys:
  "aggregate_facts m aggs facts = Inr aggs' \<Longrightarrow> fst ` set aggs \<subseteq> range fact_key \<Longrightarrow>
     fst ` set aggs' \<subseteq> range fact_key"
proof (induction facts arbitrary: aggs)
  case (Cons f facts)
  from Cons.prems(1) obtain a where "aggregate_facts m (AList.update (fact_key f) a aggs) facts = Inr aggs'"
    by (auto simp: Let_def split: if_splits)
  moreover have "fst ` set (AList.update (fact_key f) a aggs) \<subseteq> range fact_key"
    using Cons.prems(2) by (simp add: dom_update)
  ultimately show ?case by (rule Cons.IH)
qed simp

section \<open>Grouping by key\<close>

text \<open>Grouping a list by a key and concatenating the groups loses and duplicates nothing.\<close>

lemma mset_groups:
  assumes "distinct keys" and "k ` set xs \<subseteq> set keys"
  shows "mset (concat (map (\<lambda>key. filter (\<lambda>x. k x = key) xs) keys)) = mset xs"
  using assms
proof (induction keys arbitrary: xs)
  case (Cons key keys)
  let ?rest = "filter (\<lambda>x. k x \<noteq> key) xs"
  have "filter (\<lambda>x. k x = q) ?rest = filter (\<lambda>x. k x = q) xs" if "q \<in> set keys" for q
    using that Cons.prems(1) by (auto intro!: filter_cong)
  then have eq: "map (\<lambda>q. filter (\<lambda>x. k x = q) ?rest) keys = map (\<lambda>q. filter (\<lambda>x. k x = q) xs) keys"
    by simp
  have "mset (concat (map (\<lambda>q. filter (\<lambda>x. k x = q) ?rest) keys)) = mset ?rest"
    using Cons.prems by (intro Cons.IH) auto
  then have "mset (concat (map (\<lambda>q. filter (\<lambda>x. k x = q) xs) keys)) = mset ?rest"
    unfolding eq .
  then show ?case by simp
qed simp

lemma mset_sorted_groups:
  assumes "distinct keys" and "k ` set xs \<subseteq> set keys"
  shows "mset (concat (map (\<lambda>key. sort (map h (filter (\<lambda>x. k x = key) xs))) keys)) = mset (map h xs)"
proof -
  have "mset (concat (map (\<lambda>key. sort (map h (filter (\<lambda>x. k x = key) xs))) keys)) =
      image_mset h (mset (concat (map (\<lambda>key. filter (\<lambda>x. k x = key) xs) keys)))"
    by (induction keys) simp_all
  then show ?thesis by (simp only: mset_groups [OF assms] mset_map)
qed

lemma sum_groups:
  fixes q :: "'a \<Rightarrow> int"
  assumes "distinct keys" and "k ` set xs \<subseteq> set keys"
  shows "(\<Sum>key\<leftarrow>keys. \<Sum>x\<leftarrow>filter (\<lambda>x. k x = key) xs. q x) = (\<Sum>x\<leftarrow>xs. q x)"
proof -
  have "(\<Sum>key\<leftarrow>keys. \<Sum>x\<leftarrow>filter (\<lambda>x. k x = key) xs. q x) =
      sum_mset (image_mset q (mset (concat (map (\<lambda>key. filter (\<lambda>x. k x = key) xs) keys))))"
    by (induction keys) (simp_all add: sum_mset_sum_list [symmetric])
  then show ?thesis by (simp only: mset_groups [OF assms] mset_map [symmetric] sum_mset_sum_list)
qed

section \<open>The terms of a line\<close>

text \<open>A line bills the fact's product at the terms of a rate and is priced by that rate.\<close>

definition line_terms :: "TaxCalculationMode \<Rightarrow> UsageFact \<Rightarrow> PricingRate \<Rightarrow> InvoiceLine \<Rightarrow> bool" where
  "line_terms mode f r l \<longleftrightarrow>
     rate_key r = fact_rate_key f \<and>
     il_ProductID l = uf_ProductID f \<and> il_ServiceCode l = pr_ServiceCode r \<and>
     il_MetricCode l = pr_MetricCode r \<and> il_Unit l = pr_Unit r \<and> il_PricingRateID l = pr_ID r \<and>
     il_UnitPriceMinor l = pr_UnitPriceMinor r \<and> il_UnitPriceScale l = pr_UnitPriceScale r \<and>
     il_RoundingMode l = pr_RoundingMode r \<and> il_QuantityScale l = uf_QuantityScale f \<and>
     PriceSubtotal r (il_Quantity l) (uf_QuantityScale f) = Inr (il_SubtotalMinor l) \<and>
     (mode \<noteq> TaxModeInvoiceTotal \<longrightarrow>
        PriceUsage r (il_Quantity l) (uf_QuantityScale f) = Inr (il_SubtotalMinor l, il_TaxMinor l, il_TotalMinor l))"

lemma line_for_terms:
  assumes rep: "represents aggs facts" and line: "line_for mode (map_of m) aggs key l"
    and index: "index_rates version [] rates = Inr m" and f: "f \<in> set facts" "fact_key f = key" "nul_free f"
    and rate: "map_of m (fact_rate_key f) \<noteq> None"
  shows "\<exists>r \<in> set rates. line_terms mode f r l"
proof -
  from rate obtain r where r: "map_of m (fact_rate_key f) = Some r" by auto
  have scale: "agg_scale (lookup_aggregate aggs (fact_key f)) = uf_QuantityScale f"
    using rep f(1) by (simp add: represents_def)
  have "r \<in> set rates" and key: "rate_key r = fact_rate_key f"
    using index_rates_Inr [OF index r] by auto
  moreover obtain sub tax tot where
      price: "price_line mode r (lookup_aggregate aggs (fact_key f)) = Inr (sub, tax, tot)"
      and l: "l = invoice_line (split_nul (fact_key f) ! 3) r (lookup_aggregate aggs (fact_key f)) sub tax tot"
    using line unfolding line_for_def f(2) [symmetric] rate_of_fact_key [OF f(3)] r Let_def by auto
  then have "line_terms mode f r l"
    using key scale PriceUsage_Inr
    by (auto simp: l split_fact_key [OF f(3)] invoice_line_def line_terms_def price_line_def split: if_splits)
  ultimately show ?thesis by blast
qed

lemma line_terms_untaxed:
  "untaxed l' = untaxed l \<Longrightarrow> line_terms TaxModeInvoiceTotal f r l' = line_terms TaxModeInvoiceTotal f r l"
proof -
  have "line_terms TaxModeInvoiceTotal f r (untaxed x) = line_terms TaxModeInvoiceTotal f r x" for x
    by (simp add: line_terms_def untaxed_def)
  then show "untaxed l' = untaxed l \<Longrightarrow> ?thesis" by metis
qed

section \<open>Properties of drafting\<close>


text \<open>
  (C17) A draft bills its usage exactly: the lines stand in the order of the sorted keys (service,
  metric, unit, product) of the billable facts, one line for each key; the line of a key carries
  the sorted usage identifiers and the summed quantity of precisely the facts with that key. So
  every billable fact is billed once, none is dropped and the quantities add up.
\<close>

theorem draft_bills_each_fact_once:
  assumes "BuildDraftInvoice v facts rates = Inr w" and "\<forall>f \<in> set facts. is_int64 (uf_Quantity f)"
  shows "\<exists>billable. BillableUsageFacts facts rates = Inr billable \<and>
    map (\<lambda>l. (il_UsageFactRefs l, il_Quantity l)) (iv_Lines w) =
      map (billed_key billable) (sorted_list_of_set (fact_key ` set billable)) \<and>
    mset (concat (map il_UsageFactRefs (iv_Lines w))) = mset (map uf_UsageID billable) \<and>
    (\<Sum>l\<leftarrow>iv_Lines w. il_Quantity l) = (\<Sum>f\<leftarrow>billable. uf_Quantity f)"
proof -
  from assms(1) obtain billable where b: "BillableUsageFacts facts rates = Inr billable"
    by (elim BuildDraftInvoice_stages)
  note lines = draft_billed [OF assms b]
  let ?keys = "sorted_list_of_set (fact_key ` set billable)"
  have "map il_UsageFactRefs (iv_Lines w) = map (\<lambda>k. sort (map uf_UsageID (with_key k billable))) ?keys"
    and "map il_Quantity (iv_Lines w) = map (\<lambda>k. \<Sum>f\<leftarrow>with_key k billable. uf_Quantity f) ?keys"
    using arg_cong [OF lines, of "map fst"] arg_cong [OF lines, of "map snd"]
    by (simp_all add: billed_key_def comp_def)
  moreover have "distinct ?keys" and "fact_key ` set billable \<subseteq> set ?keys" by simp_all
  note mset_sorted_groups [OF this, of uf_UsageID] sum_groups [OF this, of uf_Quantity]
  ultimately show ?thesis using b lines by simp
qed

text \<open>
  (C18) A drafted invoice is internally consistent and ready to issue: it is in state draft with
  nothing settled and everything due, its subtotal and tax are the sums over its lines, its total
  is their sum within \<^verbatim>\<open>int64\<close>, the validation that later guards issue and settlement accepts it,
  and the customer, card version, currency and period it was asked for are unchanged.
\<close>

theorem draft_is_consistent:
  assumes "BuildDraftInvoice v facts rates = Inr w"
  shows "ValidateInvoiceTotals w = Inr () \<and> iv_State w = InvoiceStateDraft \<and>
    iv_AmountSettledMinor w = 0 \<and> iv_AmountDueMinor w = iv_TotalMinor w \<and>
    iv_SubtotalMinor w = (\<Sum>l\<leftarrow>iv_Lines w. il_SubtotalMinor l) \<and>
    iv_TaxMinor w = (\<Sum>l\<leftarrow>iv_Lines w. il_TaxMinor l) \<and>
    iv_TotalMinor w = iv_SubtotalMinor w + iv_TaxMinor w \<and> is_int64 (iv_TotalMinor w) \<and>
    0 \<le> iv_TaxMinor w \<and> 0 \<le> iv_SubtotalMinor w \<and>
    iv_OrganizationID w = iv_OrganizationID v \<and> iv_PricingVersionID w = iv_PricingVersionID v \<and>
    iv_Currency w = iv_Currency v \<and> iv_PeriodStart w = iv_PeriodStart v \<and> iv_PeriodEnd w = iv_PeriodEnd v"
proof -
  from assms obtain m aggs built taxed where
      built: "build_lines (map_of m) aggs (sort (map fst aggs)) (draft_start v) = Inr built"
      and taxed: "tax_step built = Inr taxed" and ok: "draft_tax_ok (default_mode v)"
      and w: "w = draft_finish taxed"
    by (elim BuildDraftInvoice_stages) auto
  note stage = build_lines_stage [OF ok built]
  note step = tax_step_Inr [OF stage(1,3) taxed]
  note header = same_header_simps(3-) [OF stage(2)] same_header_simps(3-) [OF step(2)]
  have "iv_State w = InvoiceStateDraft \<and> iv_OrganizationID w = iv_OrganizationID v \<and>
      iv_PricingVersionID w = iv_PricingVersionID v \<and> iv_Currency w = iv_Currency v \<and>
      iv_PeriodStart w = iv_PeriodStart v \<and> iv_PeriodEnd w = iv_PeriodEnd v"
    using header by (simp add: w draft_finish_def draft_start_def)
  moreover have "ValidateInvoiceTotals w = Inr ()" using draft_finish_validates [OF step(1,3)] w by simp
  ultimately show ?thesis using step(1) by (auto simp: w rated_def draft_finish_def)
qed

text \<open>
  (C19) Every line is priced by the right rate. When no code holds a NUL character, the line at
  position \<open>i\<close> is that of the \<open>i\<close>-th sorted key: it names the product of every billable fact with
  that key, its service, metric and unit are those of a rate of the card whose identity is the
  fact's, and its subtotal (in line tax mode also its tax and total) is what that rate charges for
  the line's quantity.
\<close>

theorem draft_lines_priced:
  assumes "BuildDraftInvoice v facts rates = Inr w" and "\<forall>f \<in> set facts. is_int64 (uf_Quantity f)"
    and "BillableUsageFacts facts rates = Inr billable" and "\<forall>f \<in> set billable. nul_free f"
    and "i < length (iv_Lines w)" and "f \<in> set billable"
    and "fact_key f = sorted_list_of_set (fact_key ` set billable) ! i"
  shows "\<exists>r \<in> set rates. line_terms (iv_TaxMode w) f r (iv_Lines w ! i)"
proof -
  from assms(1,3) obtain m aggs built taxed where
      index: "index_rates (iv_PricingVersionID v) [] rates = Inr m"
      and aggs: "aggregate_facts (map_of m) [] billable = Inr aggs"
      and built: "build_lines (map_of m) aggs (sort (map fst aggs)) (draft_start v) = Inr built"
      and taxed: "tax_step built = Inr taxed" and ok: "draft_tax_ok (default_mode v)"
      and w: "w = draft_finish taxed"
    by (elim BuildDraftInvoice_stages) auto
  have "set billable \<subseteq> set facts" using BillableUsageFacts_Inr [OF assms(3)] by auto
  then have rep: "represents aggs billable" and rate: "map_of m (fact_rate_key f) \<noteq> None"
    using aggregate_facts_represents [OF aggs represents_empty] assms(2,6) by auto
  note stage = build_lines_stage [OF ok built] and shape = build_lines_shape [OF built]
  note step = tax_step_Inr [OF stage(1,3) taxed]
  have len: "length (iv_Lines taxed) = length (iv_Lines built)" using arg_cong [OF step(4), of length] by simp
  then have i: "i < length (iv_Lines built)" using assms(5) by (simp add: w draft_finish_def)
  have mode: "iv_TaxMode built = iv_TaxMode (draft_start v)" "iv_TaxMode w = iv_TaxMode built"
    using same_header_simps(1) [OF stage(2)] same_header_simps(1) [OF step(2)]
    by (simp_all add: w draft_finish_def)
  have "line_for (iv_TaxMode (draft_start v)) (map_of m) aggs (sort (map fst aggs) ! i) (iv_Lines built ! i)"
    using shape i by (auto simp: draft_start_def list_all2_conv_all_nth)
  then have "line_for (iv_TaxMode built) (map_of m) aggs (fact_key f) (iv_Lines built ! i)"
    by (simp add: mode represents_keys [OF rep] assms(7))
  from line_for_terms [OF rep this index assms(6) refl _ rate] assms(4,6)
  obtain r where r: "r \<in> set rates" "line_terms (iv_TaxMode built) f r (iv_Lines built ! i)" by blast
  have same: "untaxed (iv_Lines taxed ! i) = untaxed (iv_Lines built ! i)"
    using arg_cong [OF step(4), of "\<lambda>ls. ls ! i"] i len by simp
  have "line_terms (iv_TaxMode built) f r (iv_Lines taxed ! i)"
  proof (cases "iv_TaxMode built = TaxModeInvoiceTotal")
    case True
    with r(2) line_terms_untaxed [OF same] show ?thesis by (simp only:)
  next
    case False
    with taxed have "taxed = built" by (simp add: tax_step_def)
    with r(2) show ?thesis by simp
  qed
  with r(1) show ?thesis unfolding mode(2) by (auto simp: w draft_finish_def)
qed

section \<open>Properties of the tax allocation, of issue and of settlement\<close>


lemma validate_reissue:
  "ValidateInvoiceTotals (v\<lparr>iv_State := s, iv_InvoiceNumber := n, iv_IssuedAt := i, iv_DueAt := d,
      iv_Version := k, iv_UpdatedAt := u\<rparr>) = Inr () \<longleftrightarrow> ValidateInvoiceTotals v = Inr ()"
  by (simp add: ValidateInvoiceTotals_Inr_iff tax_section_ok_def cong: option.case_cong)


section \<open>A concrete period\<close>

definition sample_rate :: PricingRate where
  "sample_rate = zero_rate\<lparr>pr_ID := ''r1'', pr_ServiceCode := ''video'', pr_MetricCode := ''minutes'',
     pr_Unit := ''min'', pr_UnitPriceMinor := 3, pr_RoundingMode := RoundingHalfUp\<rparr>"

definition sample_fact :: "string \<Rightarrow> string \<Rightarrow> int \<Rightarrow> UsageFact" where
  "sample_fact uid prd q =
     \<lparr>uf_ID = uid, uf_UsageID = uid, uf_OrganizationID = ''org'', uf_ProductID = prd,
      uf_ServiceCode = ''video'', uf_MetricCode = ''minutes'', uf_Quantity = q, uf_QuantityScale = 0,
      uf_Unit = ''min'', uf_WindowStart = 1, uf_WindowEnd = 2, uf_Source = [], uf_SourceSHA256 = [],
      uf_OTAGrant = None, uf_OTAStorageObject = None\<rparr>"

definition sample_facts :: "UsageFact list" where
  "sample_facts = [sample_fact ''u3'' ''cam'' 7, sample_fact ''u1'' ''bell'' 5, sample_fact ''u2'' ''cam'' 4]"

definition sample_profile :: BillingProfile where
  "sample_profile =
     \<lparr>bp_OwnershipVersion = None, bp_RequiresConfiguration = False, bp_OrganizationID = ''org'',
      bp_LegalName = ''Org'', bp_TaxIdentifier = [], bp_BillingAddress = [], bp_ContactEmail = [],
      bp_Locale = [], bp_Timezone = [], bp_DeliveryPreference = [], bp_Version = 1,
      bp_CreatedAt = 0, bp_UpdatedAt = 0\<rparr>"

definition sample_header :: Invoice where
  "sample_header =
     \<lparr>iv_ID = ''inv'', iv_InvoiceNumber = [], iv_OrganizationID = ''org'', iv_AccountID = ''acct'',
      iv_PeriodID = ''p'', iv_PricingVersionID = ''v1'', iv_TaxMode = TaxModeInvoiceTotal,
      iv_InvoiceTaxRateBasisPoints = Some 500, iv_InvoiceTaxRoundingMode = RoundingHalfUp,
      iv_InvoiceTaxCategory = ''vat'', iv_Currency = TWD, iv_State = InvoiceStateUnset,
      iv_PeriodStart = 0, iv_PeriodEnd = 10, iv_SubtotalMinor = 0, iv_TaxMinor = 0, iv_TotalMinor = 0,
      iv_AmountSettledMinor = 0, iv_AmountDueMinor = 0, iv_Recipient = sample_profile, iv_Lines = [],
      iv_Document = None, iv_SettlementLedgerID = [], iv_SettlementActivityID = [], iv_IssuedAt = None,
      iv_DueAt = None, iv_SettledAt = None, iv_Version = 0, iv_CreatedAt = 0, iv_UpdatedAt = 0\<rparr>"

definition sample_draft :: Invoice where
  "sample_draft = projr (BuildDraftInvoice sample_header sample_facts [sample_rate])"

lemma sample_builds: "BuildDraftInvoice sample_header sample_facts [sample_rate] = Inr sample_draft"
  by code_simp

lemma sample_int64: "\<forall>f \<in> set sample_facts. is_int64 (uf_Quantity f)"
  by (simp add: sample_facts_def sample_fact_def int64_defs)

lemma sample_billable: "BillableUsageFacts sample_facts [sample_rate] = Inr sample_facts"
  by code_simp

theorem draft_bills_each_fact_once_witness:
  "mset (concat (map il_UsageFactRefs (iv_Lines sample_draft))) = mset [''u1'', ''u2'', ''u3''] \<and>
   (\<Sum>l\<leftarrow>iv_Lines sample_draft. il_Quantity l) = 16"
  using draft_bills_each_fact_once [OF sample_builds sample_int64] unfolding sample_billable
  by (auto simp: sample_facts_def sample_fact_def)

theorem draft_is_consistent_witness:
  "ValidateInvoiceTotals sample_draft = Inr () \<and> iv_State sample_draft = InvoiceStateDraft \<and>
   iv_TotalMinor sample_draft = iv_SubtotalMinor sample_draft + iv_TaxMinor sample_draft"
  using draft_is_consistent [OF sample_builds] by blast

theorem draft_lines_priced_witness:
  "\<exists>r \<in> set [sample_rate]. line_terms TaxModeInvoiceTotal (sample_fact ''u3'' ''cam'' 7) r (iv_Lines sample_draft ! 1)"
proof -
  have "iv_TaxMode sample_draft = TaxModeInvoiceTotal" "1 < length (iv_Lines sample_draft)" by code_simp+
  moreover have "sample_fact ''u3'' ''cam'' 7 \<in> set sample_facts" by (simp add: sample_facts_def)
  moreover have "\<forall>f \<in> set sample_facts. nul_free f"
    by (simp add: sample_facts_def sample_fact_def nul_free_def)
  moreover have "fact_key (sample_fact ''u3'' ''cam'' 7) = sorted_list_of_set (fact_key ` set sample_facts) ! 1"
    by code_simp
  ultimately show ?thesis
    using draft_lines_priced [OF sample_builds sample_int64 sample_billable, of 1 "sample_fact ''u3'' ''cam'' 7"]
    by simp
qed



end
