(* ===== verification/Payment_Core.thy ===== *)
theory Payment_Core
  imports Currency_Code
begin

text \<open>
  Package \<^verbatim>\<open>internal/payment\<close>: the data of the payment domain (\<^verbatim>\<open>types.go\<close>,
  \<^verbatim>\<open>orchestration.go\<close>, \<^verbatim>\<open>provider.go\<close>) and its pure decisions: amounts and balances
  (\<^verbatim>\<open>money.go\<close>), the intent state machine (\<^verbatim>\<open>intent.go\<close>), the automatic top-up policy
  (\<^verbatim>\<open>policy.go\<close>), the daily window (\<^verbatim>\<open>time.go\<close>) and provider results (\<^verbatim>\<open>provider.go\<close>).
  A Go string type with named constants is a datatype with one constructor per constant and one
  that carries any other string.
\<close>

section \<open>Errors\<close>

text \<open>
  The sentinel errors of the packages, one constructor each; \<open>PgError\<close> carries a code and
  a constraint name as PostgreSQL reports them.
\<close>

datatype error =
    ErrInvalidCurrency | ErrInvalidAmount | ErrBalanceOverflow | ErrInvalidDirection
  | ErrInvalidReason | ErrInvalidState | ErrInvalidTransition | ErrInvalidPolicy
  | ErrPaymentMethodInactive | ErrCapabilityUnsupported
  | ErrNoRows | ErrNotFound | ErrConflict | ErrIdempotencyConflict | ErrAccountClosed
  | ErrProviderReversalRequired | ErrLeaseConflict | ErrJobNotActionable
  | ErrOwnershipEvidenceMissing | ErrOwnershipVersionConflict | ErrHandoffFenced
  | ErrSetupInvalidated
  | ErrSettlementEvidenceStale | ErrHandoffParticipant | ErrHandoffNotConfirmable
  | ErrCloudClosureNotReady | ErrCloudClosureCommandRetired | ErrMarshalTime
  | ErrIdentityInvalid | ErrUnavailable | ErrDenied | ErrVersion | ErrTransition | ErrSnapshot
  | GoPanic | PgError string string

section \<open>Data (types.go, orchestration.go)\<close>

type_synonym Currency = Code

datatype AccountState =
    AccountStateActive | AccountStateAttentionRequired | AccountStateSuspended | AccountStateClosed
  | AccountStateOther string

record CommercialAccount =
  ca_ID :: string
  ca_OrganizationID :: string
  ca_Currency :: Currency
  ca_AvailableBalanceMinor :: int
  ca_State :: AccountState
  ca_Version :: int
  ca_CreatedAt :: instant
  ca_UpdatedAt :: instant

datatype LedgerDirection =
    LedgerDirectionCredit | LedgerDirectionDebit | LedgerDirectionOther string

datatype LedgerReason =
    LedgerReasonInvoiceDebit | LedgerReasonUsageAdjustmentDebit | LedgerReasonManualAdjustmentDebit
  | LedgerReasonPaymentTopUpCredit | LedgerReasonManualAdjustmentCredit
  | LedgerReasonRefundDebit | LedgerReasonChargebackDebit
  | LedgerReasonOther string

record LedgerEntry =
  le_ID :: string
  le_AccountID :: string
  le_Direction :: LedgerDirection
  le_AmountMinor :: int
  le_Currency :: Currency
  le_Reason :: LedgerReason
  le_IdempotencyScope :: string
  le_IdempotencyKey :: string
  le_ExternalType :: string
  le_ExternalID :: string
  le_BalanceAfterMinor :: int
  le_ActorType :: string
  le_ActorID :: string
  le_RequestID :: string
  le_CreatedAt :: instant

record ProviderCapabilities =
  pc_HostedSetup :: bool
  pc_HostedCharge :: bool
  pc_VaultedMethod :: bool
  pc_MerchantInitiatedCharge :: bool
  pc_StatusQuery :: bool
  pc_Webhook :: bool
  pc_Refund :: bool
  pc_RequiresCustomerAction :: bool

record PaymentConsent =
  pco_ID :: string
  pco_AccountID :: string
  pco_ConsentType :: string
  pco_TextVersion :: string
  pco_TextSHA256 :: string
  pco_AcceptedActorType :: string
  pco_AcceptedActorID :: string
  pco_AcceptedAt :: instant
  pco_Locale :: string
  pco_Source :: string
  pco_RevokedAt :: "instant option"
  pco_RevocationReason :: string
  pco_CreatedAt :: instant
  pco_UpdatedAt :: instant

datatype PaymentMethodStatus =
    PaymentMethodStatusPending | PaymentMethodStatusActive | PaymentMethodStatusExpired
  | PaymentMethodStatusRevoked | PaymentMethodStatusFailed | PaymentMethodStatusOther string

record PaymentMethod =
  pm_ID :: string
  pm_AccountID :: string
  pm_Provider :: string
  pm_Status :: PaymentMethodStatus
  pm_CardBrand :: string
  pm_LastFour :: string
  pm_ExpiryMonth :: "int option"
  pm_ExpiryYear :: "int option"
  pm_Capabilities :: ProviderCapabilities
  pm_ConsentID :: string
  pm_CreatedAt :: instant
  pm_UpdatedAt :: instant

record AutoTopUpPolicy =
  atp_ID :: string
  atp_AccountID :: string
  atp_Enabled :: bool
  atp_ThresholdMinor :: int
  atp_TopUpAmountMinor :: int
  atp_Currency :: Currency
  atp_PaymentMethodID :: string
  atp_DailyAttemptLimit :: int
  atp_DailyAmountLimitMinor :: int
  atp_CooldownSeconds :: int
  atp_Generation :: int
  atp_Version :: int
  atp_Armed :: bool
  atp_ConsecutiveFailureCount :: int
  atp_LastTriggeredAt :: "instant option"
  atp_LastSucceededAt :: "instant option"
  atp_ConsentID :: string
  atp_CreatedAt :: instant
  atp_UpdatedAt :: instant

datatype PaymentIntentReason =
    PaymentIntentReasonManualTopUp | PaymentIntentReasonAutoTopUp | PaymentIntentReasonOther string

datatype PaymentIntentState =
    PaymentIntentStateCreated | PaymentIntentStateProcessing | PaymentIntentStateAuthorized
  | PaymentIntentStateRequiresAction | PaymentIntentStateUnknown | PaymentIntentStateSucceeded
  | PaymentIntentStateFailed | PaymentIntentStateCanceled | PaymentIntentStateOther string

record PaymentIntent =
  pi_ID :: string
  pi_AccountID :: string
  pi_AmountMinor :: int
  pi_Currency :: Currency
  pi_Reason :: PaymentIntentReason
  pi_PolicyGeneration :: "int option"
  pi_TriggerLedgerEntryID :: string
  pi_Provider :: string
  pi_PaymentMethodID :: string
  pi_State :: PaymentIntentState
  pi_IdempotencyKey :: string
  pi_MerchantOrderReference :: string
  pi_ProviderTransactionReference :: string
  pi_CorrelationID :: string
  pi_CreatedAt :: instant
  pi_UpdatedAt :: instant
  pi_CompletedAt :: "instant option"

datatype ProviderOperation =
    ProviderOperationSetup | ProviderOperationCharge | ProviderOperationQuery
  | ProviderOperationCancel | ProviderOperationRefund | ProviderOperationOther string

record PaymentAttempt =
  pa_ID :: string
  pa_IntentID :: string
  pa_Operation :: ProviderOperation
  pa_AttemptNumber :: int
  pa_StartedAt :: instant
  pa_CompletedAt :: "instant option"
  pa_NormalizedResult :: string
  pa_ProviderCode :: string
  pa_RequestSHA256 :: string
  pa_ResponseSHA256 :: string
  pa_NextReconciliationAt :: "instant option"
  pa_CreatedAt :: instant

datatype ReconciliationReason =
    ReconciliationReasonCharge | ReconciliationReasonUnknown | ReconciliationReasonWebhook
  | ReconciliationReasonCredit | ReconciliationReasonRefund

datatype ReconciliationStatus =
    ReconciliationStatusPending | ReconciliationStatusLeased | ReconciliationStatusCompleted
  | ReconciliationStatusFailed

record ReconciliationJob =
  rj_ID :: string
  rj_IntentID :: string
  rj_Reason :: ReconciliationReason
  rj_Status :: ReconciliationStatus
  rj_DueAt :: instant
  rj_AttemptCount :: int
  rj_LeasedAt :: "instant option"
  rj_LeaseOwner :: string
  rj_LastError :: string
  rj_CreatedAt :: instant
  rj_UpdatedAt :: instant

record WebhookReceipt =
  wr_ID :: string
  wr_Provider :: string
  wr_ProviderEventReference :: string
  wr_PayloadSHA256 :: string
  wr_VerificationResult :: string
  wr_IntentID :: string
  wr_NormalizedEventType :: string
  wr_ProcessingState :: string
  wr_SafeSummary :: "(string \<times> string) list"
  wr_ReceivedAt :: instant
  wr_ProcessedAt :: "instant option"
  wr_CreatedAt :: instant
  wr_UpdatedAt :: instant

section \<open>Amounts and balances (money.go)\<close>

definition ValidateCurrency :: "Currency \<Rightarrow> error + unit" where
  "ValidateCurrency code = (if \<not> CanSettle code then Inl ErrInvalidCurrency else Inr ())"

definition ValidateChargeAmount :: "Currency \<Rightarrow> int \<Rightarrow> error + unit" where
  "ValidateChargeAmount currency amountMinor =
     bindE (ValidateCurrency currency)
       (\<lambda>_. if amountMinor \<le> 0 then Inl ErrInvalidAmount else Inr ())"

definition ValidateLedgerReason :: "LedgerDirection \<Rightarrow> LedgerReason \<Rightarrow> error + unit" where
  "ValidateLedgerReason direction reason =
     (case direction of
        LedgerDirectionCredit \<Rightarrow>
          (if reason = LedgerReasonPaymentTopUpCredit \<or> reason = LedgerReasonManualAdjustmentCredit
           then Inr () else Inl ErrInvalidReason)
      | LedgerDirectionDebit \<Rightarrow>
          (if reason = LedgerReasonInvoiceDebit \<or> reason = LedgerReasonUsageAdjustmentDebit \<or>
              reason = LedgerReasonManualAdjustmentDebit \<or> reason = LedgerReasonRefundDebit \<or>
              reason = LedgerReasonChargebackDebit
           then Inr () else Inl ErrInvalidReason)
      | LedgerDirectionOther _ \<Rightarrow> Inl ErrInvalidDirection)"

definition ApplyBalance :: "int \<Rightarrow> LedgerDirection \<Rightarrow> int \<Rightarrow> error + int" where
  "ApplyBalance current direction amountMinor =
     (if amountMinor \<le> 0 then Inl ErrInvalidAmount
      else case direction of
        LedgerDirectionCredit \<Rightarrow>
          (if current > wrap64 (maxInt64 - amountMinor) then Inl ErrBalanceOverflow
           else Inr (wrap64 (current + amountMinor)))
      | LedgerDirectionDebit \<Rightarrow>
          (if current < wrap64 (minInt64 + amountMinor) then Inl ErrBalanceOverflow
           else Inr (wrap64 (current - amountMinor)))
      | LedgerDirectionOther _ \<Rightarrow> Inl ErrInvalidDirection)"

definition NormalizeProvider :: "string \<Rightarrow> string" where
  "NormalizeProvider value = ToLower (TrimSpace value)"

section \<open>The intent state machine (intent.go)\<close>

definition ValidIntentState :: "PaymentIntentState \<Rightarrow> bool" where
  "ValidIntentState state = (case state of PaymentIntentStateOther _ \<Rightarrow> False | _ \<Rightarrow> True)"

definition IntentStateTerminal :: "PaymentIntentState \<Rightarrow> bool" where
  "IntentStateTerminal state =
     (state = PaymentIntentStateSucceeded \<or> state = PaymentIntentStateFailed \<or>
      state = PaymentIntentStateCanceled)"

definition CanTransitionIntent :: "PaymentIntentState \<Rightarrow> PaymentIntentState \<Rightarrow> bool" where
  "CanTransitionIntent from to =
     (if from = to then True
      else case from of
        PaymentIntentStateCreated \<Rightarrow>
          to = PaymentIntentStateProcessing \<or> to = PaymentIntentStateCanceled
      | PaymentIntentStateProcessing \<Rightarrow>
          to = PaymentIntentStateAuthorized \<or> to = PaymentIntentStateRequiresAction \<or>
          to = PaymentIntentStateUnknown \<or> to = PaymentIntentStateSucceeded \<or>
          to = PaymentIntentStateFailed \<or> to = PaymentIntentStateCanceled
      | PaymentIntentStateAuthorized \<Rightarrow>
          to = PaymentIntentStateSucceeded \<or> to = PaymentIntentStateUnknown \<or>
          to = PaymentIntentStateFailed \<or> to = PaymentIntentStateCanceled
      | PaymentIntentStateRequiresAction \<Rightarrow>
          to = PaymentIntentStateProcessing \<or> to = PaymentIntentStateAuthorized \<or>
          to = PaymentIntentStateSucceeded \<or> to = PaymentIntentStateUnknown \<or>
          to = PaymentIntentStateFailed \<or> to = PaymentIntentStateCanceled
      | PaymentIntentStateUnknown \<Rightarrow>
          to = PaymentIntentStateAuthorized \<or> to = PaymentIntentStateSucceeded \<or>
          to = PaymentIntentStateFailed \<or> to = PaymentIntentStateCanceled
      | _ \<Rightarrow> False)"

definition ValidateIntentTransition :: "PaymentIntentState \<Rightarrow> PaymentIntentState \<Rightarrow> error + unit" where
  "ValidateIntentTransition from to =
     (if \<not> ValidIntentState from \<or> \<not> ValidIntentState to then Inl ErrInvalidState
      else if \<not> CanTransitionIntent from to then Inl ErrInvalidTransition
      else Inr ())"

section \<open>The daily window (time.go)\<close>

text \<open>
  The billing zone is fixed at UTC+8, so local midnight of the day of \<open>now\<close> is the largest
  multiple of a day not after the local clock, and a calendar day later is 24 hours later.
\<close>

definition dailyLimitOffset :: int where
  "dailyLimitOffset = 8 * 60 * 60 * second_ns"

definition DailyLimitWindow :: "instant \<Rightarrow> instant \<times> instant" where
  "DailyLimitWindow now =
     (let local = now + dailyLimitOffset;
          start = (local div day_ns) * day_ns - dailyLimitOffset
      in (start, start + day_ns))"

section \<open>The automatic top-up policy (policy.go)\<close>

definition MinimumCooldownSeconds :: int where "MinimumCooldownSeconds = 300"

record PolicyEvaluation =
  pe_BalanceMinor :: int
  pe_Now :: instant
  pe_AttemptsToday :: int
  pe_AutomaticAmountTodayMinor :: int
  pe_HasOpenIntent :: bool
  pe_PaymentMethodStatus :: PaymentMethodStatus
  pe_MerchantInitiatedCharge :: bool

datatype PolicyDecisionCode =
    PolicyDecisionTrigger | PolicyDecisionDisabled | PolicyDecisionNotArmed
  | PolicyDecisionThresholdNotCrossed | PolicyDecisionOpenIntent | PolicyDecisionCooldown
  | PolicyDecisionDailyAttemptLimit | PolicyDecisionDailyAmountLimit
  | PolicyDecisionPaymentMethodInactive | PolicyDecisionCapabilityUnsupported

record PolicyDecision =
  pd_Trigger :: bool
  pd_Code :: PolicyDecisionCode

definition no_trigger :: "PolicyDecisionCode \<Rightarrow> PolicyDecision" where
  "no_trigger c = \<lparr>pd_Trigger = False, pd_Code = c\<rparr>"

definition ValidatePolicy :: "AutoTopUpPolicy \<Rightarrow> error + unit" where
  "ValidatePolicy policy =
     (case ValidateChargeAmount (atp_Currency policy) (atp_ThresholdMinor policy) of
        Inl _ \<Rightarrow> Inl ErrInvalidPolicy
      | Inr _ \<Rightarrow>
     (case ValidateChargeAmount (atp_Currency policy) (atp_TopUpAmountMinor policy) of
        Inl _ \<Rightarrow> Inl ErrInvalidPolicy
      | Inr _ \<Rightarrow>
        if atp_PaymentMethodID policy = [] \<or> atp_ConsentID policy = [] \<or>
           atp_DailyAttemptLimit policy \<le> 0 \<or> atp_DailyAttemptLimit policy > 10 \<or>
           atp_DailyAmountLimitMinor policy \<le> 0 \<or>
           atp_CooldownSeconds policy < MinimumCooldownSeconds \<or>
           atp_Generation policy \<le> 0 \<or> atp_Version policy \<le> 0 \<or>
           atp_ConsecutiveFailureCount policy < 0
        then Inl ErrInvalidPolicy
        else if atp_TopUpAmountMinor policy > atp_DailyAmountLimitMinor policy
        then Inl ErrInvalidPolicy
        else Inr ()))"

definition cooldown_until :: "AutoTopUpPolicy \<Rightarrow> instant \<Rightarrow> instant" where
  "cooldown_until policy triggered = triggered + wrap64 (atp_CooldownSeconds policy * second_ns)"

definition EvaluateAutoTopUp :: "AutoTopUpPolicy \<Rightarrow> PolicyEvaluation \<Rightarrow> PolicyDecision" where
  "EvaluateAutoTopUp policy evaluation =
     (if \<not> atp_Enabled policy then no_trigger PolicyDecisionDisabled
      else if \<not> atp_Armed policy then no_trigger PolicyDecisionNotArmed
      else if pe_BalanceMinor evaluation \<ge> atp_ThresholdMinor policy
      then no_trigger PolicyDecisionThresholdNotCrossed
      else if pe_HasOpenIntent evaluation then no_trigger PolicyDecisionOpenIntent
      else if pe_PaymentMethodStatus evaluation \<noteq> PaymentMethodStatusActive
      then no_trigger PolicyDecisionPaymentMethodInactive
      else if \<not> pe_MerchantInitiatedCharge evaluation
      then no_trigger PolicyDecisionCapabilityUnsupported
      else if (case atp_LastTriggeredAt policy of
                 None \<Rightarrow> False
               | Some triggered \<Rightarrow> pe_Now evaluation < cooldown_until policy triggered)
      then no_trigger PolicyDecisionCooldown
      else if pe_AttemptsToday evaluation \<ge> atp_DailyAttemptLimit policy
      then no_trigger PolicyDecisionDailyAttemptLimit
      else if pe_AutomaticAmountTodayMinor evaluation >
              wrap64 (atp_DailyAmountLimitMinor policy - atp_TopUpAmountMinor policy)
      then no_trigger PolicyDecisionDailyAmountLimit
      else \<lparr>pd_Trigger = True, pd_Code = PolicyDecisionTrigger\<rparr>)"

section \<open>Provider results (provider.go)\<close>

datatype ProviderErrorKind =
    ProviderErrorDeclined | ProviderErrorTemporary | ProviderErrorInvalidRequest
  | ProviderErrorAuthentication | ProviderErrorRequiresAction | ProviderErrorUnknown
  | ProviderErrorUnsupported

text \<open>
  A Go error of an adapter: a \<^verbatim>\<open>*ProviderError\<close> with its cause, a plain error, or an error that
  wraps another. \<open>errors_As\<close> finds the first provider error of the chain.
\<close>

datatype go_error =
    PlainError string
  | WrappedError string go_error
  | ProviderError (pe_Kind: ProviderErrorKind) (pe_Code: string) (pe_MayHaveReachedServer: bool)
      (pe_Cause: "go_error option")

fun errors_As :: "go_error \<Rightarrow> go_error option" where
  "errors_As (PlainError _) = None"
| "errors_As (WrappedError _ e) = errors_As e"
| "errors_As (ProviderError k c m cause) = Some (ProviderError k c m cause)"

definition code_char :: "char \<Rightarrow> bool" where
  "code_char c = (c = CHR ''-'' \<or> c = CHR ''_'' \<or> c = CHR ''.'' \<or>
     c \<ge> CHR ''0'' \<and> c \<le> CHR ''9'' \<or> c \<ge> CHR ''A'' \<and> c \<le> CHR ''Z'' \<or>
     c \<ge> CHR ''a'' \<and> c \<le> CHR ''z'')"

definition NormalizeProviderCode :: "string \<Rightarrow> string" where
  "NormalizeProviderCode code =
     (let code = TrimSpace code;
          code = (if length code > 64 then take 64 code else code)
      in if list_all code_char code then code else ''redacted'')"

definition NewProviderError ::
    "ProviderErrorKind \<Rightarrow> string \<Rightarrow> bool \<Rightarrow> go_error option \<Rightarrow> go_error" where
  "NewProviderError kind code mayHaveReachedServer cause =
     ProviderError kind (NormalizeProviderCode code) mayHaveReachedServer cause"

record ProviderResult =
  pr_State :: PaymentIntentState
  pr_ProviderTransactionReference :: string
  pr_ProviderCode :: string
  pr_Evidence :: "(string \<times> string) list"

definition ValidateProviderResult :: "ProviderResult \<Rightarrow> error + unit" where
  "ValidateProviderResult result =
     (case pr_State result of
        PaymentIntentStateAuthorized \<Rightarrow> Inr ()
      | PaymentIntentStateRequiresAction \<Rightarrow> Inr ()
      | PaymentIntentStateUnknown \<Rightarrow> Inr ()
      | PaymentIntentStateSucceeded \<Rightarrow> Inr ()
      | PaymentIntentStateFailed \<Rightarrow> Inr ()
      | PaymentIntentStateCanceled \<Rightarrow> Inr ()
      | _ \<Rightarrow> Inl ErrInvalidState)"

definition StateForProviderError :: "go_error \<Rightarrow> PaymentIntentState" where
  "StateForProviderError err =
     (case errors_As err of
        None \<Rightarrow> PaymentIntentStateUnknown
      | Some providerErr \<Rightarrow>
          (case pe_Kind providerErr of
             ProviderErrorRequiresAction \<Rightarrow> PaymentIntentStateRequiresAction
           | k \<Rightarrow>
             if (k = ProviderErrorDeclined \<or> k = ProviderErrorInvalidRequest \<or>
                 k = ProviderErrorAuthentication) \<and> \<not> pe_MayHaveReachedServer providerErr
             then PaymentIntentStateFailed
             else PaymentIntentStateUnknown))"

section \<open>Amounts: what the guards buy\<close>

lemma ValidateChargeAmount_Inr_iff:
  "ValidateChargeAmount c n = Inr u \<longleftrightarrow> CanSettle c \<and> 0 < n"
  by (auto simp: ValidateChargeAmount_def ValidateCurrency_def bindE_eq_Inr_iff)

lemma ValidateLedgerReason_Inr_iff:
  "ValidateLedgerReason d r = Inr u \<longleftrightarrow>
     (d = LedgerDirectionCredit \<and> r \<in> {LedgerReasonPaymentTopUpCredit, LedgerReasonManualAdjustmentCredit}) \<or>
     (d = LedgerDirectionDebit \<and>
        r \<in> {LedgerReasonInvoiceDebit, LedgerReasonUsageAdjustmentDebit, LedgerReasonManualAdjustmentDebit,
              LedgerReasonRefundDebit, LedgerReasonChargebackDebit})"
  by (cases d) (auto simp: ValidateLedgerReason_def)

text \<open>The signed effect of an entry on a balance, as an integer.\<close>

fun signed_amount :: "LedgerDirection \<Rightarrow> int \<Rightarrow> int" where
  "signed_amount LedgerDirectionCredit n = n"
| "signed_amount LedgerDirectionDebit n = - n"
| "signed_amount (LedgerDirectionOther _) n = 0"

text \<open>
  On machine values the guards of \<open>ApplyBalance\<close> are exact: it adds or subtracts without
  wrapping whenever the true result is representable and refuses otherwise.
\<close>

lemma ApplyBalance_exact_eq:
  assumes "is_int64 current" and "is_int64 amount"
  shows "ApplyBalance current d amount =
     (if amount \<le> 0 then Inl ErrInvalidAmount
      else if d \<noteq> LedgerDirectionCredit \<and> d \<noteq> LedgerDirectionDebit then Inl ErrInvalidDirection
      else if is_int64 (current + signed_amount d amount)
      then Inr (current + signed_amount d amount)
      else Inl ErrBalanceOverflow)"
proof (cases "amount \<le> 0")
  case False
  then have "wrap64 (maxInt64 - amount) = maxInt64 - amount"
    and "wrap64 (minInt64 + amount) = minInt64 + amount"
    using assms by (auto simp: int64_defs intro!: wrap64_id)
  with False assms show ?thesis
    by (cases d) (auto simp: ApplyBalance_def int64_defs intro!: wrap64_id)
qed (simp add: ApplyBalance_def)

lemma ApplyBalance_Inr:
  assumes "is_int64 current" and "is_int64 amount" and "ApplyBalance current d amount = Inr b"
  shows "b = current + signed_amount d amount \<and> is_int64 b \<and> 0 < amount \<and>
    (d = LedgerDirectionCredit \<or> d = LedgerDirectionDebit)"
  using assms(3) by (auto simp: ApplyBalance_exact_eq [OF assms(1,2)] split: if_splits)

section \<open>The state machine: terminal states are final\<close>

lemma ValidateIntentTransition_Inr_iff:
  "ValidateIntentTransition src to = Inr u \<longleftrightarrow>
     ValidIntentState src \<and> ValidIntentState to \<and> CanTransitionIntent src to"
  by (auto simp: ValidateIntentTransition_def)

lemma terminal_absorbing:
  "IntentStateTerminal src \<Longrightarrow> CanTransitionIntent src to \<Longrightarrow> to = src"
  by (cases src) (auto simp: IntentStateTerminal_def CanTransitionIntent_def split: if_splits)

lemma created_unreachable: "CanTransitionIntent src PaymentIntentStateCreated \<Longrightarrow> src = PaymentIntentStateCreated"
  by (cases src) (auto simp: CanTransitionIntent_def split: if_splits)

text \<open>A step of an intent is a transition the validator accepts that changes the state.\<close>

inductive intent_step :: "PaymentIntentState \<Rightarrow> PaymentIntentState \<Rightarrow> bool" where
  advance: "ValidateIntentTransition src to = Inr () \<Longrightarrow> src \<noteq> to \<Longrightarrow> intent_step src to"

inductive_simps intent_step_iff: "intent_step src to"

inductive intent_reachable :: "PaymentIntentState \<Rightarrow> bool" where
  start: "intent_reachable PaymentIntentStateCreated"
| step: "intent_reachable s \<Longrightarrow> intent_step s t \<Longrightarrow> intent_reachable t"

lemma intent_step_valid: "intent_step s t \<Longrightarrow> ValidIntentState s \<and> ValidIntentState t"
  by (simp add: intent_step_iff ValidateIntentTransition_Inr_iff)

lemma intent_step_not_terminal: "intent_step s t \<Longrightarrow> \<not> IntentStateTerminal s"
  using terminal_absorbing by (auto simp: intent_step_iff ValidateIntentTransition_Inr_iff)

lemma intent_reachable_valid: "intent_reachable s \<Longrightarrow> ValidIntentState s"
  by (induction rule: intent_reachable.induct) (auto simp: ValidIntentState_def dest: intent_step_valid)

lemma valid_intent_reachable: "ValidIntentState s \<Longrightarrow> intent_reachable s"
proof -
  have processing: "intent_reachable PaymentIntentStateProcessing"
    by (rule intent_reachable.step [OF intent_reachable.start])
       (simp add: intent_step_iff ValidateIntentTransition_Inr_iff CanTransitionIntent_def ValidIntentState_def)
  assume "ValidIntentState s"
  then show ?thesis
    by (cases s)
       (auto simp: ValidIntentState_def intent_step_iff ValidateIntentTransition_Inr_iff CanTransitionIntent_def
             intro: processing intent_reachable.start intent_reachable.step [OF processing])
qed

text \<open>A non-terminal state can always still reach every terminal outcome but through creation.\<close>

lemma open_can_cancel:
  "ValidIntentState s \<Longrightarrow> \<not> IntentStateTerminal s \<Longrightarrow> intent_step s PaymentIntentStateCanceled"
  by (cases s)
     (auto simp: intent_step_iff ValidateIntentTransition_Inr_iff CanTransitionIntent_def
                 ValidIntentState_def IntentStateTerminal_def)

section \<open>The policy: what a trigger implies\<close>

lemma ValidatePolicy_Inr_iff:
  "ValidatePolicy p = Inr u \<longleftrightarrow>
     CanSettle (atp_Currency p) \<and> 0 < atp_ThresholdMinor p \<and> 0 < atp_TopUpAmountMinor p \<and>
     atp_PaymentMethodID p \<noteq> [] \<and> atp_ConsentID p \<noteq> [] \<and>
     0 < atp_DailyAttemptLimit p \<and> atp_DailyAttemptLimit p \<le> 10 \<and>
     300 \<le> atp_CooldownSeconds p \<and> 0 < atp_Generation p \<and> 0 < atp_Version p \<and>
     0 \<le> atp_ConsecutiveFailureCount p \<and> atp_TopUpAmountMinor p \<le> atp_DailyAmountLimitMinor p"
  by (cases "ValidateChargeAmount (atp_Currency p) (atp_ThresholdMinor p)";
      cases "ValidateChargeAmount (atp_Currency p) (atp_TopUpAmountMinor p)")
     (auto simp: ValidatePolicy_def MinimumCooldownSeconds_def ValidateChargeAmount_Inr_iff
                 ValidateChargeAmount_def ValidateCurrency_def split: if_splits)

lemma EvaluateAutoTopUp_trigger_iff:
  assumes "ValidatePolicy p = Inr ()" and "is_int64 (atp_DailyAmountLimitMinor p)"
  shows "pd_Trigger (EvaluateAutoTopUp p e) \<longleftrightarrow>
     atp_Enabled p \<and> atp_Armed p \<and> pe_BalanceMinor e < atp_ThresholdMinor p \<and>
     \<not> pe_HasOpenIntent e \<and> pe_PaymentMethodStatus e = PaymentMethodStatusActive \<and>
     pe_MerchantInitiatedCharge e \<and>
     (\<forall>t. atp_LastTriggeredAt p = Some t \<longrightarrow> cooldown_until p t \<le> pe_Now e) \<and>
     pe_AttemptsToday e < atp_DailyAttemptLimit p \<and>
     pe_AutomaticAmountTodayMinor e + atp_TopUpAmountMinor p \<le> atp_DailyAmountLimitMinor p"
proof -
  have "wrap64 (atp_DailyAmountLimitMinor p - atp_TopUpAmountMinor p)
      = atp_DailyAmountLimitMinor p - atp_TopUpAmountMinor p"
    using assms by (auto simp: ValidatePolicy_Inr_iff int64_defs intro!: wrap64_id)
  then show ?thesis
    by (cases "atp_LastTriggeredAt p") (auto simp: EvaluateAutoTopUp_def no_trigger_def)
qed

lemma cooldown_until_exact:
  "0 \<le> atp_CooldownSeconds p \<Longrightarrow> atp_CooldownSeconds p \<le> 9223372036 \<Longrightarrow>
   cooldown_until p t = t + atp_CooldownSeconds p * second_ns"
  by (simp add: cooldown_until_def second_ns_def int64_defs)

section \<open>The daily window contains its instant\<close>

lemma DailyLimitWindow_bounds:
  "DailyLimitWindow now = (s, u) \<Longrightarrow>
     s \<le> now \<and> now < u \<and> u = s + day_ns \<and> (s + dailyLimitOffset) mod day_ns = 0"
  by (auto simp: DailyLimitWindow_def Let_def time_units dailyLimitOffset_def)

section \<open>Provider codes and errors\<close>

lemma space_runes_not_code: "w \<in> set space_runes \<Longrightarrow> \<not> code_char (hd w) \<and> \<not> code_char (hd (rev w))"
  by (auto simp: space_runes_def code_char_def less_eq_char_def)

lemma TrimSpace_code: "list_all code_char s \<Longrightarrow> TrimSpace s = s"
proof -
  assume s: "list_all code_char s"
  have head: "\<not> prefix w t" if "w \<noteq> []" and "\<not> code_char (hd w)" and "list_all code_char t" for w t
    using that by (cases w) (auto simp: prefix_def)
  have "strip_front space_runes s = s"
    by (rule strip_front_id) (use s space_runes_not_code head in blast)
  moreover have "strip_front (map rev space_runes) (rev s) = rev s"
  proof (rule strip_front_id)
    fix w assume "w \<in> set (map rev space_runes)" and "w \<noteq> []"
    then show "\<not> prefix w (rev s)"
      using s by (intro head) (auto dest: space_runes_not_code)
  qed
  ultimately show ?thesis by (simp add: TrimSpace_def)
qed

lemma NormalizeProviderCode_safe:
  "list_all code_char (NormalizeProviderCode code) \<and> length (NormalizeProviderCode code) \<le> 64"
  by (auto simp: NormalizeProviderCode_def Let_def code_char_def less_eq_char_def)

lemma NormalizeProviderCode_idem:
  "NormalizeProviderCode (NormalizeProviderCode code) = NormalizeProviderCode code"
  using NormalizeProviderCode_safe [of code]
  by (simp add: NormalizeProviderCode_def [of "NormalizeProviderCode code"] TrimSpace_code)

lemma StateForProviderError_open:
  "StateForProviderError err = PaymentIntentStateFailed \<Longrightarrow>
     \<exists>k c cause. errors_As err = Some (ProviderError k c False cause) \<and>
       k \<in> {ProviderErrorDeclined, ProviderErrorInvalidRequest, ProviderErrorAuthentication}"
  by (induction err rule: errors_As.induct)
     (auto simp: StateForProviderError_def split: ProviderErrorKind.splits if_splits)

lemma StateForProviderError_valid:
  "StateForProviderError err \<in>
     {PaymentIntentStateUnknown, PaymentIntentStateRequiresAction, PaymentIntentStateFailed}"
  by (auto simp: StateForProviderError_def split: option.splits ProviderErrorKind.splits)

lemma ValidateProviderResult_Inr_iff:
  "ValidateProviderResult r = Inr u \<longleftrightarrow>
     ValidIntentState (pr_State r) \<and> pr_State r \<notin> {PaymentIntentStateCreated, PaymentIntentStateProcessing}"
  by (cases "pr_State r") (auto simp: ValidateProviderResult_def ValidIntentState_def)

end
