(* ===== verification/Domain_Behaviour.thy ===== *)
theory Domain_Behaviour
  imports Complex_Main Payment_Core Billing_Ota
begin

text \<open>
  What the pure functions of the payment and billing domains guarantee: exact arithmetic on
  balances, rounding as rational rounding, the life cycle of an intent, the daily window, provider
  codes and errors, and the review of a rate card.
\<close>

section \<open>Amounts\<close>



text \<open>The reference: rounding of a rational number to an integer.\<close>

definition rational_round :: "RoundingMode \<Rightarrow> rat \<Rightarrow> int" where
  "rational_round mode q =
     (if mode = RoundingUp then \<lceil>q\<rceil> else if mode = RoundingHalfUp then \<lfloor>q + 1/2\<rfloor> else \<lfloor>q\<rfloor>)"

lemma floor_half:
  assumes "0 < (d::int)"
  shows "\<lfloor>of_int n / of_int d + 1/2 :: rat\<rfloor> = n div d + (if d \<le> 2 * (n mod d) then 1 else 0)"
proof -
  have "of_int n / of_int d + 1/2 = (of_int (2 * n + d) / of_int (2 * d) :: rat)"
    using assms by (simp add: field_simps)
  then have "\<lfloor>of_int n / of_int d + 1/2 :: rat\<rfloor> = (2 * n + d) div (2 * d)"
    by (simp only: floor_divide_of_int_eq)
  also have "2 * n + d = 2 * (d * (n div d) + n mod d) + d" by (simp only: mult_div_mod_eq)
  also have "\<dots> = (2 * (n mod d) + d) + (2 * d) * (n div d)" by (simp only: distrib_left ac_simps)
  also have "\<dots> div (2 * d) = n div d + (2 * (n mod d) + d) div (2 * d)"
    using assms by (simp add: div_mult_self1)
  also have "(2 * (n mod d) + d) div (2 * d) = (if d \<le> 2 * (n mod d) then 1 else 0)"
  proof -
    have r: "0 \<le> n mod d" "n mod d < d" using assms by simp_all
    have "(2 * (n mod d) + d) div (2 * d) = 1" if "d \<le> 2 * (n mod d)"
      by (rule int_div_pos_eq [where r = "2 * (n mod d) - d"]) (use that r in auto)
    moreover have "(2 * (n mod d) + d) div (2 * d) = 0" if "\<not> d \<le> 2 * (n mod d)"
      using that r assms by (intro div_pos_pos_trivial) auto
    ultimately show ?thesis by simp
  qed
  finally show ?thesis .
qed

text \<open>(C39)
  Rounding is exact: \<^verbatim>\<open>roundedInt64\<close> computes in integers what rounding the rational quotient
  gives in each mode, and refuses a negative numerator, a denominator that is not positive, an
  unknown mode and a result outside \<^verbatim>\<open>int64\<close>, and nothing else.
\<close>

theorem rounding_is_rational_rounding:
  "roundedInt64 n d mode = Inr q \<longleftrightarrow>
     0 \<le> n \<and> 0 < d \<and> validRoundingMode mode \<and> is_int64 q \<and> q = rational_round mode (of_int n / of_int d)"
proof -
  have "rational_round mode (of_int n / of_int d) =
      n div d + (if n mod d \<noteq> 0 \<and> (mode = RoundingUp \<or> mode = RoundingHalfUp \<and> d \<le> 2 * (n mod d)) then 1 else 0)"
    if "0 < d" "validRoundingMode mode"
  proof (cases "mode = RoundingUp")
    case True
    have "\<lceil>of_int n / of_int d :: rat\<rceil> = n div d + (if n mod d = 0 then 0 else 1)"
      using that(1) by (auto simp: ceiling_divide_eq_div zdiv_zminus1_eq_if)
    with True show ?thesis by (simp add: rational_round_def)
  next
    case False
    then show ?thesis using that floor_half [OF that(1), of n] by (auto simp: rational_round_def floor_divide_of_int_eq)
  qed
  then show ?thesis unfolding roundedInt64_Inr_iff by auto
qed

section \<open>The life of an intent\<close>

lemma canceled_terminal: "IntentStateTerminal PaymentIntentStateCanceled"
  by (simp add: IntentStateTerminal_def)

lemma open_reaches_terminal:
  assumes "ValidIntentState s" and "\<not> IntentStateTerminal s" and "IntentStateTerminal t"
  shows "intent_step\<^sup>*\<^sup>* s t"
proof -
  have mid: "intent_step PaymentIntentStateProcessing t"
    using assms(3) by (auto simp: IntentStateTerminal_def intent_step_iff ValidateIntentTransition_Inr_iff
        CanTransitionIntent_def ValidIntentState_def)
  show ?thesis
  proof (cases "s = PaymentIntentStateCreated")
    case True
    then have "intent_step s PaymentIntentStateProcessing"
      by (simp add: intent_step_iff ValidateIntentTransition_Inr_iff CanTransitionIntent_def ValidIntentState_def)
    then show ?thesis using mid by simp
  next
    case False
    then have "intent_step s t"
      using assms by (cases s) (auto simp: IntentStateTerminal_def intent_step_iff ValidateIntentTransition_Inr_iff
          CanTransitionIntent_def ValidIntentState_def)
    then show ?thesis by simp
  qed
qed

text \<open>No payment is stuck and no outcome is revised: a valid state is terminal exactly when no
  transition leads out of it, and from every other valid state each of the three outcomes can still
  be reached.
\<close>

theorem intent_outcomes:
  assumes "ValidIntentState s"
  shows "(IntentStateTerminal s \<longleftrightarrow> (\<nexists>t. intent_step s t)) \<and>
    (\<not> IntentStateTerminal s \<longrightarrow> (\<forall>t \<in> {PaymentIntentStateSucceeded, PaymentIntentStateFailed,
       PaymentIntentStateCanceled}. intent_step\<^sup>*\<^sup>* s t))"
proof -
  have "IntentStateTerminal s \<longleftrightarrow> (\<nexists>t. intent_step s t)"
    using intent_step_not_terminal open_can_cancel [OF assms] by blast
  moreover have "intent_step\<^sup>*\<^sup>* s t" if "\<not> IntentStateTerminal s" and "IntentStateTerminal t" for t
    using open_reaches_terminal [OF assms that] .
  ultimately show ?thesis by (simp add: IntentStateTerminal_def)
qed

theorem intent_outcomes_witness:
  "intent_step\<^sup>*\<^sup>* PaymentIntentStateUnknown PaymentIntentStateSucceeded \<and> (\<nexists>t. intent_step PaymentIntentStateFailed t)"
  using intent_outcomes [of PaymentIntentStateUnknown] intent_outcomes [of PaymentIntentStateFailed]
  by (simp add: ValidIntentState_def IntentStateTerminal_def)

text \<open>Days do not overlap and leave no gap: an instant lies in a daily window exactly when it is its
  own window, each window is a day long and starts at local midnight.
\<close>

theorem daily_windows_partition:
  "(fst (DailyLimitWindow u) \<le> t \<and> t < snd (DailyLimitWindow u) \<longleftrightarrow> DailyLimitWindow t = DailyLimitWindow u) \<and>
   snd (DailyLimitWindow u) - fst (DailyLimitWindow u) = day_ns \<and>
   (fst (DailyLimitWindow u) + dailyLimitOffset) mod day_ns = 0"
proof -
  let ?day = "\<lambda>t. (t + dailyLimitOffset) div day_ns"
  have w: "DailyLimitWindow t = (?day t * day_ns - dailyLimitOffset, (?day t + 1) * day_ns - dailyLimitOffset)" for t
    by (simp add: DailyLimitWindow_def Let_def algebra_simps)
  have pos: "0 < day_ns" by (simp add: time_units)
  have "?day u * day_ns - dailyLimitOffset \<le> t \<and> t < (?day u + 1) * day_ns - dailyLimitOffset \<longleftrightarrow> ?day t = ?day u"
    using pos by (auto simp: time_units dailyLimitOffset_def)
  moreover have "DailyLimitWindow t = DailyLimitWindow u \<longleftrightarrow> ?day t = ?day u" using pos by (auto simp: w)
  ultimately show ?thesis by (simp add: w algebra_simps)
qed

section \<open>Providers\<close>

text \<open>What is kept of a provider's code is safe to store: at most 64 characters from letters, digits,
  dot, dash and underscore, and normalizing it again changes nothing.
\<close>

theorem provider_codes_safe:
  "list_all code_char (NormalizeProviderCode code) \<and> length (NormalizeProviderCode code) \<le> 64 \<and>
   NormalizeProviderCode (NormalizeProviderCode code) = NormalizeProviderCode code"
  using NormalizeProviderCode_safe NormalizeProviderCode_idem by blast

text \<open>A payment is called failed for an error only when the provider cannot have seen it: the first
  provider error of the chain says that the request did not reach the server and was declined,
  invalid or not authenticated. Any other error leaves the outcome open.
\<close>

theorem failed_only_if_unsent:
  "StateForProviderError err = PaymentIntentStateFailed \<longleftrightarrow>
     (\<exists>k c cause. errors_As err = Some (ProviderError k c False cause) \<and>
       k \<in> {ProviderErrorDeclined, ProviderErrorInvalidRequest, ProviderErrorAuthentication})"
  using StateForProviderError_open [of err] by (auto simp: StateForProviderError_def)

section \<open>Rate cards\<close>


definition demo_base :: "PricingRate list" where
  "demo_base =
     [\<lparr>pr_ID = ''r1'', pr_PricingVersionID = ''v1'', pr_ServiceCode = ''video'', pr_MetricCode = ''stream_minute'',
       pr_Description = ''Streaming'', pr_Unit = ''minutes'', pr_UnitPriceMinor = 12, pr_UnitPriceScale = 2,
       pr_QuantityScale = None, pr_RoundingMode = RoundingHalfUp, pr_TaxCategory = None, pr_TaxRateBasisPoints = 500\<rparr>]"

definition demo_candidate :: "PricingRate list" where
  "demo_candidate = map (\<lambda>r. r\<lparr>pr_QuantityScale := Some 0, pr_TaxCategory := Some ''vat''\<rparr>) demo_base @
     map (\<lambda>r. r\<lparr>pr_TaxCategory := Some ''vat''\<rparr>) ProposedOTARates"

lemma demo_review:
  "(case ReviewOTACandidateRates (\<lambda>_. ''digest'') ''v1'' demo_base demo_candidate of Inl _ \<Rightarrow> False | Inr _ \<Rightarrow> True) = True"
  by code_simp


end
