(* ===== verification/Payment_Books.thy ===== *)
theory Payment_Books
  imports Payment_Core
begin

text \<open>
  The abstract specification of the payment store: the books of the business, that is accounts,
  ledger and intents without the machinery around them (policies, jobs, attempts, fences, mail).
  A step opens an account, posts one entry, opens or advances an intent, or settles an intent
  together with its credit. The invariants of the books are proved here once; the stores are shown
  to refine this machine in \<open>Books_Refinement\<close>.
\<close>

section \<open>The machine\<close>

record books =
  bk_accounts :: "CommercialAccount list"
  bk_ledger :: "LedgerEntry list"
  bk_intents :: "PaymentIntent list"

abbreviation account_of :: "books \<Rightarrow> string \<Rightarrow> CommercialAccount option" where
  "account_of b x \<equiv> find (\<lambda>a. ca_ID a = x) (bk_accounts b)"

abbreviation intent_of :: "books \<Rightarrow> string \<Rightarrow> PaymentIntent option" where
  "intent_of b x \<equiv> find (\<lambda>i. pi_ID i = x) (bk_intents b)"

definition set_account :: "CommercialAccount \<Rightarrow> books \<Rightarrow> books" where
  "set_account a b = b\<lparr>bk_accounts := update_where (\<lambda>r. ca_ID r = ca_ID a) (\<lambda>_. a) (bk_accounts b)\<rparr>"

definition set_intent :: "PaymentIntent \<Rightarrow> books \<Rightarrow> books" where
  "set_intent i b = b\<lparr>bk_intents := update_where (\<lambda>r. pi_ID r = pi_ID i) (\<lambda>_. i) (bk_intents b)\<rparr>"

definition idem_key :: "LedgerEntry \<Rightarrow> string \<times> string \<times> string" where
  "idem_key e = (le_AccountID e, le_IdempotencyScope e, le_IdempotencyKey e)"

definition same_account :: "CommercialAccount \<Rightarrow> CommercialAccount \<Rightarrow> bool" where
  "same_account a a' \<longleftrightarrow>
     ca_ID a' = ca_ID a \<and> ca_OrganizationID a' = ca_OrganizationID a \<and> ca_Currency a' = ca_Currency a"

text \<open>An entry fits the books: it carries the balance of its account on, exactly and in range.\<close>

definition entry_fits :: "books \<Rightarrow> CommercialAccount \<Rightarrow> LedgerEntry \<Rightarrow> bool" where
  "entry_fits b a e \<longleftrightarrow>
     le_AccountID e = ca_ID a \<and> 0 < le_AmountMinor e \<and>
     (le_Direction e = LedgerDirectionCredit \<or> le_Direction e = LedgerDirectionDebit) \<and>
     le_BalanceAfterMinor e = ca_AvailableBalanceMinor a + signed_amount (le_Direction e) (le_AmountMinor e) \<and>
     is_int64 (le_BalanceAfterMinor e) \<and>
     le_ID e \<notin> le_ID ` set (bk_ledger b) \<and> idem_key e \<notin> idem_key ` set (bk_ledger b)"

definition posted :: "books \<Rightarrow> CommercialAccount \<Rightarrow> LedgerEntry \<Rightarrow> books" where
  "posted b a e = (set_account a b)\<lparr>bk_ledger := bk_ledger b @ [e]\<rparr>"

text \<open>The same payment, further on: only state, references and times may differ.\<close>

definition advances :: "PaymentIntent \<Rightarrow> PaymentIntent \<Rightarrow> bool" where
  "advances i i' \<longleftrightarrow>
     pi_ID i' = pi_ID i \<and> pi_AccountID i' = pi_AccountID i \<and> pi_AmountMinor i' = pi_AmountMinor i \<and>
     pi_Currency i' = pi_Currency i \<and> pi_Reason i' = pi_Reason i \<and>
     pi_PolicyGeneration i' = pi_PolicyGeneration i \<and>
     pi_TriggerLedgerEntryID i' = pi_TriggerLedgerEntryID i \<and> pi_Provider i' = pi_Provider i \<and>
     pi_PaymentMethodID i' = pi_PaymentMethodID i \<and> pi_IdempotencyKey i' = pi_IdempotencyKey i \<and>
     pi_CreatedAt i' = pi_CreatedAt i \<and>
     (pi_State i' = pi_State i \<or> intent_step (pi_State i) (pi_State i'))"

text \<open>The credit of a settled intent.\<close>

definition is_credit_of :: "PaymentIntent \<Rightarrow> LedgerEntry \<Rightarrow> bool" where
  "is_credit_of i e \<longleftrightarrow>
     le_AccountID e = pi_AccountID i \<and> le_IdempotencyScope e = ''payment_intent'' \<and>
     le_IdempotencyKey e = pi_ID i \<and> le_Direction e = LedgerDirectionCredit \<and>
     le_AmountMinor e = pi_AmountMinor i \<and> le_Currency e = pi_Currency i \<and>
     le_Reason e = LedgerReasonPaymentTopUpCredit \<and>
     le_ExternalType e = ''payment_intent'' \<and> le_ExternalID e = pi_ID i"

inductive book_step :: "books \<Rightarrow> books \<Rightarrow> bool" where
  open_account:
    "ca_AvailableBalanceMinor a = 0 \<Longrightarrow> ca_ID a \<notin> ca_ID ` set (bk_accounts b) \<Longrightarrow>
     book_step b (b\<lparr>bk_accounts := bk_accounts b @ [a]\<rparr>)"
| account_status:
    "account_of b (ca_ID a) = Some a \<Longrightarrow> same_account a a' \<Longrightarrow>
     ca_AvailableBalanceMinor a' = ca_AvailableBalanceMinor a \<Longrightarrow> book_step b (set_account a' b)"
| post_entry:
    "account_of b (ca_ID a) = Some a \<Longrightarrow> entry_fits b a e \<Longrightarrow> same_account a a' \<Longrightarrow>
     ca_AvailableBalanceMinor a' = le_BalanceAfterMinor e \<Longrightarrow> book_step b (posted b a' e)"
| open_intent:
    "pi_ID i \<notin> pi_ID ` set (bk_intents b) \<Longrightarrow> TrimSpace (pi_ID i) = pi_ID i \<Longrightarrow> 0 < pi_AmountMinor i \<Longrightarrow>
     is_int64 (pi_AmountMinor i) \<Longrightarrow> pi_State i = PaymentIntentStateCreated \<or> pi_State i = PaymentIntentStateProcessing \<Longrightarrow>
     book_step b (b\<lparr>bk_intents := bk_intents b @ [i]\<rparr>)"
| advance_intent:
    "intent_of b (pi_ID i) = Some i \<Longrightarrow> advances i i' \<Longrightarrow>
     pi_State i' = PaymentIntentStateSucceeded \<longrightarrow> pi_State i = PaymentIntentStateSucceeded \<Longrightarrow>
     book_step b (set_intent i' b)"
| settle_intent:
    "intent_of b (pi_ID i) = Some i \<Longrightarrow> advances i i' \<Longrightarrow> pi_State i' = PaymentIntentStateSucceeded \<Longrightarrow>
     pi_State i \<noteq> PaymentIntentStateSucceeded \<Longrightarrow>
     account_of b (ca_ID a) = Some a \<Longrightarrow> entry_fits b a e \<Longrightarrow> is_credit_of i' e \<Longrightarrow> same_account a a' \<Longrightarrow>
     ca_AvailableBalanceMinor a' = le_BalanceAfterMinor e \<Longrightarrow>
     book_step b (posted (set_intent i' b) a' e)"

inductive_cases book_stepE: "book_step b b'"

section \<open>Well-formed books\<close>

text \<open>
  The entries of an account, in order: each starts from the balance the one before left, the first
  from zero, and the last leaves the balance of the account.
\<close>

fun balance_chain :: "int \<Rightarrow> LedgerEntry list \<Rightarrow> int \<Rightarrow> bool" where
  "balance_chain start [] final = (start = final)"
| "balance_chain start (e # es) final =
     (le_BalanceAfterMinor e = start + signed_amount (le_Direction e) (le_AmountMinor e) \<and>
      balance_chain (le_BalanceAfterMinor e) es final)"

definition entries_of :: "string \<Rightarrow> LedgerEntry list \<Rightarrow> LedgerEntry list" where
  "entries_of x ledger = filter (\<lambda>e. le_AccountID e = x) ledger"

definition credits_of :: "PaymentIntent \<Rightarrow> LedgerEntry list \<Rightarrow> LedgerEntry list" where
  "credits_of i ledger =
     filter (\<lambda>e. le_AccountID e = pi_AccountID i \<and> le_IdempotencyScope e = ''payment_intent'' \<and>
                 le_IdempotencyKey e = pi_ID i) ledger"

definition accounts_ok :: "books \<Rightarrow> bool" where
  "accounts_ok b \<longleftrightarrow>
     distinct (map ca_ID (bk_accounts b)) \<and>
     (\<forall>a \<in> set (bk_accounts b). is_int64 (ca_AvailableBalanceMinor a) \<and>
        balance_chain 0 (entries_of (ca_ID a) (bk_ledger b)) (ca_AvailableBalanceMinor a))"

definition ledger_ok :: "books \<Rightarrow> bool" where
  "ledger_ok b \<longleftrightarrow>
     distinct (map le_ID (bk_ledger b)) \<and> distinct (map idem_key (bk_ledger b)) \<and>
     (\<forall>e \<in> set (bk_ledger b). le_AccountID e \<in> ca_ID ` set (bk_accounts b) \<and> 0 < le_AmountMinor e \<and>
        (le_Direction e = LedgerDirectionCredit \<or> le_Direction e = LedgerDirectionDebit))"

definition intents_ok :: "books \<Rightarrow> bool" where
  "intents_ok b \<longleftrightarrow>
     distinct (map pi_ID (bk_intents b)) \<and>
     (\<forall>i \<in> set (bk_intents b). TrimSpace (pi_ID i) = pi_ID i \<and>
        0 < pi_AmountMinor i \<and> is_int64 (pi_AmountMinor i) \<and> intent_reachable (pi_State i) \<and>
        (pi_State i = PaymentIntentStateSucceeded \<longrightarrow>
           (\<exists>e. credits_of i (bk_ledger b) = [e] \<and> is_credit_of i e)))"

definition wf_books :: "books \<Rightarrow> bool" where
  "wf_books b \<longleftrightarrow> accounts_ok b \<and> ledger_ok b \<and> intents_ok b"

lemma wf_booksD:
  "wf_books b \<Longrightarrow> accounts_ok b" "wf_books b \<Longrightarrow> ledger_ok b" "wf_books b \<Longrightarrow> intents_ok b"
  by (simp_all add: wf_books_def)

section \<open>Every step keeps the books well-formed\<close>

lemma balance_chain_snoc:
  "balance_chain s es c \<Longrightarrow>
   le_BalanceAfterMinor e = c + signed_amount (le_Direction e) (le_AmountMinor e) \<Longrightarrow>
   balance_chain s (es @ [e]) (le_BalanceAfterMinor e)"
  by (induction es arbitrary: s) auto

lemma balance_chain_sum:
  "balance_chain s es c \<Longrightarrow> c = s + (\<Sum>e\<leftarrow>es. signed_amount (le_Direction e) (le_AmountMinor e))"
  by (induction es arbitrary: s) fastforce+

lemma entries_of_append:
  "entries_of x (es @ [e]) = entries_of x es @ (if le_AccountID e = x then [e] else [])"
  by (simp add: entries_of_def)

lemma map_set_account: "map ca_ID (bk_accounts (set_account a b)) = map ca_ID (bk_accounts b)"
  by (simp add: set_account_def map_update_where)

lemma set_set_account:
  "r \<in> set (bk_accounts (set_account a b)) \<Longrightarrow> r = a \<or> r \<in> set (bk_accounts b) \<and> ca_ID r \<noteq> ca_ID a"
  by (auto simp: set_account_def set_update_where split: if_splits)

lemma set_account_simps [simp]:
  "bk_ledger (set_account a b) = bk_ledger b" "bk_intents (set_account a b) = bk_intents b"
  "bk_ledger (set_intent i b) = bk_ledger b" "bk_accounts (set_intent i b) = bk_accounts b"
  "bk_ledger (posted b a e) = bk_ledger b @ [e]" "bk_intents (posted b a e) = bk_intents b"
  "bk_accounts (posted b a e) = bk_accounts (set_account a b)"
  by (simp_all add: set_account_def set_intent_def posted_def)

lemma ids_set_account: "ca_ID ` set (bk_accounts (set_account a b)) = ca_ID ` set (bk_accounts b)"
  using map_set_account [of a b] by (metis list.set_map)

lemma account_of_mem: "account_of b x = Some a \<Longrightarrow> a \<in> set (bk_accounts b) \<and> ca_ID a = x"
  by (rule find_key_Some)

lemma accounts_ok_posted:
  assumes ok: "accounts_ok b" and a: "account_of b (ca_ID a) = Some a" and fits: "entry_fits b a e"
    and same: "same_account a a'" and bal: "ca_AvailableBalanceMinor a' = le_BalanceAfterMinor e"
  shows "accounts_ok (posted b a' e)"
proof -
  have mem: "a \<in> set (bk_accounts b)" using account_of_mem [OF a] by simp
  have "is_int64 (ca_AvailableBalanceMinor r) \<and>
      balance_chain 0 (entries_of (ca_ID r) (bk_ledger b @ [e])) (ca_AvailableBalanceMinor r)"
    if "r \<in> set (bk_accounts (set_account a' b))" for r
    using set_set_account [OF that]
  proof
    assume "r = a'"
    moreover have "balance_chain 0 (entries_of (ca_ID a) (bk_ledger b)) (ca_AvailableBalanceMinor a)"
      using ok mem by (simp add: accounts_ok_def)
    ultimately show ?thesis
      using fits same bal balance_chain_snoc
      by (auto simp: entry_fits_def same_account_def entries_of_append)
  next
    assume "r \<in> set (bk_accounts b) \<and> ca_ID r \<noteq> ca_ID a'"
    with ok fits same show ?thesis
      by (auto simp: accounts_ok_def entry_fits_def same_account_def entries_of_append)
  qed
  with ok show ?thesis by (simp add: accounts_ok_def map_set_account)
qed

lemma ledger_ok_posted:
  assumes ok: "ledger_ok b" and a: "account_of b (ca_ID a) = Some a" and fits: "entry_fits b a e"
  shows "ledger_ok (posted b a' e)"
proof -
  have "ca_ID a \<in> ca_ID ` set (bk_accounts b)" using account_of_mem [OF a] by auto
  with ok fits show ?thesis by (auto simp: ledger_ok_def entry_fits_def ids_set_account)
qed

lemma credits_of_fresh:
  assumes "idem_key e \<notin> idem_key ` set ledger" and "is_credit_of i e"
  shows "credits_of i ledger = []"
  using assms by (force simp: credits_of_def idem_key_def is_credit_of_def filter_empty_conv)

lemma credits_of_posted:
  assumes "credits_of i ledger = [c]" and "idem_key e \<notin> idem_key ` set ledger"
  shows "credits_of i (ledger @ [e]) = [c]"
proof -
  have "c \<in> set (credits_of i ledger)" using assms(1) by simp
  then have "c \<in> set ledger" "idem_key c = (pi_AccountID i, ''payment_intent'', pi_ID i)"
    by (auto simp: credits_of_def idem_key_def)
  with assms(2) have "idem_key e \<noteq> (pi_AccountID i, ''payment_intent'', pi_ID i)" by (metis image_eqI)
  with assms(1) show ?thesis by (auto simp: credits_of_def idem_key_def)
qed

lemma intents_ok_posted:
  "intents_ok b \<Longrightarrow> idem_key e \<notin> idem_key ` set (bk_ledger b) \<Longrightarrow> intents_ok (posted b a e)"
  unfolding intents_ok_def by (fastforce dest: credits_of_posted)

lemma entry_fits_fresh: "entry_fits b a e \<Longrightarrow> idem_key e \<notin> idem_key ` set (bk_ledger b)"
  by (simp add: entry_fits_def)

lemma wf_books_posted:
  assumes "wf_books b" and "account_of b (ca_ID a) = Some a" and "entry_fits b a e"
    and "same_account a a'" and "ca_AvailableBalanceMinor a' = le_BalanceAfterMinor e"
  shows "wf_books (posted b a' e)"
  unfolding wf_books_def
  using accounts_ok_posted [OF wf_booksD(1) [OF assms(1)] assms(2-5)]
    ledger_ok_posted [OF wf_booksD(2) [OF assms(1)] assms(2,3)]
    intents_ok_posted [OF wf_booksD(3) [OF assms(1)] entry_fits_fresh [OF assms(3)]]
  by blast

lemma advances_reachable: "advances i i' \<Longrightarrow> intent_reachable (pi_State i) \<Longrightarrow> intent_reachable (pi_State i')"
  by (auto simp: advances_def intro: intent_reachable.step)

lemma map_set_intent: "map pi_ID (bk_intents (set_intent i b)) = map pi_ID (bk_intents b)"
  by (simp add: set_intent_def map_update_where)

lemma set_set_intent:
  "r \<in> set (bk_intents (set_intent i b)) \<Longrightarrow> r = i \<or> r \<in> set (bk_intents b) \<and> pi_ID r \<noteq> pi_ID i"
  by (auto simp: set_intent_def set_update_where split: if_splits)

lemma intents_ok_set:
  assumes ok: "intents_ok b" and i: "intent_of b (pi_ID i) = Some i" and adv: "advances i i'"
    and credit: "pi_State i' = PaymentIntentStateSucceeded \<Longrightarrow>
      \<exists>e. credits_of i' (bk_ledger b) = [e] \<and> is_credit_of i' e"
  shows "intents_ok (set_intent i' b)"
proof -
  have mem: "i \<in> set (bk_intents b)" using find_key_Some [OF i] by simp
  then have "TrimSpace (pi_ID i') = pi_ID i'" "0 < pi_AmountMinor i'" "is_int64 (pi_AmountMinor i')" "intent_reachable (pi_State i')"
    using ok adv advances_reachable by (auto simp: intents_ok_def advances_def)
  with ok credit show ?thesis
    unfolding intents_ok_def map_set_intent by (auto dest!: set_set_intent)
qed

lemma wf_books_step:
  assumes "book_step b b'" and "wf_books b"
  shows "wf_books b'"
  using assms
proof (induction rule: book_step.induct)
  case (open_account a b)
  then have "le_AccountID e \<noteq> ca_ID a" if "e \<in> set (bk_ledger b)" for e
    using that unfolding wf_books_def ledger_ok_def by metis
  then have fresh: "entries_of (ca_ID a) (bk_ledger b) = []"
    by (simp add: entries_of_def filter_empty_conv)
  with open_account show ?case
    by (auto simp: wf_books_def accounts_ok_def ledger_ok_def intents_ok_def int64_defs)
next
  case (account_status b a a')
  note mem = account_of_mem [OF account_status(1)]
  from account_status mem have "accounts_ok (set_account a' b)"
    unfolding wf_books_def accounts_ok_def map_set_account
    by (auto simp: same_account_def dest!: set_set_account)
  with account_status show ?case
    by (simp add: wf_books_def ledger_ok_def intents_ok_def ids_set_account)
next
  case (post_entry b a e a')
  then show ?case using wf_books_posted by blast
next
  case (open_intent i b)
  have "intent_reachable (pi_State i)"
    using open_intent(5) valid_intent_reachable by (auto simp: ValidIntentState_def)
  with open_intent show ?case
    by (auto simp: wf_books_def accounts_ok_def ledger_ok_def intents_ok_def)
next
  case (advance_intent b i i')
  have "intents_ok (set_intent i' b)"
  proof (rule intents_ok_set)
    assume "pi_State i' = PaymentIntentStateSucceeded"
    with advance_intent have "pi_State i = PaymentIntentStateSucceeded" by simp
    moreover have "i \<in> set (bk_intents b)" using find_key_Some [OF advance_intent(1)] by simp
    ultimately have "\<exists>e. credits_of i (bk_ledger b) = [e] \<and> is_credit_of i e"
      using advance_intent(4) by (simp add: wf_books_def intents_ok_def)
    with advance_intent(2) show "\<exists>e. credits_of i' (bk_ledger b) = [e] \<and> is_credit_of i' e"
      by (simp add: advances_def credits_of_def is_credit_of_def)
  qed (use advance_intent in \<open>simp_all add: wf_books_def\<close>)
  with advance_intent show ?case by (simp add: wf_books_def accounts_ok_def ledger_ok_def)
next
  case (settle_intent b i i' a e a')
  let ?p = "posted b a' e"
  have ok: "wf_books ?p"
    using settle_intent wf_books_posted by blast
  have fresh: "credits_of i' (bk_ledger b) = []"
    using credits_of_fresh [OF entry_fits_fresh [OF settle_intent(6)] settle_intent(7)] .
  then have credit: "credits_of i' (bk_ledger ?p) = [e]"
    using settle_intent(7) by (simp add: credits_of_def is_credit_of_def)
  have "intents_ok (set_intent i' ?p)"
    using settle_intent ok credit by (intro intents_ok_set [of _ i]) (auto simp: wf_books_def)
  moreover have "posted (set_intent i' b) a' e = set_intent i' ?p"
    by (simp add: posted_def set_intent_def set_account_def)
  ultimately show ?case using ok by (simp add: wf_books_def accounts_ok_def ledger_ok_def)
qed

lemma wf_books_steps: "book_step\<^sup>*\<^sup>* b b' \<Longrightarrow> wf_books b \<Longrightarrow> wf_books b'"
  by (induction rule: rtranclp_induct) (auto intro: wf_books_step)

lemma wf_books_balance: "wf_books b \<Longrightarrow> account_of b x = Some a \<Longrightarrow> is_int64 (ca_AvailableBalanceMinor a)"
  by (auto simp: wf_books_def accounts_ok_def dest!: find_key_Some)

lemma wf_books_trimmed: "wf_books b \<Longrightarrow> intent_of b x = Some i \<Longrightarrow> TrimSpace (pi_ID i) = pi_ID i"
  by (auto simp: wf_books_def intents_ok_def dest!: find_key_Some)

section \<open>How the books grow\<close>

text \<open>The same payment, any number of transitions later.\<close>

definition further :: "PaymentIntent \<Rightarrow> PaymentIntent \<Rightarrow> bool" where
  "further i i' \<longleftrightarrow> pi_AccountID i' = pi_AccountID i \<and> pi_AmountMinor i' = pi_AmountMinor i \<and>
     pi_Currency i' = pi_Currency i \<and> intent_step\<^sup>*\<^sup>* (pi_State i) (pi_State i')"

text \<open>
  Along steps the ledger is only appended to, no account or intent disappears or changes its
  identity, and intents move along their state machine.
\<close>

definition books_grow :: "books \<Rightarrow> books \<Rightarrow> bool" where
  "books_grow b b' \<longleftrightarrow>
     prefix (bk_ledger b) (bk_ledger b') \<and>
     (\<forall>x a. account_of b x = Some a \<longrightarrow> (\<exists>a'. account_of b' x = Some a' \<and> same_account a a')) \<and>
     (\<forall>x i. intent_of b x = Some i \<longrightarrow> (\<exists>i'. intent_of b' x = Some i' \<and> further i i'))"

lemma books_grow_refl: "books_grow b b"
  by (auto simp: books_grow_def same_account_def further_def)

lemma same_account_trans: "same_account a b \<Longrightarrow> same_account b c \<Longrightarrow> same_account a c"
  by (simp add: same_account_def)

lemma further_trans: "further a b \<Longrightarrow> further b c \<Longrightarrow> further a c"
  by (auto simp: further_def)

lemma books_grow_trans:
  assumes "books_grow b c" and "books_grow c d"
  shows "books_grow b d"
  unfolding books_grow_def
proof (intro conjI allI impI)
  show "prefix (bk_ledger b) (bk_ledger d)"
    using assms by (auto simp: books_grow_def)
  fix x
  show "\<exists>a'. account_of d x = Some a' \<and> same_account a a'" if "account_of b x = Some a" for a
    using assms that same_account_trans unfolding books_grow_def by meson
  show "\<exists>i'. intent_of d x = Some i' \<and> further i i'" if "intent_of b x = Some i" for i
    using assms that further_trans unfolding books_grow_def by meson
qed

lemma account_of_set:
  "account_of b (ca_ID a) = Some a \<Longrightarrow> same_account a a' \<Longrightarrow> account_of b x = Some r \<Longrightarrow>
   \<exists>r'. account_of (set_account a' b) x = Some r' \<and> same_account r r'"
  by (cases "x = ca_ID a")
     (auto simp: set_account_def find_key_update_where same_account_def dest: find_key_Some)

lemma intent_of_set:
  "intent_of b (pi_ID i) = Some i \<Longrightarrow> advances i i' \<Longrightarrow> intent_of b x = Some r \<Longrightarrow>
   \<exists>r'. intent_of (set_intent i' b) x = Some r' \<and> (r' = r \<or> r = i \<and> r' = i')"
  by (cases "x = pi_ID i")
     (auto simp: set_intent_def find_key_update_where advances_def dest: find_key_Some)

lemma intent_of_set_grow:
  assumes "intent_of b (pi_ID i) = Some i" and "advances i i'" and "intent_of b x = Some r"
  shows "\<exists>r'. intent_of (set_intent i' b) x = Some r' \<and> further r r'"
  using intent_of_set [OF assms] assms(2) by (auto simp: advances_def further_def)

lemma books_grow_step: "book_step b b' \<Longrightarrow> books_grow b b'"
proof (induction rule: book_step.induct)
  case (settle_intent b i i' a e a')
  have "account_of (posted (set_intent i' b) a' e) x = account_of (set_account a' b) x" for x
    by (simp add: set_account_def)
  with settle_intent show ?case
    using account_of_set [OF settle_intent(5,8)] intent_of_set_grow [OF settle_intent(1,2)]
    by (simp add: books_grow_def)
next
  case (open_intent i b)
  then show ?case by (auto simp: books_grow_def find_append same_account_def further_def)
next
  case (open_account a b)
  then show ?case by (auto simp: books_grow_def find_append same_account_def further_def)
next
  case (account_status b a a')
  show ?case using account_of_set [OF account_status(1,2)] by (simp add: books_grow_def further_def)
next
  case (post_entry b a e a')
  show ?case using account_of_set [OF post_entry(1,3)] by (simp add: books_grow_def further_def)
next
  case (advance_intent b i i')
  show ?case using intent_of_set_grow [OF advance_intent(1,2)] by (simp add: books_grow_def same_account_def)
qed

lemma books_grow_steps: "book_step\<^sup>*\<^sup>* b b' \<Longrightarrow> books_grow b b'"
  by (induction rule: rtranclp_induct) (auto intro: books_grow_refl books_grow_trans books_grow_step)

end
