(* ===== verification/Payment_Db.thy ===== *)
theory Payment_Db
  imports Payment_Core Billing_Money
begin

text \<open>
  The PostgreSQL state the payment store works on: one list of rows per table (in insertion
  order), the identifiers and clock the database supplies, and the statements the store issues.
  A statement is a function from the state to an error or a new state; it applies the triggers and
  constraints that \<^verbatim>\<open>migrations/\<close> declares on its table, in the order PostgreSQL applies them:
  \<^verbatim>\<open>BEFORE\<close> triggers, \<^verbatim>\<open>CHECK\<close>s, unique indexes, \<^verbatim>\<open>AFTER\<close> triggers. A transaction that
  fails rolls back, so an operation of the store that returns an error has no new state. SQL
  \<^verbatim>\<open>NULL\<close> text is the empty string, as the scan functions of \<^verbatim>\<open>store.go\<close> read it and
  \<^verbatim>\<open>NULLIF\<close> writes it. Identifiers are compared as text: arguments are canonical UUIDs.
\<close>

section \<open>Rows\<close>

text \<open>Columns beyond those of the Go structures extend their records.\<close>

record method_row = PaymentMethod +
  pmr_CustomerRefCiphertext :: string
  pmr_MethodRefCiphertext :: string
  pmr_MethodRefSHA256 :: string

record policy_row = AutoTopUpPolicy +
  pol_CreatedBy :: string
  pol_UpdatedBy :: string

record responsibility_period =
  rp_ID :: string
  rp_AccountID :: string
  rp_OwnerUserID :: string
  rp_OwnershipVersion :: int
  rp_EffectiveFrom :: instant
  rp_EffectiveUntil :: "instant option"
  rp_SourceEvidenceSHA256 :: string
  rp_OpeningOperationID :: string
  rp_OpeningBalanceMinor :: "int option"

datatype handoff_phase =
    HandoffPreparing | HandoffPrepared | HandoffCommitAuthorized | HandoffFinalizing
  | HandoffFinalized | HandoffAbortPending | HandoffAborted

record OwnershipHandoff =
  oh_ID :: string
  oh_AccountID :: string
  oh_SourcePeriodID :: string
  oh_SourceUserID :: string
  oh_TargetUserID :: string
  oh_OwnershipVersion :: int
  oh_Cutoff :: instant
  oh_Phase :: handoff_phase
  oh_Version :: int
  oh_CreatedAt :: instant
  oh_RequestSHA256 :: string

record HandoffCommitAuthorization =
  hca_OperationID :: string
  hca_AuthorizationID :: string
  hca_SnapshotVersion :: int
  hca_CreatedAt :: instant
  hca_RequestSHA256 :: string
  hca_StateSHA256 :: string

record committed_decision =
  hcd_OperationID :: string
  hcd_RequestSHA256 :: string
  hcd_AMCommitSHA256 :: string
  hcd_CommittedOwnershipVersion :: int
  hcd_CommittedAt :: instant

datatype closure_phase = ClosurePreparing | ClosureClosed | ClosureCanceling | ClosureCanceled

record CloudClosure =
  cc_ID :: string
  cc_AccountID :: string
  cc_OwnerUserID :: string
  cc_OwnershipVersion :: int
  cc_Cutoff :: instant
  cc_Phase :: closure_phase
  cc_Version :: int
  cc_CreatedAt :: instant
  cc_SourcePeriodID :: string
  cc_RequestSHA256 :: string
  cc_AMRequestSHA256 :: string

text \<open>The binding of a payment, a method or a ledger entry to the period that answers for it.\<close>

record responsibility_binding =
  rb_SubjectID :: string
  rb_AccountID :: string
  rb_PeriodID :: string
  rb_EvidenceSHA256 :: string
  rb_Provenance :: string

record reversal_event =
  re_ID :: string
  re_AccountID :: string
  re_Provider :: string
  re_EventReference :: string
  re_OriginalIntentID :: string
  re_AmountMinor :: int
  re_Currency :: Currency
  re_Reason :: LedgerReason
  re_RequestSHA256 :: string
  re_ProviderPayloadSHA256 :: string
  re_RequestID :: string

record reversal_allocation_row =
  ral_EventID :: string
  ral_AccountID :: string
  ral_PeriodID :: string
  ral_Disposition :: string
  ral_LedgerEntryID :: "string option"
  ral_EvidenceSHA256 :: string

record reversal_review =
  rrv_EventID :: string
  rrv_ReasonCode :: string

record topup_email =
  te_IntentID :: string
  te_OrganizationID :: string
  te_RecipientEmail :: string
  te_RecipientName :: string
  te_AmountMinor :: int
  te_Currency :: Currency
  te_Provider :: string
  te_PaymentCreatedAt :: instant
  te_PaymentCompletedAt :: instant

record audit_event =
  ae_OrganizationID :: string
  ae_EventType :: string
  ae_ActorType :: string
  ae_ActorID :: string
  ae_SubjectType :: string
  ae_SubjectID :: string
  ae_RequestID :: string
  ae_Payload :: "(string \<times> string) list"

record payment_db =
  db_accounts :: "CommercialAccount list"
  db_ledger :: "LedgerEntry list"
  db_intents :: "PaymentIntent list"
  db_consents :: "PaymentConsent list"
  db_methods :: "method_row list"
  db_policies :: "policy_row list"
  db_attempts :: "PaymentAttempt list"
  db_jobs :: "ReconciliationJob list"
  db_webhooks :: "WebhookReceipt list"
  db_periods :: "responsibility_period list"
  db_handoffs :: "OwnershipHandoff list"
  db_commit_authorizations :: "HandoffCommitAuthorization list"
  db_committed_decisions :: "committed_decision list"
  db_closures :: "CloudClosure list"
  db_payment_responsibility :: "responsibility_binding list"
  db_method_responsibility :: "responsibility_binding list"
  db_ledger_responsibility :: "responsibility_binding list"
  db_reversal_events :: "reversal_event list"
  db_reversal_allocations :: "reversal_allocation_row list"
  db_reversal_reviews :: "reversal_review list"
  db_retired_policies :: "policy_row list"
  db_profiles :: "BillingProfile list"
  db_invoices :: "Invoice list"
  db_emails :: "topup_email list"
  db_audit :: "audit_event list"
  db_seq :: nat

text \<open>
  What the database and the host supply to a transaction: \<^verbatim>\<open>now()\<close>, the wall clock of
  \<^verbatim>\<open>time.Now()\<close> and \<^verbatim>\<open>gen_random_uuid()\<close>, the value of which depends on how many identifiers
  were drawn, and \<^verbatim>\<open>pgtype.UUID\<close>, the canonical text of the UUID a string denotes, if any.
  Nothing is assumed of the identifiers: primary keys reject a repeated one.
\<close>

record env =
  env_now :: instant
  env_clock :: instant
  env_uuid :: "nat \<Rightarrow> string"
  env_uuid_text :: "string \<Rightarrow> string option"

definition empty_db :: payment_db where
  "empty_db =
     \<lparr>db_accounts = [], db_ledger = [], db_intents = [], db_consents = [], db_methods = [],
      db_policies = [], db_attempts = [], db_jobs = [], db_webhooks = [], db_periods = [],
      db_handoffs = [], db_commit_authorizations = [], db_committed_decisions = [], db_closures = [],
      db_payment_responsibility = [], db_method_responsibility = [], db_ledger_responsibility = [],
      db_reversal_events = [], db_reversal_allocations = [], db_reversal_reviews = [],
      db_retired_policies = [], db_profiles = [], db_invoices = [], db_emails = [], db_audit = [],
      db_seq = 0\<rparr>"

text \<open>A timestamp column keeps microseconds.\<close>

definition db_time :: "instant \<Rightarrow> instant" where
  "db_time t = t div 1000 * 1000"

definition now_or :: "env \<Rightarrow> instant \<Rightarrow> instant" where
  "now_or E t = (if t = zero_time then env_clock E else t)"

section \<open>Errors of statements\<close>

definition unique_violation :: "string \<Rightarrow> error" where
  "unique_violation constraint = PgError ''23505'' constraint"

definition check_violation :: "string \<Rightarrow> error" where
  "check_violation constraint = PgError ''23514'' constraint"

definition handoff_barrier :: error where
  "handoff_barrier = PgError ''55000'' ''billing_handoff_commit_barrier''"

definition closure_barrier :: error where
  "closure_barrier = PgError ''55000'' ''billing_cloud_closure_barrier''"

lemmas pg_errors = unique_violation_def check_violation_def handoff_barrier_def closure_barrier_def

definition mapNotFound :: "error \<Rightarrow> error" where
  "mapNotFound err =
     (case err of
        PgError code constraint \<Rightarrow>
          if code = ''55000'' \<and>
             (constraint = ''billing_handoff_commit_barrier'' \<or> constraint = ''billing_cloud_closure_barrier'')
          then ErrHandoffFenced else err
      | ErrNoRows \<Rightarrow> ErrNotFound
      | _ \<Rightarrow> err)"

text \<open>A row read through one of the scan functions, which map the error.\<close>

definition scan :: "error + 'a \<Rightarrow> error + 'a" where
  "scan m = (case m of Inl e \<Rightarrow> Inl (mapNotFound e) | Inr x \<Rightarrow> Inr x)"

lemma scan_Inr_iff [simp]: "scan m = Inr x \<longleftrightarrow> m = Inr x"
  by (cases m) (auto simp: scan_def)

definition query_row :: "'a option \<Rightarrow> error + 'a" where
  "query_row r = (case r of None \<Rightarrow> Inl ErrNoRows | Some x \<Rightarrow> Inr x)"

lemma query_row_Inr_iff [simp]: "query_row r = Inr x \<longleftrightarrow> r = Some x"
  by (cases r) (auto simp: query_row_def)

lemma scan_query_row: "scan (query_row r) = (case r of None \<Rightarrow> Inl ErrNotFound | Some x \<Rightarrow> Inr x)"
  by (cases r) (auto simp: scan_def query_row_def mapNotFound_def)

section \<open>Fences\<close>

definition handoff_open :: "payment_db \<Rightarrow> string \<Rightarrow> bool" where
  "handoff_open s account =
     list_ex (\<lambda>h. oh_AccountID h = account \<and> oh_Phase h \<noteq> HandoffFinalized \<and> oh_Phase h \<noteq> HandoffAborted)
       (db_handoffs s)"

definition commit_pending :: "payment_db \<Rightarrow> string \<Rightarrow> bool" where
  "commit_pending s account =
     list_ex (\<lambda>h. oh_AccountID h = account \<and>
        (oh_Phase h = HandoffCommitAuthorized \<or> oh_Phase h = HandoffFinalizing \<or>
         oh_Phase h = HandoffAbortPending \<and>
         list_ex (\<lambda>a. hca_OperationID a = oh_ID h) (db_commit_authorizations s)))
       (db_handoffs s)"

definition closure_active :: "payment_db \<Rightarrow> string \<Rightarrow> bool" where
  "closure_active s account =
     list_ex (\<lambda>c. cc_AccountID c = account \<and> cc_Phase c \<noteq> ClosureCanceled) (db_closures s)"

definition closure_closed :: "payment_db \<Rightarrow> string \<Rightarrow> bool" where
  "closure_closed s account =
     list_ex (\<lambda>c. cc_AccountID c = account \<and> cc_Phase c = ClosureClosed) (db_closures s)"

definition current_period :: "payment_db \<Rightarrow> string \<Rightarrow> responsibility_period option" where
  "current_period s account =
     find (\<lambda>p. rp_AccountID p = account \<and> rp_EffectiveUntil p = None) (db_periods s)"

end
