(* ===== verification/Payment_Sql.thy ===== *)
theory Payment_Sql
  imports Payment_Db
begin

text \<open>
  The statements of the payment store on the tables of \<open>Payment_Db\<close>, with the constraints and
  triggers of \<^verbatim>\<open>migrations/039\<close>, \<^verbatim>\<open>042\<close>, \<^verbatim>\<open>048\<close>, \<^verbatim>\<open>051\<close>, \<^verbatim>\<open>052\<close>, \<^verbatim>\<open>053\<close>,
  \<^verbatim>\<open>055\<close> and \<^verbatim>\<open>064_topup_email_outbox\<close>. The range of a \<^verbatim>\<open>BIGINT\<close> column is among its
  checks. Names of several \<^verbatim>\<open>CHECK\<close>s of one table are collapsed into one.
\<close>

definition next_uuid :: "env \<Rightarrow> payment_db \<Rightarrow> string" where
  "next_uuid E s = env_uuid E (db_seq s)"

definition drawn :: "payment_db \<Rightarrow> payment_db" where
  "drawn s = s\<lparr>db_seq := Suc (db_seq s)\<rparr>"

definition not_blank :: "string \<Rightarrow> bool" where
  "not_blank t = list_ex (\<lambda>c. c \<noteq> CHR '' '') t"

section \<open>Accounts\<close>

text \<open>\<^verbatim>\<open>INSERT ... ON CONFLICT (organization_id, currency) DO NOTHING RETURNING\<close>\<close>

definition sql_insert_account :: "env \<Rightarrow> string \<Rightarrow> Currency \<Rightarrow> payment_db \<Rightarrow>
    error + (CommercialAccount \<times> payment_db)" where
  "sql_insert_account E organization currency s =
     (if currency \<noteq> TWD then Inl (check_violation ''commercial_accounts_currency_check'')
      else if list_ex (\<lambda>a. ca_OrganizationID a = organization \<and> ca_Currency a = currency) (db_accounts s)
      then Inl ErrNoRows
      else if list_ex (\<lambda>a. ca_ID a = next_uuid E s) (db_accounts s)
      then Inl (unique_violation ''commercial_accounts_pkey'')
      else
        let row = \<lparr>ca_ID = next_uuid E s, ca_OrganizationID = organization, ca_Currency = currency,
                   ca_AvailableBalanceMinor = 0, ca_State = AccountStateActive, ca_Version = 0,
                   ca_CreatedAt = env_now E, ca_UpdatedAt = env_now E\<rparr>
        in Inr (row, (drawn s)\<lparr>db_accounts := db_accounts s @ [row]\<rparr>))"

definition find_account :: "payment_db \<Rightarrow> string \<Rightarrow> CommercialAccount option" where
  "find_account s accountID = find (\<lambda>a. ca_ID a = accountID) (db_accounts s)"

text \<open>
  An update of balance or state passes \<^verbatim>\<open>closed_cloud_balance\<close> and, for the balance,
  \<^verbatim>\<open>handoff_balance_commit_barrier\<close>.
\<close>

definition account_update_error :: "payment_db \<Rightarrow> CommercialAccount \<Rightarrow> CommercialAccount \<Rightarrow> error option" where
  "account_update_error s old new =
     (if (ca_AvailableBalanceMinor new \<noteq> ca_AvailableBalanceMinor old \<or> ca_State new \<noteq> ca_State old) \<and>
         closure_closed s (ca_ID new) \<and>
         \<not> (ca_State new = AccountStateClosed \<and> ca_AvailableBalanceMinor new = 0 \<and>
            ca_AvailableBalanceMinor old = 0)
      then Some closure_barrier
      else if ca_AvailableBalanceMinor new \<noteq> ca_AvailableBalanceMinor old \<and> commit_pending s (ca_ID new)
      then Some handoff_barrier
      else None)"

definition sql_update_account :: "env \<Rightarrow> string \<Rightarrow> (CommercialAccount \<Rightarrow> CommercialAccount) \<Rightarrow> payment_db \<Rightarrow>
    error + (CommercialAccount \<times> payment_db)" where
  "sql_update_account E accountID f s =
     (case find_account s accountID of
        None \<Rightarrow> Inl ErrNoRows
      | Some old \<Rightarrow>
          let new = (f old)\<lparr>ca_UpdatedAt := env_now E\<rparr> in
          (case account_update_error s old new of
             Some e \<Rightarrow> Inl e
           | None \<Rightarrow> Inr (new, s\<lparr>db_accounts :=
               update_where (\<lambda>a. ca_ID a = accountID) (\<lambda>_. new) (db_accounts s)\<rparr>)))"

section \<open>The ledger\<close>

definition ledger_check :: "LedgerEntry \<Rightarrow> bool" where
  "ledger_check e =
     (is_int64 (le_AmountMinor e) \<and> le_AmountMinor e > 0 \<and> le_Currency e = TWD \<and>
      ValidateLedgerReason (le_Direction e) (le_Reason e) = Inr () \<and>
      not_blank (le_IdempotencyScope e) \<and> not_blank (le_IdempotencyKey e) \<and>
      ((le_ExternalType e = []) = (le_ExternalID e = [])))"

definition invoice_in_period :: "Invoice \<Rightarrow> responsibility_period \<Rightarrow> bool" where
  "invoice_in_period i p =
     (rp_AccountID p = iv_AccountID i \<and>
      bp_OwnershipVersion (iv_Recipient i) = Some (rp_OwnershipVersion p) \<and>
      iv_PeriodStart i \<ge> rp_EffectiveFrom p \<and>
      (case rp_EffectiveUntil p of None \<Rightarrow> True | Some u \<Rightarrow> iv_PeriodEnd i \<le> u))"

text \<open>\<^verbatim>\<open>bind_ledger_responsibility_at_creation\<close>\<close>

definition ledger_binding :: "payment_db \<Rightarrow> LedgerEntry \<Rightarrow> responsibility_binding option" where
  "ledger_binding s e =
     (let bind = (\<lambda>period evidence.
            \<lparr>rb_SubjectID = le_ID e, rb_AccountID = le_AccountID e, rb_PeriodID = period,
             rb_EvidenceSHA256 = evidence, rb_Provenance = []\<rparr>)
      in if le_ExternalType e = ''payment_intent'' then
           map_option (\<lambda>b. bind (rb_PeriodID b) (rb_EvidenceSHA256 b))
             (find (\<lambda>b. rb_SubjectID b = le_ExternalID e \<and> rb_AccountID b = le_AccountID e)
                (db_payment_responsibility s))
         else if le_ExternalType e = ''invoice'' then
           (case find (\<lambda>i. iv_ID i = le_ExternalID e \<and> iv_AccountID i = le_AccountID e) (db_invoices s) of
              None \<Rightarrow> None
            | Some i \<Rightarrow> map_option (\<lambda>p. bind (rp_ID p) (rp_SourceEvidenceSHA256 p))
                (find (invoice_in_period i) (db_periods s)))
         else if le_Reason e = LedgerReasonManualAdjustmentCredit \<or>
                 le_Reason e = LedgerReasonManualAdjustmentDebit then
           map_option (\<lambda>p. bind (rp_ID p) (rp_SourceEvidenceSHA256 p)) (current_period s (le_AccountID e))
         else None)"

definition option_list :: "'a option \<Rightarrow> 'a list" where
  "option_list x = (case x of None \<Rightarrow> [] | Some y \<Rightarrow> [y])"

definition sql_insert_ledger :: "env \<Rightarrow> LedgerEntry \<Rightarrow> payment_db \<Rightarrow> error + (LedgerEntry \<times> payment_db)" where
  "sql_insert_ledger E values s =
     (let row = values\<lparr>le_ID := next_uuid E s, le_CreatedAt := db_time (le_CreatedAt values)\<rparr> in
      if closure_closed s (le_AccountID row) then Inl closure_barrier
      else if commit_pending s (le_AccountID row) then Inl handoff_barrier
      else if \<not> ledger_check row then Inl (check_violation ''balance_ledger_check'')
      else if list_ex (\<lambda>e. le_ID e = le_ID row) (db_ledger s)
      then Inl (unique_violation ''balance_ledger_entries_pkey'')
      else if list_ex (\<lambda>e. le_AccountID e = le_AccountID row \<and>
                 le_IdempotencyScope e = le_IdempotencyScope row \<and>
                 le_IdempotencyKey e = le_IdempotencyKey row) (db_ledger s)
      then Inl (unique_violation ''balance_ledger_account_idempotency_key'')
      else Inr (row, (drawn s)\<lparr>db_ledger := db_ledger s @ [row],
             db_ledger_responsibility := db_ledger_responsibility s @ option_list (ledger_binding s row)\<rparr>))"

section \<open>Intents\<close>

definition intent_open :: "PaymentIntentState \<Rightarrow> bool" where
  "intent_open state =
     (state = PaymentIntentStateCreated \<or> state = PaymentIntentStateProcessing \<or>
      state = PaymentIntentStateAuthorized \<or> state = PaymentIntentStateRequiresAction \<or>
      state = PaymentIntentStateUnknown)"

definition intent_check :: "PaymentIntent \<Rightarrow> bool" where
  "intent_check i =
     (is_int64 (pi_AmountMinor i) \<and> pi_AmountMinor i > 0 \<and> pi_Currency i = TWD \<and>
      (pi_Reason i = PaymentIntentReasonAutoTopUp \<and> pi_PolicyGeneration i \<noteq> None \<and>
         pi_TriggerLedgerEntryID i \<noteq> [] \<or>
       pi_Reason i = PaymentIntentReasonManualTopUp \<and> pi_PolicyGeneration i = None \<and>
         pi_TriggerLedgerEntryID i = []) \<and>
      not_blank (pi_Provider i) \<and> ToLower (pi_Provider i) = pi_Provider i \<and>
      ValidIntentState (pi_State i) \<and> not_blank (pi_IdempotencyKey i) \<and>
      not_blank (pi_CorrelationID i) \<and>
      (IntentStateTerminal (pi_State i) \<longleftrightarrow> pi_CompletedAt i \<noteq> None))"

definition intent_unique :: "PaymentIntent list \<Rightarrow> PaymentIntent \<Rightarrow> error + unit" where
  "intent_unique others i =
     (if list_ex (\<lambda>r. pi_ID r = pi_ID i) others then Inl (unique_violation ''payment_intents_pkey'')
      else if list_ex (\<lambda>r. pi_AccountID r = pi_AccountID i \<and> pi_IdempotencyKey r = pi_IdempotencyKey i) others
      then Inl (unique_violation ''payment_intents_account_idempotency_key'')
      else if pi_TriggerLedgerEntryID i \<noteq> [] \<and>
              list_ex (\<lambda>r. pi_TriggerLedgerEntryID r = pi_TriggerLedgerEntryID i) others
      then Inl (unique_violation ''payment_intents_trigger_ledger_entry_key'')
      else if pi_MerchantOrderReference i \<noteq> [] \<and>
              list_ex (\<lambda>r. pi_Provider r = pi_Provider i \<and>
                           pi_MerchantOrderReference r = pi_MerchantOrderReference i) others
      then Inl (unique_violation ''payment_intents_provider_order_unique_idx'')
      else if pi_ProviderTransactionReference i \<noteq> [] \<and>
              list_ex (\<lambda>r. pi_Provider r = pi_Provider i \<and>
                           pi_ProviderTransactionReference r = pi_ProviderTransactionReference i) others
      then Inl (unique_violation ''payment_intents_provider_transaction_unique_idx'')
      else if pi_Reason i = PaymentIntentReasonAutoTopUp \<and> intent_open (pi_State i) \<and>
              list_ex (\<lambda>r. pi_Reason r = PaymentIntentReasonAutoTopUp \<and> intent_open (pi_State r) \<and>
                           pi_AccountID r = pi_AccountID i \<and>
                           pi_PolicyGeneration r = pi_PolicyGeneration i) others
      then Inl (unique_violation ''payment_intents_auto_open_unique_idx'')
      else Inr ())"

text \<open>
  Inserting an intent passes \<^verbatim>\<open>closure_new_intent\<close>; \<^verbatim>\<open>payment_intent_responsibility\<close> rejects it
  under an open handoff and otherwise binds it to the current period.
\<close>

definition payment_binding :: "payment_db \<Rightarrow> PaymentIntent \<Rightarrow> responsibility_binding option" where
  "payment_binding s i =
     map_option (\<lambda>p. \<lparr>rb_SubjectID = pi_ID i, rb_AccountID = pi_AccountID i, rb_PeriodID = rp_ID p,
                      rb_EvidenceSHA256 = rp_SourceEvidenceSHA256 p, rb_Provenance = ''creation''\<rparr>)
       (current_period s (pi_AccountID i))"

definition sql_insert_intent :: "env \<Rightarrow> PaymentIntent \<Rightarrow> payment_db \<Rightarrow> error + (PaymentIntent \<times> payment_db)" where
  "sql_insert_intent E values s =
     (let row = values\<lparr>pi_ID := next_uuid E s, pi_CreatedAt := db_time (pi_CreatedAt values),
                       pi_UpdatedAt := db_time (pi_UpdatedAt values)\<rparr> in
      if closure_active s (pi_AccountID row) then Inl closure_barrier
      else if \<not> intent_check row then Inl (check_violation ''payment_intents_check'')
      else bindE (intent_unique (db_intents s) row) (\<lambda>_.
        if handoff_open s (pi_AccountID row) then Inl handoff_barrier
        else Inr (row, (drawn s)\<lparr>db_intents := db_intents s @ [row],
               db_payment_responsibility :=
                 db_payment_responsibility s @ option_list (payment_binding s row)\<rparr>)))"

definition find_intent :: "payment_db \<Rightarrow> string \<Rightarrow> PaymentIntent option" where
  "find_intent s intentID = find (\<lambda>i. pi_ID i = intentID) (db_intents s)"

definition sql_update_intent :: "env \<Rightarrow> string \<Rightarrow> (PaymentIntent \<Rightarrow> PaymentIntent) \<Rightarrow> payment_db \<Rightarrow>
    error + (PaymentIntent \<times> payment_db)" where
  "sql_update_intent E intentID f s =
     (case find_intent s intentID of
        None \<Rightarrow> Inl ErrNoRows
      | Some old \<Rightarrow>
          let new = (f old)\<lparr>pi_UpdatedAt := env_now E\<rparr> in
          if \<not> intent_check new then Inl (check_violation ''payment_intents_check'')
          else bindE (intent_unique (filter (\<lambda>r. pi_ID r \<noteq> intentID) (db_intents s)) new) (\<lambda>_.
            Inr (new, s\<lparr>db_intents :=
              update_where (\<lambda>r. pi_ID r = intentID) (\<lambda>_. new) (db_intents s)\<rparr>)))"

section \<open>Policies\<close>

definition policy_check :: "policy_row \<Rightarrow> bool" where
  "policy_check p =
     (is_int64 (atp_ThresholdMinor p) \<and> is_int64 (atp_TopUpAmountMinor p) \<and>
      is_int64 (atp_DailyAmountLimitMinor p) \<and> is_int64 (atp_CooldownSeconds p) \<and>
      atp_ThresholdMinor p > 0 \<and> atp_TopUpAmountMinor p > 0 \<and> atp_DailyAmountLimitMinor p > 0 \<and>
      atp_Currency p = TWD \<and> 1 \<le> atp_DailyAttemptLimit p \<and> atp_DailyAttemptLimit p \<le> 10 \<and>
      atp_TopUpAmountMinor p \<le> atp_DailyAmountLimitMinor p \<and> atp_CooldownSeconds p \<ge> 300 \<and>
      atp_Generation p > 0 \<and> atp_Version p > 0 \<and> atp_ConsecutiveFailureCount p \<ge> 0 \<and>
      not_blank (pol_CreatedBy p) \<and> not_blank (pol_UpdatedBy p))"

text \<open>
  While a cloud closure is not canceled \<^verbatim>\<open>closure_policy_barrier\<close> accepts only an update that
  leaves the policy disabled and disarmed and touches no other column but its version,
  \<^verbatim>\<open>updated_at\<close> and \<^verbatim>\<open>updated_by\<close>.
\<close>

definition closure_policy_update_ok :: "policy_row \<Rightarrow> policy_row \<Rightarrow> bool" where
  "closure_policy_update_ok old new =
     (\<not> atp_Enabled new \<and> \<not> atp_Armed new \<and>
      new\<lparr>atp_Enabled := atp_Enabled old, atp_Armed := atp_Armed old, atp_Version := atp_Version old,
          atp_UpdatedAt := atp_UpdatedAt old, pol_UpdatedBy := pol_UpdatedBy old\<rparr> = old)"

definition policy_update_error :: "payment_db \<Rightarrow> policy_row \<Rightarrow> policy_row \<Rightarrow> error option" where
  "policy_update_error s old new =
     (if closure_active s (atp_AccountID new) \<and> \<not> closure_policy_update_ok old new
      then Some closure_barrier
      else if \<not> policy_check new then Some (check_violation ''auto_topup_policy_check'')
      else None)"

text \<open>
  \<^verbatim>\<open>UPDATE auto_topup_policies SET ... WHERE p\<close>: an account has at most one policy, so the
  conditions of the store select at most one row; \<^verbatim>\<open>auto_topup_policy_replacement\<close> archives the
  old row when the method changes. The number is \<^verbatim>\<open>RowsAffected\<close>.
\<close>

definition sql_update_policy :: "env \<Rightarrow> (policy_row \<Rightarrow> bool) \<Rightarrow> (policy_row \<Rightarrow> policy_row) \<Rightarrow> payment_db \<Rightarrow>
    error + (policy_row option \<times> payment_db)" where
  "sql_update_policy E p f s =
     (case find p (db_policies s) of
        None \<Rightarrow> Inr (None, s)
      | Some old \<Rightarrow>
          let new = (f old)\<lparr>atp_UpdatedAt := env_now E\<rparr> in
          (case policy_update_error s old new of
             Some e \<Rightarrow> Inl e
           | None \<Rightarrow> Inr (Some new,
               s\<lparr>db_policies := update_where (\<lambda>r. atp_ID r = atp_ID old) (\<lambda>_. new) (db_policies s),
                 db_retired_policies := db_retired_policies s @
                   (if atp_PaymentMethodID old \<noteq> atp_PaymentMethodID new then [old] else [])\<rparr>)))"

definition sql_insert_policy :: "env \<Rightarrow> policy_row \<Rightarrow> payment_db \<Rightarrow> error + (policy_row \<times> payment_db)" where
  "sql_insert_policy E values s =
     (let row = values\<lparr>atp_ID := next_uuid E s, atp_CreatedAt := env_now E, atp_UpdatedAt := env_now E\<rparr> in
      if closure_active s (atp_AccountID row) then Inl closure_barrier
      else if \<not> policy_check row then Inl (check_violation ''auto_topup_policy_check'')
      else if list_ex (\<lambda>r. atp_ID r = atp_ID row) (db_policies s)
      then Inl (unique_violation ''auto_topup_policies_pkey'')
      else if list_ex (\<lambda>r. atp_AccountID r = atp_AccountID row) (db_policies s)
      then Inl (unique_violation ''auto_topup_policies_account_id_key'')
      else Inr (row, (drawn s)\<lparr>db_policies := db_policies s @ [row]\<rparr>))"

definition getPolicyForUpdate :: "payment_db \<Rightarrow> string \<Rightarrow> error + policy_row" where
  "getPolicyForUpdate s accountID =
     scan (query_row (find (\<lambda>p. atp_AccountID p = accountID) (db_policies s)))"

section \<open>Jobs, attempts, emails, audit\<close>

definition job_open :: "ReconciliationJob \<Rightarrow> bool" where
  "job_open j = (rj_Status j = ReconciliationStatusPending \<or> rj_Status j = ReconciliationStatusLeased)"

definition new_job :: "env \<Rightarrow> string \<Rightarrow> ReconciliationReason \<Rightarrow> instant \<Rightarrow> payment_db \<Rightarrow> ReconciliationJob" where
  "new_job E intentID reason due s =
     \<lparr>rj_ID = next_uuid E s, rj_IntentID = intentID, rj_Reason = reason,
      rj_Status = ReconciliationStatusPending, rj_DueAt = db_time due, rj_AttemptCount = 0,
      rj_LeasedAt = None, rj_LeaseOwner = [], rj_LastError = [],
      rj_CreatedAt = env_now E, rj_UpdatedAt = env_now E\<rparr>"

definition job_conflict :: "payment_db \<Rightarrow> ReconciliationJob \<Rightarrow> bool" where
  "job_conflict s job =
     list_ex (\<lambda>j. rj_ID j = rj_ID job \<or>
        job_open j \<and> rj_IntentID j = rj_IntentID job \<and> rj_Reason j = rj_Reason job) (db_jobs s)"

definition sql_insert_job :: "env \<Rightarrow> string \<Rightarrow> ReconciliationReason \<Rightarrow> instant \<Rightarrow> payment_db \<Rightarrow>
    error + payment_db" where
  "sql_insert_job E intentID reason due s =
     (let job = new_job E intentID reason due s in
      if job_conflict s job then Inl (unique_violation ''payment_reconciliation_open_unique_idx'')
      else Inr ((drawn s)\<lparr>db_jobs := db_jobs s @ [job]\<rparr>))"

text \<open>The variant with \<^verbatim>\<open>ON CONFLICT DO NOTHING\<close>.\<close>

definition sql_insert_job_unless :: "env \<Rightarrow> string \<Rightarrow> ReconciliationReason \<Rightarrow> instant \<Rightarrow> payment_db \<Rightarrow>
    payment_db" where
  "sql_insert_job_unless E intentID reason due s =
     (let job = new_job E intentID reason due s in
      if job_conflict s job then s else (drawn s)\<lparr>db_jobs := db_jobs s @ [job]\<rparr>)"

definition sql_update_job :: "env \<Rightarrow> (ReconciliationJob \<Rightarrow> bool) \<Rightarrow>
    (ReconciliationJob \<Rightarrow> ReconciliationJob) \<Rightarrow> payment_db \<Rightarrow> error + (ReconciliationJob \<times> payment_db)" where
  "sql_update_job E p f s =
     (case find p (db_jobs s) of
        None \<Rightarrow> Inl ErrNoRows
      | Some old \<Rightarrow>
          let new = (f old)\<lparr>rj_UpdatedAt := env_now E\<rparr> in
          if job_open new \<and>
             list_ex (\<lambda>j. rj_ID j \<noteq> rj_ID old \<and> job_open j \<and> rj_IntentID j = rj_IntentID new \<and>
                          rj_Reason j = rj_Reason new) (db_jobs s)
          then Inl (unique_violation ''payment_reconciliation_open_unique_idx'')
          else Inr (new, s\<lparr>db_jobs := update_where (\<lambda>j. rj_ID j = rj_ID old) (\<lambda>_. new) (db_jobs s)\<rparr>))"

text \<open>A charge attempt passes \<^verbatim>\<open>closure_new_charge\<close>.\<close>

definition sql_insert_attempt :: "env \<Rightarrow> string \<Rightarrow> string \<Rightarrow> ProviderOperation \<Rightarrow> int \<Rightarrow> instant \<Rightarrow>
    payment_db \<Rightarrow> error + (PaymentAttempt \<times> payment_db)" where
  "sql_insert_attempt E accountID intentID operation number started s =
     (let row = \<lparr>pa_ID = next_uuid E s, pa_IntentID = intentID, pa_Operation = operation,
                 pa_AttemptNumber = number, pa_StartedAt = db_time started, pa_CompletedAt = None,
                 pa_NormalizedResult = ''started'', pa_ProviderCode = [], pa_RequestSHA256 = [],
                 pa_ResponseSHA256 = [], pa_NextReconciliationAt = None, pa_CreatedAt = env_now E\<rparr> in
      if operation = ProviderOperationCharge \<and> closure_active s accountID then Inl closure_barrier
      else if list_ex (\<lambda>a. pa_ID a = pa_ID row) (db_attempts s)
      then Inl (unique_violation ''payment_attempts_pkey'')
      else if list_ex (\<lambda>a. pa_IntentID a = intentID \<and> pa_AttemptNumber a = number) (db_attempts s)
      then Inl (unique_violation ''payment_attempts_intent_number_key'')
      else Inr (row, (drawn s)\<lparr>db_attempts := db_attempts s @ [row]\<rparr>))"

definition sql_insert_audit :: "audit_event \<Rightarrow> payment_db \<Rightarrow> payment_db" where
  "sql_insert_audit event s = s\<lparr>db_audit := db_audit s @ [event]\<rparr>"

end
