(* ===== verification/Ledger_Store.thy ===== *)
theory Ledger_Store
  imports Payment_Sql
begin

text \<open>
  The accounts and the ledger: \<^verbatim>\<open>internal/billingidentity/owner.go\<close> (the authority a tenant
  request carries), \<^verbatim>\<open>paymentstore/accounts.go\<close>, \<^verbatim>\<open>paymentstore/ledger.go\<close> and what they
  call of \<^verbatim>\<open>privacy.go\<close>, \<^verbatim>\<open>methods.go\<close> and \<^verbatim>\<open>handoff.go\<close>. Every operation locks the account
  row for its whole transaction, so an operation is one atomic step on the state.
\<close>

section \<open>Tenant authority (owner.go)\<close>

record Scope =
  sc_OrganizationID :: string
  sc_AccountID :: string
  sc_UserID :: string
  sc_OwnershipVersion :: int
  sc_CurrentPeriodStart :: instant

text \<open>The context of a call: a tenant scope, or none for an internal worker.\<close>

type_synonym ctx = "Scope option"

definition ValidUUID :: "env \<Rightarrow> string \<Rightarrow> bool" where
  "ValidUUID E value = (env_uuid_text E value = Some value)"

definition AuthorizeOwner :: "env \<Rightarrow> string \<Rightarrow> string \<Rightarrow> int \<Rightarrow> payment_db \<Rightarrow> error + Scope" where
  "AuthorizeOwner E organizationID userID version s =
     (if \<not> ValidUUID E organizationID \<or> \<not> ValidUUID E userID \<or> version < 1 then Inl ErrIdentityInvalid
      else case find (\<lambda>a. ca_OrganizationID a = organizationID \<and> ca_Currency a = Settlement) (db_accounts s) of
        None \<Rightarrow> Inl ErrUnavailable
      | Some a \<Rightarrow>
          (case current_period s (ca_ID a) of
             None \<Rightarrow> Inl ErrUnavailable
           | Some p \<Rightarrow>
               if rp_OwnerUserID p \<noteq> userID \<or> ca_State a = AccountStateClosed then Inl ErrDenied
               else if rp_OwnershipVersion p \<noteq> version then Inl ErrVersion
               else if commit_pending s (ca_ID a) \<or> closure_active s (ca_ID a) then Inl ErrTransition
               else Inr \<lparr>sc_OrganizationID = organizationID, sc_AccountID = ca_ID a, sc_UserID = userID,
                         sc_OwnershipVersion = version, sc_CurrentPeriodStart = rp_EffectiveFrom p\<rparr>))"

definition LockAccount :: "env \<Rightarrow> ctx \<Rightarrow> payment_db \<Rightarrow> string \<Rightarrow> error + unit" where
  "LockAccount E ctx s accountID =
     (case ctx of
        None \<Rightarrow> Inr ()
      | Some scope \<Rightarrow>
          if sc_AccountID scope \<noteq> accountID \<or> \<not> ValidUUID E accountID \<or>
             \<not> ValidUUID E (sc_OrganizationID scope) \<or> \<not> ValidUUID E (sc_UserID scope) \<or>
             sc_OwnershipVersion scope < 1
          then Inl ErrDenied
          else case find_account s accountID of
            None \<Rightarrow> Inl ErrDenied
          | Some a \<Rightarrow>
              if ca_OrganizationID a \<noteq> sc_OrganizationID scope \<or> ca_State a = AccountStateClosed
              then Inl ErrDenied
              else case current_period s accountID of
                None \<Rightarrow> Inl ErrUnavailable
              | Some p \<Rightarrow>
                  if rp_OwnerUserID p \<noteq> sc_UserID scope then Inl ErrDenied
                  else if rp_OwnershipVersion p \<noteq> sc_OwnershipVersion scope then Inl ErrVersion
                  else if commit_pending s accountID \<or> closure_active s accountID then Inl ErrTransition
                  else Inr ())"

section \<open>Accounts (accounts.go)\<close>

definition getAccountForUpdate :: "env \<Rightarrow> ctx \<Rightarrow> payment_db \<Rightarrow> string \<Rightarrow> error + CommercialAccount" where
  "getAccountForUpdate E ctx s accountID =
     bindE (LockAccount E ctx s accountID) (\<lambda>_. scan (query_row (find_account s accountID)))"

definition GetCommercialAccount :: "env \<Rightarrow> ctx \<Rightarrow> payment_db \<Rightarrow> string \<Rightarrow> error + CommercialAccount" where
  "GetCommercialAccount E ctx s accountID =
     (case ctx of
        Some _ \<Rightarrow> getAccountForUpdate E ctx s accountID
      | None \<Rightarrow> scan (query_row (find_account s accountID)))"

definition find_org_account :: "payment_db \<Rightarrow> string \<Rightarrow> Currency \<Rightarrow> error + CommercialAccount" where
  "find_org_account s organizationID code =
     scan (query_row (find (\<lambda>a. ca_OrganizationID a = organizationID \<and> ca_Currency a = code) (db_accounts s)))"

definition GetCommercialAccountByOrganization :: "env \<Rightarrow> ctx \<Rightarrow> payment_db \<Rightarrow> string \<Rightarrow> Currency \<Rightarrow>
    error + CommercialAccount" where
  "GetCommercialAccountByOrganization E ctx s organizationID code =
     (case ctx of
        Some scope \<Rightarrow>
          if sc_OrganizationID scope \<noteq> organizationID \<or> \<not> CanSettle code then Inl ErrDenied
          else GetCommercialAccount E ctx s (sc_AccountID scope)
      | None \<Rightarrow>
          if \<not> required organizationID \<or> ValidateCurrency code \<noteq> Inr () then Inl ErrConflict
          else find_org_account s organizationID code)"

definition EnsureCommercialAccount :: "env \<Rightarrow> ctx \<Rightarrow> string \<Rightarrow> Currency \<Rightarrow> payment_db \<Rightarrow>
    error + (CommercialAccount \<times> bool \<times> payment_db)" where
  "EnsureCommercialAccount E ctx organizationID code s =
     (case ctx of
        Some scope \<Rightarrow>
          if sc_OrganizationID scope \<noteq> organizationID \<or> \<not> CanSettle code then Inl ErrDenied
          else bindE (GetCommercialAccount E ctx s (sc_AccountID scope)) (\<lambda>account. Inr (account, False, s))
      | None \<Rightarrow>
          if \<not> required organizationID then Inl ErrConflict
          else bindE (ValidateCurrency code) (\<lambda>_.
            case scan (sql_insert_account E organizationID code s) of
              Inr (account, s') \<Rightarrow> Inr (account, True, s')
            | Inl e \<Rightarrow>
                if e \<noteq> ErrNotFound then Inl e
                else bindE (find_org_account s organizationID code) (\<lambda>account. Inr (account, False, s))))"

section \<open>Fence and visibility (handoff.go, privacy.go, methods.go)\<close>

definition requireNoHandoffTx :: "payment_db \<Rightarrow> string \<Rightarrow> error + unit" where
  "requireNoHandoffTx s accountID =
     (if handoff_open s accountID \<or> closure_active s accountID then Inl ErrHandoffFenced else Inr ())"

text \<open>\<open>periodVisibility\<close>: the subject is bound to a period of the scope's user, of its version when asked.\<close>

definition periodVisibility :: "ctx \<Rightarrow> payment_db \<Rightarrow> responsibility_binding list \<Rightarrow> string \<Rightarrow> string \<Rightarrow> bool \<Rightarrow> bool" where
  "periodVisibility ctx s bindings subject account currentVersion =
     (case ctx of
        None \<Rightarrow> True
      | Some scope \<Rightarrow>
          list_ex (\<lambda>b. rb_SubjectID b = subject \<and> rb_AccountID b = account \<and>
             list_ex (\<lambda>p. rp_ID p = rb_PeriodID b \<and> rp_OwnerUserID p = sc_UserID scope \<and>
                (currentVersion \<longrightarrow> rp_OwnershipVersion p = sc_OwnershipVersion scope)) (db_periods s))
            bindings)"

definition getPaymentMethodForUpdate :: "ctx \<Rightarrow> payment_db \<Rightarrow> string \<Rightarrow> error + method_row" where
  "getPaymentMethodForUpdate ctx s methodID =
     scan (query_row (find (\<lambda>m. pm_ID m = methodID \<and>
       periodVisibility ctx s (db_method_responsibility s) (pm_ID m) (pm_AccountID m) True) (db_methods s)))"

section \<open>Posting entries (ledger.go)\<close>

record PostLedgerEntryInput =
  pl_AccountID :: string
  pl_Direction :: LedgerDirection
  pl_AmountMinor :: int
  pl_Currency :: Currency
  pl_Reason :: LedgerReason
  pl_IdempotencyScope :: string
  pl_IdempotencyKey :: string
  pl_ExternalType :: string
  pl_ExternalID :: string
  pl_ActorType :: string
  pl_ActorID :: string
  pl_RequestID :: string
  pl_Now :: instant

record PostLedgerEntryResult =
  plr_Account :: CommercialAccount
  plr_Entry :: LedgerEntry
  plr_Intent :: "PaymentIntent option"
  plr_Duplicate :: bool

definition isSettlementReversal :: "LedgerReason \<Rightarrow> bool" where
  "isSettlementReversal reason =
     (reason = LedgerReasonRefundDebit \<or> reason = LedgerReasonChargebackDebit)"

definition validateLedgerInput :: "PostLedgerEntryInput \<Rightarrow> error + unit" where
  "validateLedgerInput inp =
     (if \<not> required (pl_AccountID inp) \<or> \<not> required (pl_IdempotencyScope inp) \<or>
         \<not> required (pl_IdempotencyKey inp)
      then Inl ErrConflict
      else if required (pl_ExternalType inp) \<noteq> required (pl_ExternalID inp) then Inl ErrConflict
      else if required (pl_ActorType inp) \<noteq> required (pl_ActorID inp) then Inl ErrConflict
      else bindE (ValidateChargeAmount (pl_Currency inp) (pl_AmountMinor inp)) (\<lambda>_.
        ValidateLedgerReason (pl_Direction inp) (pl_Reason inp)))"

definition ledger_values :: "PostLedgerEntryInput \<Rightarrow> string \<Rightarrow> int \<Rightarrow> LedgerEntry" where
  "ledger_values inp accountID nextBalance =
     \<lparr>le_ID = [], le_AccountID = accountID, le_Direction = pl_Direction inp,
      le_AmountMinor = pl_AmountMinor inp, le_Currency = pl_Currency inp, le_Reason = pl_Reason inp,
      le_IdempotencyScope = TrimSpace (pl_IdempotencyScope inp),
      le_IdempotencyKey = TrimSpace (pl_IdempotencyKey inp),
      le_ExternalType = TrimSpace (pl_ExternalType inp), le_ExternalID = TrimSpace (pl_ExternalID inp),
      le_BalanceAfterMinor = nextBalance, le_ActorType = TrimSpace (pl_ActorType inp),
      le_ActorID = TrimSpace (pl_ActorID inp), le_RequestID = TrimSpace (pl_RequestID inp),
      le_CreatedAt = pl_Now inp\<rparr>"

definition insertLedgerEntryTx :: "env \<Rightarrow> CommercialAccount \<Rightarrow> PostLedgerEntryInput \<Rightarrow> payment_db \<Rightarrow>
    error + (LedgerEntry \<times> CommercialAccount \<times> payment_db)" where
  "insertLedgerEntryTx E account inp s =
     bindE (ApplyBalance (ca_AvailableBalanceMinor account) (pl_Direction inp) (pl_AmountMinor inp)) (\<lambda>nextBalance.
     bindE (scan (sql_insert_ledger E (ledger_values inp (ca_ID account) nextBalance) s)) (\<lambda>(entry, s).
     bindE (scan (sql_update_account E (ca_ID account)
              (\<lambda>a. a\<lparr>ca_AvailableBalanceMinor := nextBalance, ca_Version := ca_Version a + 1\<rparr>) s)) (\<lambda>(account, s).
     Inr (entry, account, s))))"

definition getLedgerEntryByIdempotency :: "payment_db \<Rightarrow> string \<Rightarrow> string \<Rightarrow> string \<Rightarrow> error + LedgerEntry" where
  "getLedgerEntryByIdempotency s accountID scope key =
     scan (query_row (find (\<lambda>e. le_AccountID e = accountID \<and> le_IdempotencyScope e = TrimSpace scope \<and>
        le_IdempotencyKey e = TrimSpace key) (db_ledger s)))"

definition sameLedgerRequest :: "LedgerEntry \<Rightarrow> PostLedgerEntryInput \<Rightarrow> bool" where
  "sameLedgerRequest existing inp =
     (le_AccountID existing = pl_AccountID inp \<and> le_Direction existing = pl_Direction inp \<and>
      le_AmountMinor existing = pl_AmountMinor inp \<and> le_Currency existing = pl_Currency inp \<and>
      le_Reason existing = pl_Reason inp \<and>
      le_IdempotencyScope existing = TrimSpace (pl_IdempotencyScope inp) \<and>
      le_IdempotencyKey existing = TrimSpace (pl_IdempotencyKey inp) \<and>
      le_ExternalType existing = TrimSpace (pl_ExternalType inp) \<and>
      le_ExternalID existing = TrimSpace (pl_ExternalID inp) \<and>
      le_ActorType existing = TrimSpace (pl_ActorType inp) \<and>
      le_ActorID existing = TrimSpace (pl_ActorID inp))"

definition getIntentByTriggerLedgerEntry :: "payment_db \<Rightarrow> string \<Rightarrow> error + PaymentIntent" where
  "getIntentByTriggerLedgerEntry s entryID =
     scan (query_row (find (\<lambda>i. pi_TriggerLedgerEntryID i \<noteq> [] \<and> pi_TriggerLedgerEntryID i = entryID)
       (db_intents s)))"

definition disarmAutoTopUpAfterSettlementReversalTx :: "env \<Rightarrow> CommercialAccount \<Rightarrow> payment_db \<Rightarrow>
    error + (CommercialAccount \<times> payment_db)" where
  "disarmAutoTopUpAfterSettlementReversalTx E account s =
     bindE (sql_update_policy E (\<lambda>p. atp_AccountID p = ca_ID account \<and> atp_Armed p)
              (\<lambda>p. p\<lparr>atp_Armed := False, atp_Version := atp_Version p + 1\<rparr>) s) (\<lambda>(updated, s).
     if updated = None \<or> ca_State account \<noteq> AccountStateActive then Inr (account, s)
     else scan (sql_update_account E (ca_ID account) (\<lambda>a. a\<lparr>ca_State := AccountStateAttentionRequired\<rparr>) s))"

text \<open>The queries of \<open>evaluateAutoTopUpTx\<close>.\<close>

definition policyDayStart :: "instant \<Rightarrow> instant" where
  "policyDayStart now = fst (DailyLimitWindow now)"

definition has_open_intent :: "payment_db \<Rightarrow> string \<Rightarrow> bool" where
  "has_open_intent s accountID =
     list_ex (\<lambda>i. pi_AccountID i = accountID \<and> intent_open (pi_State i)) (db_intents s)"

definition intents_today :: "payment_db \<Rightarrow> string \<Rightarrow> instant \<Rightarrow> PaymentIntent list" where
  "intents_today s accountID now =
     filter (\<lambda>i. pi_AccountID i = accountID \<and> pi_Reason i = PaymentIntentReasonAutoTopUp \<and>
        pi_CreatedAt i \<ge> policyDayStart now) (db_intents s)"

definition amount_today :: "payment_db \<Rightarrow> string \<Rightarrow> instant \<Rightarrow> int" where
  "amount_today s accountID now =
     (\<Sum>i\<leftarrow>filter (\<lambda>i. pi_State i \<noteq> PaymentIntentStateFailed \<and> pi_State i \<noteq> PaymentIntentStateCanceled)
             (intents_today s accountID now). pi_AmountMinor i)"

definition auto_intent_values :: "CommercialAccount \<Rightarrow> policy_row \<Rightarrow> method_row \<Rightarrow> LedgerEntry \<Rightarrow>
    instant \<Rightarrow> string \<Rightarrow> PaymentIntent" where
  "auto_intent_values account policy method trigger now correlationID =
     \<lparr>pi_ID = [], pi_AccountID = ca_ID account, pi_AmountMinor = atp_TopUpAmountMinor policy,
      pi_Currency = atp_Currency policy, pi_Reason = PaymentIntentReasonAutoTopUp,
      pi_PolicyGeneration = Some (atp_Generation policy), pi_TriggerLedgerEntryID = le_ID trigger,
      pi_Provider = pm_Provider method, pi_PaymentMethodID = pm_ID method,
      pi_State = PaymentIntentStateCreated,
      pi_IdempotencyKey =
        ''auto/'' @ atp_ID policy @ ''/'' @ decimal (atp_Generation policy) @ ''/'' @ le_ID trigger,
      pi_MerchantOrderReference = [], pi_ProviderTransactionReference = [],
      pi_CorrelationID = (if required correlationID then correlationID else le_ID trigger),
      pi_CreatedAt = now, pi_UpdatedAt = now, pi_CompletedAt = None\<rparr>"

definition evaluateAutoTopUpTx :: "env \<Rightarrow> ctx \<Rightarrow> CommercialAccount \<Rightarrow> LedgerEntry \<Rightarrow> instant \<Rightarrow> string \<Rightarrow>
    payment_db \<Rightarrow> error + (PaymentIntent option \<times> payment_db)" where
  "evaluateAutoTopUpTx E ctx account trigger now correlationID s =
     (if requireNoHandoffTx s (ca_ID account) = Inl ErrHandoffFenced then Inr (None, s)
      else case getPolicyForUpdate s (ca_ID account) of
        Inl e \<Rightarrow> (if e = ErrNotFound then Inr (None, s) else Inl e)
      | Inr policy \<Rightarrow>
          bindE (ValidatePolicy (AutoTopUpPolicy.truncate policy)) (\<lambda>_.
          bindE (getPaymentMethodForUpdate ctx s (atp_PaymentMethodID policy)) (\<lambda>method.
          if \<not> is_int64 (amount_today s (ca_ID account) now) then Inl (PgError ''22003'' [])
          else
            let decision = EvaluateAutoTopUp (AutoTopUpPolicy.truncate policy)
                  \<lparr>pe_BalanceMinor = ca_AvailableBalanceMinor account, pe_Now = now,
                   pe_AttemptsToday = int (length (intents_today s (ca_ID account) now)),
                   pe_AutomaticAmountTodayMinor = amount_today s (ca_ID account) now,
                   pe_HasOpenIntent = has_open_intent s (ca_ID account),
                   pe_PaymentMethodStatus = pm_Status method,
                   pe_MerchantInitiatedCharge = pc_MerchantInitiatedCharge (pm_Capabilities method)\<rparr>
            in if \<not> pd_Trigger decision then Inr (None, s)
            else
              bindE (scan (sql_insert_intent E
                       (auto_intent_values account policy method trigger now correlationID) s)) (\<lambda>(intent, s).
              bindE (sql_update_policy E (\<lambda>p. atp_ID p = atp_ID policy)
                       (\<lambda>p. p\<lparr>atp_Armed := False, atp_LastTriggeredAt := Some (db_time now),
                              atp_Version := atp_Version p + 1\<rparr>) s) (\<lambda>(_, s).
              bindE (sql_insert_job E (pi_ID intent) ReconciliationReasonCharge now s) (\<lambda>s.
              Inr (Some intent, s)))))))"

definition rearmPolicyAfterCreditTx :: "env \<Rightarrow> CommercialAccount \<Rightarrow> payment_db \<Rightarrow>
    error + (CommercialAccount \<times> payment_db)" where
  "rearmPolicyAfterCreditTx E account s =
     (if requireNoHandoffTx s (ca_ID account) = Inl ErrHandoffFenced then Inr (account, s)
      else case getPolicyForUpdate s (ca_ID account) of
        Inl e \<Rightarrow> (if e = ErrNotFound then Inr (account, s) else Inl e)
      | Inr policy \<Rightarrow>
          if atp_Enabled policy \<and> ca_AvailableBalanceMinor account \<ge> atp_ThresholdMinor policy then
            bindE (sql_update_policy E (\<lambda>p. atp_ID p = atp_ID policy)
                     (\<lambda>p. p\<lparr>atp_Armed := True,
                            atp_Version := (if atp_Armed p then atp_Version p else atp_Version p + 1)\<rparr>) s) (\<lambda>(_, s).
            if ca_State account = AccountStateAttentionRequired
            then scan (sql_update_account E (ca_ID account) (\<lambda>a. a\<lparr>ca_State := AccountStateActive\<rparr>) s)
            else Inr (account, s))
          else Inr (account, s))"

definition intent_option :: "error + PaymentIntent \<Rightarrow> error + PaymentIntent option" where
  "intent_option m =
     (case m of Inr intent \<Rightarrow> Inr (Some intent) | Inl e \<Rightarrow> if e = ErrNotFound then Inr None else Inl e)"

text \<open>What follows the insertion of a new entry in \<open>PostLedgerEntry\<close>.\<close>

definition after_entry :: "env \<Rightarrow> ctx \<Rightarrow> PostLedgerEntryInput \<Rightarrow> instant \<Rightarrow> LedgerEntry \<Rightarrow> CommercialAccount \<Rightarrow>
    payment_db \<Rightarrow> error + (CommercialAccount \<times> PaymentIntent option \<times> payment_db)" where
  "after_entry E ctx inp now entry account s =
     (if pl_Direction inp = LedgerDirectionDebit \<and> ca_State account = AccountStateActive then
        bindE (evaluateAutoTopUpTx E ctx account entry now (pl_RequestID inp) s) (\<lambda>(created, s).
        Inr (account, created, s))
      else if pl_Direction inp = LedgerDirectionCredit then
        bindE (rearmPolicyAfterCreditTx E account s) (\<lambda>(account, s). Inr (account, None, s))
      else Inr (account, None, s))"

definition PostLedgerEntry :: "env \<Rightarrow> ctx \<Rightarrow> PostLedgerEntryInput \<Rightarrow> payment_db \<Rightarrow>
    error + (PostLedgerEntryResult \<times> payment_db)" where
  "PostLedgerEntry E ctx inp s =
     bindE (validateLedgerInput inp) (\<lambda>_.
     if isSettlementReversal (pl_Reason inp) then Inl ErrProviderReversalRequired
     else
       let inp = inp\<lparr>pl_Now := now_or E (pl_Now inp)\<rparr> in
       bindE (getAccountForUpdate E ctx s (pl_AccountID inp)) (\<lambda>account.
       if ca_State account = AccountStateClosed then Inl ErrAccountClosed
       else if ca_Currency account \<noteq> pl_Currency inp then Inl ErrConflict
       else case getLedgerEntryByIdempotency s (pl_AccountID inp) (pl_IdempotencyScope inp) (pl_IdempotencyKey inp) of
         Inr existing \<Rightarrow>
           if \<not> sameLedgerRequest existing inp then Inl ErrIdempotencyConflict
           else bindE (intent_option (getIntentByTriggerLedgerEntry s (le_ID existing))) (\<lambda>intent.
             Inr (\<lparr>plr_Account = account, plr_Entry = existing, plr_Intent = intent, plr_Duplicate = True\<rparr>, s))
       | Inl e \<Rightarrow>
           if e \<noteq> ErrNotFound then Inl e
           else bindE (if pl_Direction inp = LedgerDirectionCredit then requireNoHandoffTx s (ca_ID account)
                       else Inr ()) (\<lambda>_.
             bindE (insertLedgerEntryTx E account inp s) (\<lambda>(entry, account, s).
             bindE (after_entry E ctx inp (pl_Now inp) entry account s) (\<lambda>(account, intent, s).
             Inr (\<lparr>plr_Account = account, plr_Entry = entry, plr_Intent = intent, plr_Duplicate = False\<rparr>, s))))))"

end
