(* ===== verification/Intent_Store.thy ===== *)
theory Intent_Store
  imports Ledger_Store
begin

text \<open>
  Payment intents: \<^verbatim>\<open>paymentstore/intents.go\<close> (the transition of an intent with its credit and its
  effect on policy and account) and the two ways a customer opens one in
  \<^verbatim>\<open>paymentstore/customer.go\<close>.
\<close>

section \<open>Transitions (intents.go)\<close>

record TransitionIntentInput =
  ti_IntentID :: string
  ti_ToState :: PaymentIntentState
  ti_ProviderTransactionReference :: string
  ti_Now :: instant

record TransitionIntentResult =
  tir_Intent :: PaymentIntent
  tir_Account :: CommercialAccount
  tir_CreditEntry :: "LedgerEntry option"
  tir_Duplicate :: bool

definition getIntentForUpdate :: "payment_db \<Rightarrow> string \<Rightarrow> error + PaymentIntent" where
  "getIntentForUpdate s intentID = scan (query_row (find_intent s intentID))"

definition getPaymentIntentCredit :: "payment_db \<Rightarrow> string \<Rightarrow> error + LedgerEntry" where
  "getPaymentIntentCredit s intentID =
     scan (query_row (find (\<lambda>e. le_IdempotencyScope e = ''payment_intent'' \<and> le_IdempotencyKey e = intentID)
       (db_ledger s)))"

definition entry_option :: "error + LedgerEntry \<Rightarrow> error + LedgerEntry option" where
  "entry_option m =
     (case m of Inr entry \<Rightarrow> Inr (Some entry) | Inl e \<Rightarrow> if e = ErrNotFound then Inr None else Inl e)"

definition credit_input :: "CommercialAccount \<Rightarrow> PaymentIntent \<Rightarrow> instant \<Rightarrow> PostLedgerEntryInput" where
  "credit_input account intent now =
     \<lparr>pl_AccountID = ca_ID account, pl_Direction = LedgerDirectionCredit,
      pl_AmountMinor = pi_AmountMinor intent, pl_Currency = pi_Currency intent,
      pl_Reason = LedgerReasonPaymentTopUpCredit, pl_IdempotencyScope = ''payment_intent'',
      pl_IdempotencyKey = pi_ID intent, pl_ExternalType = ''payment_intent'',
      pl_ExternalID = pi_ID intent, pl_ActorType = ''service'', pl_ActorID = ''payment_worker'',
      pl_RequestID = pi_CorrelationID intent, pl_Now = now\<rparr>"

text \<open>
  The receipt mail of a settled PayPal top-up: queued for the profile of the period that answers
  for the payment, when that profile asks for mail.
\<close>

definition email_recipient :: "payment_db \<Rightarrow> CommercialAccount \<Rightarrow> PaymentIntent \<Rightarrow> BillingProfile option" where
  "email_recipient s account intent =
     (case find (\<lambda>b. rb_AccountID b = ca_ID account \<and> rb_SubjectID b = pi_ID intent) (db_payment_responsibility s) of
        None \<Rightarrow> None
      | Some b \<Rightarrow>
          (case find (\<lambda>p. rp_ID p = rb_PeriodID b) (db_periods s) of
             None \<Rightarrow> None
           | Some p \<Rightarrow> find (\<lambda>f. bp_OrganizationID f = ca_OrganizationID account \<and>
               bp_OwnershipVersion f = Some (rp_OwnershipVersion p) \<and>
               bp_DeliveryPreference f = ''portal_and_email'' \<and> \<not> bp_RequiresConfiguration f \<and>
               not_blank (bp_ContactEmail f)) (db_profiles s)))"

definition at_after_first :: "string \<Rightarrow> bool" where
  "at_after_first t = (case t of [] \<Rightarrow> False | c # cs \<Rightarrow> c \<noteq> CHR 0x40 \<and> CHR 0x40 \<in> set cs)"

definition queue_topup_email :: "PaymentIntent \<Rightarrow> CommercialAccount \<Rightarrow> instant \<Rightarrow> payment_db \<Rightarrow>
    error + payment_db" where
  "queue_topup_email intent account now s =
     (if pi_Provider intent = ''paypal'' \<and> pi_Reason intent = PaymentIntentReasonManualTopUp then
        (case email_recipient s account intent of
           None \<Rightarrow> Inr s
         | Some p \<Rightarrow>
             if \<not> at_after_first (bp_ContactEmail p)
             then Inl (check_violation ''billing_topup_email_outbox_recipient_email_check'')
             else if list_ex (\<lambda>m. te_IntentID m = pi_ID intent) (db_emails s) then Inr s
             else Inr (s\<lparr>db_emails := db_emails s @
               [\<lparr>te_IntentID = pi_ID intent, te_OrganizationID = ca_OrganizationID account,
                 te_RecipientEmail = bp_ContactEmail p, te_RecipientName = bp_LegalName p,
                 te_AmountMinor = pi_AmountMinor intent, te_Currency = pi_Currency intent,
                 te_Provider = pi_Provider intent, te_PaymentCreatedAt = db_time (pi_CreatedAt intent),
                 te_PaymentCompletedAt = db_time now\<rparr>]\<rparr>))
      else Inr s)"

text \<open>After a credit: the policy of the account is rearmed when the balance allows it.\<close>

definition policy_after_success :: "env \<Rightarrow> PaymentIntent \<Rightarrow> CommercialAccount \<Rightarrow> instant \<Rightarrow> payment_db \<Rightarrow>
    error + (CommercialAccount \<times> payment_db)" where
  "policy_after_success E intent account now s =
     (case getPolicyForUpdate s (ca_ID account) of
        Inl e \<Rightarrow> (if e = ErrNotFound then Inr (account, s) else Inl e)
      | Inr policy \<Rightarrow>
          if \<not> atp_Enabled policy then Inr (account, s)
          else
            let armed = ca_AvailableBalanceMinor account \<ge> atp_ThresholdMinor policy;
                resetFailures = pi_Reason intent = PaymentIntentReasonAutoTopUp \<and>
                  pi_PolicyGeneration intent = Some (atp_Generation policy)
            in bindE (sql_update_policy E (\<lambda>p. atp_ID p = atp_ID policy)
                 (\<lambda>p. p\<lparr>atp_LastSucceededAt := Some (db_time now), atp_Armed := armed,
                        atp_ConsecutiveFailureCount :=
                          (if resetFailures then 0 else atp_ConsecutiveFailureCount p),
                        atp_Version := atp_Version p + 1\<rparr>) s) (\<lambda>(_, s).
               if ca_State account \<noteq> AccountStateSuspended \<and> ca_State account \<noteq> AccountStateClosed
               then scan (sql_update_account E (ca_ID account)
                      (\<lambda>a. a\<lparr>ca_State := (if armed then AccountStateActive else AccountStateAttentionRequired)\<rparr>) s)
               else Inr (account, s)))"

text \<open>
  After any other transition of an automatic top-up: failures are counted, the third disables the
  policy, and a disabled policy or a required action marks the account.
\<close>

definition policy_after_other :: "env \<Rightarrow> PaymentIntent \<Rightarrow> PaymentIntentState \<Rightarrow> CommercialAccount \<Rightarrow> payment_db \<Rightarrow>
    error + (CommercialAccount \<times> payment_db)" where
  "policy_after_other E intent toState account s =
     (case getPolicyForUpdate s (ca_ID account) of
        Inl e \<Rightarrow> (if e = ErrNotFound then Inr (account, s) else Inl e)
      | Inr policy \<Rightarrow>
          if pi_PolicyGeneration intent \<noteq> Some (atp_Generation policy) then Inr (account, s)
          else
            let failed = toState = PaymentIntentStateFailed \<or> toState = PaymentIntentStateCanceled;
                count = atp_ConsecutiveFailureCount policy + 1;
                disable = count \<ge> 3
            in bindE (if failed
                      then sql_update_policy E (\<lambda>p. atp_ID p = atp_ID policy)
                        (\<lambda>p. p\<lparr>atp_ConsecutiveFailureCount := count,
                               atp_Enabled := (if disable then False else atp_Enabled p),
                               atp_Armed := False, atp_Version := atp_Version p + 1\<rparr>) s
                      else Inr (None, s)) (\<lambda>(_, s).
               let attentionRequired = (if failed then disable else toState = PaymentIntentStateRequiresAction)
               in if attentionRequired \<and> ca_State account = AccountStateActive
                  then scan (sql_update_account E (ca_ID account)
                         (\<lambda>a. a\<lparr>ca_State := AccountStateAttentionRequired\<rparr>) s)
                  else Inr (account, s)))"

definition transitionIntentTx :: "env \<Rightarrow> CommercialAccount \<Rightarrow> PaymentIntent \<Rightarrow> TransitionIntentInput \<Rightarrow>
    payment_db \<Rightarrow> error + (TransitionIntentResult \<times> payment_db)" where
  "transitionIntentTx E account intent inp s =
     (let providerReference = TrimSpace (ti_ProviderTransactionReference inp) in
      if pi_ProviderTransactionReference intent \<noteq> [] \<and> providerReference \<noteq> [] \<and>
         pi_ProviderTransactionReference intent \<noteq> providerReference
      then Inl ErrConflict
      else if pi_State intent = ti_ToState inp then
        bindE (entry_option (getPaymentIntentCredit s (pi_ID intent))) (\<lambda>credit.
        Inr (\<lparr>tir_Intent = intent, tir_Account = account, tir_CreditEntry = credit, tir_Duplicate = True\<rparr>, s))
      else
        bindE (ValidateIntentTransition (pi_State intent) (ti_ToState inp)) (\<lambda>_.
        let reference = (if pi_ProviderTransactionReference intent = [] then providerReference
                         else pi_ProviderTransactionReference intent);
            completedAt = (if IntentStateTerminal (ti_ToState inp) then Some (db_time (ti_Now inp)) else None)
        in bindE (scan (sql_update_intent E (pi_ID intent)
                    (\<lambda>i. i\<lparr>pi_State := ti_ToState inp, pi_ProviderTransactionReference := reference,
                           pi_CompletedAt := completedAt\<rparr>) s)) (\<lambda>(intent, s).
           if ti_ToState inp = PaymentIntentStateSucceeded then
             bindE (insertLedgerEntryTx E account (credit_input account intent (ti_Now inp)) s)
               (\<lambda>(credit, account, s).
             bindE (queue_topup_email intent account (ti_Now inp) s) (\<lambda>s.
             bindE (policy_after_success E intent account (ti_Now inp) s) (\<lambda>(account, s).
             Inr (\<lparr>tir_Intent = intent, tir_Account = account, tir_CreditEntry = Some credit,
                   tir_Duplicate = False\<rparr>, s))))
           else
             bindE (if pi_Reason intent = PaymentIntentReasonAutoTopUp \<and> pi_PolicyGeneration intent \<noteq> None
                    then policy_after_other E intent (ti_ToState inp) account s
                    else Inr (account, s)) (\<lambda>(account, s).
             Inr (\<lparr>tir_Intent = intent, tir_Account = account, tir_CreditEntry = None,
                   tir_Duplicate = False\<rparr>, s)))))"

definition TransitionIntent :: "env \<Rightarrow> ctx \<Rightarrow> TransitionIntentInput \<Rightarrow> payment_db \<Rightarrow>
    error + (TransitionIntentResult \<times> payment_db)" where
  "TransitionIntent E ctx inp s =
     (if \<not> required (ti_IntentID inp) \<or> \<not> ValidIntentState (ti_ToState inp) then Inl ErrConflict
      else
        let inp = inp\<lparr>ti_Now := now_or E (ti_Now inp)\<rparr> in
        bindE (getIntentForUpdate s (ti_IntentID inp)) (\<lambda>row.
        bindE (getAccountForUpdate E ctx s (pi_AccountID row)) (\<lambda>account.
        bindE (getIntentForUpdate s (ti_IntentID inp)) (\<lambda>intent.
        transitionIntentTx E account intent inp s))))"

definition GetPaymentIntent :: "payment_db \<Rightarrow> string \<Rightarrow> error + PaymentIntent" where
  "GetPaymentIntent s intentID = scan (query_row (find_intent s intentID))"

definition GetPaymentIntentByProviderReference :: "payment_db \<Rightarrow> string \<Rightarrow> string \<Rightarrow> error + PaymentIntent" where
  "GetPaymentIntentByProviderReference s provider reference =
     (if provider = [] \<or> reference = [] then Inl ErrNotFound
      else scan (query_row (find (\<lambda>i. pi_Provider i = provider \<and>
             pi_ProviderTransactionReference i = reference) (db_intents s))))"

end
