(* ===== verification/Customer_Store.thy ===== *)
theory Customer_Store
  imports Intent_Store
begin

text \<open>
  What a customer configures: consents and payment methods (\<^verbatim>\<open>paymentstore/methods.go\<close>), the
  automatic top-up policy (\<^verbatim>\<open>paymentstore/policy.go\<close>), and in \<^verbatim>\<open>paymentstore/customer.go\<close>
  manual and hosted top-ups, the revocation of a method and the end of a policy.
\<close>

section \<open>Consents and methods (methods.go)\<close>

record CreateConsentInput =
  ccn_AccountID :: string
  ccn_ConsentType :: string
  ccn_TextVersion :: string
  ccn_TextSHA256 :: string
  ccn_AcceptedActorType :: string
  ccn_AcceptedActorID :: string
  ccn_AcceptedAt :: instant
  ccn_Locale :: string
  ccn_Source :: string

definition hex_digit :: "char \<Rightarrow> bool" where
  "hex_digit c = (c \<ge> CHR ''0'' \<and> c \<le> CHR ''9'' \<or> c \<ge> CHR ''a'' \<and> c \<le> CHR ''f'')"

definition lower_sha256 :: "string \<Rightarrow> bool" where
  "lower_sha256 t = (length t = 64 \<and> list_all hex_digit t)"

definition consent_check :: "PaymentConsent \<Rightarrow> bool" where
  "consent_check c =
     ((pco_ConsentType c = ''payment_method'' \<or> pco_ConsentType c = ''auto_topup'') \<and>
      not_blank (pco_TextVersion c) \<and> lower_sha256 (pco_TextSHA256 c) \<and>
      not_blank (pco_AcceptedActorType c) \<and> not_blank (pco_AcceptedActorID c) \<and>
      not_blank (pco_Locale c) \<and> not_blank (pco_Source c))"

definition CreateConsent :: "env \<Rightarrow> ctx \<Rightarrow> CreateConsentInput \<Rightarrow> payment_db \<Rightarrow>
    error + (PaymentConsent \<times> payment_db)" where
  "CreateConsent E ctx inp s =
     (if \<not> required (ccn_AccountID inp) \<or>
         (ccn_ConsentType inp \<noteq> ''payment_method'' \<and> ccn_ConsentType inp \<noteq> ''auto_topup'') \<or>
         \<not> required (ccn_TextVersion inp) \<or> length (ccn_TextSHA256 inp) \<noteq> 64 \<or>
         \<not> required (ccn_AcceptedActorType inp) \<or> \<not> required (ccn_AcceptedActorID inp) \<or>
         ccn_AcceptedAt inp = zero_time \<or> \<not> required (ccn_Locale inp) \<or> \<not> required (ccn_Source inp)
      then Inl ErrConflict
      else
        bindE (getAccountForUpdate E ctx s (ccn_AccountID inp)) (\<lambda>_.
        bindE (requireNoHandoffTx s (ccn_AccountID inp)) (\<lambda>_.
        let row = \<lparr>pco_ID = next_uuid E s, pco_AccountID = ccn_AccountID inp,
                   pco_ConsentType = ccn_ConsentType inp, pco_TextVersion = TrimSpace (ccn_TextVersion inp),
                   pco_TextSHA256 = ToLower (ccn_TextSHA256 inp),
                   pco_AcceptedActorType = ccn_AcceptedActorType inp,
                   pco_AcceptedActorID = ccn_AcceptedActorID inp,
                   pco_AcceptedAt = db_time (ccn_AcceptedAt inp), pco_Locale = ccn_Locale inp,
                   pco_Source = ccn_Source inp, pco_RevokedAt = None, pco_RevocationReason = [],
                   pco_CreatedAt = env_now E, pco_UpdatedAt = env_now E\<rparr>
        in if closure_active s (ccn_AccountID inp) then Inl (mapNotFound closure_barrier)
           else if \<not> consent_check row then Inl (check_violation ''payment_consents_check'')
           else if list_ex (\<lambda>c. pco_ID c = pco_ID row) (db_consents s)
           then Inl (unique_violation ''payment_consents_pkey'')
           else Inr (row, (drawn s)\<lparr>db_consents := db_consents s @ [row]\<rparr>))))"

record CreatePaymentMethodInput =
  cpm_AccountID :: string
  cpm_Provider :: string
  cpm_ProviderCustomerRefCiphertext :: string
  cpm_ProviderMethodRefCiphertext :: string
  cpm_ProviderMethodRefSHA256 :: string
  cpm_CardBrand :: string
  cpm_LastFour :: string
  cpm_ExpiryMonth :: "int option"
  cpm_ExpiryYear :: "int option"
  cpm_Capabilities :: ProviderCapabilities
  cpm_Status :: PaymentMethodStatus
  cpm_ConsentID :: string

definition digit :: "char \<Rightarrow> bool" where
  "digit c = (c \<ge> CHR ''0'' \<and> c \<le> CHR ''9'')"

definition method_check :: "method_row \<Rightarrow> bool" where
  "method_check m =
     (not_blank (pm_Provider m) \<and> ToLower (pm_Provider m) = pm_Provider m \<and>
      (case pm_Status m of PaymentMethodStatusOther _ \<Rightarrow> False | _ \<Rightarrow> True) \<and>
      (pmr_MethodRefSHA256 m = [] \<or> lower_sha256 (pmr_MethodRefSHA256 m)) \<and>
      (pm_LastFour m = [] \<or> length (pm_LastFour m) = 4 \<and> list_all digit (pm_LastFour m)) \<and>
      ((pm_ExpiryMonth m = None) = (pm_ExpiryYear m = None)) \<and>
      (case pm_ExpiryMonth m of None \<Rightarrow> True | Some x \<Rightarrow> 1 \<le> x \<and> x \<le> 12) \<and>
      (case pm_ExpiryYear m of None \<Rightarrow> True | Some y \<Rightarrow> 2000 \<le> y \<and> y \<le> 9999) \<and>
      (pm_Status m = PaymentMethodStatusActive \<longrightarrow>
         pmr_CustomerRefCiphertext m \<noteq> [] \<and> pmr_MethodRefCiphertext m \<noteq> [] \<and> pmr_MethodRefSHA256 m \<noteq> []))"

text \<open>\<^verbatim>\<open>bind_method_responsibility_at_creation\<close>\<close>

definition method_binding :: "payment_db \<Rightarrow> method_row \<Rightarrow> responsibility_binding option" where
  "method_binding s m =
     map_option (\<lambda>p. \<lparr>rb_SubjectID = pm_ID m, rb_AccountID = pm_AccountID m, rb_PeriodID = rp_ID p,
                      rb_EvidenceSHA256 = rp_SourceEvidenceSHA256 p, rb_Provenance = []\<rparr>)
       (current_period s (pm_AccountID m))"

definition sql_insert_method :: "env \<Rightarrow> method_row \<Rightarrow> payment_db \<Rightarrow> error + (method_row \<times> payment_db)" where
  "sql_insert_method E values s =
     (let row = values\<lparr>pm_ID := next_uuid E s, pm_CreatedAt := env_now E, pm_UpdatedAt := env_now E\<rparr> in
      if closure_active s (pm_AccountID row) then Inl closure_barrier
      else if \<not> method_check row then Inl (check_violation ''payment_methods_check'')
      else if list_ex (\<lambda>m. pm_ID m = pm_ID row) (db_methods s)
      then Inl (unique_violation ''payment_methods_pkey'')
      else if pmr_MethodRefSHA256 row \<noteq> [] \<and>
              list_ex (\<lambda>m. pm_AccountID m = pm_AccountID row \<and> pm_Provider m = pm_Provider row \<and>
                           pmr_MethodRefSHA256 m = pmr_MethodRefSHA256 row) (db_methods s)
      then Inl (unique_violation ''payment_methods_provider_ref_unique_idx'')
      else Inr (row, (drawn s)\<lparr>db_methods := db_methods s @ [row],
             db_method_responsibility :=
               db_method_responsibility s @ option_list (method_binding s row)\<rparr>))"

definition getConsentForUpdate :: "payment_db \<Rightarrow> string \<Rightarrow> error + PaymentConsent" where
  "getConsentForUpdate s consentID = scan (query_row (find (\<lambda>c. pco_ID c = consentID) (db_consents s)))"

definition CreatePaymentMethod :: "env \<Rightarrow> ctx \<Rightarrow> CreatePaymentMethodInput \<Rightarrow> payment_db \<Rightarrow>
    error + (method_row \<times> payment_db)" where
  "CreatePaymentMethod E ctx inp s =
     (let provider = NormalizeProvider (cpm_Provider inp) in
      if \<not> required (cpm_AccountID inp) \<or> provider = [] \<or> \<not> required (cpm_ConsentID inp) then Inl ErrConflict
      else if cpm_Status inp = PaymentMethodStatusActive \<and>
              (cpm_ProviderCustomerRefCiphertext inp = [] \<or> cpm_ProviderMethodRefCiphertext inp = [] \<or>
               length (cpm_ProviderMethodRefSHA256 inp) \<noteq> 64)
      then Inl ErrConflict
      else if cpm_LastFour inp \<noteq> [] \<and>
              (length (cpm_LastFour inp) \<noteq> 4 \<or> \<not> list_all digit (cpm_LastFour inp))
      then Inl ErrConflict
      else
        bindE (getAccountForUpdate E ctx s (cpm_AccountID inp)) (\<lambda>_.
        bindE (requireNoHandoffTx s (cpm_AccountID inp)) (\<lambda>_.
        bindE (getConsentForUpdate s (cpm_ConsentID inp)) (\<lambda>consent.
        if pco_AccountID consent \<noteq> cpm_AccountID inp \<or> pco_ConsentType consent \<noteq> ''payment_method'' \<or>
           pco_RevokedAt consent \<noteq> None
        then Inl ErrConflict
        else scan (sql_insert_method E
          \<lparr>pm_ID = [], pm_AccountID = cpm_AccountID inp, pm_Provider = provider, pm_Status = cpm_Status inp,
           pm_CardBrand = cpm_CardBrand inp, pm_LastFour = cpm_LastFour inp,
           pm_ExpiryMonth = cpm_ExpiryMonth inp, pm_ExpiryYear = cpm_ExpiryYear inp,
           pm_Capabilities = cpm_Capabilities inp, pm_ConsentID = cpm_ConsentID inp,
           pm_CreatedAt = zero_time, pm_UpdatedAt = zero_time,
           pmr_CustomerRefCiphertext = cpm_ProviderCustomerRefCiphertext inp,
           pmr_MethodRefCiphertext = cpm_ProviderMethodRefCiphertext inp,
           pmr_MethodRefSHA256 = ToLower (cpm_ProviderMethodRefSHA256 inp)\<rparr> s)))))"

section \<open>The policy (policy.go)\<close>

record PutAutoTopUpPolicyInput =
  pp_AccountID :: string
  pp_Enabled :: bool
  pp_ThresholdMinor :: int
  pp_TopUpAmountMinor :: int
  pp_Currency :: Currency
  pp_PaymentMethodID :: string
  pp_DailyAttemptLimit :: int
  pp_DailyAmountLimitMinor :: int
  pp_CooldownSeconds :: int
  pp_ConsentID :: string
  pp_ActorID :: string
  pp_ExpectedVersion :: int

text \<open>The predecessor configuration is proven retired: its period ended, its method and consent are revoked.\<close>

definition retired_predecessor :: "payment_db \<Rightarrow> string \<Rightarrow> policy_row \<Rightarrow> int \<Rightarrow> bool" where
  "retired_predecessor s accountID current version =
     list_ex (\<lambda>b. rb_AccountID b = accountID \<and> rb_SubjectID b = atp_PaymentMethodID current \<and>
       list_ex (\<lambda>p. rp_ID p = rb_PeriodID b \<and> rp_EffectiveUntil p \<noteq> None \<and> rp_OwnershipVersion p < version) (db_periods s) \<and>
       list_ex (\<lambda>m. pm_ID m = rb_SubjectID b \<and> pm_Status m = PaymentMethodStatusRevoked) (db_methods s) \<and>
       list_ex (\<lambda>c. pco_ID c = atp_ConsentID current \<and> pco_AccountID c = accountID \<and> pco_RevokedAt c \<noteq> None)
         (db_consents s))
     (db_method_responsibility s)"

text \<open>
  The version check against the current policy; the result tells whether the put replaces a
  retired predecessor's policy.
\<close>

definition check_policy_version :: "ctx \<Rightarrow> PutAutoTopUpPolicyInput \<Rightarrow> policy_row \<Rightarrow> payment_db \<Rightarrow> error + bool" where
  "check_policy_version ctx inp current s =
     bindE (case ctx of
        None \<Rightarrow> Inr False
      | Some scope \<Rightarrow>
          (case getPaymentMethodForUpdate ctx s (atp_PaymentMethodID current) of
             Inl e \<Rightarrow>
               if e \<noteq> ErrNotFound then Inl e
               else
                 let replacesRetired = retired_predecessor s (pp_AccountID inp) current (sc_OwnershipVersion scope)
                 in if \<not> replacesRetired \<or> atp_Enabled current \<or> atp_Armed current \<or> pp_ExpectedVersion inp \<noteq> 0
                    then Inl ErrConflict else Inr True
           | Inr _ \<Rightarrow>
               if pp_ExpectedVersion inp \<noteq> atp_Version current then Inl ErrConflict else Inr False))
     (\<lambda>replacesRetired.
        if \<not> replacesRetired \<and> pp_ExpectedVersion inp > 0 \<and> atp_Version current \<noteq> pp_ExpectedVersion inp
        then Inl ErrConflict else Inr replacesRetired)"

definition candidate_policy :: "PutAutoTopUpPolicyInput \<Rightarrow> int \<Rightarrow> int \<Rightarrow> AutoTopUpPolicy" where
  "candidate_policy inp generation version =
     \<lparr>atp_ID = [], atp_AccountID = pp_AccountID inp, atp_Enabled = pp_Enabled inp,
      atp_ThresholdMinor = pp_ThresholdMinor inp, atp_TopUpAmountMinor = pp_TopUpAmountMinor inp,
      atp_Currency = pp_Currency inp, atp_PaymentMethodID = pp_PaymentMethodID inp,
      atp_DailyAttemptLimit = pp_DailyAttemptLimit inp,
      atp_DailyAmountLimitMinor = pp_DailyAmountLimitMinor inp,
      atp_CooldownSeconds = pp_CooldownSeconds inp, atp_Generation = generation, atp_Version = version,
      atp_Armed = True, atp_ConsecutiveFailureCount = 0, atp_LastTriggeredAt = None,
      atp_LastSucceededAt = None, atp_ConsentID = pp_ConsentID inp, atp_CreatedAt = zero_time,
      atp_UpdatedAt = zero_time\<rparr>"

definition PutAutoTopUpPolicy :: "env \<Rightarrow> ctx \<Rightarrow> PutAutoTopUpPolicyInput \<Rightarrow> payment_db \<Rightarrow>
    error + (policy_row \<times> payment_db)" where
  "PutAutoTopUpPolicy E ctx inp s =
     (if \<not> required (pp_AccountID inp) \<or> \<not> required (pp_PaymentMethodID inp) \<or>
         \<not> required (pp_ConsentID inp) \<or> \<not> required (pp_ActorID inp)
      then Inl ErrConflict
      else
        bindE (getAccountForUpdate E ctx s (pp_AccountID inp)) (\<lambda>account.
        if ca_State account = AccountStateClosed then Inl ErrAccountClosed
        else
        bindE (requireNoHandoffTx s (ca_ID account)) (\<lambda>_.
        if ca_Currency account \<noteq> pp_Currency inp then Inl ErrConflict
        else
        bindE (getPaymentMethodForUpdate ctx s (pp_PaymentMethodID inp)) (\<lambda>method.
        if pm_AccountID method \<noteq> pp_AccountID inp \<or> pm_Status method \<noteq> PaymentMethodStatusActive
        then Inl ErrPaymentMethodInactive
        else if \<not> pc_MerchantInitiatedCharge (pm_Capabilities method) then Inl ErrCapabilityUnsupported
        else
        bindE (getConsentForUpdate s (pp_ConsentID inp)) (\<lambda>consent.
        if pco_AccountID consent \<noteq> pp_AccountID inp \<or> pco_ConsentType consent \<noteq> ''auto_topup'' \<or>
           pco_RevokedAt consent \<noteq> None
        then Inl ErrConflict
        else case getPolicyForUpdate s (pp_AccountID inp) of
          Inr current \<Rightarrow>
            bindE (check_policy_version ctx inp current s) (\<lambda>replacesRetired.
            let generation = atp_Generation current + 1; version = atp_Version current + 1;
                candidate = candidate_policy inp generation version
            in bindE (ValidatePolicy candidate) (\<lambda>_.
               case sql_update_policy E (\<lambda>p. atp_AccountID p = pp_AccountID inp)
                 (\<lambda>p. p\<lparr>atp_Enabled := pp_Enabled inp, atp_ThresholdMinor := pp_ThresholdMinor inp,
                        atp_TopUpAmountMinor := pp_TopUpAmountMinor inp, atp_Currency := pp_Currency inp,
                        atp_PaymentMethodID := pp_PaymentMethodID inp,
                        atp_DailyAttemptLimit := pp_DailyAttemptLimit inp,
                        atp_DailyAmountLimitMinor := pp_DailyAmountLimitMinor inp,
                        atp_CooldownSeconds := pp_CooldownSeconds inp, atp_Generation := generation,
                        atp_Version := version, atp_Armed := True, atp_ConsecutiveFailureCount := 0,
                        atp_LastTriggeredAt := None, atp_LastSucceededAt := None,
                        atp_ConsentID := pp_ConsentID inp, pol_UpdatedBy := pp_ActorID inp,
                        pol_CreatedBy := (if replacesRetired then pp_ActorID inp else pol_CreatedBy p),
                        atp_CreatedAt := (if replacesRetired then env_now E else atp_CreatedAt p)\<rparr>) s of
                 Inl e \<Rightarrow> Inl (mapNotFound e)
               | Inr (None, _) \<Rightarrow> Inl ErrNotFound
               | Inr (Some policy, s) \<Rightarrow> Inr (policy, s)))
        | Inl e \<Rightarrow>
            if e \<noteq> ErrNotFound then Inl e
            else if pp_ExpectedVersion inp > 0 then Inl ErrConflict
            else bindE (ValidatePolicy (candidate_policy inp 1 1)) (\<lambda>_.
              scan (sql_insert_policy E
                (AutoTopUpPolicy.extend (candidate_policy inp 1 1)
                   (policy_row.fields (pp_ActorID inp) (pp_ActorID inp))) s)))))))"

section \<open>Opening and closing by the customer (customer.go)\<close>

record CreateManualTopUpInput =
  cm_AccountID :: string
  cm_AmountMinor :: int
  cm_Currency :: Currency
  cm_PaymentMethodID :: string
  cm_IdempotencyKey :: string
  cm_CorrelationID :: string
  cm_Now :: instant

record CreateHostedTopUpInput =
  ch_AccountID :: string
  ch_Provider :: string
  ch_IdempotencyKey :: string
  ch_CorrelationID :: string
  ch_AmountMinor :: int
  ch_Currency :: Currency
  ch_Now :: instant

record CreateManualTopUpResult =
  cmr_Intent :: PaymentIntent
  cmr_Duplicate :: bool

definition requireCurrentIntentReplay :: "ctx \<Rightarrow> payment_db \<Rightarrow> string \<Rightarrow> error + unit" where
  "requireCurrentIntentReplay ctx s intentID =
     (case ctx of
        None \<Rightarrow> Inr ()
      | Some _ \<Rightarrow>
          if list_ex (\<lambda>i. pi_ID i = intentID \<and>
               periodVisibility ctx s (db_payment_responsibility s) (pi_ID i) (pi_AccountID i) True) (db_intents s)
          then Inr () else Inl ErrIdempotencyConflict)"

definition find_intent_key :: "payment_db \<Rightarrow> string \<Rightarrow> string \<Rightarrow> PaymentIntent option" where
  "find_intent_key s accountID key =
     find (\<lambda>i. pi_AccountID i = accountID \<and> pi_IdempotencyKey i = TrimSpace key) (db_intents s)"

text \<open>The checks common to both ways of opening a top-up.\<close>

definition topup_account :: "env \<Rightarrow> ctx \<Rightarrow> payment_db \<Rightarrow> string \<Rightarrow> Currency \<Rightarrow> error + CommercialAccount" where
  "topup_account E ctx s accountID currency =
     bindE (getAccountForUpdate E ctx s accountID) (\<lambda>account.
     if ca_State account = AccountStateClosed \<or> ca_State account = AccountStateSuspended then Inl ErrAccountClosed
     else bindE (requireNoHandoffTx s (ca_ID account)) (\<lambda>_.
     if ca_Currency account \<noteq> currency then Inl ErrConflict else Inr account))"

definition manual_intent_values :: "string \<Rightarrow> int \<Rightarrow> Currency \<Rightarrow> string \<Rightarrow> string \<Rightarrow> PaymentIntentState \<Rightarrow>
    string \<Rightarrow> string \<Rightarrow> string \<Rightarrow> instant \<Rightarrow> PaymentIntent" where
  "manual_intent_values accountID amount currency provider methodID state key order correlationID now =
     \<lparr>pi_ID = [], pi_AccountID = accountID, pi_AmountMinor = amount, pi_Currency = currency,
      pi_Reason = PaymentIntentReasonManualTopUp, pi_PolicyGeneration = None,
      pi_TriggerLedgerEntryID = [], pi_Provider = provider, pi_PaymentMethodID = methodID,
      pi_State = state, pi_IdempotencyKey = TrimSpace key, pi_MerchantOrderReference = order,
      pi_ProviderTransactionReference = [], pi_CorrelationID = TrimSpace correlationID,
      pi_CreatedAt = now, pi_UpdatedAt = now, pi_CompletedAt = None\<rparr>"

definition CreateManualTopUp :: "env \<Rightarrow> ctx \<Rightarrow> CreateManualTopUpInput \<Rightarrow> payment_db \<Rightarrow>
    error + (CreateManualTopUpResult \<times> payment_db)" where
  "CreateManualTopUp E ctx inp s =
     (if \<not> required (cm_AccountID inp) \<or> \<not> required (cm_PaymentMethodID inp) \<or>
         \<not> required (cm_IdempotencyKey inp) \<or> \<not> required (cm_CorrelationID inp)
      then Inl ErrConflict
      else
        bindE (ValidateChargeAmount (cm_Currency inp) (cm_AmountMinor inp)) (\<lambda>_.
        let now = now_or E (cm_Now inp) in
        bindE (topup_account E ctx s (cm_AccountID inp) (cm_Currency inp)) (\<lambda>account.
        case find_intent_key s (cm_AccountID inp) (cm_IdempotencyKey inp) of
          Some existing \<Rightarrow>
            bindE (requireCurrentIntentReplay ctx s (pi_ID existing)) (\<lambda>_.
            if pi_AmountMinor existing \<noteq> cm_AmountMinor inp \<or> pi_Currency existing \<noteq> cm_Currency inp \<or>
               pi_PaymentMethodID existing \<noteq> cm_PaymentMethodID inp \<or>
               pi_Reason existing \<noteq> PaymentIntentReasonManualTopUp
            then Inl ErrIdempotencyConflict
            else Inr (\<lparr>cmr_Intent = existing, cmr_Duplicate = True\<rparr>, s))
        | None \<Rightarrow>
            bindE (getPaymentMethodForUpdate ctx s (cm_PaymentMethodID inp)) (\<lambda>method.
            if pm_AccountID method \<noteq> cm_AccountID inp \<or> pm_Status method \<noteq> PaymentMethodStatusActive
            then Inl ErrPaymentMethodInactive
            else if \<not> pc_MerchantInitiatedCharge (pm_Capabilities method) then Inl ErrCapabilityUnsupported
            else
              bindE (scan (sql_insert_intent E
                (manual_intent_values (cm_AccountID inp) (cm_AmountMinor inp) (cm_Currency inp)
                   (pm_Provider method) (cm_PaymentMethodID inp) PaymentIntentStateCreated
                   (cm_IdempotencyKey inp) [] (cm_CorrelationID inp) now) s)) (\<lambda>(intent, s).
              bindE (sql_insert_job E (pi_ID intent) ReconciliationReasonCharge now s) (\<lambda>s.
              Inr (\<lparr>cmr_Intent = intent, cmr_Duplicate = False\<rparr>, s)))))))"

text \<open>\<open>random\<close> is the hexadecimal text of the thirteen random bytes.\<close>

definition CreateHostedTopUp :: "env \<Rightarrow> ctx \<Rightarrow> string \<Rightarrow> CreateHostedTopUpInput \<Rightarrow> payment_db \<Rightarrow>
    error + (CreateManualTopUpResult \<times> payment_db)" where
  "CreateHostedTopUp E ctx random inp s =
     (let provider = NormalizeProvider (ch_Provider inp) in
      if \<not> required (ch_AccountID inp) \<or> \<not> required provider \<or>
         \<not> required (ch_IdempotencyKey inp) \<or> \<not> required (ch_CorrelationID inp)
      then Inl ErrConflict
      else
        bindE (ValidateChargeAmount (ch_Currency inp) (ch_AmountMinor inp)) (\<lambda>_.
        let now = now_or E (ch_Now inp) in
        bindE (topup_account E ctx s (ch_AccountID inp) (ch_Currency inp)) (\<lambda>account.
        case find_intent_key s (ch_AccountID inp) (ch_IdempotencyKey inp) of
          Some existing \<Rightarrow>
            bindE (requireCurrentIntentReplay ctx s (pi_ID existing)) (\<lambda>_.
            if pi_AmountMinor existing \<noteq> ch_AmountMinor inp \<or> pi_Currency existing \<noteq> ch_Currency inp \<or>
               pi_Provider existing \<noteq> provider \<or> pi_PaymentMethodID existing \<noteq> [] \<or>
               pi_Reason existing \<noteq> PaymentIntentReasonManualTopUp
            then Inl ErrIdempotencyConflict
            else Inr (\<lparr>cmr_Intent = existing, cmr_Duplicate = True\<rparr>, s))
        | None \<Rightarrow>
            bindE (scan (sql_insert_intent E
              (manual_intent_values (ch_AccountID inp) (ch_AmountMinor inp) (ch_Currency inp) provider []
                 PaymentIntentStateProcessing (ch_IdempotencyKey inp) (''rtk_'' @ random)
                 (ch_CorrelationID inp) now) s)) (\<lambda>(intent, s).
            bindE (sql_insert_job E (pi_ID intent) ReconciliationReasonUnknown (now + 5 * minute_ns) s) (\<lambda>s.
            Inr (\<lparr>cmr_Intent = intent, cmr_Duplicate = False\<rparr>, s))))))"

record RevokePaymentMethodInput =
  rpm_AccountID :: string
  rpm_MethodID :: string
  rpm_ActorID :: string
  rpm_Reason :: string
  rpm_Now :: instant

record RevokePaymentMethodResult =
  rpr_Method :: method_row
  rpr_PolicyDisabled :: bool
  rpr_Duplicate :: bool

definition revoke_consent :: "env \<Rightarrow> string \<Rightarrow> instant \<Rightarrow> string \<Rightarrow> payment_db \<Rightarrow> error + payment_db" where
  "revoke_consent E consentID now reason s =
     (if list_ex (\<lambda>c. pco_ID c = consentID \<and> pco_RevokedAt c = None) (db_consents s) \<and> \<not> not_blank reason
      then Inl (check_violation ''payment_consents_revocation_check'')
      else Inr (s\<lparr>db_consents := update_where (\<lambda>c. pco_ID c = consentID)
             (\<lambda>c. c\<lparr>pco_RevokedAt := Some (case pco_RevokedAt c of Some t \<Rightarrow> t | None \<Rightarrow> db_time now),
                    pco_RevocationReason :=
                      (if pco_RevocationReason c = [] then reason else pco_RevocationReason c),
                    pco_UpdatedAt := env_now E\<rparr>) (db_consents s)\<rparr>))"

definition RevokePaymentMethod :: "env \<Rightarrow> ctx \<Rightarrow> RevokePaymentMethodInput \<Rightarrow> payment_db \<Rightarrow>
    error + (RevokePaymentMethodResult \<times> payment_db)" where
  "RevokePaymentMethod E ctx inp s =
     (if \<not> required (rpm_AccountID inp) \<or> \<not> required (rpm_MethodID inp) \<or>
         \<not> required (rpm_ActorID inp) \<or> \<not> required (rpm_Reason inp)
      then Inl ErrConflict
      else
        let now = now_or E (rpm_Now inp) in
        bindE (getAccountForUpdate E ctx s (rpm_AccountID inp)) (\<lambda>_.
        bindE (getPaymentMethodForUpdate ctx s (rpm_MethodID inp)) (\<lambda>method.
        if pm_AccountID method \<noteq> rpm_AccountID inp then Inl ErrNotFound
        else if pm_Status method = PaymentMethodStatusRevoked
        then Inr (\<lparr>rpr_Method = method, rpr_PolicyDisabled = False, rpr_Duplicate = True\<rparr>, s)
        else
          let method = method\<lparr>pm_Status := PaymentMethodStatusRevoked, pm_UpdatedAt := env_now E\<rparr>;
              s = s\<lparr>db_methods := update_where (\<lambda>m. pm_ID m = rpm_MethodID inp) (\<lambda>_. method) (db_methods s)\<rparr>
          in bindE (revoke_consent E (pm_ConsentID method) now (TrimSpace (rpm_Reason inp)) s) (\<lambda>s.
             bindE (sql_update_policy E
               (\<lambda>p. atp_AccountID p = rpm_AccountID inp \<and> atp_PaymentMethodID p = rpm_MethodID inp \<and> atp_Enabled p)
               (\<lambda>p. p\<lparr>atp_Enabled := False, atp_Armed := False, atp_Generation := atp_Generation p + 1,
                      atp_Version := atp_Version p + 1, pol_UpdatedBy := TrimSpace (rpm_ActorID inp)\<rparr>) s)
               (\<lambda>(updated, s).
             Inr (\<lparr>rpr_Method = method, rpr_PolicyDisabled = (updated \<noteq> None), rpr_Duplicate = False\<rparr>, s))))))"

record DisableAutoTopUpPolicyInput =
  dp_AccountID :: string
  dp_ActorID :: string
  dp_ExpectedVersion :: int

definition DisableAutoTopUpPolicy :: "env \<Rightarrow> ctx \<Rightarrow> DisableAutoTopUpPolicyInput \<Rightarrow> payment_db \<Rightarrow>
    error + (policy_row \<times> payment_db)" where
  "DisableAutoTopUpPolicy E ctx inp s =
     (if \<not> required (dp_AccountID inp) \<or> \<not> required (dp_ActorID inp) \<or> dp_ExpectedVersion inp < 0
      then Inl ErrConflict
      else
        bindE (getAccountForUpdate E ctx s (dp_AccountID inp)) (\<lambda>_.
        bindE (getPolicyForUpdate s (dp_AccountID inp)) (\<lambda>policy.
        bindE (if ctx = None then Inr ()
               else bindE (getPaymentMethodForUpdate ctx s (atp_PaymentMethodID policy)) (\<lambda>_. Inr ())) (\<lambda>_.
        if dp_ExpectedVersion inp > 0 \<and> atp_Version policy \<noteq> dp_ExpectedVersion inp then Inl ErrConflict
        else if \<not> atp_Enabled policy then Inr (policy, s)
        else case sql_update_policy E (\<lambda>p. atp_AccountID p = dp_AccountID inp)
               (\<lambda>p. p\<lparr>atp_Enabled := False, atp_Armed := False, atp_Generation := atp_Generation p + 1,
                      atp_Version := atp_Version p + 1, pol_UpdatedBy := TrimSpace (dp_ActorID inp)\<rparr>) s of
               Inl e \<Rightarrow> Inl (mapNotFound e)
             | Inr (None, _) \<Rightarrow> Inl ErrNotFound
             | Inr (Some policy, s) \<Rightarrow> Inr (policy, s)))))"

end
