(* ===== verification/Orchestration_Store.thy ===== *)
theory Orchestration_Store
  imports Intent_Store "HOL-Library.Product_Lexorder"
begin

text \<open>
  The work queue of the payment worker: \<^verbatim>\<open>paymentstore/orchestration.go\<close> (claiming jobs under a
  lease, beginning and finalizing an attempt at the provider) and \<^verbatim>\<open>paymentstore/webhooks.go\<close>
  (the inbox of provider notifications).
\<close>

section \<open>Helpers (orchestration.go)\<close>

definition sha256_char :: "char \<Rightarrow> bool" where
  "sha256_char c = (c \<ge> CHR ''0'' \<and> c \<le> CHR ''9'' \<or> c \<ge> CHR ''a'' \<and> c \<le> CHR ''f'')"

definition validSHA256 :: "string \<Rightarrow> bool" where
  "validSHA256 value = (length value = 64 \<and> list_all sha256_char (ToLower value))"

definition nullTimeUnlessUnknown :: "PaymentIntentState \<Rightarrow> instant \<Rightarrow> instant option" where
  "nullTimeUnlessUnknown state value = (if state = PaymentIntentStateUnknown then Some value else None)"

definition sanitizeSafeError :: "string \<Rightarrow> string" where
  "sanitizeSafeError value = NormalizeProviderCode value"

fun intent_state_text :: "PaymentIntentState \<Rightarrow> string" where
  "intent_state_text PaymentIntentStateCreated = ''created''"
| "intent_state_text PaymentIntentStateProcessing = ''processing''"
| "intent_state_text PaymentIntentStateAuthorized = ''authorized''"
| "intent_state_text PaymentIntentStateRequiresAction = ''requires_action''"
| "intent_state_text PaymentIntentStateUnknown = ''unknown''"
| "intent_state_text PaymentIntentStateSucceeded = ''succeeded''"
| "intent_state_text PaymentIntentStateFailed = ''failed''"
| "intent_state_text PaymentIntentStateCanceled = ''canceled''"
| "intent_state_text (PaymentIntentStateOther t) = t"

section \<open>Claiming jobs\<close>

text \<open>
  \<open>locked\<close> are the rows other transactions hold, which \<^verbatim>\<open>SKIP LOCKED\<close> passes over.
\<close>

definition claimable :: "instant \<Rightarrow> instant \<Rightarrow> ReconciliationJob \<Rightarrow> bool" where
  "claimable now staleBefore j =
     (rj_Status j = ReconciliationStatusPending \<and> rj_DueAt j \<le> db_time now \<or>
      rj_Status j = ReconciliationStatusLeased \<and>
        (case rj_LeasedAt j of None \<Rightarrow> False | Some t \<Rightarrow> t \<le> db_time staleBefore))"

definition job_order :: "ReconciliationJob \<Rightarrow> instant \<times> instant \<times> string" where
  "job_order j = (rj_DueAt j, rj_CreatedAt j, rj_ID j)"

definition lease_job :: "env \<Rightarrow> instant \<Rightarrow> string \<Rightarrow> ReconciliationJob \<Rightarrow> ReconciliationJob" where
  "lease_job E now leaseOwner j =
     j\<lparr>rj_Status := ReconciliationStatusLeased, rj_LeasedAt := Some (db_time now),
       rj_LeaseOwner := TrimSpace leaseOwner, rj_AttemptCount := rj_AttemptCount j + 1,
       rj_LastError := [], rj_UpdatedAt := env_now E\<rparr>"

definition ClaimPaymentJobs :: "env \<Rightarrow> string list \<Rightarrow> instant \<Rightarrow> instant \<Rightarrow> string \<Rightarrow> int \<Rightarrow> payment_db \<Rightarrow>
    error + (ReconciliationJob list \<times> payment_db)" where
  "ClaimPaymentJobs E locked now staleBefore leaseOwner limit s =
     (if \<not> required leaseOwner then Inl ErrConflict
      else
        let limit = (if limit \<le> 0 \<or> limit > 100 then 20 else limit);
            candidates = take (nat limit) (sort_key job_order
              (filter (\<lambda>j. claimable now staleBefore j \<and> rj_ID j \<notin> set locked) (db_jobs s)));
            ids = map rj_ID candidates
        in Inr (map (lease_job E now leaseOwner) candidates,
                s\<lparr>db_jobs := update_where (\<lambda>j. rj_ID j \<in> set ids) (lease_job E now leaseOwner) (db_jobs s)\<rparr>))"

section \<open>Beginning an attempt\<close>

record BeginProviderAttemptInput =
  ba_JobID :: string
  ba_LeaseOwner :: string
  ba_Operation :: ProviderOperation
  ba_Now :: instant

record ProviderAttemptWork =
  aw_Job :: ReconciliationJob
  aw_Attempt :: PaymentAttempt
  aw_Intent :: PaymentIntent
  aw_ProviderMethodRefCiphertext :: string
  aw_ProviderCustomerRefCiphertext :: string
  aw_RecoverIncompleteAttempt :: bool

definition find_job :: "payment_db \<Rightarrow> string \<Rightarrow> error + ReconciliationJob" where
  "find_job s jobID = scan (query_row (find (\<lambda>j. rj_ID j = jobID) (db_jobs s)))"

definition incomplete_attempt :: "payment_db \<Rightarrow> string \<Rightarrow> ProviderOperation \<Rightarrow> PaymentAttempt option" where
  "incomplete_attempt s intentID operation =
     (case sort_key (\<lambda>a. - pa_AttemptNumber a)
             (filter (\<lambda>a. pa_IntentID a = intentID \<and> pa_Operation a = operation \<and> pa_CompletedAt a = None)
               (db_attempts s)) of
        [] \<Rightarrow> None
      | a # _ \<Rightarrow> Some a)"

definition next_attempt_number :: "payment_db \<Rightarrow> string \<Rightarrow> int" where
  "next_attempt_number s intentID =
     fold max (map pa_AttemptNumber (filter (\<lambda>a. pa_IntentID a = intentID) (db_attempts s))) 0 + 1"

definition order_reference :: "PaymentIntent \<Rightarrow> error + string" where
  "order_reference intent =
     (if pi_MerchantOrderReference intent \<noteq> [] then Inr (pi_MerchantOrderReference intent)
      else
        let compactID = filter (\<lambda>c. c \<noteq> CHR ''-'') (pi_ID intent)
        in if length compactID < 26 then Inl GoPanic else Inr (''rtk_'' @ take 26 compactID))"

text \<open>The switch on the operation: a charge moves the intent on, a query only checks it.\<close>

definition begin_operation :: "env \<Rightarrow> ReconciliationJob \<Rightarrow> PaymentIntent \<Rightarrow> ProviderOperation \<Rightarrow> payment_db \<Rightarrow>
    error + (PaymentIntent \<times> payment_db)" where
  "begin_operation E job intent operation s =
     (if operation = ProviderOperationCharge then
        bindE (requireNoHandoffTx s (pi_AccountID intent)) (\<lambda>_.
        if rj_Reason job \<noteq> ReconciliationReasonCharge \<or> pi_State intent \<noteq> PaymentIntentStateCreated
        then Inl ErrJobNotActionable
        else bindE (order_reference intent) (\<lambda>reference.
          scan (sql_update_intent E (pi_ID intent)
            (\<lambda>i. i\<lparr>pi_State := PaymentIntentStateProcessing, pi_MerchantOrderReference := reference\<rparr>) s)))
      else
        if rj_Reason job = ReconciliationReasonCharge \<or>
           (pi_State intent \<noteq> PaymentIntentStateProcessing \<and> pi_State intent \<noteq> PaymentIntentStateAuthorized \<and>
            pi_State intent \<noteq> PaymentIntentStateRequiresAction \<and> pi_State intent \<noteq> PaymentIntentStateUnknown)
        then Inl ErrJobNotActionable
        else Inr (intent, s))"

definition method_references :: "PaymentIntent \<Rightarrow> ProviderOperation \<Rightarrow> payment_db \<Rightarrow> error + (string \<times> string)" where
  "method_references intent operation s =
     (if operation = ProviderOperationCharge then
        bindE (scan (query_row (find (\<lambda>m. pm_ID m = pi_PaymentMethodID intent \<and> pm_AccountID m = pi_AccountID intent \<and>
           pm_Provider m = pi_Provider intent \<and> pm_Status m = PaymentMethodStatusActive) (db_methods s)))) (\<lambda>m.
        Inr (pmr_MethodRefCiphertext m, pmr_CustomerRefCiphertext m))
      else Inr ([], []))"

definition BeginProviderAttempt :: "env \<Rightarrow> ctx \<Rightarrow> BeginProviderAttemptInput \<Rightarrow> payment_db \<Rightarrow>
    error + (ProviderAttemptWork \<times> payment_db)" where
  "BeginProviderAttempt E ctx inp s =
     (if \<not> required (ba_JobID inp) \<or> \<not> required (ba_LeaseOwner inp) \<or>
         (ba_Operation inp \<noteq> ProviderOperationCharge \<and> ba_Operation inp \<noteq> ProviderOperationQuery)
      then Inl ErrConflict
      else
        let now = now_or E (ba_Now inp) in
        bindE (find_job s (ba_JobID inp)) (\<lambda>job.
        if rj_Status job \<noteq> ReconciliationStatusLeased \<or> rj_LeaseOwner job \<noteq> TrimSpace (ba_LeaseOwner inp)
        then Inl ErrLeaseConflict
        else
          bindE (getIntentForUpdate s (rj_IntentID job)) (\<lambda>row.
          bindE (getAccountForUpdate E ctx s (pi_AccountID row)) (\<lambda>_.
          bindE (getIntentForUpdate s (rj_IntentID job)) (\<lambda>intent.
          if IntentStateTerminal (pi_State intent) then Inl ErrJobNotActionable
          else case incomplete_attempt s (pi_ID intent) (ba_Operation inp) of
            Some existing \<Rightarrow>
              Inr (\<lparr>aw_Job = job, aw_Attempt = existing, aw_Intent = intent,
                    aw_ProviderMethodRefCiphertext = [], aw_ProviderCustomerRefCiphertext = [],
                    aw_RecoverIncompleteAttempt = True\<rparr>, s)
          | None \<Rightarrow>
              bindE (begin_operation E job intent (ba_Operation inp) s) (\<lambda>(intent, s).
              bindE (scan (sql_insert_attempt E (pi_AccountID intent) (pi_ID intent) (ba_Operation inp)
                       (next_attempt_number s (pi_ID intent)) now s)) (\<lambda>(attempt, s).
              bindE (method_references intent (ba_Operation inp) s) (\<lambda>(methodRef, customerRef).
              Inr (\<lparr>aw_Job = job, aw_Attempt = attempt, aw_Intent = intent,
                    aw_ProviderMethodRefCiphertext = methodRef,
                    aw_ProviderCustomerRefCiphertext = customerRef,
                    aw_RecoverIncompleteAttempt = False\<rparr>, s))))))))) "

definition SetAttemptRequestDigest :: "string \<Rightarrow> string \<Rightarrow> payment_db \<Rightarrow> error + payment_db" where
  "SetAttemptRequestDigest attemptID sha256 s =
     (if \<not> required attemptID \<or> \<not> validSHA256 sha256 then Inl ErrConflict
      else
        let selected = (\<lambda>a. pa_ID a = attemptID \<and> pa_CompletedAt a = None \<and> pa_RequestSHA256 a = [])
        in if length (filter selected (db_attempts s)) \<noteq> 1 then Inl ErrConflict
           else Inr (s\<lparr>db_attempts := update_where selected
                  (\<lambda>a. a\<lparr>pa_RequestSHA256 := ToLower sha256\<rparr>) (db_attempts s)\<rparr>))"

section \<open>Finalizing an attempt\<close>

record FinalizeProviderAttemptInput =
  fa_JobID :: string
  fa_LeaseOwner :: string
  fa_AttemptID :: string
  fa_Result :: ProviderResult
  fa_ResponseSHA256 :: string
  fa_Now :: instant
  fa_NextReconciliationAt :: instant

record FinalizeProviderAttemptResult =
  far_Transition :: "TransitionIntentResult option"
  far_Job :: ReconciliationJob
  far_Duplicate :: bool

definition complete_attempt :: "string \<Rightarrow> ProviderResult \<Rightarrow> string \<Rightarrow> instant \<Rightarrow> instant \<Rightarrow> payment_db \<Rightarrow> payment_db" where
  "complete_attempt attemptID result responseSHA256 now next s =
     s\<lparr>db_attempts := update_where (\<lambda>a. pa_ID a = attemptID)
        (\<lambda>a. a\<lparr>pa_CompletedAt := Some (db_time now), pa_NormalizedResult := intent_state_text (pr_State result),
               pa_ProviderCode := NormalizeProviderCode (pr_ProviderCode result),
               pa_ResponseSHA256 := ToLower responseSHA256,
               pa_NextReconciliationAt := map_option db_time (nullTimeUnlessUnknown (pr_State result) next)\<rparr>)
        (db_attempts s)\<rparr>"

definition release_job :: "ReconciliationStatus \<Rightarrow> ReconciliationJob \<Rightarrow> ReconciliationJob" where
  "release_job status j =
     j\<lparr>rj_Status := status, rj_LeasedAt := None, rj_LeaseOwner := [], rj_LastError := []\<rparr>"

text \<open>
  The job after its attempt: an unknown outcome of an \<open>unknown\<close> job is retried, any other job is
  completed and an unknown outcome opens a job of reason \<open>unknown\<close>.
\<close>

definition settle_job :: "env \<Rightarrow> ReconciliationJob \<Rightarrow> ProviderResult \<Rightarrow> instant \<Rightarrow> payment_db \<Rightarrow>
    error + (ReconciliationJob \<times> payment_db)" where
  "settle_job E job result next s =
     (if pr_State result = PaymentIntentStateUnknown \<and> rj_Reason job = ReconciliationReasonUnknown then
        scan (sql_update_job E (\<lambda>j. rj_ID j = rj_ID job)
          (\<lambda>j. (release_job ReconciliationStatusPending j)\<lparr>rj_DueAt := db_time next\<rparr>) s)
      else
        bindE (scan (sql_update_job E (\<lambda>j. rj_ID j = rj_ID job) (release_job ReconciliationStatusCompleted) s))
          (\<lambda>(job, s).
        Inr (job, if pr_State result = PaymentIntentStateUnknown
                  then sql_insert_job_unless E (rj_IntentID job) ReconciliationReasonUnknown next s
                  else s)))"

definition process_webhooks :: "env \<Rightarrow> string \<Rightarrow> instant \<Rightarrow> payment_db \<Rightarrow> payment_db" where
  "process_webhooks E intentID now s =
     s\<lparr>db_webhooks := update_where (\<lambda>w. wr_IntentID w = intentID \<and> wr_ProcessingState w = ''scheduled'')
        (\<lambda>w. w\<lparr>wr_ProcessingState := ''processed'', wr_ProcessedAt := Some (db_time now), wr_UpdatedAt := env_now E\<rparr>)
        (db_webhooks s)\<rparr>"

definition FinalizeProviderAttempt :: "env \<Rightarrow> ctx \<Rightarrow> FinalizeProviderAttemptInput \<Rightarrow> payment_db \<Rightarrow>
    error + (FinalizeProviderAttemptResult \<times> payment_db)" where
  "FinalizeProviderAttempt E ctx inp s =
     (if \<not> required (fa_JobID inp) \<or> \<not> required (fa_LeaseOwner inp) \<or> \<not> required (fa_AttemptID inp) \<or>
         (fa_ResponseSHA256 inp \<noteq> [] \<and> \<not> validSHA256 (fa_ResponseSHA256 inp))
      then Inl ErrConflict
      else
        bindE (ValidateProviderResult (fa_Result inp)) (\<lambda>_.
        let now = now_or E (fa_Now inp);
            next = (if fa_NextReconciliationAt inp = zero_time then now + minute_ns else fa_NextReconciliationAt inp)
        in bindE (find_job s (fa_JobID inp)) (\<lambda>job.
        if rj_Status job \<noteq> ReconciliationStatusLeased \<or> rj_LeaseOwner job \<noteq> TrimSpace (fa_LeaseOwner inp)
        then Inl ErrLeaseConflict
        else
          bindE (scan (query_row (find (\<lambda>a. pa_ID a = fa_AttemptID inp) (db_attempts s)))) (\<lambda>attempt.
          if pa_IntentID attempt \<noteq> rj_IntentID job then Inl ErrConflict
          else if pa_CompletedAt attempt \<noteq> None
          then Inr (\<lparr>far_Transition = None, far_Job = job, far_Duplicate = True\<rparr>, s)
          else
            bindE (getIntentForUpdate s (rj_IntentID job)) (\<lambda>row.
            bindE (getAccountForUpdate E ctx s (pi_AccountID row)) (\<lambda>account.
            bindE (getIntentForUpdate s (rj_IntentID job)) (\<lambda>intent.
            bindE (transitionIntentTx E account intent
                     \<lparr>ti_IntentID = pi_ID intent, ti_ToState = pr_State (fa_Result inp),
                      ti_ProviderTransactionReference = pr_ProviderTransactionReference (fa_Result inp),
                      ti_Now = now\<rparr>
                     (complete_attempt (pa_ID attempt) (fa_Result inp) (fa_ResponseSHA256 inp) now next s))
              (\<lambda>(transition, s).
            bindE (settle_job E job (fa_Result inp) next s) (\<lambda>(job, s).
            Inr (\<lparr>far_Transition = Some transition, far_Job = job, far_Duplicate = False\<rparr>,
                 if pr_State (fa_Result inp) \<noteq> PaymentIntentStateUnknown
                 then process_webhooks E (pi_ID intent) now s else s)))))))))) "

section \<open>Completing and retrying a job\<close>

definition held :: "string \<Rightarrow> string \<Rightarrow> ReconciliationJob \<Rightarrow> bool" where
  "held jobID leaseOwner j =
     (rj_ID j = jobID \<and> rj_Status j = ReconciliationStatusLeased \<and> rj_LeaseOwner j = TrimSpace leaseOwner)"

definition CompletePaymentJob :: "env \<Rightarrow> string \<Rightarrow> string \<Rightarrow> payment_db \<Rightarrow> error + payment_db" where
  "CompletePaymentJob E jobID leaseOwner s =
     (case sql_update_job E (held jobID leaseOwner) (release_job ReconciliationStatusCompleted) s of
        Inr (_, s) \<Rightarrow> Inr s
      | Inl e \<Rightarrow> if e = ErrNoRows then Inl ErrLeaseConflict else Inl e)"

definition RetryPaymentJob :: "env \<Rightarrow> string \<Rightarrow> string \<Rightarrow> instant \<Rightarrow> string \<Rightarrow> payment_db \<Rightarrow> error + payment_db" where
  "RetryPaymentJob E jobID leaseOwner dueAt safeError s =
     (case sql_update_job E (held jobID leaseOwner)
             (\<lambda>j. (release_job ReconciliationStatusPending j)\<lparr>rj_DueAt := db_time dueAt,
                    rj_LastError := sanitizeSafeError safeError\<rparr>) s of
        Inr (_, s) \<Rightarrow> Inr s
      | Inl e \<Rightarrow> if e = ErrNoRows then Inl ErrLeaseConflict else Inl e)"

section \<open>The webhook inbox (webhooks.go)\<close>

record WebhookEvent =
  we_ProviderEventReference :: string
  we_EventType :: string
  we_MerchantOrderReference :: string
  we_ProviderTransactionReference :: string
  we_AmountMinor :: int
  we_Currency :: Currency
  we_State :: PaymentIntentState
  we_ProviderCode :: string

record RecordWebhookInput =
  rw_Provider :: string
  rw_PayloadSHA256 :: string
  rw_VerificationResult :: string
  rw_Event :: WebhookEvent
  rw_ReceivedAt :: instant

record RecordWebhookResult =
  rwr_Receipt :: WebhookReceipt
  rwr_Duplicate :: bool

definition truncateSafe :: "string \<Rightarrow> nat \<Rightarrow> string" where
  "truncateSafe value limit = (if length value > limit then take limit value else value)"

definition sanitizeWebhookSummary :: "WebhookEvent \<Rightarrow> (string \<times> string) list" where
  "sanitizeWebhookSummary event =
     [(''event_type'', truncateSafe (TrimSpace (we_EventType event)) 64),
      (''provider_code'', NormalizeProviderCode (we_ProviderCode event)),
      (''state'', intent_state_text (we_State event))]"

text \<open>\<open>ORDER BY created_at LIMIT 1\<close>\<close>

definition findWebhookDuplicate :: "payment_db \<Rightarrow> string \<Rightarrow> string \<Rightarrow> string \<Rightarrow> error + WebhookReceipt" where
  "findWebhookDuplicate s provider eventReference digest =
     (case sort_key wr_CreatedAt (filter (\<lambda>w. wr_Provider w = provider \<and>
             (wr_PayloadSHA256 w = digest \<or>
              eventReference \<noteq> [] \<and> wr_ProviderEventReference w = eventReference)) (db_webhooks s)) of
        [] \<Rightarrow> Inl ErrNotFound
      | w # _ \<Rightarrow> Inr w)"

definition webhook_conflict :: "payment_db \<Rightarrow> WebhookReceipt \<Rightarrow> bool" where
  "webhook_conflict s row =
     list_ex (\<lambda>w. wr_ID w = wr_ID row \<or>
        wr_Provider w = wr_Provider row \<and>
        (wr_PayloadSHA256 w = wr_PayloadSHA256 row \<or>
         wr_ProviderEventReference row \<noteq> [] \<and> wr_ProviderEventReference w = wr_ProviderEventReference row))
       (db_webhooks s)"

text \<open>
  A verified event is matched to its intent by the order reference: amount, currency and provider
  reference must agree, and a missing provider reference is filled in.
\<close>

definition webhook_intent :: "env \<Rightarrow> ctx \<Rightarrow> string \<Rightarrow> WebhookEvent \<Rightarrow> payment_db \<Rightarrow>
    error + (PaymentIntent \<times> payment_db)" where
  "webhook_intent E ctx provider event s =
     (if \<not> required (we_MerchantOrderReference event) \<or> we_AmountMinor event \<le> 0 \<or>
         ValidateProviderResult \<lparr>pr_State = we_State event, pr_ProviderTransactionReference = [],
                                 pr_ProviderCode = [], pr_Evidence = []\<rparr> \<noteq> Inr ()
      then Inl ErrConflict
      else
        let lookup = (\<lambda>s. scan (query_row (find (\<lambda>i. pi_Provider i = provider \<and>
              pi_MerchantOrderReference i = TrimSpace (we_MerchantOrderReference event)) (db_intents s))))
        in bindE (lookup s) (\<lambda>row.
           bindE (getAccountForUpdate E ctx s (pi_AccountID row)) (\<lambda>_.
           bindE (lookup s) (\<lambda>intent.
           if pi_AmountMinor intent \<noteq> we_AmountMinor event \<or> pi_Currency intent \<noteq> we_Currency event
           then Inl ErrConflict
           else
             let providerReference = TrimSpace (we_ProviderTransactionReference event) in
             if pi_ProviderTransactionReference intent \<noteq> [] \<and> providerReference \<noteq> [] \<and>
                pi_ProviderTransactionReference intent \<noteq> providerReference
             then Inl ErrConflict
             else if pi_ProviderTransactionReference intent = [] \<and> providerReference \<noteq> []
             then scan (sql_update_intent E (pi_ID intent)
                    (\<lambda>i. i\<lparr>pi_ProviderTransactionReference := providerReference\<rparr>) s)
             else Inr (intent, s)))))"

definition RecordWebhook :: "env \<Rightarrow> ctx \<Rightarrow> RecordWebhookInput \<Rightarrow> payment_db \<Rightarrow>
    error + (RecordWebhookResult \<times> payment_db)" where
  "RecordWebhook E ctx inp s =
     (let provider = NormalizeProvider (rw_Provider inp);
          verified = rw_VerificationResult inp = ''verified'';
          eventReference = TrimSpace (we_ProviderEventReference (rw_Event inp));
          digest = ToLower (rw_PayloadSHA256 inp);
          receivedAt = now_or E (rw_ReceivedAt inp)
      in if provider = [] \<or> \<not> validSHA256 (rw_PayloadSHA256 inp) \<or>
            (\<not> verified \<and> rw_VerificationResult inp \<noteq> ''rejected'')
      then Inl ErrConflict
      else
        bindE (if verified
               then bindE (webhook_intent E ctx provider (rw_Event inp) s) (\<lambda>(intent, s). Inr (pi_ID intent, s))
               else Inr ([], s)) (\<lambda>(intentID, s).
        let row = \<lparr>wr_ID = next_uuid E s, wr_Provider = provider, wr_ProviderEventReference = eventReference,
                   wr_PayloadSHA256 = digest, wr_VerificationResult = rw_VerificationResult inp,
                   wr_IntentID = intentID, wr_NormalizedEventType = TrimSpace (we_EventType (rw_Event inp)),
                   wr_ProcessingState = (if verified then ''scheduled'' else ''quarantined''),
                   wr_SafeSummary = sanitizeWebhookSummary (rw_Event inp),
                   wr_ReceivedAt = db_time receivedAt,
                   wr_ProcessedAt = (if verified then None else Some (db_time receivedAt)),
                   wr_CreatedAt = env_now E, wr_UpdatedAt = env_now E\<rparr>
        in if webhook_conflict s row then
             bindE (findWebhookDuplicate s provider eventReference digest) (\<lambda>receipt.
             if wr_PayloadSHA256 receipt \<noteq> digest \<or> wr_VerificationResult receipt \<noteq> rw_VerificationResult inp
             then Inl ErrIdempotencyConflict
             else Inr (\<lparr>rwr_Receipt = receipt, rwr_Duplicate = True\<rparr>, s))
           else
             let s = (drawn s)\<lparr>db_webhooks := db_webhooks s @ [row]\<rparr>
             in Inr (\<lparr>rwr_Receipt = row, rwr_Duplicate = False\<rparr>,
                     if verified then sql_insert_job_unless E intentID ReconciliationReasonWebhook receivedAt s
                     else s)))"

end
