(* ===== verification/Reversal_Store.thy ===== *)
theory Reversal_Store
  imports Intent_Store
begin

text \<open>
  Refunds and chargebacks reported by a provider: \<^verbatim>\<open>paymentstore/reversals.go\<close>. An event is
  recorded once, classified against the payment it reverses, and either debited from the balance,
  charged to a predecessor's period, or put under review. The digest of a request
  (\<^verbatim>\<open>handoffDigest\<close>: SHA-256 of its JSON text) is a parameter.
\<close>

record RecordProviderReversalInput =
  rpi_AccountID :: string
  rpi_Provider :: string
  rpi_EventReference :: string
  rpi_OriginalIntentID :: string
  rpi_AmountMinor :: int
  rpi_Currency :: Currency
  rpi_Reason :: LedgerReason
  rpi_ProviderPayloadSHA256 :: string
  rpi_RequestID :: string

record ProviderReversalResult =
  prr_EventID :: string
  prr_Disposition :: string
  prr_PeriodID :: string
  prr_ReviewReason :: string
  prr_Entry :: "LedgerEntry option"
  prr_Account :: CommercialAccount
  prr_Duplicate :: bool

record reversalAllocation =
  rva_periodID :: string
  rva_evidenceSHA :: string
  rva_disposition :: string
  rva_reviewReason :: string

definition nil_uuid :: string where
  "nil_uuid = ''00000000-0000-0000-0000-000000000000''"

definition canonicalUUID :: "env \<Rightarrow> string \<Rightarrow> bool" where
  "canonicalUUID E value = (env_uuid_text E value = Some value \<and> value \<noteq> nil_uuid)"

definition validLowerSHA256 :: "string \<Rightarrow> bool" where
  "validLowerSHA256 value =
     (length value = 64 \<and>
      list_all (\<lambda>c. c \<ge> CHR ''0'' \<and> c \<le> CHR ''9'' \<or> c \<ge> CHR ''a'' \<and> c \<le> CHR ''f'') value)"

definition review :: "string \<Rightarrow> reversalAllocation" where
  "review reason = \<lparr>rva_periodID = [], rva_evidenceSHA = [], rva_disposition = [], rva_reviewReason = reason\<rparr>"

text \<open>The sum of the events already allocated to a payment, the event in hand excluded.\<close>

definition allocated_total :: "payment_db \<Rightarrow> string \<Rightarrow> string \<Rightarrow> string \<Rightarrow> int" where
  "allocated_total s accountID intentID eventID =
     (\<Sum>e\<leftarrow>filter (\<lambda>e. re_AccountID e = accountID \<and> re_OriginalIntentID e = intentID \<and> re_ID e \<noteq> eventID \<and>
              list_ex (\<lambda>a. ral_EventID a = re_ID e) (db_reversal_allocations s)) (db_reversal_events s).
        re_AmountMinor e)"

definition intent_credit :: "payment_db \<Rightarrow> string \<Rightarrow> string \<Rightarrow> LedgerEntry option" where
  "intent_credit s accountID intentID =
     find (\<lambda>e. le_AccountID e = accountID \<and> le_IdempotencyScope e = ''payment_intent'' \<and>
               le_IdempotencyKey e = intentID) (db_ledger s)"

definition settled_credit :: "PaymentIntent \<Rightarrow> Currency \<Rightarrow> LedgerEntry \<Rightarrow> bool" where
  "settled_credit intent currency credit =
     (\<not> (pi_State intent \<noteq> PaymentIntentStateSucceeded \<or> le_AmountMinor credit \<noteq> pi_AmountMinor intent \<or>
         le_Currency credit \<noteq> currency \<or> le_Direction credit \<noteq> LedgerDirectionCredit \<or>
         le_Reason credit \<noteq> LedgerReasonPaymentTopUpCredit \<or> le_ExternalType credit \<noteq> ''payment_intent'' \<or>
         le_ExternalID credit \<noteq> pi_ID intent))"

definition committed_handoff :: "payment_db \<Rightarrow> string \<Rightarrow> string \<Rightarrow> bool" where
  "committed_handoff s accountID periodID =
     list_ex (\<lambda>h. oh_AccountID h = accountID \<and> oh_SourcePeriodID h = periodID \<and>
        list_ex (\<lambda>d. hcd_OperationID d = oh_ID h) (db_committed_decisions s)) (db_handoffs s)"

definition classifyProviderReversalTx :: "CommercialAccount \<Rightarrow> string \<Rightarrow> RecordProviderReversalInput \<Rightarrow>
    payment_db \<Rightarrow> error + reversalAllocation" where
  "classifyProviderReversalTx account eventID inp s =
     (case find (\<lambda>i. pi_ID i = rpi_OriginalIntentID inp \<and> pi_AccountID i = ca_ID account) (db_intents s) of
        None \<Rightarrow> Inr (review ''original_payment_unresolved'')
      | Some intent \<Rightarrow>
          if pi_Provider intent \<noteq> rpi_Provider inp \<or> pi_Currency intent \<noteq> rpi_Currency inp
          then Inr (review ''original_payment_mismatch'')
          else case intent_credit s (ca_ID account) (pi_ID intent) of
            None \<Rightarrow> Inr (review ''original_payment_not_settled'')
          | Some credit \<Rightarrow>
              if \<not> settled_credit intent (rpi_Currency inp) credit
              then Inr (review ''original_payment_not_settled'')
              else
                let tot = allocated_total s (ca_ID account) (pi_ID intent) eventID in
                if \<not> is_int64 tot then Inl (PgError ''22003'' [])
                else if tot > pi_AmountMinor intent \<or> rpi_AmountMinor inp > wrap64 (pi_AmountMinor intent - tot)
                then Inr (review ''reversal_exceeds_original_credit'')
                else case find (\<lambda>b. rb_SubjectID b = pi_ID intent \<and> rb_AccountID b = ca_ID account)
                            (db_payment_responsibility s) of
                  None \<Rightarrow> Inr (review ''payment_responsibility_unproven'')
                | Some b \<Rightarrow>
                    (case find (\<lambda>p. rp_ID p = rb_PeriodID b) (db_periods s) of
                       None \<Rightarrow> Inr (review ''payment_responsibility_unproven'')
                     | Some p \<Rightarrow>
                         let allocation = \<lparr>rva_periodID = rb_PeriodID b, rva_evidenceSHA = rb_EvidenceSHA256 b,
                                           rva_disposition = [], rva_reviewReason = []\<rparr>
                         in if rp_EffectiveUntil p \<noteq> None \<or> committed_handoff s (rb_AccountID b) (rb_PeriodID b)
                            then Inr (allocation\<lparr>rva_disposition := ''predecessor_adjustment''\<rparr>)
                            else if ca_State account = AccountStateClosed
                            then Inr (review ''commercial_account_closed'')
                            else if commit_pending s (ca_ID account)
                            then Inr (review ''ownership_commit_in_progress'')
                            else Inr (allocation\<lparr>rva_disposition := ''current_balance''\<rparr>)))"

definition reversal_entry_input :: "env \<Rightarrow> CommercialAccount \<Rightarrow> RecordProviderReversalInput \<Rightarrow> PostLedgerEntryInput" where
  "reversal_entry_input E account inp =
     \<lparr>pl_AccountID = ca_ID account, pl_Direction = LedgerDirectionDebit,
      pl_AmountMinor = rpi_AmountMinor inp, pl_Currency = rpi_Currency inp, pl_Reason = rpi_Reason inp,
      pl_IdempotencyScope = ''provider_reversal/'' @ rpi_Provider inp,
      pl_IdempotencyKey = rpi_EventReference inp, pl_ExternalType = ''payment_intent'',
      pl_ExternalID = rpi_OriginalIntentID inp, pl_ActorType = ''service'',
      pl_ActorID = ''provider_reconciliation'', pl_RequestID = rpi_RequestID inp, pl_Now = env_clock E\<rparr>"

definition sql_insert_allocation :: "reversal_allocation_row \<Rightarrow> payment_db \<Rightarrow> error + payment_db" where
  "sql_insert_allocation row s =
     (if \<not> validLowerSHA256 (ral_EvidenceSHA256 row)
      then Inl (check_violation ''billing_provider_reversal_allocations_evidence_sha256_check'')
      else if list_ex (\<lambda>a. ral_EventID a = ral_EventID row) (db_reversal_allocations s)
      then Inl (unique_violation ''billing_provider_reversal_allocations_pkey'')
      else if ral_LedgerEntryID row \<noteq> None \<and>
              list_ex (\<lambda>a. ral_LedgerEntryID a = ral_LedgerEntryID row) (db_reversal_allocations s)
      then Inl (unique_violation ''billing_provider_reversal_allocations_ledger_entry_id_key'')
      else Inr (s\<lparr>db_reversal_allocations := db_reversal_allocations s @ [row]\<rparr>))"

definition sql_insert_review :: "string \<Rightarrow> string \<Rightarrow> payment_db \<Rightarrow> error + payment_db" where
  "sql_insert_review eventID reason s =
     (if list_ex (\<lambda>r. rrv_EventID r = eventID) (db_reversal_reviews s)
      then Inl (unique_violation ''billing_provider_reversal_reviews_pkey'')
      else Inr (s\<lparr>db_reversal_reviews := db_reversal_reviews s @
             [\<lparr>rrv_EventID = eventID, rrv_ReasonCode = reason\<rparr>]\<rparr>))"

text \<open>The debit of a reversal that falls to the current balance, with its allocation row.\<close>

definition apply_allocation :: "env \<Rightarrow> CommercialAccount \<Rightarrow> string \<Rightarrow> RecordProviderReversalInput \<Rightarrow> string \<Rightarrow>
    reversalAllocation \<Rightarrow> payment_db \<Rightarrow> error + (LedgerEntry option \<times> CommercialAccount \<times> payment_db)" where
  "apply_allocation E account eventID inp resolutionSHA allocation s =
     bindE (if rva_disposition allocation = ''current_balance'' then
              bindE (insertLedgerEntryTx E account (reversal_entry_input E account inp) s) (\<lambda>(entry, updated, s).
              bindE (disarmAutoTopUpAfterSettlementReversalTx E updated s) (\<lambda>(account, s).
              Inr (Some entry, account, s)))
            else Inr (None, account, s)) (\<lambda>(entry, account, s).
     bindE (sql_insert_allocation
              \<lparr>ral_EventID = eventID, ral_AccountID = ca_ID account, ral_PeriodID = rva_periodID allocation,
               ral_Disposition = rva_disposition allocation, ral_LedgerEntryID = map_option le_ID entry,
               ral_EvidenceSHA256 = (if resolutionSHA \<noteq> [] then resolutionSHA else rva_evidenceSHA allocation)\<rparr> s)
       (\<lambda>s. Inr (entry, account, s)))"

definition reversal_audit :: "CommercialAccount \<Rightarrow> string \<Rightarrow> RecordProviderReversalInput \<Rightarrow> string \<Rightarrow> string \<Rightarrow>
    string \<Rightarrow> audit_event" where
  "reversal_audit account eventID inp disposition reviewReason resolutionSHA =
     \<lparr>ae_OrganizationID = ca_OrganizationID account, ae_EventType = ''billing.provider_reversal.allocated'',
      ae_ActorType = ''service'', ae_ActorID = ''provider_reconciliation'',
      ae_SubjectType = ''provider_reversal'', ae_SubjectID = eventID, ae_RequestID = rpi_RequestID inp,
      ae_Payload = [(''disposition'', disposition), (''review_reason'', reviewReason),
                    (''resolution_evidence_sha256'', resolutionSHA)]\<rparr>"

definition allocateProviderReversalTx :: "env \<Rightarrow> CommercialAccount \<Rightarrow> string \<Rightarrow> RecordProviderReversalInput \<Rightarrow>
    string \<Rightarrow> payment_db \<Rightarrow> error + (ProviderReversalResult \<times> payment_db)" where
  "allocateProviderReversalTx E account eventID inp resolutionSHA s =
     bindE (classifyProviderReversalTx account eventID inp s) (\<lambda>allocation.
     if rva_reviewReason allocation \<noteq> [] then
       if resolutionSHA \<noteq> [] then Inl ErrConflict
       else bindE (sql_insert_review eventID (rva_reviewReason allocation) s) (\<lambda>s.
         Inr (\<lparr>prr_EventID = eventID, prr_Disposition = ''review'', prr_PeriodID = rva_periodID allocation,
               prr_ReviewReason = rva_reviewReason allocation, prr_Entry = None, prr_Account = account,
               prr_Duplicate = False\<rparr>,
              sql_insert_audit (reversal_audit account eventID inp ''review'' (rva_reviewReason allocation) resolutionSHA) s))
     else
       bindE (apply_allocation E account eventID inp resolutionSHA allocation s) (\<lambda>(entry, updated, s).
       Inr (\<lparr>prr_EventID = eventID, prr_Disposition = rva_disposition allocation,
             prr_PeriodID = rva_periodID allocation, prr_ReviewReason = [], prr_Entry = entry,
             prr_Account = updated, prr_Duplicate = False\<rparr>,
            sql_insert_audit (reversal_audit account eventID inp (rva_disposition allocation) [] resolutionSHA) s)))"

definition getProviderReversalResultTx :: "CommercialAccount \<Rightarrow> string \<Rightarrow> payment_db \<Rightarrow> error + ProviderReversalResult" where
  "getProviderReversalResultTx account eventID s =
     (if \<not> list_ex (\<lambda>e. re_ID e = eventID \<and> re_AccountID e = ca_ID account) (db_reversal_events s)
      then Inl ErrNotFound
      else
        let result = (\<lambda>disposition period reason entry.
              \<lparr>prr_EventID = eventID, prr_Disposition = disposition, prr_PeriodID = period,
               prr_ReviewReason = reason, prr_Entry = entry, prr_Account = account, prr_Duplicate = False\<rparr>)
        in case find (\<lambda>a. ral_EventID a = eventID) (db_reversal_allocations s) of
             None \<Rightarrow>
               Inr (result ''review'' []
                 (case find (\<lambda>r. rrv_EventID r = eventID) (db_reversal_reviews s) of
                    None \<Rightarrow> [] | Some r \<Rightarrow> rrv_ReasonCode r) None)
           | Some a \<Rightarrow>
               (case ral_LedgerEntryID a of
                  None \<Rightarrow> Inr (result (ral_Disposition a) (ral_PeriodID a) [] None)
                | Some ledgerID \<Rightarrow>
                    bindE (scan (query_row (find (\<lambda>e. le_ID e = ledgerID \<and> le_AccountID e = ca_ID account)
                             (db_ledger s)))) (\<lambda>entry.
                    Inr (result (ral_Disposition a) (ral_PeriodID a) [] (Some entry)))))"

definition duplicate_result :: "error + ProviderReversalResult \<Rightarrow> payment_db \<Rightarrow>
    error + (ProviderReversalResult \<times> payment_db)" where
  "duplicate_result m s = bindE m (\<lambda>result. Inr (result\<lparr>prr_Duplicate := True\<rparr>, s))"

definition normalize_reversal :: "RecordProviderReversalInput \<Rightarrow> RecordProviderReversalInput" where
  "normalize_reversal inp =
     inp\<lparr>rpi_Provider := NormalizeProvider (rpi_Provider inp),
         rpi_EventReference := TrimSpace (rpi_EventReference inp),
         rpi_RequestID := TrimSpace (rpi_RequestID inp)\<rparr>"

definition RecordProviderReversal :: "(RecordProviderReversalInput \<Rightarrow> string) \<Rightarrow> env \<Rightarrow> ctx \<Rightarrow>
    RecordProviderReversalInput \<Rightarrow> payment_db \<Rightarrow> error + (ProviderReversalResult \<times> payment_db)" where
  "RecordProviderReversal handoffDigest E ctx input s =
     (let inp = normalize_reversal input in
      if \<not> canonicalUUID E (rpi_AccountID inp) \<or> \<not> canonicalUUID E (rpi_OriginalIntentID inp) \<or>
         rpi_Provider inp = [] \<or> rpi_EventReference inp = [] \<or> length (rpi_EventReference inp) > 200 \<or>
         rpi_RequestID inp = [] \<or> \<not> validLowerSHA256 (rpi_ProviderPayloadSHA256 inp) \<or>
         \<not> isSettlementReversal (rpi_Reason inp)
      then Inl ErrConflict
      else
        bindE (ValidateChargeAmount (rpi_Currency inp) (rpi_AmountMinor inp)) (\<lambda>_.
        let digest = handoffDigest (inp\<lparr>rpi_RequestID := []\<rparr>) in
        bindE (getAccountForUpdate E ctx s (rpi_AccountID inp)) (\<lambda>account.
        case find (\<lambda>e. re_Provider e = rpi_Provider inp \<and> re_EventReference e = rpi_EventReference inp)
               (db_reversal_events s) of
          Some event \<Rightarrow>
            if re_RequestSHA256 event \<noteq> digest then Inl ErrIdempotencyConflict
            else duplicate_result (getProviderReversalResultTx account (re_ID event) s) s
        | None \<Rightarrow>
            let row = \<lparr>re_ID = next_uuid E s, re_AccountID = rpi_AccountID inp, re_Provider = rpi_Provider inp,
                       re_EventReference = rpi_EventReference inp,
                       re_OriginalIntentID = rpi_OriginalIntentID inp, re_AmountMinor = rpi_AmountMinor inp,
                       re_Currency = rpi_Currency inp, re_Reason = rpi_Reason inp, re_RequestSHA256 = digest,
                       re_ProviderPayloadSHA256 = rpi_ProviderPayloadSHA256 inp, re_RequestID = rpi_RequestID inp\<rparr>
            in if list_ex (\<lambda>e. re_ID e = re_ID row) (db_reversal_events s) then Inl ErrIdempotencyConflict
               else allocateProviderReversalTx E account (re_ID row) inp []
                      ((drawn s)\<lparr>db_reversal_events := db_reversal_events s @ [row]\<rparr>))))"

record ResolveProviderReversalInput =
  rri_AccountID :: string
  rri_EventID :: string
  rri_EvidenceSHA256 :: string
  rri_RequestID :: string

definition ResolveProviderReversal :: "env \<Rightarrow> ctx \<Rightarrow> ResolveProviderReversalInput \<Rightarrow> payment_db \<Rightarrow>
    error + (ProviderReversalResult \<times> payment_db)" where
  "ResolveProviderReversal E ctx inp s =
     (if \<not> canonicalUUID E (rri_AccountID inp) \<or> \<not> canonicalUUID E (rri_EventID inp) \<or>
         \<not> validLowerSHA256 (rri_EvidenceSHA256 inp) \<or> \<not> required (rri_RequestID inp)
      then Inl ErrConflict
      else
        bindE (getAccountForUpdate E ctx s (rri_AccountID inp)) (\<lambda>account.
        case find (\<lambda>e. re_ID e = rri_EventID inp \<and> re_AccountID e = rri_AccountID inp \<and>
               list_ex (\<lambda>r. rrv_EventID r = re_ID e) (db_reversal_reviews s)) (db_reversal_events s) of
          None \<Rightarrow> Inl ErrNotFound
        | Some event \<Rightarrow>
            (case find (\<lambda>a. ral_EventID a = rri_EventID inp) (db_reversal_allocations s) of
               Some a \<Rightarrow>
                 if ral_EvidenceSHA256 a \<noteq> rri_EvidenceSHA256 inp then Inl ErrIdempotencyConflict
                 else duplicate_result (getProviderReversalResultTx account (rri_EventID inp) s) s
             | None \<Rightarrow>
                 allocateProviderReversalTx E account (rri_EventID inp)
                   \<lparr>rpi_AccountID = rri_AccountID inp, rpi_Provider = re_Provider event,
                    rpi_EventReference = re_EventReference event,
                    rpi_OriginalIntentID = re_OriginalIntentID event, rpi_AmountMinor = re_AmountMinor event,
                    rpi_Currency = re_Currency event, rpi_Reason = re_Reason event,
                    rpi_ProviderPayloadSHA256 = re_ProviderPayloadSHA256 event, rpi_RequestID = rri_RequestID inp\<rparr>
                   (rri_EvidenceSHA256 inp) s)))"

record BindHistoricalPaymentResponsibilityInput =
  bh_AccountID :: string
  bh_IntentID :: string
  bh_PeriodID :: string
  bh_EvidenceSHA256 :: string
  bh_ReviewerUserID :: string
  bh_RequestID :: string

definition BindHistoricalPaymentResponsibility :: "env \<Rightarrow> ctx \<Rightarrow> BindHistoricalPaymentResponsibilityInput \<Rightarrow>
    payment_db \<Rightarrow> error + payment_db" where
  "BindHistoricalPaymentResponsibility E ctx inp s =
     (if \<not> canonicalUUID E (bh_AccountID inp) \<or> \<not> canonicalUUID E (bh_IntentID inp) \<or>
         \<not> canonicalUUID E (bh_PeriodID inp) \<or> \<not> canonicalUUID E (bh_ReviewerUserID inp) \<or>
         \<not> validLowerSHA256 (bh_EvidenceSHA256 inp) \<or> \<not> required (bh_RequestID inp)
      then Inl ErrConflict
      else
        bindE (getAccountForUpdate E ctx s (bh_AccountID inp)) (\<lambda>account.
        case find (\<lambda>b. rb_SubjectID b = bh_IntentID inp \<and> rb_AccountID b = bh_AccountID inp)
               (db_payment_responsibility s) of
          Some b \<Rightarrow>
            if rb_PeriodID b \<noteq> bh_PeriodID inp \<or> rb_EvidenceSHA256 b \<noteq> bh_EvidenceSHA256 inp
            then Inl ErrIdempotencyConflict else Inr s
        | None \<Rightarrow>
            if \<not> list_ex (\<lambda>i. pi_ID i = bh_IntentID inp \<and> pi_AccountID i = bh_AccountID inp) (db_intents s) \<or>
               \<not> list_ex (\<lambda>p. rp_ID p = bh_PeriodID inp \<and> rp_AccountID p = bh_AccountID inp) (db_periods s)
            then Inl ErrNotFound
            else Inr (sql_insert_audit
              \<lparr>ae_OrganizationID = ca_OrganizationID account,
               ae_EventType = ''billing.payment_responsibility.reviewed'', ae_ActorType = ''user'',
               ae_ActorID = bh_ReviewerUserID inp, ae_SubjectType = ''payment_intent'',
               ae_SubjectID = bh_IntentID inp, ae_RequestID = bh_RequestID inp,
               ae_Payload = [(''period_id'', bh_PeriodID inp), (''evidence_sha256'', bh_EvidenceSHA256 inp)]\<rparr>
              (s\<lparr>db_payment_responsibility := db_payment_responsibility s @
                 [\<lparr>rb_SubjectID = bh_IntentID inp, rb_AccountID = bh_AccountID inp,
                   rb_PeriodID = bh_PeriodID inp, rb_EvidenceSHA256 = bh_EvidenceSHA256 inp,
                   rb_Provenance = ''reviewed_migration''\<rparr>]\<rparr>))))"

end
