(* ===== verification/Books_Refinement.thy ===== *)
theory Books_Refinement
  imports Payment_Books Customer_Store Orchestration_Store Reversal_Store
begin

text \<open>
  The stores refine the books: whatever the database holds besides accounts, ledger and intents,
  every operation that succeeds takes the books through a sequence of abstract steps, and one that
  fails rolls back. So the invariants of \<open>Payment_Books\<close> hold in every state the stores reach.
\<close>

section \<open>The abstraction\<close>

definition books_of :: "payment_db \<Rightarrow> books" where
  "books_of s = \<lparr>bk_accounts = db_accounts s, bk_ledger = db_ledger s, bk_intents = db_intents s\<rparr>"

lemma books_of_simps [simp]:
  "bk_accounts (books_of s) = db_accounts s" "bk_ledger (books_of s) = db_ledger s"
  "bk_intents (books_of s) = db_intents s"
  by (simp_all add: books_of_def)

abbreviation book_steps :: "books \<Rightarrow> books \<Rightarrow> bool" where
  "book_steps \<equiv> book_step\<^sup>*\<^sup>*"

lemma find_account_books: "find_account s x = account_of (books_of s) x"
  by (simp add: find_account_def)

lemma find_intent_books: "find_intent s x = intent_of (books_of s) x"
  by (simp add: find_intent_def)

text \<open>The identifiers the database generates carry no surrounding white space.\<close>

definition good_env :: "env \<Rightarrow> bool" where
  "good_env E \<longleftrightarrow> (\<forall>n. TrimSpace (env_uuid E n) = env_uuid E n)"

section \<open>Statements\<close>

lemma books_drawn [simp]: "books_of (drawn s) = books_of s"
  by (simp add: drawn_def books_of_def)

lemma books_insert_policy: "sql_insert_policy E p s = Inr (r, s') \<Longrightarrow> books_of s' = books_of s"
  by (auto simp: sql_insert_policy_def Let_def books_of_def drawn_def split: if_splits)

lemma books_update_policy: "sql_update_policy E p f s = Inr (r, s') \<Longrightarrow> books_of s' = books_of s"
  by (auto simp: sql_update_policy_def Let_def books_of_def split: option.splits)

lemma books_insert_job: "sql_insert_job E i r d s = Inr s' \<Longrightarrow> books_of s' = books_of s"
  by (auto simp: sql_insert_job_def Let_def books_of_def drawn_def split: if_splits)

lemma books_insert_job_unless [simp]: "books_of (sql_insert_job_unless E i r d s) = books_of s"
  by (simp add: sql_insert_job_unless_def Let_def books_of_def drawn_def)

lemma books_update_job: "sql_update_job E p f s = Inr (r, s') \<Longrightarrow> books_of s' = books_of s"
  by (auto simp: sql_update_job_def Let_def books_of_def split: option.splits if_splits)

lemma books_insert_attempt: "sql_insert_attempt E a i op n d s = Inr (r, s') \<Longrightarrow> books_of s' = books_of s"
  by (auto simp: sql_insert_attempt_def Let_def books_of_def drawn_def split: if_splits)

lemma books_insert_audit [simp]: "books_of (sql_insert_audit e s) = books_of s"
  by (simp add: sql_insert_audit_def books_of_def)

lemma books_queue_email: "queue_topup_email i a now s = Inr s' \<Longrightarrow> books_of s' = books_of s"
  by (auto simp: queue_topup_email_def books_of_def split: if_splits option.splits)

lemmas books_frames = books_insert_policy books_update_policy books_insert_job books_update_job
  books_insert_attempt books_queue_email

lemma step_insert_account:
  "sql_insert_account E org c s = Inr (a, s') \<Longrightarrow> book_step (books_of s) (books_of s')"
proof -
  assume "sql_insert_account E org c s = Inr (a, s')"
  then have "ca_AvailableBalanceMinor a = 0" "ca_ID a \<notin> ca_ID ` set (bk_accounts (books_of s))"
      "books_of s' = (books_of s)\<lparr>bk_accounts := bk_accounts (books_of s) @ [a]\<rparr>"
    by (auto simp: sql_insert_account_def Let_def books_of_def drawn_def list_ex_iff split: if_splits)
  then show ?thesis using book_step.open_account [of a "books_of s"] by simp
qed

text \<open>An update that keeps identity and balance.\<close>

lemma step_update_account:
  assumes upd: "sql_update_account E x f s = Inr (a', s')"
    and keep: "\<And>a. same_account a (f a) \<and> ca_AvailableBalanceMinor (f a) = ca_AvailableBalanceMinor a"
  shows "book_step (books_of s) (books_of s')" and "find_account s' x = Some a'"
proof -
  from upd obtain a where a: "find_account s x = Some a"
      and a': "a' = (f a)\<lparr>ca_UpdatedAt := env_now E\<rparr>"
      and s': "s' = s\<lparr>db_accounts := update_where (\<lambda>r. ca_ID r = x) (\<lambda>_. a') (db_accounts s)\<rparr>"
    by (auto simp: sql_update_account_def Let_def split: option.splits)
  have x: "ca_ID a = x" using find_key_Some [OF a [unfolded find_account_def]] by simp
  have same: "same_account a a'" "ca_AvailableBalanceMinor a' = ca_AvailableBalanceMinor a"
    using keep [of a] by (simp_all add: a' same_account_def)
  then have id: "ca_ID a' = x" using x by (simp add: same_account_def)
  have "books_of s' = set_account a' (books_of s)"
    by (simp add: s' books_of_def set_account_def id)
  moreover have "account_of (books_of s) (ca_ID a) = Some a" using a x by (simp add: find_account_def)
  ultimately show "book_step (books_of s) (books_of s')"
    using book_step.account_status same by simp
  show "find_account s' x = Some a'"
    using a id x by (simp add: find_account_def s' find_key_update_where)
qed

lemma step_insert_intent:
  assumes ins: "sql_insert_intent E v s = Inr (i, s')" and env: "good_env E"
    and state: "pi_State v = PaymentIntentStateCreated \<or> pi_State v = PaymentIntentStateProcessing"
  shows "book_step (books_of s) (books_of s')"
proof -
  from ins have i: "i = v\<lparr>pi_ID := next_uuid E s, pi_CreatedAt := db_time (pi_CreatedAt v),
                       pi_UpdatedAt := db_time (pi_UpdatedAt v)\<rparr>"
      and "intent_check i" and uniq: "intent_unique (db_intents s) i = Inr ()"
      and s': "books_of s' = (books_of s)\<lparr>bk_intents := bk_intents (books_of s) @ [i]\<rparr>"
    by (auto simp: sql_insert_intent_def Let_def books_of_def drawn_def split: if_splits)
  then have amount: "0 < pi_AmountMinor i" "is_int64 (pi_AmountMinor i)" by (simp_all add: intent_check_def)
  have fresh: "pi_ID i \<notin> pi_ID ` set (bk_intents (books_of s))"
    using uniq by (auto simp: intent_unique_def list_ex_iff split: if_splits)
  have "TrimSpace (pi_ID i) = pi_ID i" using env by (simp add: i good_env_def next_uuid_def)
  moreover have "pi_State i = PaymentIntentStateCreated \<or> pi_State i = PaymentIntentStateProcessing"
    using state by (simp add: i)
  ultimately show ?thesis unfolding s' using fresh amount by (intro book_step.open_intent)
qed

text \<open>The row an update of an intent leaves.\<close>

lemma update_intent_row:
  assumes upd: "sql_update_intent E x f s = Inr (i', s')" and keep: "\<And>i. pi_ID (f i) = pi_ID i"
  obtains i where "find_intent s x = Some i" and "pi_ID i = x" and "i' = (f i)\<lparr>pi_UpdatedAt := env_now E\<rparr>"
    and "intent_check i'" and "books_of s' = set_intent i' (books_of s)" and "find_intent s' x = Some i'"
proof -
  from upd obtain i where i: "find_intent s x = Some i" and i': "i' = (f i)\<lparr>pi_UpdatedAt := env_now E\<rparr>"
      and check: "intent_check i'"
      and s': "s' = s\<lparr>db_intents := update_where (\<lambda>r. pi_ID r = x) (\<lambda>_. i') (db_intents s)\<rparr>"
    by (auto simp: sql_update_intent_def Let_def split: option.splits if_splits)
  have x: "pi_ID i = x" using find_key_Some [OF i [unfolded find_intent_def]] by simp
  then have id: "pi_ID i' = x" using keep by (simp add: i')
  have "books_of s' = set_intent i' (books_of s)"
    by (simp add: s' books_of_def set_intent_def id)
  moreover have "find_intent s' x = Some i'"
    using i id x by (simp add: find_intent_def s' find_key_update_where)
  ultimately show thesis using that i x i' check by blast
qed

lemma step_update_intent:
  assumes upd: "sql_update_intent E x f s = Inr (i', s')" and i: "find_intent s x = Some i"
    and adv: "advances i ((f i)\<lparr>pi_UpdatedAt := env_now E\<rparr>)" and keep: "\<And>i. pi_ID (f i) = pi_ID i"
    and not_settled: "pi_State (f i) = PaymentIntentStateSucceeded \<longrightarrow> pi_State i = PaymentIntentStateSucceeded"
  shows "book_step (books_of s) (books_of s')"
proof -
  from update_intent_row [OF upd keep] i
  have x: "pi_ID i = x" and i': "i' = (f i)\<lparr>pi_UpdatedAt := env_now E\<rparr>" and s': "books_of s' = set_intent i' (books_of s)"
    by auto
  have "intent_of (books_of s) (pi_ID i) = Some i" using i x by (simp add: find_intent_def)
  moreover have "pi_State i' = PaymentIntentStateSucceeded \<longrightarrow> pi_State i = PaymentIntentStateSucceeded"
    using not_settled by (simp add: i')
  ultimately show ?thesis
    unfolding s' using book_step.advance_intent adv by (simp add: i')
qed

section \<open>Entries\<close>

text \<open>
  An entry is posted on the row of its account: the balance moves by exactly the signed amount, the
  account keeps its identity and nothing else of the books changes.
\<close>

lemma insert_ledger_row:
  assumes ins: "sql_insert_ledger E v s = Inr (e, s')"
  shows "e = v\<lparr>le_ID := next_uuid E s, le_CreatedAt := db_time (le_CreatedAt v)\<rparr>"
    and "ledger_check e" and "le_ID e \<notin> le_ID ` set (db_ledger s)"
    and "idem_key e \<notin> idem_key ` set (db_ledger s)"
    and "books_of s' = (books_of s)\<lparr>bk_ledger := db_ledger s @ [e]\<rparr>"
    and "\<not> closure_closed s (le_AccountID v)" and "\<not> commit_pending s (le_AccountID v)"
  using assms
  by (auto simp: sql_insert_ledger_def Let_def list_ex_iff idem_key_def books_of_def drawn_def split: if_splits)

lemma posted_entry:
  assumes ins: "insertLedgerEntryTx E a inp s = Inr (e, a', s')"
    and a: "find_account s (ca_ID a) = Some a" and range: "is_int64 (ca_AvailableBalanceMinor a)"
  shows "entry_fits (books_of s) a e" and "same_account a a'"
    and "ca_AvailableBalanceMinor a' = le_BalanceAfterMinor e"
    and "books_of s' = posted (books_of s) a' e" and "find_account s' (ca_ID a) = Some a'"
    and "e = (ledger_values inp (ca_ID a) (le_BalanceAfterMinor e))
           \<lparr>le_ID := next_uuid E s, le_CreatedAt := db_time (pl_Now inp)\<rparr>"
proof -
  from ins obtain b s1 where b: "ApplyBalance (ca_AvailableBalanceMinor a) (pl_Direction inp) (pl_AmountMinor inp) = Inr b"
      and e: "sql_insert_ledger E (ledger_values inp (ca_ID a) b) s = Inr (e, s1)"
      and upd: "sql_update_account E (ca_ID a)
        (\<lambda>a. a\<lparr>ca_AvailableBalanceMinor := b, ca_Version := ca_Version a + 1\<rparr>) s1 = Inr (a', s')"
    by (auto simp: insertLedgerEntryTx_def)
  note row = insert_ledger_row [OF e]
  have "is_int64 (pl_AmountMinor inp)"
    using row(2) by (simp add: row(1) ledger_check_def ledger_values_def)
  note bal = ApplyBalance_Inr [OF range this b]
  show "entry_fits (books_of s) a e"
    using bal row(3,4) by (auto simp: entry_fits_def row(1) ledger_values_def)
  show "e = (ledger_values inp (ca_ID a) (le_BalanceAfterMinor e))
           \<lparr>le_ID := next_uuid E s, le_CreatedAt := db_time (pl_Now inp)\<rparr>"
    by (simp add: row(1) ledger_values_def)
  have s1: "db_accounts s1 = db_accounts s" "db_ledger s1 = db_ledger s @ [e]" "db_intents s1 = db_intents s"
    using row(5) by (simp_all add: books_of_def)
  from upd a have a': "a' = a\<lparr>ca_AvailableBalanceMinor := b, ca_Version := ca_Version a + 1, ca_UpdatedAt := env_now E\<rparr>"
    and s': "s' = s1\<lparr>db_accounts := update_where (\<lambda>r. ca_ID r = ca_ID a) (\<lambda>_. a') (db_accounts s1)\<rparr>"
    by (auto simp: sql_update_account_def Let_def find_account_def s1 split: option.splits)
  show "same_account a a'" by (simp add: a' same_account_def)
  show "ca_AvailableBalanceMinor a' = le_BalanceAfterMinor e" by (simp add: a' row(1) ledger_values_def)
  have id: "ca_ID a' = ca_ID a" by (simp add: a')
  show "books_of s' = posted (books_of s) a' e"
    by (simp add: books_of_def posted_def set_account_def s' s1 id)
  show "find_account s' (ca_ID a) = Some a'"
    using a by (simp add: find_account_def s' s1 find_key_update_where id)
qed

lemma step_insert_entry:
  assumes ins: "insertLedgerEntryTx E a inp s = Inr (e, a', s')"
    and a: "find_account s (ca_ID a) = Some a" and wf: "wf_books (books_of s)"
  shows "book_step (books_of s) (books_of s')" and "find_account s' (ca_ID a) = Some a'" and "ca_ID a' = ca_ID a"
proof -
  have a0: "account_of (books_of s) (ca_ID a) = Some a" using a by (simp add: find_account_def)
  note post = posted_entry [OF ins a wf_books_balance [OF wf a0]]
  show "book_step (books_of s) (books_of s')"
    unfolding post(4) using book_step.post_entry [OF a0 post(1-3)] .
  show "find_account s' (ca_ID a) = Some a'" by (rule post(5))
  show "ca_ID a' = ca_ID a" using post(2) by (simp add: same_account_def)
qed

section \<open>Operations\<close>

lemma step_steps: "book_step b b' \<Longrightarrow> book_steps b b'"
  by (rule r_into_rtranclp)

lemma steps_trans: "book_steps b c \<Longrightarrow> book_steps c d \<Longrightarrow> book_steps b d"
  by (rule rtranclp_trans)

lemma steps_account_state:
  "sql_update_account E x (\<lambda>a. a\<lparr>ca_State := st\<rparr>) s = Inr (a', s') \<Longrightarrow> book_steps (books_of s) (books_of s')"
  by (rule step_steps, erule step_update_account(1)) (simp add: same_account_def)

lemma steps_disarm:
  "disarmAutoTopUpAfterSettlementReversalTx E a s = Inr (a', s') \<Longrightarrow> book_steps (books_of s) (books_of s')"
  by (auto simp: disarmAutoTopUpAfterSettlementReversalTx_def split: if_splits
      dest!: books_frames steps_account_state)

lemma steps_rearm: "rearmPolicyAfterCreditTx E a s = Inr (a', s') \<Longrightarrow> book_steps (books_of s) (books_of s')"
  by (auto simp: rearmPolicyAfterCreditTx_def split: if_splits sum.splits dest!: books_frames steps_account_state)

lemma steps_after_success:
  "policy_after_success E i a now s = Inr (a', s') \<Longrightarrow> book_steps (books_of s) (books_of s')"
  by (auto simp: policy_after_success_def Let_def split: if_splits sum.splits dest!: books_frames steps_account_state)

lemma steps_after_other:
  "policy_after_other E i st a s = Inr (a', s') \<Longrightarrow> book_steps (books_of s) (books_of s')"
  by (auto simp: policy_after_other_def Let_def split: if_splits sum.splits dest!: books_frames steps_account_state)

lemma steps_evaluate:
  assumes "evaluateAutoTopUpTx E ctx a e now c s = Inr (r, s')" and "good_env E"
  shows "book_steps (books_of s) (books_of s')"
  using assms
  by (auto simp: evaluateAutoTopUpTx_def Let_def auto_intent_values_def split: if_splits sum.splits
      dest!: books_frames step_insert_intent [THEN step_steps])

lemma steps_after_entry:
  "after_entry E ctx inp now e a s = Inr (a', i, s') \<Longrightarrow> good_env E \<Longrightarrow> book_steps (books_of s) (books_of s')"
  by (auto simp: after_entry_def split: if_splits dest: steps_evaluate steps_rearm)

lemma account_for_update:
  "getAccountForUpdate E ctx s x = Inr a \<Longrightarrow> find_account s x = Some a \<and> ca_ID a = x"
  by (auto simp: getAccountForUpdate_def find_account_def dest: find_key_Some)

lemma intent_for_update: "getIntentForUpdate s x = Inr i \<Longrightarrow> find_intent s x = Some i \<and> pi_ID i = x"
  by (auto simp: getIntentForUpdate_def find_intent_def dest: find_key_Some)

text \<open>Settling an intent and crediting its account is one step of the books.\<close>

lemma step_settle:
  assumes upd: "sql_update_intent E (pi_ID i) (\<lambda>r. r\<lparr>pi_State := PaymentIntentStateSucceeded,
        pi_ProviderTransactionReference := ref, pi_CompletedAt := done_at\<rparr>) s = Inr (i', s1)"
    and ins: "insertLedgerEntryTx E a (credit_input a i' now) s1 = Inr (e, a', s2)"
    and i: "find_intent s (pi_ID i) = Some i" and a: "find_account s (ca_ID a) = Some a"
    and owner: "ca_ID a = pi_AccountID i"
    and valid: "ValidateIntentTransition (pi_State i) PaymentIntentStateSucceeded = Inr ()"
    and change: "pi_State i \<noteq> PaymentIntentStateSucceeded" and wf: "wf_books (books_of s)"
  shows "book_step (books_of s) (books_of s2)"
proof -
  from update_intent_row [OF upd] i
  have i': "i' = i\<lparr>pi_State := PaymentIntentStateSucceeded, pi_ProviderTransactionReference := ref,
        pi_CompletedAt := done_at, pi_UpdatedAt := env_now E\<rparr>"
    and s1: "books_of s1 = set_intent i' (books_of s)" by auto
  have a1: "find_account s1 (ca_ID a) = Some a"
    using a arg_cong [OF s1, of bk_accounts] by (simp add: find_account_def)
  have a0: "account_of (books_of s) (ca_ID a) = Some a" using a by (simp add: find_account_def)
  have i0: "intent_of (books_of s) (pi_ID i) = Some i" using i by (simp add: find_intent_def)
  note post = posted_entry [OF ins a1 wf_books_balance [OF wf a0]]
  have adv: "advances i i'"
    using valid change by (simp add: advances_def i' intent_step.advance)
  have trim: "TrimSpace (pi_ID i) = pi_ID i" using wf_books_trimmed [OF wf i0] .
  have scope: "TrimSpace ''payment_intent'' = ''payment_intent''" by code_simp
  have credit: "is_credit_of i' e"
    using owner trim scope
    by (subst post(6)) (simp add: is_credit_of_def ledger_values_def credit_input_def i')
  have fits: "entry_fits (books_of s) a e"
    using post(1) unfolding entry_fits_def s1 set_account_simps .
  show ?thesis
    unfolding post(4) s1
    by (rule book_step.settle_intent [OF i0 adv _ change a0 fits credit post(2,3)]) (simp add: i')
qed

text \<open>The branches of a transition that changes the state.\<close>

definition transition_row :: "TransitionIntentInput \<Rightarrow> PaymentIntent \<Rightarrow> PaymentIntent \<Rightarrow> PaymentIntent" where
  "transition_row inp i r = r\<lparr>pi_State := ti_ToState inp,
     pi_ProviderTransactionReference := (if pi_ProviderTransactionReference i = []
       then TrimSpace (ti_ProviderTransactionReference inp) else pi_ProviderTransactionReference i),
     pi_CompletedAt := (if IntentStateTerminal (ti_ToState inp) then Some (db_time (ti_Now inp)) else None)\<rparr>"

lemma transition_cases:
  assumes tr: "transitionIntentTx E a i inp s = Inr (r, s')" and change: "pi_State i \<noteq> ti_ToState inp"
  obtains (settled) i' s1 e a1 s2 s3 a2 where "ValidateIntentTransition (pi_State i) (ti_ToState inp) = Inr ()"
      and "sql_update_intent E (pi_ID i) (transition_row inp i) s = Inr (i', s1)" and "tir_Intent r = i'"
      and "ti_ToState inp = PaymentIntentStateSucceeded"
      and "insertLedgerEntryTx E a (credit_input a i' (ti_Now inp)) s1 = Inr (e, a1, s2)"
      and "queue_topup_email i' a1 (ti_Now inp) s2 = Inr s3"
      and "policy_after_success E i' a1 (ti_Now inp) s3 = Inr (a2, s')" and "tir_CreditEntry r = Some e"
      and "tir_Account r = a2"
  | (other) i' s1 where "ValidateIntentTransition (pi_State i) (ti_ToState inp) = Inr ()"
      and "sql_update_intent E (pi_ID i) (transition_row inp i) s = Inr (i', s1)" and "tir_Intent r = i'"
      and "ti_ToState inp \<noteq> PaymentIntentStateSucceeded" and "tir_CreditEntry r = None"
      and "if pi_Reason i' = PaymentIntentReasonAutoTopUp \<and> pi_PolicyGeneration i' \<noteq> None
        then policy_after_other E i' (ti_ToState inp) a s1 = Inr (tir_Account r, s') else s' = s1 \<and> tir_Account r = a"
proof -
  let ?settle = "\<lambda>i' s1. bindE (insertLedgerEntryTx E a (credit_input a i' (ti_Now inp)) s1)
               (\<lambda>(credit, account, s).
             bindE (queue_topup_email i' account (ti_Now inp) s) (\<lambda>s.
             bindE (policy_after_success E i' account (ti_Now inp) s) (\<lambda>(account, s).
             Inr (\<lparr>tir_Intent = i', tir_Account = account, tir_CreditEntry = Some credit,
                   tir_Duplicate = False\<rparr>, s))))"
  let ?other = "\<lambda>i' s1. bindE (if pi_Reason i' = PaymentIntentReasonAutoTopUp \<and> pi_PolicyGeneration i' \<noteq> None
                    then policy_after_other E i' (ti_ToState inp) a s1
                    else Inr (a, s1)) (\<lambda>(account, s).
             Inr (\<lparr>tir_Intent = i', tir_Account = account, tir_CreditEntry = None,
                   tir_Duplicate = False\<rparr>, s))"
  from tr change have body: "bindE (ValidateIntentTransition (pi_State i) (ti_ToState inp)) (\<lambda>_.
      bindE (scan (sql_update_intent E (pi_ID i) (transition_row inp i) s)) (\<lambda>(i', s1).
        if ti_ToState inp = PaymentIntentStateSucceeded then ?settle i' s1 else ?other i' s1)) = Inr (r, s')"
    by (simp add: transitionIntentTx_def Let_def transition_row_def [abs_def] split: if_splits del: bindE_InrE)
  then obtain i' s1 where valid: "ValidateIntentTransition (pi_State i) (ti_ToState inp) = Inr ()"
      and upd: "sql_update_intent E (pi_ID i) (transition_row inp i) s = Inr (i', s1)"
      and rest: "(if ti_ToState inp = PaymentIntentStateSucceeded then ?settle i' s1 else ?other i' s1) = Inr (r, s')"
    by (auto simp del: bindE_Inr)
  show thesis
  proof (cases "ti_ToState inp = PaymentIntentStateSucceeded")
    case True
    with rest show thesis by (auto intro: settled [OF valid upd])
  next
    case False
    with rest show thesis by (intro other [OF valid upd]) (auto split: if_splits)
  qed
qed

lemma steps_transition:
  assumes tr: "transitionIntentTx E a i inp s = Inr (r, s')"
    and i: "find_intent s (pi_ID i) = Some i" and a: "find_account s (ca_ID a) = Some a"
    and owner: "ca_ID a = pi_AccountID i" and wf: "wf_books (books_of s)"
  shows "book_steps (books_of s) (books_of s')"
proof (cases "pi_State i = ti_ToState inp")
  case True
  with tr show ?thesis by (auto simp: transitionIntentTx_def Let_def split: if_splits)
next
  case False
  from tr False show ?thesis
  proof (cases rule: transition_cases)
    case (settled i' s1 e a1 s2 s3 a2)
    have "book_step (books_of s) (books_of s2)"
      using settled False wf
      by (intro step_settle [OF settled(2) [unfolded transition_row_def settled(4)] settled(5) i a owner]) simp_all
    then show ?thesis
      using books_queue_email [OF settled(6)] steps_after_success [OF settled(7)]
      by (simp add: converse_rtranclp_into_rtranclp)
  next
    case (other i' s1)
    have "advances i ((transition_row inp i i)\<lparr>pi_UpdatedAt := env_now E\<rparr>)"
      using other(1) False by (simp add: advances_def transition_row_def intent_step.advance)
    then have "book_step (books_of s) (books_of s1)"
      using other(4) by (intro step_update_intent [OF other(2) i]) (simp_all add: transition_row_def)
    moreover have "book_steps (books_of s1) (books_of s')"
      using other(6) by (auto split: if_splits dest: steps_after_other)
    ultimately show ?thesis by (rule converse_rtranclp_into_rtranclp)
  qed
qed

text \<open>The operations of \<^verbatim>\<open>accounts.go\<close>, \<^verbatim>\<open>ledger.go\<close> and \<^verbatim>\<open>intents.go\<close>.\<close>

lemma refine_EnsureCommercialAccount:
  "EnsureCommercialAccount E ctx org c s = Inr (a, new, s') \<Longrightarrow> book_steps (books_of s) (books_of s')"
  by (auto simp: EnsureCommercialAccount_def scan_def split: option.splits if_splits sum.splits
      dest!: step_insert_account)

lemma refine_PostLedgerEntry:
  assumes op: "PostLedgerEntry E ctx inp s = Inr (r, s')" and env: "good_env E" and wf: "wf_books (books_of s)"
  shows "book_steps (books_of s) (books_of s')"
proof (cases "s' = s")
  case False
  with op obtain a inp' e a1 s1 a2 i where "getAccountForUpdate E ctx s (pl_AccountID inp) = Inr a"
      and ins: "insertLedgerEntryTx E a inp' s = Inr (e, a1, s1)"
      and rest: "after_entry E ctx inp' (pl_Now inp') e a1 s1 = Inr (a2, i, s')"
    by (auto simp: PostLedgerEntry_def Let_def split: if_splits sum.splits)
  then have "find_account s (ca_ID a) = Some a" by (auto dest: account_for_update)
  then have "book_step (books_of s) (books_of s1)" using step_insert_entry(1) [OF ins _ wf] by simp
  then show ?thesis using steps_after_entry [OF rest env] by (rule converse_rtranclp_into_rtranclp)
qed simp

lemma refine_TransitionIntent:
  assumes op: "TransitionIntent E ctx inp s = Inr (r, s')" and wf: "wf_books (books_of s)"
  shows "book_steps (books_of s) (books_of s')"
proof -
  from op obtain a i inp' where i: "getIntentForUpdate s (ti_IntentID inp) = Inr i"
      and a: "getAccountForUpdate E ctx s (pi_AccountID i) = Inr a"
      and tr: "transitionIntentTx E a i inp' s = Inr (r, s')"
    by (auto simp: TransitionIntent_def Let_def split: if_splits)
  show ?thesis
    using steps_transition [OF tr _ _ _ wf] intent_for_update [OF i] account_for_update [OF a] by simp
qed

text \<open>The operations of \<^verbatim>\<open>methods.go\<close>, \<^verbatim>\<open>policy.go\<close> and \<^verbatim>\<open>customer.go\<close>.\<close>

lemma refine_CreateManualTopUp:
  "CreateManualTopUp E ctx inp s = Inr (r, s') \<Longrightarrow> good_env E \<Longrightarrow> book_steps (books_of s) (books_of s')"
  by (auto simp: CreateManualTopUp_def Let_def manual_intent_values_def split: if_splits option.splits
      dest!: books_frames step_insert_intent [THEN step_steps])

lemma refine_CreateHostedTopUp:
  "CreateHostedTopUp E ctx random inp s = Inr (r, s') \<Longrightarrow> good_env E \<Longrightarrow> book_steps (books_of s) (books_of s')"
  by (auto simp: CreateHostedTopUp_def Let_def manual_intent_values_def split: if_splits option.splits
      dest!: books_frames step_insert_intent [THEN step_steps])

lemma refine_CreateConsent: "CreateConsent E ctx inp s = Inr (r, s') \<Longrightarrow> books_of s' = books_of s"
  by (auto simp: CreateConsent_def Let_def books_of_def drawn_def split: if_splits)

lemma refine_CreatePaymentMethod: "CreatePaymentMethod E ctx inp s = Inr (r, s') \<Longrightarrow> books_of s' = books_of s"
  by (auto simp: CreatePaymentMethod_def sql_insert_method_def Let_def books_of_def drawn_def split: if_splits)

lemma refine_PutAutoTopUpPolicy: "PutAutoTopUpPolicy E ctx inp s = Inr (r, s') \<Longrightarrow> books_of s' = books_of s"
  by (auto simp: PutAutoTopUpPolicy_def Let_def split: if_splits sum.splits option.splits dest!: books_frames)

lemma refine_RevokePaymentMethod: "RevokePaymentMethod E ctx inp s = Inr (r, s') \<Longrightarrow> books_of s' = books_of s"
  by (auto simp: RevokePaymentMethod_def revoke_consent_def Let_def split: if_splits dest!: books_frames)

lemma refine_DisableAutoTopUpPolicy:
  "DisableAutoTopUpPolicy E ctx inp s = Inr (r, s') \<Longrightarrow> books_of s' = books_of s"
  by (auto simp: DisableAutoTopUpPolicy_def split: if_splits sum.splits option.splits dest!: books_frames)

text \<open>The operations of \<^verbatim>\<open>orchestration.go\<close> and \<^verbatim>\<open>webhooks.go\<close>.\<close>

lemma refine_ClaimPaymentJobs:
  "ClaimPaymentJobs E locked now stale owner limit s = Inr (r, s') \<Longrightarrow> books_of s' = books_of s"
  by (auto simp: ClaimPaymentJobs_def Let_def books_of_def split: if_splits)

lemma refine_SetAttemptRequestDigest: "SetAttemptRequestDigest x d s = Inr s' \<Longrightarrow> books_of s' = books_of s"
  by (auto simp: SetAttemptRequestDigest_def Let_def books_of_def split: if_splits)

lemma refine_CompletePaymentJob: "CompletePaymentJob E x own s = Inr s' \<Longrightarrow> books_of s' = books_of s"
  by (auto simp: CompletePaymentJob_def split: sum.splits if_splits dest!: books_frames)

lemma refine_RetryPaymentJob: "RetryPaymentJob E x own d err s = Inr s' \<Longrightarrow> books_of s' = books_of s"
  by (auto simp: RetryPaymentJob_def split: sum.splits if_splits dest!: books_frames)

lemma steps_update_intent:
  assumes "sql_update_intent E (pi_ID i) f s = Inr (i', s')" and "find_intent s (pi_ID i) = Some i"
    and "advances i ((f i)\<lparr>pi_UpdatedAt := env_now E\<rparr>)" and "\<And>i. pi_ID (f i) = pi_ID i"
    and "pi_State (f i) = PaymentIntentStateSucceeded \<longrightarrow> pi_State i = PaymentIntentStateSucceeded"
  shows "book_steps (books_of s) (books_of s')"
  using step_update_intent [OF assms] by (rule step_steps)

lemma steps_begin_operation:
  assumes op: "begin_operation E job i operation s = Inr (i', s')" and i: "find_intent s (pi_ID i) = Some i"
  shows "book_steps (books_of s) (books_of s')"
proof (cases "operation = ProviderOperationCharge")
  case True
  with op obtain ref where created: "pi_State i = PaymentIntentStateCreated"
      and upd: "sql_update_intent E (pi_ID i) (\<lambda>i. i\<lparr>pi_State := PaymentIntentStateProcessing,
             pi_MerchantOrderReference := ref\<rparr>) s = Inr (i', s')"
    by (auto simp: begin_operation_def split: if_splits)
  have "intent_step PaymentIntentStateCreated PaymentIntentStateProcessing"
    by (rule intent_step.advance) (code_simp, simp)
  then show ?thesis
    using created by (intro steps_update_intent [OF upd i]) (simp_all add: advances_def)
qed (use op in \<open>auto simp: begin_operation_def split: if_splits\<close>)

lemma refine_BeginProviderAttempt:
  assumes op: "BeginProviderAttempt E ctx inp s = Inr (r, s')"
  shows "book_steps (books_of s) (books_of s')"
proof (cases "s' = s")
  case False
  with op obtain x i job i' s1 n now at where i: "getIntentForUpdate s x = Inr i"
      and begin_op: "begin_operation E job i (ba_Operation inp) s = Inr (i', s1)"
      and ins: "sql_insert_attempt E (pi_AccountID i') (pi_ID i') (ba_Operation inp) n now s1 = Inr (at, s')"
    by (auto simp: BeginProviderAttempt_def Let_def split: if_splits option.splits)
  have "find_intent s (pi_ID i) = Some i" using intent_for_update [OF i] by simp
  then show ?thesis using steps_begin_operation [OF begin_op] books_insert_attempt [OF ins] by simp
qed simp

lemma books_complete_attempt [simp]: "books_of (complete_attempt x res d now nxt s) = books_of s"
  by (simp add: complete_attempt_def books_of_def)

lemma books_process_webhooks [simp]: "books_of (process_webhooks E x now s) = books_of s"
  by (simp add: process_webhooks_def books_of_def)

lemma books_settle_job: "settle_job E job res nxt s = Inr (j, s') \<Longrightarrow> books_of s' = books_of s"
  by (auto simp: settle_job_def split: if_splits dest!: books_frames)

lemma find_books_eq:
  "books_of s' = books_of s \<Longrightarrow> find_intent s' x = find_intent s x \<and> find_account s' x = find_account s x"
  by (simp add: find_intent_books find_account_books)

lemma refine_FinalizeProviderAttempt:
  assumes op: "FinalizeProviderAttempt E ctx inp s = Inr (r, s')" and wf: "wf_books (books_of s)"
  shows "book_steps (books_of s) (books_of s')"
proof (cases "s' = s")
  case False
  with op obtain x i a ti at d now nxt t s1 job j s2 where i: "getIntentForUpdate s x = Inr i"
      and a: "getAccountForUpdate E ctx s (pi_AccountID i) = Inr a"
      and tr: "transitionIntentTx E a i ti (complete_attempt at (fa_Result inp) d now nxt s) = Inr (t, s1)"
      and settle: "settle_job E job (fa_Result inp) nxt s1 = Inr (j, s2)" and "books_of s' = books_of s2"
    by (auto simp: FinalizeProviderAttempt_def Let_def split: if_splits)
  moreover have "book_steps (books_of s) (books_of s1)"
    using steps_transition [OF tr] intent_for_update [OF i] account_for_update [OF a] wf
    by (simp add: find_books_eq [OF books_complete_attempt])
  ultimately show ?thesis by (simp add: books_settle_job)
qed simp

lemma steps_webhook_intent:
  assumes op: "webhook_intent E ctx p ev s = Inr (i', s')" and wf: "wf_books (books_of s)"
  shows "book_steps (books_of s) (books_of s')"
proof (cases "s' = s")
  case False
  with op obtain i ref where mem: "i \<in> set (db_intents s)"
      and upd: "sql_update_intent E (pi_ID i) (\<lambda>i. i\<lparr>pi_ProviderTransactionReference := ref\<rparr>) s = Inr (i', s')"
    by (auto simp: webhook_intent_def Let_def split: if_splits dest!: find_Some_mem)
  have "distinct (map pi_ID (db_intents s))" using wf by (simp add: wf_books_def intents_ok_def)
  then have "find_intent s (pi_ID i) = Some i" unfolding find_intent_def by (rule find_key_mem) (rule mem)
  then show ?thesis by (intro steps_update_intent [OF upd]) (simp_all add: advances_def)
qed simp

lemma refine_RecordWebhook:
  assumes op: "RecordWebhook E ctx inp s = Inr (r, s')" and wf: "wf_books (books_of s)"
  shows "book_steps (books_of s) (books_of s')"
proof -
  from op obtain x s1 where "(if rw_VerificationResult inp = ''verified''
        then bindE (webhook_intent E ctx (NormalizeProvider (rw_Provider inp)) (rw_Event inp) s)
               (\<lambda>(intent, s). Inr (pi_ID intent, s))
        else Inr ([], s)) = Inr (x, s1)" and rest: "books_of s' = books_of s1"
    by (auto simp: RecordWebhook_def Let_def drawn_def split: if_splits)
  then show ?thesis by (auto split: if_splits dest: steps_webhook_intent [OF _ wf])
qed

text \<open>The operations of \<^verbatim>\<open>reversals.go\<close>.\<close>

lemma books_insert_allocation: "sql_insert_allocation r s = Inr s' \<Longrightarrow> books_of s' = books_of s"
  by (auto simp: sql_insert_allocation_def books_of_def split: if_splits)

lemma books_insert_review: "sql_insert_review x r s = Inr s' \<Longrightarrow> books_of s' = books_of s"
  by (auto simp: sql_insert_review_def books_of_def split: if_splits)

lemma steps_apply_allocation:
  assumes op: "apply_allocation E a x inp d al s = Inr (e, a', s')"
    and a: "find_account s (ca_ID a) = Some a" and wf: "wf_books (books_of s)"
  shows "book_steps (books_of s) (books_of s')"
proof (cases "rva_disposition al = ''current_balance''")
  case True
  with op obtain le a1 s1 a2 s2 where ins: "insertLedgerEntryTx E a (reversal_entry_input E a inp) s = Inr (le, a1, s1)"
      and dis: "disarmAutoTopUpAfterSettlementReversalTx E a1 s1 = Inr (a2, s2)" and "books_of s' = books_of s2"
    by (auto simp: apply_allocation_def dest!: books_insert_allocation)
  with step_insert_entry(1) [OF ins a wf] steps_disarm [OF dis] show ?thesis
    by (simp add: converse_rtranclp_into_rtranclp)
qed (use op in \<open>auto simp: apply_allocation_def dest!: books_insert_allocation\<close>)

lemma steps_allocate:
  assumes "allocateProviderReversalTx E a x inp d s = Inr (r, s')"
    and "find_account s (ca_ID a) = Some a" and "wf_books (books_of s)"
  shows "book_steps (books_of s) (books_of s')"
  using assms
  by (auto simp: allocateProviderReversalTx_def split: if_splits
      dest!: books_insert_review steps_apply_allocation)

lemma refine_RecordProviderReversal:
  assumes op: "RecordProviderReversal digest E ctx inp s = Inr (r, s')" and wf: "wf_books (books_of s)"
  shows "book_steps (books_of s) (books_of s')"
proof (cases "s' = s")
  case False
  with op obtain a x inp' row where a: "getAccountForUpdate E ctx s (rpi_AccountID inp') = Inr a"
      and al: "allocateProviderReversalTx E a x inp' [] ((drawn s)\<lparr>db_reversal_events := row\<rparr>) = Inr (r, s')"
    by (auto simp: RecordProviderReversal_def Let_def duplicate_result_def split: if_splits option.splits)
  have books: "books_of ((drawn s)\<lparr>db_reversal_events := row\<rparr>) = books_of s" by (simp add: books_of_def drawn_def)
  with steps_allocate [OF al] account_for_update [OF a] wf show ?thesis
    by (simp add: find_books_eq [OF books])
qed simp

lemma refine_ResolveProviderReversal:
  assumes op: "ResolveProviderReversal E ctx inp s = Inr (r, s')" and wf: "wf_books (books_of s)"
  shows "book_steps (books_of s) (books_of s')"
proof (cases "s' = s")
  case False
  with op obtain a x inp' d where a: "getAccountForUpdate E ctx s (rri_AccountID inp) = Inr a"
      and al: "allocateProviderReversalTx E a x inp' d s = Inr (r, s')"
    by (auto simp: ResolveProviderReversal_def duplicate_result_def split: if_splits option.splits)
  with steps_allocate [OF al] account_for_update [OF a] wf show ?thesis by simp
qed simp

lemma refine_BindHistoricalPaymentResponsibility:
  "BindHistoricalPaymentResponsibility E ctx inp s = Inr s' \<Longrightarrow> books_of s' = books_of s"
  by (auto simp: BindHistoricalPaymentResponsibility_def sql_insert_audit_def books_of_def
      split: if_splits option.splits)

end
