(* ===== verification/Store_Frames.thy ===== *)
theory Store_Frames
  imports Customer_Store Orchestration_Store Reversal_Store
begin

text \<open>
  What the operations of the payment store preserve. A property of the database that every
  statement of the store preserves is preserved by every operation; this is proved once, for any
  such property, and interpreted on observations of tables an operation does not write (the
  fences, the reversal tables, the attempts by intent and operation) and on what the fences
  guard (the ledger and the intents of a fenced account).
\<close>

section \<open>Stable properties\<close>

definition attempt_key :: "PaymentAttempt \<Rightarrow> string \<times> ProviderOperation" where
  "attempt_key a = (pa_IntentID a, pa_Operation a)"

locale stable =
  fixes P :: "payment_db \<Rightarrow> bool"
  assumes P_accounts [intro!]: "P s \<Longrightarrow> P (db_accounts_update f1 s)"
    and P_consents [intro!]: "P s \<Longrightarrow> P (db_consents_update f2 s)"
    and P_methods [intro!]: "P s \<Longrightarrow> P (db_methods_update f3 s)"
    and P_jobs [intro!]: "P s \<Longrightarrow> P (db_jobs_update f5 s)"
    and P_webhooks [intro!]: "P s \<Longrightarrow> P (db_webhooks_update f6 s)"
    and P_payment_responsibility [intro!]: "P s \<Longrightarrow> P (db_payment_responsibility_update f7 s)"
    and P_method_responsibility [intro!]: "P s \<Longrightarrow> P (db_method_responsibility_update f7 s)"
    and P_emails [intro!]: "P s \<Longrightarrow> P (db_emails_update f8 s)"
    and P_audit [intro!]: "P s \<Longrightarrow> P (db_audit_update f9 s)"
    and P_seq [intro!]: "P s \<Longrightarrow> P (db_seq_update f10 s)"
    and P_attempt_keys: "P s \<Longrightarrow> map attempt_key v = map attempt_key (db_attempts s) \<Longrightarrow> P (s\<lparr>db_attempts := v\<rparr>)"
    and P_insert_ledger: "sql_insert_ledger E le s = Inr (e, s') \<Longrightarrow> P s \<Longrightarrow> P s'"
    and P_insert_intent: "sql_insert_intent E pv s = Inr (i, s') \<Longrightarrow> P s \<Longrightarrow> P s'"
    and P_update_intent: "sql_update_intent E x f s = Inr (i, s') \<Longrightarrow> P s \<Longrightarrow>
      (\<And>i. pi_ID (f i) = pi_ID i \<and> pi_AccountID (f i) = pi_AccountID i) \<Longrightarrow> P s'"
    and P_insert_policy: "sql_insert_policy E p s = Inr (r, s') \<Longrightarrow> P s \<Longrightarrow> P s'"
    and P_update_policy: "sql_update_policy E q g s = Inr (u, s') \<Longrightarrow> P s \<Longrightarrow>
      (\<And>p. atp_ID (g p) = atp_ID p \<and> atp_AccountID (g p) = atp_AccountID p) \<Longrightarrow> P s'"
begin

lemma P_drawn [intro!]: "P s \<Longrightarrow> P (drawn s)"
  by (auto simp: drawn_def)

lemma P_insert_account: "sql_insert_account E org c s = Inr (a, s') \<Longrightarrow> P s \<Longrightarrow> P s'"
  by (auto simp: sql_insert_account_def Let_def split: if_splits)

lemma P_update_account: "sql_update_account E x f s = Inr (a, s') \<Longrightarrow> P s \<Longrightarrow> P s'"
  by (auto simp: sql_update_account_def Let_def split: option.splits)

lemma P_insert_job: "sql_insert_job E i r d s = Inr s' \<Longrightarrow> P s \<Longrightarrow> P s'"
  by (auto simp: sql_insert_job_def Let_def split: if_splits)

lemma P_insert_job_unless [intro!]: "P s \<Longrightarrow> P (sql_insert_job_unless E i r d s)"
  by (auto simp: sql_insert_job_unless_def Let_def)

lemma P_update_job: "sql_update_job E p f s = Inr (r, s') \<Longrightarrow> P s \<Longrightarrow> P s'"
  by (auto simp: sql_update_job_def Let_def split: option.splits if_splits)

lemma P_insert_audit [intro!]: "P s \<Longrightarrow> P (sql_insert_audit e s)"
  by (auto simp: sql_insert_audit_def)

lemma P_queue_email: "queue_topup_email i a now s = Inr s' \<Longrightarrow> P s \<Longrightarrow> P s'"
  by (auto simp: queue_topup_email_def split: if_splits option.splits)

lemmas P_statements = P_insert_account P_update_account P_insert_ledger P_insert_intent
  P_update_intent P_insert_policy P_update_policy P_insert_job P_update_job P_queue_email

lemma P_insert_entry: "insertLedgerEntryTx E a inp s = Inr (e, a', s') \<Longrightarrow> P s \<Longrightarrow> P s'"
  by (auto simp: insertLedgerEntryTx_def dest!: P_statements)

lemma P_disarm: "disarmAutoTopUpAfterSettlementReversalTx E a s = Inr (a', s') \<Longrightarrow> P s \<Longrightarrow> P s'"
  by (auto simp: disarmAutoTopUpAfterSettlementReversalTx_def split: if_splits dest!: P_statements)

lemma P_rearm: "rearmPolicyAfterCreditTx E a s = Inr (a', s') \<Longrightarrow> P s \<Longrightarrow> P s'"
  by (auto simp: rearmPolicyAfterCreditTx_def split: if_splits sum.splits dest!: P_statements)

lemma P_evaluate: "evaluateAutoTopUpTx E ctx a e now c s = Inr (r, s') \<Longrightarrow> P s \<Longrightarrow> P s'"
  by (auto simp: evaluateAutoTopUpTx_def Let_def split: if_splits sum.splits dest!: P_statements)

lemma P_after_entry: "after_entry E ctx inp now e a s = Inr (a', i, s') \<Longrightarrow> P s \<Longrightarrow> P s'"
  by (auto simp: after_entry_def split: if_splits dest!: P_evaluate P_rearm)

lemma P_transition: "transitionIntentTx E a i inp s = Inr (r, s') \<Longrightarrow> P s \<Longrightarrow> P s'"
  unfolding transitionIntentTx_def Let_def
  by (auto simp: policy_after_success_def policy_after_other_def Let_def split: if_splits sum.splits
      dest!: P_statements P_insert_entry)

lemma P_EnsureCommercialAccount: "EnsureCommercialAccount E ctx org c s = Inr (a, new, s') \<Longrightarrow> P s \<Longrightarrow> P s'"
  by (auto simp: EnsureCommercialAccount_def scan_def split: option.splits if_splits sum.splits
      dest!: P_statements)

lemma P_PostLedgerEntry: "PostLedgerEntry E ctx inp s = Inr (r, s') \<Longrightarrow> P s \<Longrightarrow> P s'"
  by (auto simp: PostLedgerEntry_def Let_def split: if_splits sum.splits dest!: P_insert_entry P_after_entry)

lemma P_TransitionIntent: "TransitionIntent E ctx inp s = Inr (r, s') \<Longrightarrow> P s \<Longrightarrow> P s'"
  by (auto simp: TransitionIntent_def Let_def split: if_splits dest!: P_transition)

lemma P_CreateManualTopUp: "CreateManualTopUp E ctx inp s = Inr (r, s') \<Longrightarrow> P s \<Longrightarrow> P s'"
  by (auto simp: CreateManualTopUp_def Let_def split: if_splits option.splits dest!: P_statements)

lemma P_CreateHostedTopUp: "CreateHostedTopUp E ctx rnd inp s = Inr (r, s') \<Longrightarrow> P s \<Longrightarrow> P s'"
  by (auto simp: CreateHostedTopUp_def Let_def split: if_splits option.splits dest!: P_statements)

lemma P_CreateConsent: "CreateConsent E ctx inp s = Inr (r, s') \<Longrightarrow> P s \<Longrightarrow> P s'"
  by (auto simp: CreateConsent_def Let_def split: if_splits)

lemma P_CreatePaymentMethod: "CreatePaymentMethod E ctx inp s = Inr (r, s') \<Longrightarrow> P s \<Longrightarrow> P s'"
  by (auto simp: CreatePaymentMethod_def sql_insert_method_def Let_def split: if_splits)

lemma P_PutAutoTopUpPolicy: "PutAutoTopUpPolicy E ctx inp s = Inr (r, s') \<Longrightarrow> P s \<Longrightarrow> P s'"
  by (auto simp: PutAutoTopUpPolicy_def Let_def split: if_splits sum.splits option.splits dest!: P_statements)

lemma P_RevokePaymentMethod: "RevokePaymentMethod E ctx inp s = Inr (r, s') \<Longrightarrow> P s \<Longrightarrow> P s'"
  by (auto simp: RevokePaymentMethod_def revoke_consent_def Let_def split: if_splits dest!: P_statements)

lemma P_DisableAutoTopUpPolicy: "DisableAutoTopUpPolicy E ctx inp s = Inr (r, s') \<Longrightarrow> P s \<Longrightarrow> P s'"
  by (auto simp: DisableAutoTopUpPolicy_def split: if_splits sum.splits option.splits dest!: P_statements)

lemma P_ClaimPaymentJobs: "ClaimPaymentJobs E locked now stale own limit s = Inr (r, s') \<Longrightarrow> P s \<Longrightarrow> P s'"
  by (auto simp: ClaimPaymentJobs_def Let_def split: if_splits)

lemma P_SetAttemptRequestDigest: "SetAttemptRequestDigest x d s = Inr s' \<Longrightarrow> P s \<Longrightarrow> P s'"
  by (auto simp: SetAttemptRequestDigest_def Let_def attempt_key_def split: if_splits
      intro!: P_attempt_keys map_update_where)

lemma P_complete_attempt [intro!]: "P s \<Longrightarrow> P (complete_attempt x res d now nxt s)"
  unfolding complete_attempt_def by (erule P_attempt_keys) (rule map_update_where, simp add: attempt_key_def)

lemma P_process_webhooks [intro!]: "P s \<Longrightarrow> P (process_webhooks E x now s)"
  by (auto simp: process_webhooks_def)

lemma P_FinalizeProviderAttempt: "FinalizeProviderAttempt E ctx inp s = Inr (r, s') \<Longrightarrow> P s \<Longrightarrow> P s'"
  by (auto simp: FinalizeProviderAttempt_def settle_job_def Let_def split: if_splits
      dest!: P_statements P_transition)

lemma P_CompletePaymentJob: "CompletePaymentJob E x own s = Inr s' \<Longrightarrow> P s \<Longrightarrow> P s'"
  by (auto simp: CompletePaymentJob_def split: sum.splits if_splits dest!: P_statements)

lemma P_RetryPaymentJob: "RetryPaymentJob E x own d err s = Inr s' \<Longrightarrow> P s \<Longrightarrow> P s'"
  by (auto simp: RetryPaymentJob_def split: sum.splits if_splits dest!: P_statements)

lemma P_RecordWebhook: "RecordWebhook E ctx inp s = Inr (r, s') \<Longrightarrow> P s \<Longrightarrow> P s'"
  by (auto simp: RecordWebhook_def webhook_intent_def Let_def split: if_splits dest!: P_statements)

lemma P_BindHistoricalPaymentResponsibility:
  "BindHistoricalPaymentResponsibility E ctx inp s = Inr s' \<Longrightarrow> P s \<Longrightarrow> P s'"
  by (auto simp: BindHistoricalPaymentResponsibility_def split: if_splits option.splits)

end

text \<open>A property that new attempts preserve too.\<close>

locale stable_attempts = stable +
  assumes P_attempts [intro!]: "P s \<Longrightarrow> P (db_attempts_update f11 s)"
begin

lemma P_BeginProviderAttempt: "BeginProviderAttempt E ctx inp s = Inr (r, s') \<Longrightarrow> P s \<Longrightarrow> P s'"
  by (auto simp: BeginProviderAttempt_def begin_operation_def sql_insert_attempt_def Let_def
      split: if_splits option.splits dest!: P_statements)

end

text \<open>A property that the rows of a reversal preserve too.\<close>

locale stable_reversals = stable +
  assumes P_reversal_events [intro!]: "P s \<Longrightarrow> P (db_reversal_events_update f12 s)"
    and P_reversal_allocations [intro!]: "P s \<Longrightarrow> P (db_reversal_allocations_update f13 s)"
    and P_reversal_reviews [intro!]: "P s \<Longrightarrow> P (db_reversal_reviews_update f14 s)"
begin

lemma P_allocate: "allocateProviderReversalTx E a x inp d s = Inr (r, s') \<Longrightarrow> P s \<Longrightarrow> P s'"
  by (auto simp: allocateProviderReversalTx_def apply_allocation_def sql_insert_review_def
      sql_insert_allocation_def split: if_splits dest!: P_insert_entry P_disarm)

lemma P_RecordProviderReversal: "RecordProviderReversal digest E ctx inp s = Inr (r, s') \<Longrightarrow> P s \<Longrightarrow> P s'"
  by (auto simp: RecordProviderReversal_def duplicate_result_def Let_def split: if_splits option.splits
      dest!: P_allocate)

lemma P_ResolveProviderReversal: "ResolveProviderReversal E ctx inp s = Inr (r, s') \<Longrightarrow> P s \<Longrightarrow> P s'"
  by (auto simp: ResolveProviderReversal_def duplicate_result_def split: if_splits option.splits
      dest!: P_allocate)

end

locale stable_store = stable_attempts + stable_reversals

section \<open>Observations of tables\<close>

lemmas intent_ledger_statements = sql_insert_policy_def sql_update_policy_def sql_insert_ledger_def sql_insert_intent_def sql_update_intent_def drawn_def Let_def

text \<open>The tables of the responsibility periods, the handoffs, the closures, the profiles and the invoices.\<close>

type_synonym fence_tables = "responsibility_period list \<times> OwnershipHandoff list \<times>
    HandoffCommitAuthorization list \<times> committed_decision list \<times> CloudClosure list \<times> BillingProfile list \<times> Invoice list"

definition fences :: "payment_db \<Rightarrow> fence_tables" where
  "fences s = (db_periods s, db_handoffs s, db_commit_authorizations s, db_committed_decisions s,
     db_closures s, db_profiles s, db_invoices s)"

interpretation fence: stable_store "\<lambda>s. fences s = v" for v
  by unfold_locales (auto simp: fences_def intent_ledger_statements split: if_splits option.splits)

definition reversal_tables :: "payment_db \<Rightarrow> reversal_event list \<times> reversal_allocation_row list" where
  "reversal_tables s = (db_reversal_events s, db_reversal_allocations s)"

interpretation rev: stable_attempts "\<lambda>s. reversal_tables s = v" for v
  by unfold_locales (auto simp: reversal_tables_def intent_ledger_statements split: if_splits option.splits)

definition attempt_keys :: "payment_db \<Rightarrow> (string \<times> ProviderOperation) list" where
  "attempt_keys s = map attempt_key (db_attempts s)"

interpretation att: stable_reversals "\<lambda>s. attempt_keys s = v" for v
  by unfold_locales (auto simp: attempt_keys_def intent_ledger_statements split: if_splits option.splits)

lemma attempt_keys_update_intent: "sql_update_intent E x f s = Inr (i, s') \<Longrightarrow> attempt_keys s' = attempt_keys s"
  by (auto simp: sql_update_intent_def Let_def attempt_keys_def split: option.splits if_splits)

section \<open>What the fences guard\<close>

lemma fences_eq_simps:
  assumes "fences s' = fences s"
  shows "handoff_open s' x = handoff_open s x" "commit_pending s' x = commit_pending s x"
    "closure_active s' x = closure_active s x" "closure_closed s' x = closure_closed s x"
    "current_period s' x = current_period s x" "requireNoHandoffTx s' x = requireNoHandoffTx s x"
  using assms by (simp_all add: fences_def handoff_open_def commit_pending_def closure_active_def
    closure_closed_def current_period_def requireNoHandoffTx_def)

text \<open>Under the commit barrier or after closure the ledger of an account is frozen.\<close>

definition ledger_frozen :: "payment_db \<Rightarrow> string \<Rightarrow> bool" where
  "ledger_frozen s x \<longleftrightarrow> commit_pending s x \<or> closure_closed s x"

definition ledger_of :: "string \<Rightarrow> payment_db \<Rightarrow> LedgerEntry list" where
  "ledger_of x s = filter (\<lambda>e. le_AccountID e = x) (db_ledger s)"

lemmas fence_defs = handoff_open_def commit_pending_def closure_active_def closure_closed_def

interpretation frozen: stable_store "\<lambda>s. ledger_frozen s x \<and> ledger_of x s = v" for x v
  by unfold_locales
     (auto simp: ledger_frozen_def ledger_of_def fence_defs intent_ledger_statements split: if_splits option.splits)

text \<open>While a handoff or a closure is open an account opens no intent.\<close>

definition intents_fenced :: "payment_db \<Rightarrow> string \<Rightarrow> bool" where
  "intents_fenced s x \<longleftrightarrow> handoff_open s x \<or> closure_active s x"

definition intents_of :: "string \<Rightarrow> payment_db \<Rightarrow> string list" where
  "intents_of x s = map pi_ID (filter (\<lambda>i. pi_AccountID i = x) (db_intents s))"

lemma update_intent_keys:
  assumes upd: "sql_update_intent E y f s = Inr (i, s')" and dist: "distinct (map pi_ID (db_intents s))"
    and keep: "\<And>i. pi_ID (f i) = pi_ID i \<and> pi_AccountID (f i) = pi_AccountID i"
  shows "map (\<lambda>i. (pi_ID i, pi_AccountID i)) (db_intents s') = map (\<lambda>i. (pi_ID i, pi_AccountID i)) (db_intents s)"
proof -
  from upd obtain old where old: "find_intent s y = Some old" and i: "i = (f old)\<lparr>pi_UpdatedAt := env_now E\<rparr>"
      and s': "db_intents s' = update_where (\<lambda>r. pi_ID r = y) (\<lambda>_. i) (db_intents s)"
    by (auto simp: sql_update_intent_def Let_def split: option.splits if_splits)
  have y: "pi_ID old = y" using find_key_Some [OF old [unfolded find_intent_def]] by simp
  have "r = old" if "r \<in> set (db_intents s)" "pi_ID r = y" for r
    using find_key_unique [OF dist that(1), of old] old that(2) y by (simp add: find_intent_def)
  then show ?thesis using keep by (auto simp: s' update_where_def i)
qed

lemma intents_of_keys:
  "intents_of x s = map fst (filter (\<lambda>k. snd k = x) (map (\<lambda>i. (pi_ID i, pi_AccountID i)) (db_intents s)))"
  by (simp add: intents_of_def filter_map comp_def)

definition intents_distinct :: "payment_db \<Rightarrow> bool" where
  "intents_distinct s \<longleftrightarrow> distinct (map pi_ID (db_intents s))"

lemma intents_distinct_keys:
  "intents_distinct s \<longleftrightarrow> distinct (map fst (map (\<lambda>i. (pi_ID i, pi_AccountID i)) (db_intents s)))"
  by (simp add: intents_distinct_def comp_def)

lemma fences_update_intent: "sql_update_intent E y f s = Inr (i, s') \<Longrightarrow> fences s' = fences s"
  by (auto simp: sql_update_intent_def Let_def fences_def split: option.splits if_splits)

lemma intents_fenced_cong:
  assumes "fences s' = fences s"
  shows "intents_fenced s' x = intents_fenced s x"
  by (simp add: intents_fenced_def fences_eq_simps [OF assms])

lemma insert_intent_unfenced:
  assumes "sql_insert_intent E pv s = Inr (i, s')"
  shows "\<not> intents_fenced s (pi_AccountID i)" and "pi_ID i \<notin> pi_ID ` set (db_intents s)"
    and "db_intents s' = db_intents s @ [i]" and "fences s' = fences s"
proof -
  have i: "i = pv\<lparr>pi_ID := next_uuid E s, pi_CreatedAt := db_time (pi_CreatedAt pv), pi_UpdatedAt := db_time (pi_UpdatedAt pv)\<rparr>"
      and clear: "\<not> closure_active s (pi_AccountID i)" "\<not> handoff_open s (pi_AccountID i)"
      and unique: "intent_unique (db_intents s) i = Inr ()"
      and s': "s' = (drawn s)\<lparr>db_intents := db_intents s @ [i], db_payment_responsibility :=
        db_payment_responsibility s @ option_list (payment_binding s i)\<rparr>"
    using assms unfolding sql_insert_intent_def Let_def by (auto split: if_splits)
  show "\<not> intents_fenced s (pi_AccountID i)" using clear by (simp add: intents_fenced_def)
  show "pi_ID i \<notin> pi_ID ` set (db_intents s)" using unique by (auto simp: intent_unique_def list_ex_iff split: if_splits)
  show "db_intents s' = db_intents s @ [i]" "fences s' = fences s" by (simp_all add: s' fences_def drawn_def)
qed

interpretation fenced: stable_store "\<lambda>s. intents_fenced s x \<and> intents_distinct s \<and> intents_of x s = v" for x v
proof unfold_locales
  fix E y f s i s'
  assume upd: "sql_update_intent E y f s = Inr (i, s')"
    and P: "intents_fenced s x \<and> intents_distinct s \<and> intents_of x s = v"
    and keep: "\<And>i. pi_ID (f i) = pi_ID i \<and> pi_AccountID (f i) = pi_AccountID i"
  note keys = update_intent_keys [OF upd P [THEN conjunct2, THEN conjunct1, unfolded intents_distinct_def] keep]
  show "intents_fenced s' x \<and> intents_distinct s' \<and> intents_of x s' = v"
    using P unfolding intents_distinct_keys intents_of_keys keys
    by (simp add: intents_fenced_cong [OF fences_update_intent [OF upd]])
next
  fix E pv s i s'
  assume ins: "sql_insert_intent E pv s = Inr (i, s')"
    and P: "intents_fenced s x \<and> intents_distinct s \<and> intents_of x s = v"
  note row = insert_intent_unfenced [OF ins]
  have "pi_AccountID i \<noteq> x" using row(1) P by auto
  then show "intents_fenced s' x \<and> intents_distinct s' \<and> intents_of x s' = v"
    using P row(2) by (simp add: intents_fenced_cong [OF row(4)] intents_distinct_def intents_of_def row(3))
qed (auto simp: intents_fenced_def intents_distinct_def intents_of_def fence_defs sql_insert_ledger_def
    sql_insert_policy_def sql_update_policy_def drawn_def Let_def split: if_splits option.splits)

section \<open>Policies\<close>

text \<open>The primary key of the policies, one policy for an account, and the checks of the table.\<close>

definition policies_ok :: "payment_db \<Rightarrow> bool" where
  "policies_ok s \<longleftrightarrow> distinct (map atp_ID (db_policies s)) \<and> distinct (map atp_AccountID (db_policies s)) \<and>
     (\<forall>p \<in> set (db_policies s). policy_check p)"

lemma map_update_key:
  assumes "distinct (map k rows)" and "old \<in> set rows" and "h new = h old"
  shows "map h (update_where (\<lambda>r. k r = k old) (\<lambda>_. new) rows) = map h rows"
proof -
  have "h (if k r = k old then new else r) = h r" if "r \<in> set rows" for r
    using assms that by (auto simp: distinct_map dest: inj_onD)
  then show ?thesis by (simp add: update_where_def)
qed

lemma policies_ok_update:
  assumes upd: "sql_update_policy E q g s = Inr (u, s')" and ok: "policies_ok s"
    and keep: "\<And>p. atp_ID (g p) = atp_ID p \<and> atp_AccountID (g p) = atp_AccountID p"
  shows "policies_ok s'"
proof (cases "find q (db_policies s)")
  case (Some old)
  define new where "new = (g old)\<lparr>atp_UpdatedAt := env_now E\<rparr>"
  from upd Some have s': "db_policies s' = update_where (\<lambda>r. atp_ID r = atp_ID old) (\<lambda>_. new) (db_policies s)"
      and check: "policy_check new"
    by (auto simp: sql_update_policy_def new_def Let_def policy_update_error_def split: option.splits if_splits)
  note old = find_Some_mem [OF Some]
  have "map atp_ID (db_policies s') = map atp_ID (db_policies s)"
    and "map atp_AccountID (db_policies s') = map atp_AccountID (db_policies s)"
    using ok old keep by (simp_all add: s' new_def policies_ok_def map_update_key)
  with ok check show ?thesis by (auto simp: policies_ok_def s' set_update_where)
qed (use upd ok in \<open>simp add: sql_update_policy_def\<close>)

interpretation pol: stable_store policies_ok
proof unfold_locales
  fix E p s r s'
  assume "sql_insert_policy E p s = Inr (r, s')" and "policies_ok s"
  then show "policies_ok s'"
    by (auto simp: sql_insert_policy_def policies_ok_def Let_def drawn_def list_ex_iff split: if_splits) metis+
next
  show "policies_ok s'" if "sql_update_policy E q g s = Inr (u, s')" and "policies_ok s"
      and "\<And>p. atp_ID (g p) = atp_ID p \<and> atp_AccountID (g p) = atp_AccountID p" for E q g s u s'
    using that by (rule policies_ok_update)
qed (auto simp: policies_ok_def sql_insert_ledger_def sql_insert_intent_def sql_update_intent_def drawn_def Let_def
    split: if_splits option.splits)

end
