(* ===== verification/Payment_Machine.thy ===== *)
theory Payment_Machine
  imports Books_Refinement Store_Frames
begin

text \<open>
  The payment store as a machine: its operations as a datatype, one transaction per step, and the
  invariants of every state it reaches. An operation that fails rolls back and takes no step. The
  other components of the program change the tables of fences, profiles and invoices in between,
  and may set the state of an account; both are steps of the machine too.
\<close>

section \<open>Operations and steps\<close>

datatype store_op =
    OpEnsureAccount ctx string Currency
  | OpPostLedgerEntry ctx PostLedgerEntryInput
  | OpTransitionIntent ctx TransitionIntentInput
  | OpCreateManualTopUp ctx CreateManualTopUpInput
  | OpCreateHostedTopUp ctx string CreateHostedTopUpInput
  | OpCreateConsent ctx CreateConsentInput
  | OpCreatePaymentMethod ctx CreatePaymentMethodInput
  | OpPutPolicy ctx PutAutoTopUpPolicyInput
  | OpRevokePaymentMethod ctx RevokePaymentMethodInput
  | OpDisablePolicy ctx DisableAutoTopUpPolicyInput
  | OpClaimJobs "string list" instant instant string int
  | OpBeginAttempt ctx BeginProviderAttemptInput
  | OpSetDigest string string
  | OpFinalizeAttempt ctx FinalizeProviderAttemptInput
  | OpCompleteJob string string
  | OpRetryJob string string instant string
  | OpRecordWebhook ctx RecordWebhookInput
  | OpRecordReversal ctx RecordProviderReversalInput
  | OpResolveReversal ctx ResolveProviderReversalInput
  | OpBindHistorical ctx BindHistoricalPaymentResponsibilityInput
  | OpFences "responsibility_period list" "OwnershipHandoff list" "HandoffCommitAuthorization list"
      "committed_decision list" "CloudClosure list" "BillingProfile list" "Invoice list"
  | OpAccountState string AccountState

text \<open>The state a transaction commits.\<close>

definition committed :: "error + ('r \<times> payment_db) \<Rightarrow> error + payment_db" where
  "committed m = bindE m (\<lambda>(_, s). Inr s)"

lemma committed_Inr_iff: "committed m = Inr s' \<longleftrightarrow> (\<exists>r. m = Inr (r, s'))"
  by (auto simp: committed_def bindE_eq_Inr_iff)

fun exec :: "(RecordProviderReversalInput \<Rightarrow> string) \<Rightarrow> env \<Rightarrow> store_op \<Rightarrow> payment_db \<Rightarrow> error + payment_db" where
  "exec dg E (OpEnsureAccount ctx org c) s =
     bindE (EnsureCommercialAccount E ctx org c s) (\<lambda>(_, _, s). Inr s)"
| "exec dg E (OpPostLedgerEntry ctx inp) s = committed (PostLedgerEntry E ctx inp s)"
| "exec dg E (OpTransitionIntent ctx inp) s = committed (TransitionIntent E ctx inp s)"
| "exec dg E (OpCreateManualTopUp ctx inp) s = committed (CreateManualTopUp E ctx inp s)"
| "exec dg E (OpCreateHostedTopUp ctx rnd inp) s = committed (CreateHostedTopUp E ctx rnd inp s)"
| "exec dg E (OpCreateConsent ctx inp) s = committed (CreateConsent E ctx inp s)"
| "exec dg E (OpCreatePaymentMethod ctx inp) s = committed (CreatePaymentMethod E ctx inp s)"
| "exec dg E (OpPutPolicy ctx inp) s = committed (PutAutoTopUpPolicy E ctx inp s)"
| "exec dg E (OpRevokePaymentMethod ctx inp) s = committed (RevokePaymentMethod E ctx inp s)"
| "exec dg E (OpDisablePolicy ctx inp) s = committed (DisableAutoTopUpPolicy E ctx inp s)"
| "exec dg E (OpClaimJobs locked now stale own limit) s =
     committed (ClaimPaymentJobs E locked now stale own limit s)"
| "exec dg E (OpBeginAttempt ctx inp) s = committed (BeginProviderAttempt E ctx inp s)"
| "exec dg E (OpSetDigest x d) s = SetAttemptRequestDigest x d s"
| "exec dg E (OpFinalizeAttempt ctx inp) s = committed (FinalizeProviderAttempt E ctx inp s)"
| "exec dg E (OpCompleteJob x own) s = CompletePaymentJob E x own s"
| "exec dg E (OpRetryJob x own due err) s = RetryPaymentJob E x own due err s"
| "exec dg E (OpRecordWebhook ctx inp) s = committed (RecordWebhook E ctx inp s)"
| "exec dg E (OpRecordReversal ctx inp) s = committed (RecordProviderReversal dg E ctx inp s)"
| "exec dg E (OpResolveReversal ctx inp) s = committed (ResolveProviderReversal E ctx inp s)"
| "exec dg E (OpBindHistorical ctx inp) s = BindHistoricalPaymentResponsibility E ctx inp s"
| "exec dg E (OpFences ps hs auths decs cs profs invs) s =
     Inr (s\<lparr>db_periods := ps, db_handoffs := hs, db_commit_authorizations := auths,
            db_committed_decisions := decs, db_closures := cs, db_profiles := profs, db_invoices := invs\<rparr>)"
| "exec dg E (OpAccountState x st) s =
     committed (sql_update_account E x (\<lambda>a. a\<lparr>ca_State := st\<rparr>) s)"

inductive store_step :: "(RecordProviderReversalInput \<Rightarrow> string) \<Rightarrow> payment_db \<Rightarrow> payment_db \<Rightarrow> bool"
  for dg where
  transaction: "good_env E \<Longrightarrow> exec dg E op s = Inr s' \<Longrightarrow> store_step dg s s'"

inductive_cases store_stepE: "store_step dg s s'"

abbreviation reachable :: "(RecordProviderReversalInput \<Rightarrow> string) \<Rightarrow> payment_db \<Rightarrow> bool" where
  "reachable dg s \<equiv> (store_step dg)\<^sup>*\<^sup>* empty_db s"

text \<open>Running operations one after the other; one that fails changes nothing.\<close>

fun run_ops :: "(RecordProviderReversalInput \<Rightarrow> string) \<Rightarrow> (env \<times> store_op) list \<Rightarrow> payment_db \<Rightarrow> payment_db" where
  "run_ops dg [] s = s"
| "run_ops dg ((E, op) # ops) s = run_ops dg ops (case exec dg E op s of Inl _ \<Rightarrow> s | Inr s' \<Rightarrow> s')"

lemma run_ops_reachable:
  "list_all (good_env \<circ> fst) ops \<Longrightarrow> (store_step dg)\<^sup>*\<^sup>* s (run_ops dg ops s)"
proof (induction dg ops s rule: run_ops.induct)
  case (2 dg E op ops s)
  then show ?case
    by (cases "exec dg E op s") (auto intro: converse_rtranclp_into_rtranclp store_step.transaction)
qed simp

section \<open>Stable properties along steps\<close>

fun is_fence_op :: "store_op \<Rightarrow> bool" where
  "is_fence_op (OpFences _ _ _ _ _ _ _) = True"
| "is_fence_op _ = False"

fun is_reversal_op :: "store_op \<Rightarrow> bool" where
  "is_reversal_op (OpRecordReversal _ _) = True"
| "is_reversal_op (OpResolveReversal _ _) = True"
| "is_reversal_op _ = False"

fun is_begin_op :: "store_op \<Rightarrow> bool" where
  "is_begin_op (OpBeginAttempt _ _) = True"
| "is_begin_op _ = False"

context stable
begin

lemmas P_operations = P_EnsureCommercialAccount P_PostLedgerEntry P_TransitionIntent P_CreateManualTopUp
  P_CreateHostedTopUp P_CreateConsent P_CreatePaymentMethod P_PutAutoTopUpPolicy P_RevokePaymentMethod
  P_DisableAutoTopUpPolicy P_ClaimPaymentJobs P_SetAttemptRequestDigest P_FinalizeProviderAttempt
  P_CompletePaymentJob P_RetryPaymentJob P_RecordWebhook P_BindHistoricalPaymentResponsibility
  P_update_account

lemma P_exec:
  assumes "exec dg E op s = Inr s'" and "P s" and "\<not> is_fence_op op" and "\<not> is_reversal_op op" and "\<not> is_begin_op op"
  shows "P s'"
  using assms by (cases op) (auto simp: committed_Inr_iff dest: P_operations)

end

context stable_attempts
begin

lemma P_exec_attempts:
  assumes "exec dg E op s = Inr s'" and "P s" and "\<not> is_fence_op op" and "\<not> is_reversal_op op"
  shows "P s'"
proof (cases "is_begin_op op")
  case True
  with assms show ?thesis
    by (cases op) (auto simp: committed_Inr_iff dest: P_BeginProviderAttempt)
qed (use assms P_exec in blast)

end

context stable_reversals
begin

lemma P_exec_reversals:
  assumes "exec dg E op s = Inr s'" and "P s" and "\<not> is_fence_op op" and "\<not> is_begin_op op"
  shows "P s'"
proof (cases "is_reversal_op op")
  case True
  with assms show ?thesis
    by (cases op) (auto simp: committed_Inr_iff dest: P_RecordProviderReversal P_ResolveProviderReversal)
qed (use assms P_exec in blast)

end

context stable_store
begin

lemma P_exec_store:
  assumes "exec dg E op s = Inr s'" and "P s" and "\<not> is_fence_op op"
  shows "P s'"
proof -
  have "\<not> is_begin_op op \<or> \<not> is_reversal_op op" by (cases op) simp_all
  with assms show ?thesis using P_exec_attempts P_exec_reversals by blast
qed

end

section \<open>Refinement of the books\<close>

text \<open>
  A concrete machine that simulates an abstract one with an invariant: what the abstract machine
  keeps and how it grows carries over to the runs of the concrete one.
\<close>

locale refinement =
  fixes absf :: "'c \<Rightarrow> 'a" and astep :: "'a \<Rightarrow> 'a \<Rightarrow> bool" and cstep :: "'c \<Rightarrow> 'c \<Rightarrow> bool" and ainv :: "'a \<Rightarrow> bool"
  assumes simulation: "cstep s s' \<Longrightarrow> ainv (absf s) \<Longrightarrow> astep\<^sup>*\<^sup>* (absf s) (absf s')"
    and ainv_step: "astep a a' \<Longrightarrow> ainv a \<Longrightarrow> ainv a'"
begin

lemma ainv_steps: "astep\<^sup>*\<^sup>* a a' \<Longrightarrow> ainv a \<Longrightarrow> ainv a'"
  by (induction rule: rtranclp_induct) (auto intro: ainv_step)

lemma runs_simulate: "cstep\<^sup>*\<^sup>* s s' \<Longrightarrow> ainv (absf s) \<Longrightarrow> astep\<^sup>*\<^sup>* (absf s) (absf s') \<and> ainv (absf s')"
  by (induction rule: rtranclp_induct) (auto intro: ainv_steps rtranclp_trans simulation)

end

locale growing_refinement = refinement +
  fixes grow :: "'a \<Rightarrow> 'a \<Rightarrow> bool"
  assumes grow_refl: "grow a a"
    and grow_trans: "grow a b \<Longrightarrow> grow b c \<Longrightarrow> grow a c"
    and grow_step: "astep a a' \<Longrightarrow> grow a a'"
begin

lemma grow_steps: "astep\<^sup>*\<^sup>* a a' \<Longrightarrow> grow a a'"
  by (induction rule: rtranclp_induct) (auto intro: grow_refl grow_trans grow_step)

lemma runs_grow: "cstep\<^sup>*\<^sup>* s s' \<Longrightarrow> ainv (absf s) \<Longrightarrow> grow (absf s) (absf s')"
  using runs_simulate grow_steps by blast

end

lemma books_fences:
  "books_of (s\<lparr>db_periods := ps, db_handoffs := hs, db_commit_authorizations := auths,
     db_committed_decisions := decs, db_closures := cs, db_profiles := profs, db_invoices := invs\<rparr>) = books_of s"
  by (simp add: books_of_def)

lemmas refine_frames = refine_CreateConsent refine_CreatePaymentMethod refine_PutAutoTopUpPolicy
  refine_RevokePaymentMethod refine_DisableAutoTopUpPolicy refine_ClaimPaymentJobs
  refine_SetAttemptRequestDigest refine_CompletePaymentJob refine_RetryPaymentJob
  refine_BindHistoricalPaymentResponsibility

lemma exec_simulates:
  assumes "exec dg E op s = Inr s'" and "good_env E" and "wf_books (books_of s)"
  shows "book_steps (books_of s) (books_of s')"
  using assms
  by (cases op)
     (auto simp: committed_Inr_iff books_fences dest!: refine_frames
      dest: refine_EnsureCommercialAccount refine_PostLedgerEntry refine_TransitionIntent
        refine_CreateManualTopUp refine_CreateHostedTopUp refine_BeginProviderAttempt
        refine_FinalizeProviderAttempt refine_RecordWebhook refine_RecordProviderReversal
        refine_ResolveProviderReversal steps_account_state)

interpretation store: growing_refinement books_of book_step "store_step dg" wf_books books_grow for dg
proof unfold_locales
  show "book_steps (books_of s) (books_of s')" if "store_step dg s s'" "wf_books (books_of s)" for s s'
    using that by (auto elim!: store_stepE intro: exec_simulates)
qed (auto intro: wf_books_step books_grow_refl books_grow_trans books_grow_step)

lemma wf_empty: "wf_books (books_of empty_db)"
  by (simp add: wf_books_def accounts_ok_def ledger_ok_def intents_ok_def books_of_def empty_db_def)

lemma reachable_wf: "reachable dg s \<Longrightarrow> wf_books (books_of s)"
  using store.runs_simulate [OF _ wf_empty] by blast

end
