(* ===== verification/Payment_Scenario.thy ===== *)
theory Payment_Scenario
  imports Payment_Machine
begin

text \<open>
  A worked scenario of the payment store: an account is opened, its owner registers a card and an
  automatic top-up policy, a debit takes the balance below the threshold, the worker charges the
  card and the top-up is credited, and the provider later reports a partial refund. Properties are
  instantiated on the states of this run.
\<close>

definition demo_uuid :: "nat \<Rightarrow> string" where
  "demo_uuid n = replicate 26 CHR ''a'' @ replicate n CHR ''b''"

definition demo_env :: "int \<Rightarrow> env" where
  "demo_env now = \<lparr>env_now = now * second_ns, env_clock = now * second_ns, env_uuid = demo_uuid,
                   env_uuid_text = Some\<rparr>"

lemma demo_env_good: "good_env (demo_env now)"
  by (auto simp: good_env_def demo_env_def demo_uuid_def graphic_def list_all_iff intro!: TrimSpace_graphic)

definition demo_digest :: "RecordProviderReversalInput \<Rightarrow> string" where
  "demo_digest inp = rpi_EventReference inp @ decimal (rpi_AmountMinor inp)"

definition demo_sha :: string where
  "demo_sha = replicate 64 CHR ''0''"

definition demo_caps :: ProviderCapabilities where
  "demo_caps = \<lparr>pc_HostedSetup = True, pc_HostedCharge = False, pc_VaultedMethod = True,
     pc_MerchantInitiatedCharge = True, pc_StatusQuery = True, pc_Webhook = True, pc_Refund = True,
     pc_RequiresCustomerAction = False\<rparr>"

definition demo_period :: responsibility_period where
  "demo_period = \<lparr>rp_ID = ''period'', rp_AccountID = demo_uuid 0, rp_OwnerUserID = ''owner'',
     rp_OwnershipVersion = 1, rp_EffectiveFrom = 0, rp_EffectiveUntil = None,
     rp_SourceEvidenceSHA256 = demo_sha, rp_OpeningOperationID = [], rp_OpeningBalanceMinor = None\<rparr>"

definition demo_scope :: Scope where
  "demo_scope = \<lparr>sc_OrganizationID = ''org'', sc_AccountID = demo_uuid 0, sc_UserID = ''owner'',
     sc_OwnershipVersion = 1, sc_CurrentPeriodStart = 0\<rparr>"

definition demo_consent :: "string \<Rightarrow> CreateConsentInput" where
  "demo_consent kind = \<lparr>ccn_AccountID = demo_uuid 0, ccn_ConsentType = kind, ccn_TextVersion = ''v1'',
     ccn_TextSHA256 = demo_sha, ccn_AcceptedActorType = ''user'', ccn_AcceptedActorID = ''owner'',
     ccn_AcceptedAt = 5 * second_ns, ccn_Locale = ''en'', ccn_Source = ''portal''\<rparr>"

definition demo_method :: CreatePaymentMethodInput where
  "demo_method = \<lparr>cpm_AccountID = demo_uuid 0, cpm_Provider = '' Simulator'',
     cpm_ProviderCustomerRefCiphertext = ''c'', cpm_ProviderMethodRefCiphertext = ''m'',
     cpm_ProviderMethodRefSHA256 = demo_sha, cpm_CardBrand = ''visa'', cpm_LastFour = ''4242'',
     cpm_ExpiryMonth = Some 12, cpm_ExpiryYear = Some 2030, cpm_Capabilities = demo_caps,
     cpm_Status = PaymentMethodStatusActive, cpm_ConsentID = demo_uuid 1\<rparr>"

definition demo_policy :: PutAutoTopUpPolicyInput where
  "demo_policy = \<lparr>pp_AccountID = demo_uuid 0, pp_Enabled = True, pp_ThresholdMinor = 500,
     pp_TopUpAmountMinor = 1000, pp_Currency = TWD, pp_PaymentMethodID = demo_uuid 3,
     pp_DailyAttemptLimit = 2, pp_DailyAmountLimitMinor = 1500, pp_CooldownSeconds = 600,
     pp_ConsentID = demo_uuid 2, pp_ActorID = ''owner'', pp_ExpectedVersion = 0\<rparr>"

definition demo_entry :: "LedgerDirection \<Rightarrow> int \<Rightarrow> LedgerReason \<Rightarrow> string \<Rightarrow> PostLedgerEntryInput" where
  "demo_entry dir n reason key = \<lparr>pl_AccountID = demo_uuid 0, pl_Direction = dir, pl_AmountMinor = n,
     pl_Currency = TWD, pl_Reason = reason, pl_IdempotencyScope = ''demo'', pl_IdempotencyKey = key,
     pl_ExternalType = [], pl_ExternalID = [], pl_ActorType = ''user'', pl_ActorID = ''operator'',
     pl_RequestID = ''req'', pl_Now = 100 * second_ns\<rparr>"

definition demo_credit :: PostLedgerEntryInput where
  "demo_credit = demo_entry LedgerDirectionCredit 1000 LedgerReasonManualAdjustmentCredit ''k1''"

definition demo_debit :: PostLedgerEntryInput where
  "demo_debit = demo_entry LedgerDirectionDebit 600 LedgerReasonManualAdjustmentDebit ''k2''"

definition demo_begin :: BeginProviderAttemptInput where
  "demo_begin = \<lparr>ba_JobID = demo_uuid 8, ba_LeaseOwner = ''worker'', ba_Operation = ProviderOperationCharge,
     ba_Now = 120 * second_ns\<rparr>"

definition demo_result :: ProviderResult where
  "demo_result = \<lparr>pr_State = PaymentIntentStateSucceeded, pr_ProviderTransactionReference = ''tx-1'',
     pr_ProviderCode = ''ok'', pr_Evidence = []\<rparr>"

definition demo_finalize :: FinalizeProviderAttemptInput where
  "demo_finalize = \<lparr>fa_JobID = demo_uuid 8, fa_LeaseOwner = ''worker'', fa_AttemptID = demo_uuid 9,
     fa_Result = demo_result, fa_ResponseSHA256 = demo_sha, fa_Now = 130 * second_ns,
     fa_NextReconciliationAt = zero_time\<rparr>"

definition demo_refund :: RecordProviderReversalInput where
  "demo_refund = \<lparr>rpi_AccountID = demo_uuid 0, rpi_Provider = ''simulator'', rpi_EventReference = ''evt-1'',
     rpi_OriginalIntentID = demo_uuid 7, rpi_AmountMinor = 400, rpi_Currency = TWD,
     rpi_Reason = LedgerReasonRefundDebit, rpi_ProviderPayloadSHA256 = demo_sha, rpi_RequestID = ''req''\<rparr>"

definition demo_setup :: "(env \<times> store_op) list" where
  "demo_setup =
     [(demo_env 10, OpEnsureAccount None ''org'' TWD),
      (demo_env 10, OpFences [demo_period] [] [] [] [] [] []),
      (demo_env 10, OpCreateConsent (Some demo_scope) (demo_consent ''payment_method'')),
      (demo_env 10, OpCreateConsent (Some demo_scope) (demo_consent ''auto_topup'')),
      (demo_env 11, OpCreatePaymentMethod (Some demo_scope) demo_method),
      (demo_env 12, OpPutPolicy (Some demo_scope) demo_policy),
      (demo_env 20, OpPostLedgerEntry None demo_credit)]"

definition demo_charge :: "(env \<times> store_op) list" where
  "demo_charge =
     [(demo_env 101, OpPostLedgerEntry None demo_debit),
      (demo_env 110, OpClaimJobs [] (110 * second_ns) 0 ''worker'' 10),
      (demo_env 120, OpBeginAttempt None demo_begin)]"

definition demo_settle :: "(env \<times> store_op) list" where
  "demo_settle =
     [(demo_env 121, OpSetDigest (demo_uuid 9) demo_sha),
      (demo_env 130, OpFinalizeAttempt None demo_finalize)]"

definition db_configured :: payment_db where "db_configured = run_ops demo_digest demo_setup empty_db"
definition db_charging :: payment_db where "db_charging = run_ops demo_digest demo_charge db_configured"
definition db_settled :: payment_db where "db_settled = run_ops demo_digest demo_settle db_charging"
definition db_refunded :: payment_db where
  "db_refunded = run_ops demo_digest [(demo_env 200, OpRecordReversal None demo_refund)] db_settled"

text \<open>While the charge is under way a handoff reaches its commit; the provider then declines.\<close>

definition demo_grant :: HandoffCommitAuthorization where
  "demo_grant = \<lparr>hca_OperationID = ''handoff'', hca_AuthorizationID = ''grant'', hca_SnapshotVersion = 2,
     hca_CreatedAt = 120, hca_RequestSHA256 = demo_sha, hca_StateSHA256 = demo_sha\<rparr>"

definition demo_handoff :: OwnershipHandoff where
  "demo_handoff = \<lparr>oh_ID = ''handoff'', oh_AccountID = demo_uuid 0, oh_SourcePeriodID = ''period'',
     oh_SourceUserID = ''owner'', oh_TargetUserID = ''heir'', oh_OwnershipVersion = 1, oh_Cutoff = 125 * second_ns,
     oh_Phase = HandoffCommitAuthorized, oh_Version = 3, oh_CreatedAt = 122 * second_ns,
     oh_RequestSHA256 = demo_sha\<rparr>"

definition demo_fail :: TransitionIntentInput where
  "demo_fail = \<lparr>ti_IntentID = demo_uuid 7, ti_ToState = PaymentIntentStateFailed,
     ti_ProviderTransactionReference = ''tx-1'', ti_Now = 140 * second_ns\<rparr>"

definition db_barred :: payment_db where
  "db_barred = run_ops demo_digest
     [(demo_env 126, OpFences [demo_period] [demo_handoff] [demo_grant] [] [] [] [])] db_charging"

lemma demo_reachable:
  "reachable demo_digest db_configured" "reachable demo_digest db_charging"
  "reachable demo_digest db_settled" "reachable demo_digest db_refunded" "reachable demo_digest db_barred"
proof -
  have good: "list_all (good_env \<circ> fst) demo_setup" "list_all (good_env \<circ> fst) demo_charge"
      "list_all (good_env \<circ> fst) demo_settle"
    by (simp_all add: demo_setup_def demo_charge_def demo_settle_def demo_env_good)
  show c: "reachable demo_digest db_configured"
    unfolding db_configured_def by (rule run_ops_reachable [OF good(1)])
  show ch: "reachable demo_digest db_charging"
    unfolding db_charging_def using c run_ops_reachable [OF good(2)] by (rule rtranclp_trans)
  show st: "reachable demo_digest db_settled"
    unfolding db_settled_def using ch run_ops_reachable [OF good(3)] by (rule rtranclp_trans)
  show "reachable demo_digest db_refunded"
    unfolding db_refunded_def using st
    by (rule rtranclp_trans) (rule run_ops_reachable, simp add: demo_env_good)
  show "reachable demo_digest db_barred"
    unfolding db_barred_def using ch
    by (rule rtranclp_trans) (rule run_ops_reachable, simp add: demo_env_good)
qed

lemma demo_run: "(store_step demo_digest)\<^sup>*\<^sup>* db_settled db_refunded"
  unfolding db_refunded_def by (rule run_ops_reachable) (simp add: demo_env_good)

end
