(* ===== verification/Payment_Safety.thy ===== *)
theory Payment_Safety
  imports Payment_Scenario
begin

text \<open>
  Safety of the payment store in every state it reaches: the books balance, the ledger only grows,
  a payment is credited once and charged at most once, fences stop what they are there to stop,
  and reversals never exceed the payment they reverse.
\<close>

section \<open>At most one charge per intent\<close>

definition charges :: "string \<Rightarrow> payment_db \<Rightarrow> nat" where
  "charges x s = count_list (attempt_keys s) (x, ProviderOperationCharge)"

definition charge_inv :: "payment_db \<Rightarrow> bool" where
  "charge_inv s \<longleftrightarrow>
     (\<forall>x. charges x s \<le> 1 \<and>
        (charges x s = 1 \<longrightarrow> (\<exists>i. find_intent s x = Some i \<and> pi_State i \<noteq> PaymentIntentStateCreated)))"

lemma intent_step_not_created: "intent_step s t \<Longrightarrow> t \<noteq> PaymentIntentStateCreated"
  by (cases s; cases t)
     (auto simp: intent_step_iff ValidateIntentTransition_def ValidIntentState_def CanTransitionIntent_def)

lemma intent_steps_not_created:
  "intent_step\<^sup>*\<^sup>* s t \<Longrightarrow> s \<noteq> PaymentIntentStateCreated \<Longrightarrow> t \<noteq> PaymentIntentStateCreated"
  by (induction rule: rtranclp_induct) (auto dest: intent_step_not_created)

lemma not_created_grows:
  assumes "books_grow (books_of s) (books_of s')" and "find_intent s x = Some i"
    and "pi_State i \<noteq> PaymentIntentStateCreated"
  shows "\<exists>i'. find_intent s' x = Some i' \<and> pi_State i' \<noteq> PaymentIntentStateCreated"
proof -
  from assms obtain i' where "intent_of (books_of s') x = Some i'" "further i i'"
    unfolding books_grow_def find_intent_books by blast
  with assms(3) show ?thesis
    unfolding find_intent_books further_def using intent_steps_not_created by blast
qed

lemma charge_inv_grows:
  assumes "charge_inv s" and "books_grow (books_of s) (books_of s')" and "attempt_keys s' = attempt_keys s"
  shows "charge_inv s'"
  using assms not_created_grows unfolding charge_inv_def charges_def by metis

text \<open>Beginning a charge is what moves the intent out of the created state.\<close>

lemma begin_charge:
  assumes op: "BeginProviderAttempt E ctx inp s = Inr (r, s')" and diff: "attempt_keys s' \<noteq> attempt_keys s"
  obtains x where "attempt_keys s' = attempt_keys s @ [(x, ba_Operation inp)]"
    and "ba_Operation inp = ProviderOperationCharge \<Longrightarrow>
      \<exists>i i'. find_intent s x = Some i \<and> pi_State i = PaymentIntentStateCreated \<and>
        find_intent s' x = Some i' \<and> pi_State i' \<noteq> PaymentIntentStateCreated"
proof -
  from op diff obtain y i job i' s1 n now at where i: "getIntentForUpdate s y = Inr i"
      and bo: "begin_operation E job i (ba_Operation inp) s = Inr (i', s1)"
      and ins: "sql_insert_attempt E (pi_AccountID i') (pi_ID i') (ba_Operation inp) n now s1 = Inr (at, s')"
    by (auto simp: BeginProviderAttempt_def Let_def split: if_splits option.splits)
  have keys1: "attempt_keys s1 = attempt_keys s"
    using bo by (auto simp: begin_operation_def split: if_splits dest: attempt_keys_update_intent)
  have keys: "attempt_keys s' = attempt_keys s1 @ [(pi_ID i', ba_Operation inp)]" and int: "db_intents s' = db_intents s1"
    using ins by (auto simp: sql_insert_attempt_def Let_def attempt_keys_def attempt_key_def drawn_def split: if_splits)
  have "\<exists>i1 i2. find_intent s (pi_ID i') = Some i1 \<and> pi_State i1 = PaymentIntentStateCreated \<and>
        find_intent s' (pi_ID i') = Some i2 \<and> pi_State i2 \<noteq> PaymentIntentStateCreated"
    if charge: "ba_Operation inp = ProviderOperationCharge"
  proof -
    from bo charge obtain ref where created: "pi_State i = PaymentIntentStateCreated"
        and upd: "sql_update_intent E (pi_ID i) (\<lambda>i. i\<lparr>pi_State := PaymentIntentStateProcessing,
             pi_MerchantOrderReference := ref\<rparr>) s = Inr (i', s1)"
      by (auto simp: begin_operation_def split: if_splits)
    from update_intent_row [OF upd] obtain j where "find_intent s (pi_ID i) = Some j"
        and "pi_ID j = pi_ID i" and i': "i' = j\<lparr>pi_State := PaymentIntentStateProcessing,
             pi_MerchantOrderReference := ref, pi_UpdatedAt := env_now E\<rparr>"
        and "find_intent s1 (pi_ID i) = Some i'" by auto
    moreover from this have "find_intent s' (pi_ID i) = Some i'" using int by (simp add: find_intent_def)
    moreover have "find_intent s (pi_ID i) = Some i" using intent_for_update [OF i] by simp
    ultimately show ?thesis using created by simp
  qed
  then show thesis using that keys keys1 by metis
qed

lemma charge_inv_begin:
  assumes inv: "charge_inv s" and grow: "books_grow (books_of s) (books_of s')"
    and op: "BeginProviderAttempt E ctx inp s = Inr (r, s')"
  shows "charge_inv s'"
proof (cases "attempt_keys s' = attempt_keys s")
  case False
  from begin_charge [OF op False] obtain x where keys: "attempt_keys s' = attempt_keys s @ [(x, ba_Operation inp)]"
      and charge: "ba_Operation inp = ProviderOperationCharge \<Longrightarrow>
        \<exists>i i'. find_intent s x = Some i \<and> pi_State i = PaymentIntentStateCreated \<and>
          find_intent s' x = Some i' \<and> pi_State i' \<noteq> PaymentIntentStateCreated" by blast
  have "charges y s' \<le> 1 \<and>
      (charges y s' = 1 \<longrightarrow> (\<exists>i. find_intent s' y = Some i \<and> pi_State i \<noteq> PaymentIntentStateCreated))" for y
  proof (cases "(y, ProviderOperationCharge) = (x, ba_Operation inp)")
    case True
    with charge obtain i i' where i: "find_intent s y = Some i" "pi_State i = PaymentIntentStateCreated"
        and i': "find_intent s' y = Some i'" "pi_State i' \<noteq> PaymentIntentStateCreated" by auto
    have "charges y s \<le> 1" "charges y s = 1 \<longrightarrow> (\<exists>i. find_intent s y = Some i \<and> pi_State i \<noteq> PaymentIntentStateCreated)"
      using inv by (simp_all add: charge_inv_def)
    with i have "charges y s = 0" by (metis le_antisym less_one linorder_not_le option.inject)
    with True i' show ?thesis by (simp add: charges_def keys)
  next
    case False
    then have "charges y s' = charges y s" by (auto simp: charges_def keys)
    with inv not_created_grows [OF grow] show ?thesis unfolding charge_inv_def by metis
  qed
  then show ?thesis unfolding charge_inv_def by blast
qed (use charge_inv_grows [OF inv grow] in blast)

lemma charge_inv_step:
  assumes step: "store_step dg s s'" and wf: "wf_books (books_of s)" and inv: "charge_inv s"
  shows "charge_inv s'"
proof -
  from step obtain E op where ex: "exec dg E op s = Inr s'" by (auto elim: store_stepE)
  have grow: "books_grow (books_of s) (books_of s')"
    using store.runs_grow [OF r_into_rtranclp wf] step by blast
  consider "is_fence_op op" | "is_begin_op op" | "\<not> is_fence_op op" "\<not> is_begin_op op" by blast
  then show ?thesis
  proof cases
    case 1
    with ex have "attempt_keys s' = attempt_keys s"
      by (cases op) (auto simp: attempt_keys_def)
    then show ?thesis using charge_inv_grows [OF inv grow] by blast
  next
    case 2
    with ex show ?thesis
      by (cases op) (auto simp: committed_Inr_iff intro: charge_inv_begin [OF inv grow])
  next
    case 3
    then show ?thesis
      using att.P_exec_reversals [OF ex refl] charge_inv_grows [OF inv grow] by blast
  qed
qed

lemma reachable_charge_inv: "reachable dg s \<Longrightarrow> charge_inv s"
proof (induction rule: rtranclp_induct)
  case base
  then show ?case by (simp add: charge_inv_def charges_def attempt_keys_def empty_db_def)
next
  case (step s s')
  then show ?case using charge_inv_step reachable_wf by blast
qed

section \<open>Reversals stay within the payment they reverse\<close>

definition reversed :: "payment_db \<Rightarrow> string \<Rightarrow> string \<Rightarrow> int" where
  "reversed s account x =
     (\<Sum>e\<leftarrow>filter (\<lambda>e. re_AccountID e = account \<and> re_OriginalIntentID e = x \<and>
              re_ID e \<in> ral_EventID ` set (db_reversal_allocations s)) (db_reversal_events s). re_AmountMinor e)"

definition settled_intent :: "payment_db \<Rightarrow> string \<Rightarrow> string \<Rightarrow> int \<Rightarrow> bool" where
  "settled_intent s account x n \<longleftrightarrow>
     (\<exists>i. find_intent s x = Some i \<and> pi_AccountID i = account \<and> pi_State i = PaymentIntentStateSucceeded \<and>
        n \<le> pi_AmountMinor i)"

definition reversal_inv :: "payment_db \<Rightarrow> bool" where
  "reversal_inv s \<longleftrightarrow>
     distinct (map re_ID (db_reversal_events s)) \<and>
     ral_EventID ` set (db_reversal_allocations s) \<subseteq> re_ID ` set (db_reversal_events s) \<and>
     (\<forall>e \<in> set (db_reversal_events s). 0 < re_AmountMinor e) \<and>
     (\<forall>account x. reversed s account x \<noteq> 0 \<longrightarrow> settled_intent s account x (reversed s account x))"

lemma succeeded_stays: "intent_step\<^sup>*\<^sup>* PaymentIntentStateSucceeded t \<Longrightarrow> t = PaymentIntentStateSucceeded"
  by (induction rule: rtranclp_induct) (auto dest: intent_step_not_terminal simp: IntentStateTerminal_def)

lemma settled_intent_grows:
  assumes "books_grow (books_of s) (books_of s')" and "settled_intent s account x n"
  shows "settled_intent s' account x n"
proof -
  from assms(2) obtain i where i: "intent_of (books_of s) x = Some i" "pi_AccountID i = account"
      "pi_State i = PaymentIntentStateSucceeded" "n \<le> pi_AmountMinor i"
    by (auto simp: settled_intent_def find_intent_books)
  with assms(1) obtain i' where "intent_of (books_of s') x = Some i'" "further i i'"
    unfolding books_grow_def by blast
  with i show ?thesis
    by (auto simp: settled_intent_def find_intent_books further_def dest: succeeded_stays)
qed

lemma reversal_inv_grows:
  assumes "reversal_inv s" and "books_grow (books_of s) (books_of s')" and "reversal_tables s' = reversal_tables s"
  shows "reversal_inv s'"
proof -
  have same: "db_reversal_events s' = db_reversal_events s" "db_reversal_allocations s' = db_reversal_allocations s"
    using assms(3) by (simp_all add: reversal_tables_def)
  then have "reversed s' = reversed s" by (intro ext) (simp add: reversed_def)
  with assms(1) same settled_intent_grows [OF assms(2)] show ?thesis
    unfolding reversal_inv_def by metis
qed

lemma classify_within:
  assumes cl: "classifyProviderReversalTx a x inp s = Inr al" and ok: "rva_reviewReason al = []"
  obtains i where "i \<in> set (db_intents s)" and "pi_ID i = rpi_OriginalIntentID inp"
    and "pi_AccountID i = ca_ID a" and "pi_State i = PaymentIntentStateSucceeded"
    and "allocated_total s (ca_ID a) (pi_ID i) x \<le> pi_AmountMinor i"
    and "rpi_AmountMinor inp \<le> wrap64 (pi_AmountMinor i - allocated_total s (ca_ID a) (pi_ID i) x)"
  using assms
  by (auto simp: classifyProviderReversalTx_def review_def Let_def settled_credit_def
      split: option.splits if_splits dest!: find_Some_mem)

lemma insert_allocation_tables:
  "sql_insert_allocation row s = Inr s' \<Longrightarrow>
   db_reversal_events s' = db_reversal_events s \<and> db_reversal_allocations s' = db_reversal_allocations s @ [row] \<and>
   ral_EventID row \<notin> ral_EventID ` set (db_reversal_allocations s)"
  by (auto simp: sql_insert_allocation_def list_ex_iff split: if_splits)

lemma apply_allocation_tables:
  assumes "apply_allocation E a x inp d cl s = Inr (e, a', s')"
  shows "\<exists>row. ral_EventID row = x \<and> db_reversal_events s' = db_reversal_events s \<and>
    db_reversal_allocations s' = db_reversal_allocations s @ [row] \<and>
    x \<notin> ral_EventID ` set (db_reversal_allocations s)"
proof -
  from assms obtain s1 row where ins: "sql_insert_allocation row s1 = Inr s'" and row: "ral_EventID row = x"
      and pre: "s1 = s \<or> (\<exists>le u s2 a2. insertLedgerEntryTx E a (reversal_entry_input E a inp) s = Inr (le, u, s2) \<and>
        disarmAutoTopUpAfterSettlementReversalTx E u s2 = Inr (a2, s1))"
    by (auto simp: apply_allocation_def split: if_splits)
  have "reversal_tables s1 = reversal_tables s"
    using pre rev.P_insert_entry rev.P_disarm by metis
  with insert_allocation_tables [OF ins] row show ?thesis by (auto simp: reversal_tables_def)
qed

lemma allocate_tables:
  assumes al: "allocateProviderReversalTx E a x inp d s = Inr (r, s')"
  shows "db_reversal_events s' = db_reversal_events s"
    and "db_reversal_allocations s' = db_reversal_allocations s \<or>
      (\<exists>row al. ral_EventID row = x \<and> db_reversal_allocations s' = db_reversal_allocations s @ [row] \<and>
         x \<notin> ral_EventID ` set (db_reversal_allocations s) \<and>
         classifyProviderReversalTx a x inp s = Inr al \<and> rva_reviewReason al = [])"
proof -
  from al obtain cl where cl: "classifyProviderReversalTx a x inp s = Inr cl"
      and rest: "rva_reviewReason cl \<noteq> [] \<and> reversal_tables s' = reversal_tables s \<or>
        rva_reviewReason cl = [] \<and> (\<exists>e a' s1. apply_allocation E a x inp d cl s = Inr (e, a', s1) \<and>
          reversal_tables s' = reversal_tables s1)"
    by (auto simp: allocateProviderReversalTx_def sql_insert_review_def sql_insert_audit_def reversal_tables_def
        split: if_splits)
  show "db_reversal_events s' = db_reversal_events s"
    using rest apply_allocation_tables by (fastforce simp: reversal_tables_def)
  show "db_reversal_allocations s' = db_reversal_allocations s \<or>
      (\<exists>row al. ral_EventID row = x \<and> db_reversal_allocations s' = db_reversal_allocations s @ [row] \<and>
         x \<notin> ral_EventID ` set (db_reversal_allocations s) \<and>
         classifyProviderReversalTx a x inp s = Inr al \<and> rva_reviewReason al = [])"
    using rest
  proof (elim disjE conjE exE)
    fix e a' s1
    assume ok: "rva_reviewReason cl = []" and app: "apply_allocation E a x inp d cl s = Inr (e, a', s1)"
      and "reversal_tables s' = reversal_tables s1"
    then show ?thesis
      using apply_allocation_tables [OF app] cl unfolding reversal_tables_def by auto
  qed (simp add: reversal_tables_def)
qed

lemma allocated_total_reversed:
  "x \<notin> ral_EventID ` set (db_reversal_allocations s) \<Longrightarrow>
   allocated_total s account y x = reversed s account y"
  unfolding allocated_total_def reversed_def
  by (rule arg_cong [where f = "\<lambda>es. \<Sum>e\<leftarrow>es. re_AmountMinor e"], rule filter_cong)
     (auto simp: list_ex_iff image_iff, metis)

lemma reversed_nonneg: "reversal_inv s \<Longrightarrow> 0 \<le> reversed s account x"
  unfolding reversed_def by (intro sum_list_nonneg) (auto simp: reversal_inv_def)

text \<open>Allocating one more event adds its amount to the total of its payment and to no other.\<close>

lemma reversed_allocate:
  assumes ev: "db_reversal_events s' = db_reversal_events s"
    and al: "db_reversal_allocations s' = db_reversal_allocations s @ [row]"
    and fresh: "ral_EventID row \<notin> ral_EventID ` set (db_reversal_allocations s)"
    and dist: "distinct (map re_ID (db_reversal_events s))"
    and e: "e \<in> set (db_reversal_events s)" "re_ID e = ral_EventID row"
  shows "reversed s' account x = reversed s account x +
    (if re_AccountID e = account \<and> re_OriginalIntentID e = x then re_AmountMinor e else 0)"
proof -
  let ?p = "\<lambda>e. re_AccountID e = account \<and> re_OriginalIntentID e = x \<and>
     re_ID e \<in> ral_EventID ` set (db_reversal_allocations s)"
  have only: "r = e" if "r \<in> set (db_reversal_events s)" "re_ID r = re_ID e" for r
    using dist that e(1) by (metis find_key_mem find_key_unique)
  show ?thesis
  proof (cases "re_AccountID e = account \<and> re_OriginalIntentID e = x")
    case True
    have "filter (\<lambda>r. re_AccountID r = account \<and> re_OriginalIntentID r = x \<and>
        re_ID r \<in> ral_EventID ` set (db_reversal_allocations s')) (db_reversal_events s)
      = filter (\<lambda>r. ?p r \<or> re_ID r = re_ID e) (db_reversal_events s)"
      using True only e(2) by (intro filter_cong) (auto simp: al)
    then show ?thesis
      using sum_filter_insert [OF dist e(1), of ?p re_AmountMinor] True fresh e(2)
      by (simp add: reversed_def ev)
  next
    case False
    have "filter (\<lambda>r. re_AccountID r = account \<and> re_OriginalIntentID r = x \<and>
        re_ID r \<in> ral_EventID ` set (db_reversal_allocations s')) (db_reversal_events s)
      = filter ?p (db_reversal_events s)"
      using False only e(2) by (intro filter_cong) (auto simp: al)
    with False show ?thesis by (auto simp: reversed_def ev)
  qed
qed

lemma reversal_inv_allocate:
  assumes inv: "reversal_inv s" and wf: "wf_books (books_of s)" and grow: "books_grow (books_of s) (books_of s')"
    and al: "allocateProviderReversalTx E a x inp d s = Inr (r, s')"
    and e: "e \<in> set (db_reversal_events s)" "re_ID e = x" "re_AccountID e = ca_ID a"
      "re_OriginalIntentID e = rpi_OriginalIntentID inp" "re_AmountMinor e = rpi_AmountMinor inp"
  shows "reversal_inv s'"
proof (cases "db_reversal_allocations s' = db_reversal_allocations s")
  case True
  then show ?thesis
    using reversal_inv_grows [OF inv grow] allocate_tables(1) [OF al] by (simp add: reversal_tables_def)
next
  case False
  with allocate_tables [OF al] obtain row cl where ev: "db_reversal_events s' = db_reversal_events s"
      and row: "ral_EventID row = x" and allocs: "db_reversal_allocations s' = db_reversal_allocations s @ [row]"
      and fresh: "x \<notin> ral_EventID ` set (db_reversal_allocations s)"
      and cl: "classifyProviderReversalTx a x inp s = Inr cl" "rva_reviewReason cl = []" by blast
  have dist: "distinct (map re_ID (db_reversal_events s))" using inv by (simp add: reversal_inv_def)
  note sum = reversed_allocate [OF ev allocs fresh [folded row] dist e(1) e(2) [folded row]]
  from classify_within [OF cl] obtain i where i: "i \<in> set (db_intents s)" "pi_ID i = rpi_OriginalIntentID inp"
      "pi_AccountID i = ca_ID a" "pi_State i = PaymentIntentStateSucceeded"
      and tot: "allocated_total s (ca_ID a) (pi_ID i) x \<le> pi_AmountMinor i"
      and room: "rpi_AmountMinor inp \<le> wrap64 (pi_AmountMinor i - allocated_total s (ca_ID a) (pi_ID i) x)" by blast
  have total: "allocated_total s (ca_ID a) (pi_ID i) x = reversed s (ca_ID a) (pi_ID i)"
    using allocated_total_reversed [OF fresh] .
  have amount: "0 < pi_AmountMinor i" "is_int64 (pi_AmountMinor i)" and ids: "distinct (map pi_ID (db_intents s))"
    using wf i(1) by (simp_all add: wf_books_def intents_ok_def)
  have "is_int64 (pi_AmountMinor i - reversed s (ca_ID a) (pi_ID i))"
    using amount tot reversed_nonneg [OF inv, of "ca_ID a" "pi_ID i"] by (simp add: total int64_defs)
  then have within: "reversed s (ca_ID a) (pi_ID i) + re_AmountMinor e \<le> pi_AmountMinor i"
    using room e(5) by (simp add: total)
  have "find_intent s (pi_ID i) = Some i" unfolding find_intent_def by (rule find_key_mem [OF ids i(1)])
  then have settled: "settled_intent s (ca_ID a) (pi_ID i) (reversed s (ca_ID a) (pi_ID i) + re_AmountMinor e)"
    using i within by (simp add: settled_intent_def)
  have "settled_intent s' account y (reversed s' account y)" if "reversed s' account y \<noteq> 0" for account y
  proof (cases "re_AccountID e = account \<and> re_OriginalIntentID e = y")
    case True
    with settled sum [of account y] e i(2) have "settled_intent s account y (reversed s' account y)" by auto
    then show ?thesis by (rule settled_intent_grows [OF grow])
  next
    case False
    with sum [of account y] that inv have "settled_intent s account y (reversed s' account y)"
      by (auto simp: reversal_inv_def)
    then show ?thesis by (rule settled_intent_grows [OF grow])
  qed
  moreover have "x \<in> re_ID ` set (db_reversal_events s)" using e by auto
  ultimately show ?thesis using inv row unfolding reversal_inv_def ev allocs by simp
qed

text \<open>An event is recorded before it is allocated: alone it reverses nothing.\<close>

lemma reversal_inv_event:
  assumes inv: "reversal_inv s" and fresh: "re_ID row \<notin> re_ID ` set (db_reversal_events s)"
    and pos: "0 < re_AmountMinor row"
    and s': "books_of s' = books_of s" "db_reversal_events s' = db_reversal_events s @ [row]"
      "db_reversal_allocations s' = db_reversal_allocations s"
  shows "reversal_inv s'"
proof -
  have "re_ID row \<notin> ral_EventID ` set (db_reversal_allocations s)" using inv fresh by (auto simp: reversal_inv_def)
  then have "reversed s' = reversed s" by (intro ext) (simp add: reversed_def s')
  moreover have "settled_intent s' = settled_intent s"
    by (intro ext) (simp add: settled_intent_def find_intent_books s')
  ultimately show ?thesis using inv fresh pos by (auto simp: reversal_inv_def s')
qed

lemma reversal_inv_record:
  assumes inv: "reversal_inv s" and wf: "wf_books (books_of s)" and grow: "books_grow (books_of s) (books_of s')"
    and op: "RecordProviderReversal dg E ctx input s = Inr (r, s')"
  shows "reversal_inv s'"
proof (cases "s' = s")
  case False
  define inp where "inp = normalize_reversal input"
  define row where "row = \<lparr>re_ID = next_uuid E s, re_AccountID = rpi_AccountID inp, re_Provider = rpi_Provider inp,
     re_EventReference = rpi_EventReference inp, re_OriginalIntentID = rpi_OriginalIntentID inp,
     re_AmountMinor = rpi_AmountMinor inp, re_Currency = rpi_Currency inp, re_Reason = rpi_Reason inp,
     re_RequestSHA256 = dg (inp\<lparr>rpi_RequestID := []\<rparr>),
     re_ProviderPayloadSHA256 = rpi_ProviderPayloadSHA256 inp, re_RequestID = rpi_RequestID inp\<rparr>"
  have row: "re_AccountID row = rpi_AccountID inp" "re_OriginalIntentID row = rpi_OriginalIntentID inp"
    "re_AmountMinor row = rpi_AmountMinor inp" "re_ID row = next_uuid E s" by (simp_all add: row_def)
  from op False obtain a where a: "getAccountForUpdate E ctx s (rpi_AccountID inp) = Inr a"
      and new: "\<forall>e \<in> set (db_reversal_events s). re_ID e \<noteq> next_uuid E s"
      and amount: "ValidateChargeAmount (rpi_Currency inp) (rpi_AmountMinor inp) = Inr ()"
      and al: "allocateProviderReversalTx E a (re_ID row) inp []
        ((drawn s)\<lparr>db_reversal_events := db_reversal_events s @ [row]\<rparr>) = Inr (r, s')"
    by (auto simp: RecordProviderReversal_def duplicate_result_def Let_def list_ex_iff image_iff inp_def [symmetric] row(4)
        row_def [symmetric] split: if_splits option.splits)
  let ?s = "(drawn s)\<lparr>db_reversal_events := db_reversal_events s @ [row]\<rparr>"
  have fresh: "re_ID row \<notin> re_ID ` set (db_reversal_events s)" using new row(4) by auto
  have books: "books_of ?s = books_of s" by (simp add: books_of_def drawn_def)
  have "0 < re_AmountMinor row" using amount row(3) by (simp add: ValidateChargeAmount_Inr_iff)
  then have "reversal_inv ?s"
    by (rule reversal_inv_event [OF inv fresh]) (simp_all add: books drawn_def)
  then show ?thesis
    using account_for_update [OF a] wf grow row by (intro reversal_inv_allocate [OF _ _ _ al]) (simp_all add: books)
qed (use inv in simp)

lemma reversal_inv_resolve:
  assumes inv: "reversal_inv s" and wf: "wf_books (books_of s)" and grow: "books_grow (books_of s) (books_of s')"
    and op: "ResolveProviderReversal E ctx inp s = Inr (r, s')"
  shows "reversal_inv s'"
proof (cases "s' = s")
  case False
  define input where "input ev = \<lparr>rpi_AccountID = rri_AccountID inp, rpi_Provider = re_Provider ev,
     rpi_EventReference = re_EventReference ev, rpi_OriginalIntentID = re_OriginalIntentID ev,
     rpi_AmountMinor = re_AmountMinor ev, rpi_Currency = re_Currency ev, rpi_Reason = re_Reason ev,
     rpi_ProviderPayloadSHA256 = re_ProviderPayloadSHA256 ev, rpi_RequestID = rri_RequestID inp\<rparr>" for ev :: reversal_event
  from op False obtain a ev where a: "getAccountForUpdate E ctx s (rri_AccountID inp) = Inr a"
      and ev: "ev \<in> set (db_reversal_events s)" "re_ID ev = rri_EventID inp" "re_AccountID ev = rri_AccountID inp"
      and al: "allocateProviderReversalTx E a (rri_EventID inp) (input ev) (rri_EvidenceSHA256 inp) s = Inr (r, s')"
    by (auto simp: ResolveProviderReversal_def duplicate_result_def input_def split: if_splits option.splits
        dest!: find_Some_mem)
  show ?thesis
    using account_for_update [OF a] ev by (intro reversal_inv_allocate [OF inv wf grow al ev(1)]) (simp_all add: input_def)
qed (use inv in simp)

lemma reversal_inv_step:
  assumes step: "store_step dg s s'" and wf: "wf_books (books_of s)" and inv: "reversal_inv s"
  shows "reversal_inv s'"
proof -
  from step obtain E op where ex: "exec dg E op s = Inr s'" by (auto elim: store_stepE)
  have grow: "books_grow (books_of s) (books_of s')"
    using store.runs_grow [OF r_into_rtranclp wf] step by blast
  consider "is_fence_op op" | "is_reversal_op op" | "\<not> is_fence_op op" "\<not> is_reversal_op op" by blast
  then show ?thesis
  proof cases
    case 1
    with ex have "reversal_tables s' = reversal_tables s" by (cases op) (auto simp: reversal_tables_def)
    then show ?thesis using reversal_inv_grows [OF inv grow] by blast
  next
    case 2
    with ex show ?thesis
      by (cases op) (auto simp: committed_Inr_iff
          intro: reversal_inv_record [OF inv wf grow] reversal_inv_resolve [OF inv wf grow])
  next
    case 3
    then show ?thesis using rev.P_exec_attempts [OF ex refl] reversal_inv_grows [OF inv grow] by blast
  qed
qed

lemma reachable_reversal_inv: "reachable dg s \<Longrightarrow> reversal_inv s"
proof (induction rule: rtranclp_induct)
  case base
  then show ?case by (simp add: reversal_inv_def reversed_def empty_db_def)
next
  case (step s s')
  then show ?case using reversal_inv_step reachable_wf by blast
qed

section \<open>Properties\<close>

lemma reachable_balance:
  assumes "reachable dg s" and "find_account s x = Some a"
  shows "balance_chain 0 (ledger_of x s) (ca_AvailableBalanceMinor a)" and "is_int64 (ca_AvailableBalanceMinor a)"
    and "ca_AvailableBalanceMinor a = (\<Sum>e\<leftarrow>ledger_of x s. signed_amount (le_Direction e) (le_AmountMinor e))"
proof -
  have "a \<in> set (db_accounts s)" "ca_ID a = x"
    using find_key_Some [OF assms(2) [unfolded find_account_def]] by auto
  with reachable_wf [OF assms(1)]
  show chain: "balance_chain 0 (ledger_of x s) (ca_AvailableBalanceMinor a)"
    and "is_int64 (ca_AvailableBalanceMinor a)"
    by (auto simp: wf_books_def accounts_ok_def ledger_of_def entries_of_def)
  from balance_chain_sum [OF chain]
  show "ca_AvailableBalanceMinor a = (\<Sum>e\<leftarrow>ledger_of x s. signed_amount (le_Direction e) (le_AmountMinor e))"
    by simp
qed

text \<open>(C1)
  In every state the payment store reaches, the balance of an account is the sum of its ledger
  entries, credits positive and debits negative; each entry carries the balance on from the one
  before it, starting at zero; and the balance is in the range of \<^verbatim>\<open>int64\<close>.
\<close>

theorem balance_is_sum_of_entries:
  assumes "reachable dg s" and "find_account s x = Some a"
  shows "ca_AvailableBalanceMinor a = (\<Sum>e\<leftarrow>ledger_of x s. signed_amount (le_Direction e) (le_AmountMinor e)) \<and>
    balance_chain 0 (ledger_of x s) (ca_AvailableBalanceMinor a) \<and> is_int64 (ca_AvailableBalanceMinor a)"
  using reachable_balance [OF assms] by blast

text \<open>(C13)
  The ledger is append-only along every run of the store, and an idempotency key of an account is
  used by at most one entry.
\<close>

theorem ledger_append_only:
  assumes "reachable dg s" and "(store_step dg)\<^sup>*\<^sup>* s s'"
  shows "prefix (db_ledger s) (db_ledger s') \<and> distinct (map idem_key (db_ledger s'))"
proof -
  have "books_grow (books_of s) (books_of s')"
    using store.runs_grow [OF assms(2) reachable_wf [OF assms(1)]] .
  moreover have "wf_books (books_of s')" using reachable_wf assms by (metis rtranclp_trans)
  ultimately show ?thesis by (simp add: books_grow_def wf_books_def ledger_ok_def)
qed

text \<open>(C2)
  A payment that succeeded was credited exactly once: the ledger has one entry under the
  idempotency scope and key of the intent, a top-up credit of its amount and currency on its
  account.
\<close>

theorem settled_credited_once:
  assumes "reachable dg s" and "find_intent s x = Some i" and "pi_State i = PaymentIntentStateSucceeded"
  shows "\<exists>e. credits_of i (db_ledger s) = [e] \<and> is_credit_of i e"
proof -
  have "i \<in> set (db_intents s)" using find_key_Some [OF assms(2) [unfolded find_intent_def]] by simp
  with reachable_wf [OF assms(1)] assms(3) show ?thesis by (simp add: wf_books_def intents_ok_def)
qed

text \<open>(C16)
  A terminal payment is final: along every run of the store it keeps its state, its account, its
  amount and its currency.
\<close>

theorem terminal_intent_final:
  assumes "reachable dg s" and "(store_step dg)\<^sup>*\<^sup>* s s'" and "find_intent s x = Some i"
    and "IntentStateTerminal (pi_State i)"
  shows "\<exists>i'. find_intent s' x = Some i' \<and> pi_State i' = pi_State i \<and> pi_AccountID i' = pi_AccountID i \<and>
    pi_AmountMinor i' = pi_AmountMinor i \<and> pi_Currency i' = pi_Currency i"
proof -
  have "books_grow (books_of s) (books_of s')"
    using store.runs_grow [OF assms(2) reachable_wf [OF assms(1)]] .
  with assms(3) obtain i' where i': "find_intent s' x = Some i'" "further i i'"
    unfolding books_grow_def find_intent_books by blast
  have "intent_step\<^sup>*\<^sup>* (pi_State i) (pi_State i')" using i'(2) by (simp add: further_def)
  then have "pi_State i' = pi_State i"
    using assms(4) intent_step_not_terminal by (metis converse_rtranclpE)
  with i' show ?thesis by (simp add: further_def)
qed

text \<open>(C3)
  The provider is asked to charge for an intent at most once: at most one charge attempt is ever
  recorded for it, and once there is one the intent has left the created state, which no
  transition enters again.
\<close>

theorem charged_at_most_once:
  assumes "reachable dg s"
  shows "charges x s \<le> 1 \<and>
    (charges x s = 1 \<longrightarrow> (\<exists>i. find_intent s x = Some i \<and> pi_State i \<noteq> PaymentIntentStateCreated))"
  using reachable_charge_inv [OF assms] by (simp add: charge_inv_def)

text \<open>(C4)
  What was reversed of a payment never exceeds what was paid: if events are allocated against an
  intent of an account, that intent belongs to the account, has succeeded, and its amount is at
  least the sum of the allocated events.
\<close>

theorem reversals_within_payment:
  assumes "reachable dg s" and "reversed s account x \<noteq> 0"
  shows "\<exists>i. find_intent s x = Some i \<and> pi_AccountID i = account \<and>
    pi_State i = PaymentIntentStateSucceeded \<and> reversed s account x \<le> pi_AmountMinor i"
  using reachable_reversal_inv [OF assms(1)] assms(2) by (simp add: reversal_inv_def settled_intent_def)

text \<open>(C14)
  While a handoff of an account is at its commit barrier, or once its cloud is closed, no operation
  of the store posts to its ledger or moves its balance, whoever calls it.
\<close>

theorem frozen_ledger_unchanged:
  assumes "reachable dg s" and "good_env E" and ex: "exec dg E op s = Inr s'" and "\<not> is_fence_op op"
    and "commit_pending s x \<or> closure_closed s x" and "find_account s x = Some a"
  shows "ledger_of x s' = ledger_of x s \<and>
    (\<exists>a'. find_account s' x = Some a' \<and> ca_AvailableBalanceMinor a' = ca_AvailableBalanceMinor a)"
proof -
  have same: "ledger_of x s' = ledger_of x s"
    using frozen.P_exec_store [OF ex _ assms(4), of x "ledger_of x s"] assms(5) by (simp add: ledger_frozen_def)
  have step: "store_step dg s s'" using assms(2) ex by (rule store_step.transaction)
  have "books_grow (books_of s) (books_of s')"
    using store.runs_grow [OF r_into_rtranclp reachable_wf] step assms(1) by blast
  with assms(6) obtain a' where a': "find_account s' x = Some a'"
    unfolding books_grow_def find_account_books by blast
  have "reachable dg s'" using assms(1) step by (rule rtranclp.rtrancl_into_rtrancl)
  from reachable_balance(3) [OF this a'] reachable_balance(3) [OF assms(1,6)] same a'
  show ?thesis by simp
qed

text \<open>(C15)
  While a handoff or a cloud closure of an account is open no operation of the store opens a
  payment intent for it, neither for its owner nor by automatic top-up.
\<close>

theorem fenced_account_opens_no_intent:
  assumes "reachable dg s" and "exec dg E op s = Inr s'" and "\<not> is_fence_op op"
    and "handoff_open s x \<or> closure_active s x"
  shows "intents_of x s' = intents_of x s"
proof -
  have "intents_distinct s"
    using reachable_wf [OF assms(1)] by (simp add: intents_distinct_def wf_books_def intents_ok_def)
  then show ?thesis
    using fenced.P_exec_store [OF assms(2) _ assms(3), of x "intents_of x s"] assms(4)
    by (simp add: intents_fenced_def)
qed

section \<open>The properties on the scenario\<close>

text \<open>
  What the run from the charge on shows, evaluated once: on the branch where the payment settles and
  is partly refunded, and on the branch where a handoff reaches its commit first.
\<close>

definition refunded_view ::
    "payment_db \<Rightarrow> int option \<times> (PaymentIntentState \<times> int) option \<times> nat \<times> int" where
  "refunded_view s =
     (map_option ca_AvailableBalanceMinor (find_account s (demo_uuid 0)),
      map_option (\<lambda>i. (pi_State i, pi_AmountMinor i)) (find_intent s (demo_uuid 7)),
      charges (demo_uuid 7) s, reversed s (demo_uuid 0) (demo_uuid 7))"

definition settled_view where
  "settled_view s =
     (map_option pi_State (find_intent s (demo_uuid 7)),
      refunded_view (run_ops demo_digest [(demo_env 200, OpRecordReversal None demo_refund)] s))"

definition barred_view :: "payment_db \<Rightarrow> bool \<times> bool \<times> int option \<times> string list \<times> bool" where
  "barred_view s =
     (commit_pending s (demo_uuid 0), handoff_open s (demo_uuid 0),
      map_option ca_AvailableBalanceMinor (find_account s (demo_uuid 0)), intents_of (demo_uuid 0) s,
      (case exec demo_digest (demo_env 140) (OpTransitionIntent None demo_fail) s of Inl _ \<Rightarrow> False | Inr _ \<Rightarrow> True))"

definition charging_view where
  "charging_view s =
     (settled_view (run_ops demo_digest demo_settle s),
      barred_view (run_ops demo_digest [(demo_env 126, OpFences [demo_period] [demo_handoff] [demo_grant] [] [] [] [])] s))"

lemma demo_charging_view:
  "charging_view db_charging =
     ((Some PaymentIntentStateSucceeded, (Some 1000, Some (PaymentIntentStateSucceeded, 1000), 1, 400)),
      (True, True, Some 400, [demo_uuid 7], True))"
  by code_simp

lemmas demo_views = demo_charging_view [unfolded charging_view_def settled_view_def,
  folded db_settled_def db_barred_def, folded db_refunded_def, unfolded prod.inject]

lemma demo_facts: "refunded_view db_refunded = (Some 1000, Some (PaymentIntentStateSucceeded, 1000), 1, 400)"
  using demo_views by blast

lemma demo_settled_intent: "map_option pi_State (find_intent db_settled (demo_uuid 7)) = Some PaymentIntentStateSucceeded"
  using demo_views by blast

lemma demo_barred_facts: "barred_view db_barred = (True, True, Some 400, [demo_uuid 7], True)"
  using demo_views by blast

lemma demo_barred_exec:
  obtains s' where "exec demo_digest (demo_env 140) (OpTransitionIntent None demo_fail) db_barred = Inr s'"
  using demo_barred_facts
  by (cases "exec demo_digest (demo_env 140) (OpTransitionIntent None demo_fail) db_barred") (simp_all add: barred_view_def)

theorem balance_is_sum_of_entries_witness:
  "(\<Sum>e\<leftarrow>ledger_of (demo_uuid 0) db_refunded. signed_amount (le_Direction e) (le_AmountMinor e)) = 1000"
proof -
  obtain a where a: "find_account db_refunded (demo_uuid 0) = Some a" "ca_AvailableBalanceMinor a = 1000"
    using demo_facts by (auto simp: refunded_view_def)
  show ?thesis using balance_is_sum_of_entries [OF demo_reachable(4) a(1)] a(2) by simp
qed

theorem ledger_append_only_witness: "prefix (db_ledger db_settled) (db_ledger db_refunded)"
  using ledger_append_only [OF demo_reachable(3) demo_run] by blast

theorem settled_credited_once_witness:
  "\<exists>i e. find_intent db_refunded (demo_uuid 7) = Some i \<and> pi_AmountMinor i = 1000 \<and>
     credits_of i (db_ledger db_refunded) = [e] \<and> is_credit_of i e"
proof -
  obtain i where i: "find_intent db_refunded (demo_uuid 7) = Some i" "pi_State i = PaymentIntentStateSucceeded"
      "pi_AmountMinor i = 1000"
    using demo_facts by (auto simp: refunded_view_def)
  show ?thesis using settled_credited_once [OF demo_reachable(4) i(1,2)] i(1,3) by blast
qed

theorem terminal_intent_final_witness:
  "\<exists>i. find_intent db_refunded (demo_uuid 7) = Some i \<and> pi_State i = PaymentIntentStateSucceeded"
proof -
  obtain i where i: "find_intent db_settled (demo_uuid 7) = Some i" "pi_State i = PaymentIntentStateSucceeded"
    using demo_settled_intent by auto
  then have "IntentStateTerminal (pi_State i)" by (simp add: IntentStateTerminal_def)
  from terminal_intent_final [OF demo_reachable(3) demo_run i(1) this] i(2) show ?thesis by auto
qed

theorem charged_at_most_once_witness:
  "charges (demo_uuid 7) db_refunded = 1 \<and>
   (\<exists>i. find_intent db_refunded (demo_uuid 7) = Some i \<and> pi_State i \<noteq> PaymentIntentStateCreated)"
  using charged_at_most_once [OF demo_reachable(4), of "demo_uuid 7"] demo_facts by (simp add: refunded_view_def)

theorem reversals_within_payment_witness:
  "\<exists>i. find_intent db_refunded (demo_uuid 7) = Some i \<and> pi_State i = PaymentIntentStateSucceeded \<and>
     400 \<le> pi_AmountMinor i"
  using reversals_within_payment [OF demo_reachable(4), of "demo_uuid 0" "demo_uuid 7"] demo_facts by (auto simp: refunded_view_def)

theorem frozen_ledger_unchanged_witness:
  "\<exists>s'. exec demo_digest (demo_env 140) (OpTransitionIntent None demo_fail) db_barred = Inr s' \<and>
     ledger_of (demo_uuid 0) s' = ledger_of (demo_uuid 0) db_barred"
proof -
  obtain s' where ex: "exec demo_digest (demo_env 140) (OpTransitionIntent None demo_fail) db_barred = Inr s'"
    by (rule demo_barred_exec)
  obtain a where "find_account db_barred (demo_uuid 0) = Some a" using demo_barred_facts by (auto simp: barred_view_def)
  with frozen_ledger_unchanged [OF demo_reachable(5) demo_env_good ex] demo_barred_facts ex show ?thesis
    by (auto simp: barred_view_def)
qed

theorem fenced_account_opens_no_intent_witness:
  "\<exists>s'. exec demo_digest (demo_env 140) (OpTransitionIntent None demo_fail) db_barred = Inr s' \<and>
     intents_of (demo_uuid 0) s' = [demo_uuid 7]"
proof -
  obtain s' where ex: "exec demo_digest (demo_env 140) (OpTransitionIntent None demo_fail) db_barred = Inr s'"
    by (rule demo_barred_exec)
  with fenced_account_opens_no_intent [OF demo_reachable(5) ex] demo_barred_facts show ?thesis by (auto simp: barred_view_def)
qed

end
