(* ===== verification/Payment_Worker.thy ===== *)
theory Payment_Worker
  imports Orchestration_Store
begin

text \<open>
  The payment worker: \<^verbatim>\<open>internal/paymentservice/service.go\<close> and \<^verbatim>\<open>webhook.go\<close>. The provider
  adapters, the resolver of card references and the digests are parameters. A job is processed in
  stages, one for each store transaction or provider call, so that other transactions can come in
  between; \<open>ProcessJob\<close> runs the stages of one job to the end.
\<close>

section \<open>Requests and adapters (payment/provider.go)\<close>

record ChargeRequest =
  cq_IntentID :: string
  cq_AmountMinor :: int
  cq_Currency :: Currency
  cq_OpaqueMethodReference :: string
  cq_MerchantOrderReference :: string
  cq_IdempotencyKey :: string
  cq_CorrelationID :: string

record QueryRequest =
  qq_IntentID :: string
  qq_IntentCreatedAt :: instant
  qq_AmountMinor :: int
  qq_Currency :: Currency
  qq_MerchantOrderReference :: string
  qq_ProviderTransactionReference :: string
  qq_CorrelationID :: string

record WebhookRequest =
  wq_Header :: "(string \<times> string list) list"
  wq_Body :: string

text \<open>
  An adapter answers a call; the first argument numbers the calls, since an adapter may answer the
  same request differently the next time. \<open>VerifyWebhook\<close> returns an event together with its error.
\<close>

record PaymentProvider =
  pv_Name :: string
  pv_Charge :: "nat \<Rightarrow> ChargeRequest \<Rightarrow> go_error + ProviderResult"
  pv_Query :: "nat \<Rightarrow> QueryRequest \<Rightarrow> go_error + ProviderResult"
  pv_VerifyWebhook :: "nat \<Rightarrow> WebhookRequest \<Rightarrow> WebhookEvent \<times> go_error option"

text \<open>A value of the JSON objects that are digested.\<close>

datatype json = JString string | JInt int | JBool bool

text \<open>
  What the host supplies: the digest of a JSON object, the SHA-256 of a text, both in hexadecimal,
  and the decryption of a stored method reference.
\<close>

record host =
  ho_digestJSON :: "(string \<times> json) list \<Rightarrow> string"
  ho_sha256 :: "string \<Rightarrow> string"
  ho_ResolveMethodReference :: "string \<Rightarrow> go_error + string"

section \<open>The service\<close>

record Options =
  op_HasStore :: bool
  op_HasResolver :: bool
  op_Providers :: "PaymentProvider option list"
  op_LeaseOwner :: string
  op_LeaseDuration :: int
  op_ReconciliationDelay :: int
  op_BatchSize :: int
  op_ChargeEnabled :: "(string \<times> bool) list"

record Service =
  sv_providers :: "(string \<times> PaymentProvider) list"
  sv_leaseOwner :: string
  sv_leaseDuration :: int
  sv_reconciliationDelay :: int
  sv_batchSize :: int
  sv_chargeEnabled :: "(string \<times> bool) list"

datatype options_error =
    DependencyRequired | NilProvider | ProviderNameRequired | DuplicateProvider string

fun register_providers :: "(string \<times> PaymentProvider) list \<Rightarrow> PaymentProvider option list \<Rightarrow>
    options_error + (string \<times> PaymentProvider) list" where
  "register_providers acc [] = Inr acc"
| "register_providers acc (None # rest) = Inl NilProvider"
| "register_providers acc (Some provider # rest) =
     (let name = NormalizeProvider (pv_Name provider) in
      if name = [] then Inl ProviderNameRequired
      else if map_of acc name \<noteq> None then Inl (DuplicateProvider name)
      else register_providers ((name, provider) # acc) rest)"

text \<open>The map of enabled providers is copied in the order Go iterates it; a later entry wins.\<close>

definition New :: "Options \<Rightarrow> options_error + Service" where
  "New options =
     (if \<not> op_HasStore options \<or> \<not> op_HasResolver options \<or> TrimSpace (op_LeaseOwner options) = []
      then Inl DependencyRequired
      else bindE (register_providers [] (op_Providers options)) (\<lambda>providers.
        Inr \<lparr>sv_providers = providers, sv_leaseOwner = TrimSpace (op_LeaseOwner options),
             sv_leaseDuration = (if op_LeaseDuration options \<le> 0 then 30 * second_ns else op_LeaseDuration options),
             sv_reconciliationDelay =
               (if op_ReconciliationDelay options \<le> 0 then minute_ns else op_ReconciliationDelay options),
             sv_batchSize = (if op_BatchSize options \<le> 0 \<or> op_BatchSize options > 100 then 20 else op_BatchSize options),
             sv_chargeEnabled = rev (map (\<lambda>(p, enabled). (NormalizeProvider p, enabled)) (op_ChargeEnabled options))\<rparr>))"

definition find_provider :: "Service \<Rightarrow> string \<Rightarrow> PaymentProvider option" where
  "find_provider svc name = map_of (sv_providers svc) (NormalizeProvider name)"

definition charge_enabled :: "Service \<Rightarrow> PaymentProvider \<Rightarrow> bool" where
  "charge_enabled svc provider = (map_of (sv_chargeEnabled svc) (NormalizeProvider (pv_Name provider)) = Some True)"

section \<open>One job\<close>

fun provider_error_kind_text :: "ProviderErrorKind \<Rightarrow> string" where
  "provider_error_kind_text ProviderErrorDeclined = ''declined''"
| "provider_error_kind_text ProviderErrorTemporary = ''temporary''"
| "provider_error_kind_text ProviderErrorInvalidRequest = ''invalid_request''"
| "provider_error_kind_text ProviderErrorAuthentication = ''authentication''"
| "provider_error_kind_text ProviderErrorRequiresAction = ''requires_action''"
| "provider_error_kind_text ProviderErrorUnknown = ''unknown''"
| "provider_error_kind_text ProviderErrorUnsupported = ''unsupported''"

definition providerErrorCode :: "go_error \<Rightarrow> string" where
  "providerErrorCode err =
     (case errors_As err of
        Some providerErr \<Rightarrow>
          if pe_Code providerErr \<noteq> [] then pe_Code providerErr
          else provider_error_kind_text (pe_Kind providerErr)
      | None \<Rightarrow> ''adapter_error'')"

text \<open>An error of the store is no provider error; \<open>errors.As\<close> finds none in it.\<close>

definition store_failure :: "error \<Rightarrow> go_error" where
  "store_failure e = PlainError ''store''"

definition provider_result :: "PaymentIntentState \<Rightarrow> string \<Rightarrow> ProviderResult" where
  "provider_result state code =
     \<lparr>pr_State = state, pr_ProviderTransactionReference = [], pr_ProviderCode = code, pr_Evidence = []\<rparr>"

definition setRequestDigest :: "host \<Rightarrow> string \<Rightarrow> (string \<times> json) list \<Rightarrow> payment_db \<Rightarrow> error + payment_db" where
  "setRequestDigest h attemptID safeRequest s = SetAttemptRequestDigest attemptID (ho_digestJSON h safeRequest) s"

text \<open>Where a worker stands with a job.\<close>

datatype stage =
    Done "error + unit"
  | Recover ProviderAttemptWork
  | Prepare ProviderOperation PaymentProvider ProviderAttemptWork
  | CallCharge PaymentProvider ProviderAttemptWork ChargeRequest
  | CallQuery PaymentProvider ProviderAttemptWork QueryRequest
  | Finalize ProviderAttemptWork ProviderResult

datatype provider_call = Charged ChargeRequest | Queried QueryRequest

definition job_operation :: "ReconciliationJob \<Rightarrow> ProviderOperation" where
  "job_operation job =
     (if rj_Reason job = ReconciliationReasonCharge then ProviderOperationCharge else ProviderOperationQuery)"

definition begin_job :: "Service \<Rightarrow> env \<Rightarrow> ReconciliationJob \<Rightarrow> payment_db \<Rightarrow> stage \<times> payment_db" where
  "begin_job svc E job s =
     (case BeginProviderAttempt E None \<lparr>ba_JobID = rj_ID job, ba_LeaseOwner = sv_leaseOwner svc,
             ba_Operation = job_operation job, ba_Now = env_clock E\<rparr> s of
        Inl e \<Rightarrow>
          if e = ErrJobNotActionable then
            (case CompletePaymentJob E (rj_ID job) (sv_leaseOwner svc) s of
               Inl e' \<Rightarrow> (Done (Inl e'), s)
             | Inr s' \<Rightarrow> (Done (Inr ()), s'))
          else (Done (Inl e), s)
      | Inr (work, s') \<Rightarrow>
          if aw_RecoverIncompleteAttempt work then (Recover work, s')
          else case find_provider svc (pi_Provider (aw_Intent work)) of
            None \<Rightarrow> (Finalize work (provider_result PaymentIntentStateFailed ''provider_unavailable''), s')
          | Some provider \<Rightarrow> (Prepare (job_operation job) provider work, s'))"

definition operation_text :: "ProviderOperation \<Rightarrow> string" where
  "operation_text operation =
     (case operation of
        ProviderOperationSetup \<Rightarrow> ''setup'' | ProviderOperationCharge \<Rightarrow> ''charge''
      | ProviderOperationQuery \<Rightarrow> ''query'' | ProviderOperationCancel \<Rightarrow> ''cancel''
      | ProviderOperationRefund \<Rightarrow> ''refund'' | ProviderOperationOther t \<Rightarrow> t)"

definition recover_job :: "host \<Rightarrow> ProviderAttemptWork \<Rightarrow> payment_db \<Rightarrow> stage \<times> payment_db" where
  "recover_job h work s =
     (let result = provider_result PaymentIntentStateUnknown ''recovered_incomplete_attempt'' in
      if pa_RequestSHA256 (aw_Attempt work) = [] then
        (case setRequestDigest h (pa_ID (aw_Attempt work))
                [(''operation'', JString (operation_text (pa_Operation (aw_Attempt work)))),
                 (''intent_id'', JString (pi_ID (aw_Intent work))),
                 (''recovered_before_external_call'', JBool True)] s of
           Inl e \<Rightarrow> (Done (Inl e), s)
         | Inr s' \<Rightarrow> (Finalize work result, s'))
      else (Finalize work result, s))"

text \<open>An error of \<open>charge\<close> or \<open>query\<close>: a failed status lookup never proves a payment failed.\<close>

definition error_result :: "ProviderOperation \<Rightarrow> go_error \<Rightarrow> ProviderResult" where
  "error_result operation err =
     provider_result (if operation = ProviderOperationQuery then PaymentIntentStateUnknown
                      else StateForProviderError err) (providerErrorCode err)"

definition charge_request :: "PaymentIntent \<Rightarrow> string \<Rightarrow> ChargeRequest" where
  "charge_request intent methodReference =
     \<lparr>cq_IntentID = pi_ID intent, cq_AmountMinor = pi_AmountMinor intent, cq_Currency = pi_Currency intent,
      cq_OpaqueMethodReference = methodReference, cq_MerchantOrderReference = pi_MerchantOrderReference intent,
      cq_IdempotencyKey = pi_IdempotencyKey intent, cq_CorrelationID = pi_CorrelationID intent\<rparr>"

definition charge :: "Service \<Rightarrow> host \<Rightarrow> PaymentProvider \<Rightarrow> ProviderAttemptWork \<Rightarrow> payment_db \<Rightarrow>
    stage \<times> payment_db" where
  "charge svc h provider work s =
     (let failed = (\<lambda>err. (Finalize work (error_result ProviderOperationCharge err), s)) in
      if \<not> charge_enabled svc provider then
        (case setRequestDigest h (pa_ID (aw_Attempt work))
                [(''operation'', JString ''charge''), (''intent_id'', JString (pi_ID (aw_Intent work))),
                 (''disabled'', JBool True)] s of
           Inl e \<Rightarrow> failed (store_failure e)
         | Inr s' \<Rightarrow> (Finalize work (provider_result PaymentIntentStateFailed ''provider_disabled''), s'))
      else
        case ho_ResolveMethodReference h (aw_ProviderMethodRefCiphertext work) of
          Inl err \<Rightarrow>
            failed (NewProviderError ProviderErrorAuthentication ''method_reference_unavailable'' False (Some err))
        | Inr methodReference \<Rightarrow>
            if TrimSpace methodReference = []
            then failed (NewProviderError ProviderErrorAuthentication ''method_reference_unavailable'' False None)
            else
              let request = charge_request (aw_Intent work) methodReference in
              (case setRequestDigest h (pa_ID (aw_Attempt work))
                      [(''operation'', JString ''charge''), (''intent_id'', JString (cq_IntentID request)),
                       (''amount_minor'', JInt (cq_AmountMinor request)), (''currency'', JString (cq_Currency request)),
                       (''merchant_order_reference'', JString (cq_MerchantOrderReference request)),
                       (''idempotency_key'', JString (cq_IdempotencyKey request)),
                       (''correlation_id'', JString (cq_CorrelationID request)),
                       (''method_reference_sha256'', JString (ho_sha256 h methodReference))] s of
                 Inl e \<Rightarrow> failed (store_failure e)
               | Inr s' \<Rightarrow> (CallCharge provider work request, s')))"

definition query_request :: "PaymentIntent \<Rightarrow> QueryRequest" where
  "query_request intent =
     \<lparr>qq_IntentID = pi_ID intent, qq_IntentCreatedAt = pi_CreatedAt intent, qq_AmountMinor = pi_AmountMinor intent,
      qq_Currency = pi_Currency intent, qq_MerchantOrderReference = pi_MerchantOrderReference intent,
      qq_ProviderTransactionReference = pi_ProviderTransactionReference intent,
      qq_CorrelationID = pi_CorrelationID intent\<rparr>"

definition query :: "host \<Rightarrow> PaymentProvider \<Rightarrow> ProviderAttemptWork \<Rightarrow> payment_db \<Rightarrow> stage \<times> payment_db" where
  "query h provider work s =
     (let request = query_request (aw_Intent work) in
      case setRequestDigest h (pa_ID (aw_Attempt work))
             [(''operation'', JString ''query''), (''intent_id'', JString (qq_IntentID request)),
              (''amount_minor'', JInt (qq_AmountMinor request)), (''currency'', JString (qq_Currency request)),
              (''merchant_order_reference'', JString (qq_MerchantOrderReference request)),
              (''provider_transaction_reference'', JString (qq_ProviderTransactionReference request)),
              (''correlation_id'', JString (qq_CorrelationID request))] s of
        Inl e \<Rightarrow> (Finalize work (error_result ProviderOperationQuery (store_failure e)), s)
      | Inr s' \<Rightarrow> (CallQuery provider work request, s'))"

fun prepare_job :: "Service \<Rightarrow> host \<Rightarrow> stage \<Rightarrow> payment_db \<Rightarrow> stage \<times> payment_db" where
  "prepare_job svc h (Recover work) s = recover_job h work s"
| "prepare_job svc h (Prepare operation provider work) s =
     (if operation = ProviderOperationCharge then charge svc h provider work s else query h provider work s)"
| "prepare_job svc h st s = (st, s)"

fun call_provider :: "nat \<Rightarrow> stage \<Rightarrow> stage \<times> provider_call list" where
  "call_provider k (CallCharge provider work request) =
     (case pv_Charge provider k request of
        Inl err \<Rightarrow> (Finalize work (error_result ProviderOperationCharge err), [Charged request])
      | Inr result \<Rightarrow> (Finalize work result, [Charged request]))"
| "call_provider k (CallQuery provider work request) =
     (case pv_Query provider k request of
        Inl err \<Rightarrow> (Finalize work (error_result ProviderOperationQuery err), [Queried request])
      | Inr result \<Rightarrow> (Finalize work result, [Queried request]))"
| "call_provider k st = (st, [])"

definition finalize :: "Service \<Rightarrow> host \<Rightarrow> env \<Rightarrow> ProviderAttemptWork \<Rightarrow> ProviderResult \<Rightarrow> payment_db \<Rightarrow>
    error + (FinalizeProviderAttemptResult \<times> payment_db)" where
  "finalize svc h E work result s =
     (let result = (if ValidateProviderResult result \<noteq> Inr ()
                    then provider_result PaymentIntentStateUnknown ''invalid_provider_result'' else result);
          responseDigest = ho_digestJSON h
            [(''state'', JString (intent_state_text (pr_State result))),
             (''provider_transaction_reference'', JString (pr_ProviderTransactionReference result)),
             (''provider_code'', JString (NormalizeProviderCode (pr_ProviderCode result)))];
          now = env_clock E
      in FinalizeProviderAttempt E None
           \<lparr>fa_JobID = rj_ID (aw_Job work), fa_LeaseOwner = sv_leaseOwner svc, fa_AttemptID = pa_ID (aw_Attempt work),
            fa_Result = result, fa_ResponseSHA256 = responseDigest, fa_Now = now,
            fa_NextReconciliationAt = now + sv_reconciliationDelay svc\<rparr> s)"

fun finish_job :: "Service \<Rightarrow> host \<Rightarrow> env \<Rightarrow> stage \<Rightarrow> payment_db \<Rightarrow> (error + unit) \<times> payment_db" where
  "finish_job svc h E (Done r) s = (r, s)"
| "finish_job svc h E (Finalize work result) s =
     (case finalize svc h E work result s of Inl e \<Rightarrow> (Inl e, s) | Inr (_, s') \<Rightarrow> (Inr (), s'))"
| "finish_job svc h E st s = (Inl GoPanic, s)"

text \<open>\<open>Es\<close> are the environments of the store calls of the job, in order.\<close>

definition ProcessJob :: "Service \<Rightarrow> host \<Rightarrow> nat \<Rightarrow> (nat \<Rightarrow> env) \<Rightarrow> ReconciliationJob \<Rightarrow> payment_db \<Rightarrow>
    (error + unit) \<times> provider_call list \<times> payment_db" where
  "ProcessJob svc h k Es job s =
     (let (st, s) = begin_job svc (Es 0) job s;
          (st, s) = prepare_job svc h st s;
          (st, calls) = call_provider k st;
          (r, s) = finish_job svc h (Es 1) st s
      in (r, calls, s))"

section \<open>Batches\<close>

text \<open>The jobs of a batch in order, up to the first error; the count is of those processed.\<close>

fun process_jobs :: "Service \<Rightarrow> host \<Rightarrow> (nat \<Rightarrow> nat \<Rightarrow> env) \<Rightarrow> nat \<Rightarrow> ReconciliationJob list \<Rightarrow> payment_db \<Rightarrow>
    (error + unit) \<times> nat \<times> provider_call list \<times> payment_db" where
  "process_jobs svc h Es k [] s = (Inr (), k, [], s)"
| "process_jobs svc h Es k (job # jobs) s =
     (case ProcessJob svc h k (Es k) job s of
        (Inl e, calls, s) \<Rightarrow> (Inl e, k, calls, s)
      | (Inr _, calls, s) \<Rightarrow>
          (case process_jobs svc h Es (Suc k) jobs s of (r, n, calls', s) \<Rightarrow> (r, n, calls @ calls', s)))"

definition RunOnce :: "Service \<Rightarrow> host \<Rightarrow> string list \<Rightarrow> env \<Rightarrow> (nat \<Rightarrow> nat \<Rightarrow> env) \<Rightarrow> payment_db \<Rightarrow>
    (error + unit) \<times> nat \<times> provider_call list \<times> payment_db" where
  "RunOnce svc h locked E Es s =
     (let now = env_clock E in
      case ClaimPaymentJobs E locked now (now - sv_leaseDuration svc) (sv_leaseOwner svc) (sv_batchSize svc) s of
        Inl e \<Rightarrow> (Inl e, 0, [], s)
      | Inr (jobs, s') \<Rightarrow> process_jobs svc h Es 0 jobs s')"

text \<open>
  The polling loop over the turns it takes before its context is done: what other transactions hold
  locked, the environments of the turn, and whether the context was canceled while the turn ran. An
  error ends the loop, and with it the process.
\<close>

record turn =
  tn_Locked :: "string list"
  tn_Claim :: env
  tn_Jobs :: "nat \<Rightarrow> nat \<Rightarrow> env"
  tn_Canceled :: bool

datatype run_error = PollIntervalError | RunError error

fun poll :: "Service \<Rightarrow> host \<Rightarrow> turn list \<Rightarrow> payment_db \<Rightarrow> (run_error + unit) \<times> provider_call list \<times> payment_db" where
  "poll svc h [] s = (Inr (), [], s)"
| "poll svc h (t # ts) s =
     (case RunOnce svc h (tn_Locked t) (tn_Claim t) (tn_Jobs t) s of
        (Inl e, _, calls, s) \<Rightarrow> (if tn_Canceled t then Inr () else Inl (RunError e), calls, s)
      | (Inr _, _, calls, s) \<Rightarrow>
          if tn_Canceled t then (Inr (), calls, s)
          else case poll svc h ts s of (r, calls', s) \<Rightarrow> (r, calls @ calls', s))"

definition Run :: "Service \<Rightarrow> host \<Rightarrow> int \<Rightarrow> turn list \<Rightarrow> payment_db \<Rightarrow>
    (run_error + unit) \<times> provider_call list \<times> payment_db" where
  "Run svc h pollInterval turns s =
     (if pollInterval \<le> 0 then (Inl PollIntervalError, [], s) else poll svc h turns s)"

section \<open>Webhooks (webhook.go)\<close>

record WebhookResult =
  whr_Receipt :: WebhookReceipt
  whr_Duplicate :: bool
  whr_Verified :: bool

datatype webhook_error = StoreError error | AdapterError go_error

text \<open>
  The outcome is a result, an error, or both: a delivery that was filed but not verified has a
  result and an error.
\<close>

definition HandleWebhook :: "Service \<Rightarrow> host \<Rightarrow> nat \<Rightarrow> env \<Rightarrow> string \<Rightarrow> (string \<times> string list) list \<Rightarrow> string \<Rightarrow>
    payment_db \<Rightarrow> WebhookResult option \<times> webhook_error option \<times> payment_db" where
  "HandleWebhook svc h k E providerName header body s =
     (let providerName = NormalizeProvider providerName in
      case map_of (sv_providers svc) providerName of
        None \<Rightarrow> (None, Some (AdapterError (NewProviderError ProviderErrorInvalidRequest ''provider_unavailable'' False None)), s)
      | Some provider \<Rightarrow>
          (case pv_VerifyWebhook provider k \<lparr>wq_Header = header, wq_Body = body\<rparr> of
             (event, verifyErr) \<Rightarrow>
               let verification = (if verifyErr = None then ''verified'' else ''rejected'') in
               (case RecordWebhook E None \<lparr>rw_Provider = providerName, rw_PayloadSHA256 = ho_sha256 h body,
                       rw_VerificationResult = verification, rw_Event = event, rw_ReceivedAt = env_clock E\<rparr> s of
                  Inl e \<Rightarrow> (None, Some (StoreError e), s)
                | Inr (recorded, s') \<Rightarrow>
                    (Some \<lparr>whr_Receipt = rwr_Receipt recorded, whr_Duplicate = rwr_Duplicate recorded,
                           whr_Verified = (verification = ''verified'')\<rparr>,
                     (case verifyErr of
                        None \<Rightarrow> None
                      | Some err \<Rightarrow>
                          Some (AdapterError (case errors_As err of
                            Some providerErr \<Rightarrow> providerErr
                          | None \<Rightarrow> NewProviderError ProviderErrorAuthentication ''webhook_verification_failed''
                              False (Some err)))),
                     s'))))"

end
