(* ===== verification/Store_Replay.thy ===== *)
theory Store_Replay
  imports Books_Refinement Store_Frames
begin

text \<open>
  Retries. Clients and workers repeat a call when they do not know whether it committed. An
  operation is idempotent when repeating it after it committed finds what it did, says so and
  changes nothing, at any later time; then any number of retries changes nothing. The operations
  that take an idempotency key (or are keyed by the state they reach) are shown to be idempotent.
\<close>

section \<open>The contract\<close>

fun retry :: "('e \<Rightarrow> 's \<Rightarrow> 'err + ('r \<times> 's)) \<Rightarrow> 'e list \<Rightarrow> 's \<Rightarrow> 's" where
  "retry run [] s = s"
| "retry run (E # Es) s = retry run Es (case run E s of Inl _ \<Rightarrow> s | Inr (_, s') \<Rightarrow> s')"

locale idempotent =
  fixes run :: "'e \<Rightarrow> 's \<Rightarrow> 'err + ('r \<times> 's)" and duplicate :: "'r \<Rightarrow> bool" and compatible :: "'e \<Rightarrow> 'e \<Rightarrow> bool"
  assumes replay: "run E s = Inr (r, s') \<Longrightarrow> compatible E E' \<Longrightarrow> \<exists>r'. run E' s' = Inr (r', s') \<and> duplicate r'"
begin

lemma retry_stable: "run E s = Inr (r, s') \<Longrightarrow> list_all (compatible E) Es \<Longrightarrow> retry run Es s' = s'"
proof (induction Es)
  case (Cons E' Es)
  from replay [OF Cons.prems(1), of E'] Cons.prems(2) obtain r' where "run E' s' = Inr (r', s')" by auto
  with Cons show ?case by simp
qed simp

end

text \<open>Two calls on hosts that read the same text as the same UUID.\<close>

definition same_uuid_text :: "env \<Rightarrow> env \<Rightarrow> bool" where
  "same_uuid_text E E' \<longleftrightarrow> env_uuid_text E' = env_uuid_text E"

section \<open>Authority persists\<close>

definition still_live :: "CommercialAccount \<Rightarrow> CommercialAccount \<Rightarrow> bool" where
  "still_live a a' \<longleftrightarrow> same_account a a' \<and> (ca_State a \<noteq> AccountStateClosed \<longrightarrow> ca_State a' \<noteq> AccountStateClosed)"

definition accounts_live :: "payment_db \<Rightarrow> payment_db \<Rightarrow> bool" where
  "accounts_live s s' \<longleftrightarrow> (\<forall>x a. find_account s x = Some a \<longrightarrow> (\<exists>a'. find_account s' x = Some a' \<and> still_live a a'))"

lemma still_live_trans: "still_live a b \<Longrightarrow> still_live b c \<Longrightarrow> still_live a c"
  by (auto simp: still_live_def same_account_def)

lemma accounts_live_eq: "db_accounts s' = db_accounts s \<Longrightarrow> accounts_live s s'"
  by (simp add: accounts_live_def find_account_def still_live_def same_account_def)

lemma accounts_live_trans: "accounts_live r s \<Longrightarrow> accounts_live s t \<Longrightarrow> accounts_live r t"
  unfolding accounts_live_def using still_live_trans by meson

lemma accounts_live_update:
  assumes upd: "sql_update_account E x f s = Inr (a, s')"
    and keep: "\<And>a. same_account a (f a) \<and> (ca_State (f a) = ca_State a \<or> ca_State (f a) \<noteq> AccountStateClosed)"
  shows "accounts_live s s'"
proof -
  from upd obtain old where old: "find_account s x = Some old" and a: "a = (f old)\<lparr>ca_UpdatedAt := env_now E\<rparr>"
      and s': "s' = s\<lparr>db_accounts := update_where (\<lambda>r. ca_ID r = x) (\<lambda>_. a) (db_accounts s)\<rparr>"
    by (auto simp: sql_update_account_def Let_def split: option.splits)
  have x: "ca_ID old = x" using find_key_Some [OF old [unfolded find_account_def]] by simp
  have live: "still_live old a" using keep [of old] by (auto simp: a still_live_def same_account_def)
  then have id: "ca_ID a = x" using x by (simp add: still_live_def same_account_def)
  have "find_account s' y = (if y = x then Some a else find_account s y)" for y
    using old id x by (auto simp: find_account_def s' find_key_update_where split: option.splits dest: find_key_Some)
       (auto simp: map_option_case split: option.splits dest: find_key_Some)
  then show ?thesis using live old by (auto simp: accounts_live_def still_live_def same_account_def)
qed

lemma accounts_live_state:
  "sql_update_account E x (\<lambda>a. a\<lparr>ca_State := st\<rparr>) s = Inr (a, s') \<Longrightarrow> st \<noteq> AccountStateClosed \<Longrightarrow> accounts_live s s'"
  by (erule accounts_live_update) (simp add: same_account_def)

text \<open>The rows an operation finds through an account it may still use.\<close>

lemma lock_replay:
  assumes "LockAccount E ctx s x = Inr u" and "same_uuid_text E E'" and "fences s' = fences s" and "accounts_live s s'"
  shows "LockAccount E' ctx s' x = Inr ()"
proof (cases ctx)
  case (Some scope)
  with assms(1) obtain a where a: "find_account s x = Some a" "ca_State a \<noteq> AccountStateClosed"
    by (auto simp: LockAccount_def split: if_splits option.splits)
  with assms(4) obtain a' where "find_account s' x = Some a'" "still_live a a'" by (auto simp: accounts_live_def)
  with assms Some a show ?thesis
    by (auto simp: LockAccount_def ValidUUID_def same_uuid_text_def fences_eq_simps [OF assms(3)]
        still_live_def same_account_def split: if_splits option.splits)
qed (simp add: LockAccount_def)

lemma account_replay:
  assumes "getAccountForUpdate E ctx s x = Inr a" and "same_uuid_text E E'" and "fences s' = fences s"
    and "accounts_live s s'"
  shows "\<exists>a'. getAccountForUpdate E' ctx s' x = Inr a' \<and> still_live a a'"
proof -
  from assms(1) have "LockAccount E ctx s x = Inr ()" and a: "find_account s x = Some a"
    by (auto simp: getAccountForUpdate_def)
  then have "LockAccount E' ctx s' x = Inr ()" using lock_replay assms(2-4) by blast
  with a assms(4) show ?thesis by (auto simp: getAccountForUpdate_def accounts_live_def)
qed

section \<open>Posting an entry\<close>

lemma ledger_update_policy:
  "sql_update_policy E p f s = Inr (r, s') \<Longrightarrow>
   db_ledger s' = db_ledger s \<and> db_accounts s' = db_accounts s \<and> db_intents s' = db_intents s"
  by (auto simp: sql_update_policy_def Let_def split: option.splits)

lemma ledger_update_account: "sql_update_account E x f s = Inr (a, s') \<Longrightarrow> db_ledger s' = db_ledger s"
  by (auto simp: sql_update_account_def Let_def split: option.splits)

lemma ledger_evaluate:
  "evaluateAutoTopUpTx E ctx a e now c s = Inr (r, s') \<Longrightarrow> db_ledger s' = db_ledger s \<and> db_accounts s' = db_accounts s"
  by (auto simp: evaluateAutoTopUpTx_def Let_def sql_insert_intent_def sql_insert_job_def drawn_def
      split: if_splits sum.splits dest!: ledger_update_policy)

lemma ledger_rearm:
  assumes "rearmPolicyAfterCreditTx E a s = Inr (a', s')"
  shows "db_ledger s' = db_ledger s \<and> accounts_live s s'"
  using assms
  by (auto simp: rearmPolicyAfterCreditTx_def split: if_splits sum.splits intro: accounts_live_eq
      dest!: ledger_update_policy)
     (auto dest: ledger_update_account accounts_live_state intro: accounts_live_trans accounts_live_eq)

lemma ledger_after_entry:
  "after_entry E ctx inp now e a s = Inr (a', i, s') \<Longrightarrow> db_ledger s' = db_ledger s \<and> accounts_live s s'"
  by (auto simp: after_entry_def split: if_splits dest!: ledger_evaluate ledger_rearm intro: accounts_live_eq)

lemma insert_entry_ledger:
  assumes "insertLedgerEntryTx E a inp s = Inr (e, a', s')"
  shows "db_ledger s' = db_ledger s @ [e]" and "accounts_live s s'" and "idem_key e \<notin> idem_key ` set (db_ledger s)"
    and "\<exists>b x t. e = (ledger_values inp (ca_ID a) b)\<lparr>le_ID := x, le_CreatedAt := t\<rparr>"
proof -
  from assms obtain b s1 where e: "sql_insert_ledger E (ledger_values inp (ca_ID a) b) s = Inr (e, s1)"
      and upd: "sql_update_account E (ca_ID a)
        (\<lambda>a. a\<lparr>ca_AvailableBalanceMinor := b, ca_Version := ca_Version a + 1\<rparr>) s1 = Inr (a', s')"
    by (auto simp: insertLedgerEntryTx_def)
  note row = insert_ledger_row [OF e]
  have s1: "db_accounts s1 = db_accounts s" "db_ledger s1 = db_ledger s @ [e]"
    using row(5) by (simp_all add: books_of_def)
  show "db_ledger s' = db_ledger s @ [e]" using ledger_update_account [OF upd] s1 by simp
  have "accounts_live s1 s'" by (rule accounts_live_update [OF upd]) (simp add: same_account_def)
  then show "accounts_live s s'" using accounts_live_eq [OF s1(1)] by (rule accounts_live_trans [rotated])
  show "idem_key e \<notin> idem_key ` set (db_ledger s)" by (rule row(4))
  show "\<exists>b x t. e = (ledger_values inp (ca_ID a) b)\<lparr>le_ID := x, le_CreatedAt := t\<rparr>"
    using row(1) by blast
qed

lemma same_request_values:
  "pl_AccountID inp = y \<Longrightarrow>
   sameLedgerRequest ((ledger_values inp y b)\<lparr>le_ID := x, le_CreatedAt := t\<rparr>) (inp\<lparr>pl_Now := n\<rparr>)"
  by (simp add: sameLedgerRequest_def ledger_values_def)

lemma find_new_entry:
  assumes "idem_key e \<notin> idem_key ` set es" and "idem_key e = (y, TrimSpace sc, TrimSpace k)"
  shows "find (\<lambda>e. le_AccountID e = y \<and> le_IdempotencyScope e = TrimSpace sc \<and> le_IdempotencyKey e = TrimSpace k)
           (es @ [e]) = Some e"
proof -
  have "find (\<lambda>e. le_AccountID e = y \<and> le_IdempotencyScope e = TrimSpace sc \<and> le_IdempotencyKey e = TrimSpace k) es = None"
    using assms by (auto simp: find_None_iff idem_key_def image_iff)
  with assms(2) show ?thesis by (simp add: find_append idem_key_def)
qed

lemma entry_key: "idem_key ((ledger_values inp y b)\<lparr>le_ID := x, le_CreatedAt := t\<rparr>) =
  (y, TrimSpace (pl_IdempotencyScope inp), TrimSpace (pl_IdempotencyKey inp))"
  by (simp add: idem_key_def ledger_values_def)

lemma intent_option_Inr: "\<exists>i. intent_option (getIntentByTriggerLedgerEntry s x) = Inr i"
  by (cases "find (\<lambda>i. pi_TriggerLedgerEntryID i \<noteq> [] \<and> pi_TriggerLedgerEntryID i = x) (db_intents s)")
     (auto simp: intent_option_def getIntentByTriggerLedgerEntry_def scan_query_row)

text \<open>Once an entry for the request is there, the same request finds it.\<close>

lemma PostLedgerEntry_finds:
  assumes "validateLedgerInput inp = Inr ()" and "\<not> isSettlementReversal (pl_Reason inp)"
    and "getAccountForUpdate E ctx s (pl_AccountID inp) = Inr a" and "ca_State a \<noteq> AccountStateClosed"
    and "ca_Currency a = pl_Currency inp"
    and "getLedgerEntryByIdempotency s (pl_AccountID inp) (pl_IdempotencyScope inp) (pl_IdempotencyKey inp) = Inr e"
    and "\<And>n. sameLedgerRequest e (inp\<lparr>pl_Now := n\<rparr>)"
  shows "\<exists>r. PostLedgerEntry E ctx inp s = Inr (r, s) \<and> plr_Duplicate r \<and> plr_Entry r = e"
  using assms intent_option_Inr [of s "le_ID e"] by (auto simp: PostLedgerEntry_def Let_def)

lemma sameLedgerRequest_now: "sameLedgerRequest e (inp\<lparr>pl_Now := n\<rparr>) = sameLedgerRequest e inp"
  by (simp add: sameLedgerRequest_def)

abbreviation timed :: "env \<Rightarrow> PostLedgerEntryInput \<Rightarrow> PostLedgerEntryInput" where
  "timed E inp \<equiv> inp\<lparr>pl_Now := now_or E (pl_Now inp)\<rparr>"

lemma PostLedgerEntry_cases:
  assumes "PostLedgerEntry E ctx inp s = Inr (r, s')"
  obtains a where "validateLedgerInput inp = Inr ()" and "\<not> isSettlementReversal (pl_Reason inp)"
    and "getAccountForUpdate E ctx s (pl_AccountID inp) = Inr a" and "ca_State a \<noteq> AccountStateClosed"
    and "ca_Currency a = pl_Currency inp"
    and "(\<exists>e. s' = s \<and> sameLedgerRequest e inp \<and> getLedgerEntryByIdempotency s (pl_AccountID inp)
            (pl_IdempotencyScope inp) (pl_IdempotencyKey inp) = Inr e \<and> plr_Entry r = e \<and> plr_Duplicate r) \<or>
         (\<exists>e a1 s1 a2 i. insertLedgerEntryTx E a (timed E inp) s = Inr (e, a1, s1) \<and>
            after_entry E ctx (timed E inp) (now_or E (pl_Now inp)) e a1 s1 = Inr (a2, i, s') \<and>
            (pl_Direction inp = LedgerDirectionCredit \<longrightarrow> requireNoHandoffTx s (ca_ID a) = Inr ()) \<and>
            plr_Entry r = e \<and> plr_Account r = a2 \<and> plr_Intent r = i \<and> \<not> plr_Duplicate r)"
  using assms
  by (auto simp: PostLedgerEntry_def Let_def sameLedgerRequest_now split: if_splits sum.splits)

lemma PostLedgerEntry_replay:
  assumes op: "PostLedgerEntry E ctx inp s = Inr (r, s')" and same: "same_uuid_text E E'"
  shows "\<exists>r'. PostLedgerEntry E' ctx inp s' = Inr (r', s') \<and> plr_Duplicate r' \<and> plr_Entry r' = plr_Entry r"
proof -
  from PostLedgerEntry_cases [OF op] obtain a where ok: "validateLedgerInput inp = Inr ()"
      "\<not> isSettlementReversal (pl_Reason inp)"
      and a: "getAccountForUpdate E ctx s (pl_AccountID inp) = Inr a" "ca_State a \<noteq> AccountStateClosed"
        "ca_Currency a = pl_Currency inp"
      and cases: "(\<exists>e. s' = s \<and> sameLedgerRequest e inp \<and> getLedgerEntryByIdempotency s (pl_AccountID inp)
            (pl_IdempotencyScope inp) (pl_IdempotencyKey inp) = Inr e \<and> plr_Entry r = e \<and> plr_Duplicate r) \<or>
         (\<exists>e a1 s1 a2 i. insertLedgerEntryTx E a (timed E inp) s = Inr (e, a1, s1) \<and>
            after_entry E ctx (timed E inp) (now_or E (pl_Now inp)) e a1 s1 = Inr (a2, i, s') \<and>
            (pl_Direction inp = LedgerDirectionCredit \<longrightarrow> requireNoHandoffTx s (ca_ID a) = Inr ()) \<and>
            plr_Entry r = e \<and> plr_Account r = a2 \<and> plr_Intent r = i \<and> \<not> plr_Duplicate r)" by blast
  have fences: "fences s' = fences s" using fence.P_PostLedgerEntry [OF op refl] .
  have "accounts_live s s' \<and> sameLedgerRequest (plr_Entry r) inp \<and> getLedgerEntryByIdempotency s' (pl_AccountID inp)
      (pl_IdempotencyScope inp) (pl_IdempotencyKey inp) = Inr (plr_Entry r)"
    using cases
  proof (elim disjE exE conjE)
    fix e a1 s1 a2 i
    assume ins: "insertLedgerEntryTx E a (timed E inp) s = Inr (e, a1, s1)"
      and rest: "after_entry E ctx (timed E inp) (now_or E (pl_Now inp)) e a1 s1 = Inr (a2, i, s')"
      and r: "plr_Entry r = e"
    note new = insert_entry_ledger [OF ins]
    have id: "ca_ID a = pl_AccountID inp" using account_for_update [OF a(1)] by simp
    obtain b x t where e: "e = (ledger_values (timed E inp) (pl_AccountID inp) b)\<lparr>le_ID := x, le_CreatedAt := t\<rparr>"
      using new(4) id by auto
    have "sameLedgerRequest e inp"
      using same_request_values [of "timed E inp" "pl_AccountID inp"] unfolding e sameLedgerRequest_now by simp
    moreover have "idem_key e = (pl_AccountID inp, TrimSpace (pl_IdempotencyScope inp), TrimSpace (pl_IdempotencyKey inp))"
      by (simp add: e entry_key)
    note find_new_entry [OF new(3) this]
    ultimately show ?thesis
      using ledger_after_entry [OF rest] new(1,2) r accounts_live_trans
      by (auto simp: getLedgerEntryByIdempotency_def scan_query_row)
  qed (simp_all add: accounts_live_eq)
  moreover from this account_replay [OF a(1) same fences] obtain a'
    where "getAccountForUpdate E' ctx s' (pl_AccountID inp) = Inr a'" "still_live a a'" by auto
  ultimately show ?thesis
    using PostLedgerEntry_finds [OF ok, of E' ctx s' a' "plr_Entry r"] a
    by (auto simp: sameLedgerRequest_now still_live_def same_account_def)
qed

interpretation post: idempotent "\<lambda>E. PostLedgerEntry E ctx inp" plr_Duplicate same_uuid_text for ctx inp
  using PostLedgerEntry_replay by unfold_locales blast

section \<open>Opening a top-up\<close>

lemma topup_replay:
  assumes "same_uuid_text E E'" and "fences s' = fences s" and "db_accounts s' = db_accounts s"
  shows "topup_account E' ctx s' x c = topup_account E ctx s x c"
proof -
  have "ValidUUID E' = ValidUUID E" using assms(1) by (intro ext) (simp add: ValidUUID_def same_uuid_text_def)
  moreover have "find_account s' = find_account s" using assms(3) by (intro ext) (simp add: find_account_def)
  ultimately show ?thesis
    unfolding topup_account_def getAccountForUpdate_def LockAccount_def fences_eq_simps [OF assms(2)]
    by (simp only:)
qed

text \<open>The intent a scoped caller opens is bound to the period of that caller, who can see it again.\<close>

lemma topup_scope_period:
  assumes "topup_account E (Some scope) s x c = Inr a"
  obtains p where "current_period s x = Some p" and "p \<in> set (db_periods s)" and "rp_OwnerUserID p = sc_UserID scope"
    and "rp_OwnershipVersion p = sc_OwnershipVersion scope"
  using assms
  by (auto simp: topup_account_def getAccountForUpdate_def LockAccount_def current_period_def
      split: if_splits option.splits dest!: find_Some_mem)

lemma insert_intent_rows:
  assumes "sql_insert_intent E v s = Inr (i, s')"
  shows "db_intents s' = db_intents s @ [i]" and "db_accounts s' = db_accounts s"
    and "db_payment_responsibility s' = db_payment_responsibility s @ option_list (payment_binding s i)"
    and "i = v\<lparr>pi_ID := next_uuid E s, pi_CreatedAt := db_time (pi_CreatedAt v), pi_UpdatedAt := db_time (pi_UpdatedAt v)\<rparr>"
    and "fences s' = fences s" and "db_ledger s' = db_ledger s"
  using assms by (auto simp: sql_insert_intent_def Let_def drawn_def fences_def split: if_splits)

lemma insert_job_rows:
  "sql_insert_job E x r d s = Inr s' \<Longrightarrow> db_intents s' = db_intents s \<and> db_accounts s' = db_accounts s \<and>
     db_payment_responsibility s' = db_payment_responsibility s \<and> fences s' = fences s"
  by (auto simp: sql_insert_job_def Let_def drawn_def fences_def split: if_splits)

lemma opened_visible:
  assumes acct: "topup_account E ctx s x c = Inr a" and ins: "sql_insert_intent E v s = Inr (i, s1)"
    and x: "pi_AccountID i = x" and s': "db_intents s' = db_intents s1" "fences s' = fences s1"
      "db_payment_responsibility s' = db_payment_responsibility s1"
  shows "requireCurrentIntentReplay ctx s' (pi_ID i) = Inr ()"
proof (cases ctx)
  case (Some scope)
  note rows = insert_intent_rows [OF ins]
  from topup_scope_period [OF acct [unfolded Some]] obtain p where p: "current_period s x = Some p"
      "p \<in> set (db_periods s)" "rp_OwnerUserID p = sc_UserID scope" "rp_OwnershipVersion p = sc_OwnershipVersion scope" .
  have "db_periods s' = db_periods s" using s'(2) rows(5) by (simp add: fences_def)
  with p have "periodVisibility ctx s' (db_payment_responsibility s') (pi_ID i) (pi_AccountID i) True"
    by (auto simp: periodVisibility_def Some s' rows(3) payment_binding_def x option_list_def list_ex_iff)
  then show ?thesis by (auto simp: requireCurrentIntentReplay_def Some s' rows(1) list_ex_iff)
qed (simp add: requireCurrentIntentReplay_def)

lemma find_intent_key_new:
  assumes "find_intent_key s y k = None" and "pi_AccountID i = y" and "pi_IdempotencyKey i = TrimSpace k"
    and "db_intents s' = db_intents s @ [i]"
  shows "find_intent_key s' y k = Some i"
  using assms by (simp add: find_intent_key_def find_append)

lemma CreateManualTopUp_replay:
  assumes op: "CreateManualTopUp E ctx inp s = Inr (r, s')" and same: "same_uuid_text E E'"
  shows "\<exists>r'. CreateManualTopUp E' ctx inp s' = Inr (r', s') \<and> cmr_Duplicate r' \<and> cmr_Intent r' = cmr_Intent r"
proof (cases "s' = s")
  case True
  with op topup_replay [OF same refl refl] show ?thesis
    by (auto simp: CreateManualTopUp_def Let_def split: if_splits option.splits dest!: insert_job_rows
        insert_intent_rows(1))
next
  case False
  from op False obtain a m i s1 where ok: "required (cm_AccountID inp)" "required (cm_PaymentMethodID inp)"
      "required (cm_IdempotencyKey inp)" "required (cm_CorrelationID inp)"
      "ValidateChargeAmount (cm_Currency inp) (cm_AmountMinor inp) = Inr ()"
      and acct: "topup_account E ctx s (cm_AccountID inp) (cm_Currency inp) = Inr a"
      and none: "find_intent_key s (cm_AccountID inp) (cm_IdempotencyKey inp) = None"
      and ins: "sql_insert_intent E (manual_intent_values (cm_AccountID inp) (cm_AmountMinor inp) (cm_Currency inp)
                   (pm_Provider (m :: method_row)) (cm_PaymentMethodID inp) PaymentIntentStateCreated
                   (cm_IdempotencyKey inp) [] (cm_CorrelationID inp) (now_or E (cm_Now inp))) s = Inr (i, s1)"
      and job: "sql_insert_job E (pi_ID i) ReconciliationReasonCharge (now_or E (cm_Now inp)) s1 = Inr s'"
      and r: "cmr_Intent r = i"
    by (auto simp: CreateManualTopUp_def Let_def split: if_splits option.splits)
  note rows = insert_intent_rows [OF ins] and jrows = insert_job_rows [OF job]
  have i: "pi_AccountID i = cm_AccountID inp" "pi_IdempotencyKey i = TrimSpace (cm_IdempotencyKey inp)"
      "pi_AmountMinor i = cm_AmountMinor inp" "pi_Currency i = cm_Currency inp"
      "pi_PaymentMethodID i = cm_PaymentMethodID inp" "pi_Reason i = PaymentIntentReasonManualTopUp"
    by (simp_all add: rows(4) manual_intent_values_def)
  have "topup_account E' ctx s' (cm_AccountID inp) (cm_Currency inp) = Inr a"
    using topup_replay [OF same, of s' s] rows jrows acct by simp
  moreover have "find_intent_key s' (cm_AccountID inp) (cm_IdempotencyKey inp) = Some i"
    using find_intent_key_new [OF none i(1,2)] rows(1) jrows by simp
  moreover have "requireCurrentIntentReplay ctx s' (pi_ID i) = Inr ()"
    using opened_visible [OF acct ins i(1)] jrows by simp
  ultimately show ?thesis using ok i r by (simp add: CreateManualTopUp_def Let_def)
qed

lemma CreateHostedTopUp_replay:
  assumes op: "CreateHostedTopUp E ctx rnd inp s = Inr (r, s')" and same: "same_uuid_text E E'"
  shows "\<exists>r'. CreateHostedTopUp E' ctx rnd' inp s' = Inr (r', s') \<and> cmr_Duplicate r' \<and> cmr_Intent r' = cmr_Intent r"
proof (cases "s' = s")
  case True
  with op topup_replay [OF same refl refl] show ?thesis
    by (auto simp: CreateHostedTopUp_def Let_def split: if_splits option.splits dest!: insert_job_rows
        insert_intent_rows(1))
next
  case False
  let ?p = "NormalizeProvider (ch_Provider inp)"
  from op False obtain a i s1 where ok: "required (ch_AccountID inp)" "required ?p"
      "required (ch_IdempotencyKey inp)" "required (ch_CorrelationID inp)"
      "ValidateChargeAmount (ch_Currency inp) (ch_AmountMinor inp) = Inr ()"
      and acct: "topup_account E ctx s (ch_AccountID inp) (ch_Currency inp) = Inr a"
      and none: "find_intent_key s (ch_AccountID inp) (ch_IdempotencyKey inp) = None"
      and ins: "sql_insert_intent E (manual_intent_values (ch_AccountID inp) (ch_AmountMinor inp) (ch_Currency inp)
                   ?p [] PaymentIntentStateProcessing (ch_IdempotencyKey inp) (''rtk_'' @ rnd)
                   (ch_CorrelationID inp) (now_or E (ch_Now inp))) s = Inr (i, s1)"
      and job: "sql_insert_job E (pi_ID i) ReconciliationReasonUnknown (now_or E (ch_Now inp) + 5 * minute_ns) s1 = Inr s'"
      and r: "cmr_Intent r = i"
    by (auto simp: CreateHostedTopUp_def Let_def split: if_splits option.splits)
  note rows = insert_intent_rows [OF ins] and jrows = insert_job_rows [OF job]
  have i: "pi_AccountID i = ch_AccountID inp" "pi_IdempotencyKey i = TrimSpace (ch_IdempotencyKey inp)"
      "pi_AmountMinor i = ch_AmountMinor inp" "pi_Currency i = ch_Currency inp" "pi_Provider i = ?p"
      "pi_PaymentMethodID i = []" "pi_Reason i = PaymentIntentReasonManualTopUp"
    by (simp_all add: rows(4) manual_intent_values_def)
  have "topup_account E' ctx s' (ch_AccountID inp) (ch_Currency inp) = Inr a"
    using topup_replay [OF same, of s' s] rows jrows acct by simp
  moreover have "find_intent_key s' (ch_AccountID inp) (ch_IdempotencyKey inp) = Some i"
    using find_intent_key_new [OF none i(1,2)] rows(1) jrows by simp
  moreover have "requireCurrentIntentReplay ctx s' (pi_ID i) = Inr ()"
    using opened_visible [OF acct ins i(1)] jrows by simp
  ultimately show ?thesis using ok i r by (simp add: CreateHostedTopUp_def Let_def)
qed

interpretation manual: idempotent "\<lambda>E. CreateManualTopUp E ctx inp" cmr_Duplicate same_uuid_text for ctx inp
  using CreateManualTopUp_replay by unfold_locales blast

interpretation hosted: idempotent "\<lambda>(E, rnd). CreateHostedTopUp E ctx rnd inp" cmr_Duplicate
  "\<lambda>(E, _) (E', _). same_uuid_text E E'" for ctx inp
  using CreateHostedTopUp_replay by unfold_locales (clarsimp split: prod.splits, blast)

section \<open>Moving an intent\<close>

lemma intents_update_account: "sql_update_account E x f s = Inr (a, s') \<Longrightarrow> db_intents s' = db_intents s"
  by (auto simp: sql_update_account_def Let_def split: option.splits)

lemma intents_insert_entry:
  assumes "insertLedgerEntryTx E a inp s = Inr (e, a', s')"
  shows "db_intents s' = db_intents s"
  using assms by (auto simp: insertLedgerEntryTx_def sql_insert_ledger_def Let_def drawn_def split: if_splits
      dest!: intents_update_account)

lemma live_after_success:
  assumes "policy_after_success E i a now s = Inr (a', s')"
  shows "accounts_live s s' \<and> db_intents s' = db_intents s"
proof -
  from assms obtain s1 where "db_accounts s1 = db_accounts s \<and> db_intents s1 = db_intents s"
      and "s' = s1 \<or> (\<exists>st. st \<noteq> AccountStateClosed \<and>
        sql_update_account E (ca_ID a) (\<lambda>a. a\<lparr>ca_State := st\<rparr>) s1 = Inr (a', s'))"
    by (auto simp: policy_after_success_def Let_def split: if_splits sum.splits
        dest!: ledger_update_policy) blast+
  then show ?thesis
    using accounts_live_eq accounts_live_trans accounts_live_state intents_update_account by metis
qed

lemma live_after_other:
  assumes "policy_after_other E i st a s = Inr (a', s')"
  shows "accounts_live s s' \<and> db_intents s' = db_intents s"
proof -
  from assms obtain s1 where "db_accounts s1 = db_accounts s \<and> db_intents s1 = db_intents s"
      and "s' = s1 \<or> sql_update_account E (ca_ID a) (\<lambda>a. a\<lparr>ca_State := AccountStateAttentionRequired\<rparr>) s1 = Inr (a', s')"
    by (auto simp: policy_after_other_def Let_def split: if_splits sum.splits
        dest!: ledger_update_policy)
  then show ?thesis
    using accounts_live_eq accounts_live_trans accounts_live_state intents_update_account AccountState.distinct
    by metis
qed

lemma email_rows: "queue_topup_email i a now s = Inr s' \<Longrightarrow> db_accounts s' = db_accounts s \<and> db_intents s' = db_intents s"
  by (auto simp: queue_topup_email_def split: if_splits option.splits)

text \<open>What a transition leaves: the intent in the state asked for, with the reference it was given.\<close>

lemma transition_leaves:
  assumes tr: "transitionIntentTx E a i inp s = Inr (r, s')" and i: "find_intent s (pi_ID i) = Some i"
    and ref: "ref = TrimSpace (ti_ProviderTransactionReference inp)"
  obtains i' where "find_intent s' (pi_ID i) = Some i'" and "tir_Intent r = i'" and "pi_State i' = ti_ToState inp"
    and "pi_AccountID i' = pi_AccountID i" and "accounts_live s s'"
    and "pi_ProviderTransactionReference i' = [] \<or> ref = [] \<or> pi_ProviderTransactionReference i' = ref"
proof (cases "pi_State i = ti_ToState inp")
  case True
  with tr i show thesis
    by (intro that [of i]) (auto simp: transitionIntentTx_def Let_def ref accounts_live_eq split: if_splits)
next
  case False
  from False tr have agree: "pi_ProviderTransactionReference i = [] \<or> ref = [] \<or> pi_ProviderTransactionReference i = ref"
    by (auto simp: transitionIntentTx_def Let_def ref split: if_splits)
  note result = that
  have leaves: thesis if upd: "sql_update_intent E (pi_ID i) (transition_row inp i) s = Inr (i', s1)" and r: "tir_Intent r = i'"
    and s': "accounts_live s1 s' \<and> db_intents s' = db_intents s1" for i' s1
  proof -
    have s1: "db_accounts s1 = db_accounts s"
      using upd by (auto simp: sql_update_intent_def Let_def split: option.splits if_splits)
    have "pi_ID (transition_row inp i r) = pi_ID r" for r by (simp add: transition_row_def)
    from update_intent_row [OF upd this] i have "i' = (transition_row inp i i)\<lparr>pi_UpdatedAt := env_now E\<rparr>"
        "find_intent s1 (pi_ID i) = Some i'"
      by auto
    with agree s' r show thesis
      by (intro result [of i']) (auto simp: find_intent_def transition_row_def ref
          intro: accounts_live_trans [OF accounts_live_eq [OF s1]])
  qed
  from tr False show thesis
  proof (cases rule: transition_cases)
    case (settled i' s1 e a1 s2 s3 a2)
    have "accounts_live s1 s3" "db_intents s3 = db_intents s1"
      using accounts_live_trans insert_entry_ledger(2) [OF settled(5)] intents_insert_entry [OF settled(5)]
        email_rows [OF settled(6)] accounts_live_eq by metis+
    then show thesis
      using leaves [OF settled(2,3)] live_after_success [OF settled(7)] accounts_live_trans by metis
  next
    case (other i' s1)
    then show thesis
      using leaves [OF other(2,3)] live_after_other accounts_live_eq by (auto split: if_splits)
  qed
qed

lemma TransitionIntent_replay:
  assumes op: "TransitionIntent E ctx inp s = Inr (r, s')" and same: "same_uuid_text E E'"
  shows "\<exists>r'. TransitionIntent E' ctx inp s' = Inr (r', s') \<and> tir_Duplicate r' \<and> tir_Intent r' = tir_Intent r"
proof -
  from op obtain i a where ok: "required (ti_IntentID inp)" "ValidIntentState (ti_ToState inp)"
      and i: "getIntentForUpdate s (ti_IntentID inp) = Inr i"
      and a: "getAccountForUpdate E ctx s (pi_AccountID i) = Inr a"
      and tr: "transitionIntentTx E a i (inp\<lparr>ti_Now := now_or E (ti_Now inp)\<rparr>) s = Inr (r, s')"
    by (auto simp: TransitionIntent_def Let_def split: if_splits)
  have id: "find_intent s (pi_ID i) = Some i" "pi_ID i = ti_IntentID inp" using intent_for_update [OF i] by auto
  from transition_leaves [OF tr id(1) refl] obtain i' where i': "find_intent s' (ti_IntentID inp) = Some i'"
      "tir_Intent r = i'" "pi_State i' = ti_ToState inp" "pi_AccountID i' = pi_AccountID i" and live: "accounts_live s s'"
      and agree: "pi_ProviderTransactionReference i' = [] \<or> TrimSpace (ti_ProviderTransactionReference inp) = [] \<or>
        pi_ProviderTransactionReference i' = TrimSpace (ti_ProviderTransactionReference inp)"
    unfolding id(2) by auto
  have fences: "fences s' = fences s" using fence.P_TransitionIntent [OF op refl] .
  from account_replay [OF a same fences live] obtain a' where "getAccountForUpdate E' ctx s' (pi_AccountID i') = Inr a'"
    using i'(4) by auto
  moreover have "getIntentForUpdate s' (ti_IntentID inp) = Inr i'" using i'(1) by (simp add: getIntentForUpdate_def)
  moreover have "\<exists>c. entry_option (getPaymentIntentCredit s' (pi_ID i')) = Inr c"
    by (cases "getPaymentIntentCredit s' (pi_ID i')")
       (auto simp: entry_option_def getPaymentIntentCredit_def scan_query_row split: option.splits)
  ultimately show ?thesis
    using ok i' agree by (auto simp: TransitionIntent_def transitionIntentTx_def Let_def)
qed

interpretation transition: idempotent "\<lambda>E. TransitionIntent E ctx inp" tir_Duplicate same_uuid_text for ctx inp
  using TransitionIntent_replay by unfold_locales blast

end
