(* ===== verification/Payment_Behaviour.thy ===== *)
theory Payment_Behaviour
  imports Store_Replay Payment_Scenario
begin

text \<open>
  What single operations of the payment store do: when an automatic top-up is opened, what a
  failing card does to the policy, how jobs are leased to workers, what an unknown outcome leaves
  behind, which webhooks are acted upon, and what retries do.
\<close>

section \<open>The abstract books\<close>



section \<open>Automatic top-ups\<close>

lemma policies_ok_step: "store_step dg s s' \<Longrightarrow> policies_ok s \<Longrightarrow> policies_ok s'"
proof (erule store_stepE)
  fix E op assume ex: "exec dg E op s = Inr s'" and ok: "policies_ok s"
  show "policies_ok s'"
  proof (cases "is_fence_op op")
    case True
    with ex ok show ?thesis by (cases op) (auto simp: policies_ok_def)
  qed (use pol.P_exec_store ex ok in blast)
qed

lemma reachable_policies_ok: "reachable dg s \<Longrightarrow> policies_ok s"
proof (induction rule: rtranclp_induct)
  case base
  then show ?case by (simp add: policies_ok_def empty_db_def)
qed (rule policies_ok_step)

text \<open>The rows the evaluation of a policy reads are not touched by the entry that triggers it.\<close>

lemma insert_entry_frame:
  assumes "insertLedgerEntryTx E a inp s = Inr (e, a', s')"
  shows "db_policies s' = db_policies s" and "db_intents s' = db_intents s" and "db_handoffs s' = db_handoffs s"
    and "db_closures s' = db_closures s" and "db_jobs s' = db_jobs s"
    and "ca_AvailableBalanceMinor a' = le_BalanceAfterMinor e" and "ca_ID a' = ca_ID a"
  using assms
  by (auto simp: insertLedgerEntryTx_def sql_insert_ledger_def ledger_values_def sql_update_account_def Let_def drawn_def
      find_account_def split: if_splits option.splits dest!: find_key_Some)

text \<open>The policy an evaluation finds after it has triggered is disarmed, and a charge job is due.\<close>

lemma update_policy_row:
  assumes "sql_update_policy E (\<lambda>p. atp_ID p = atp_ID q) f s = Inr (r, s')" and "q \<in> set (db_policies s)"
  obtains old where "old \<in> set (db_policies s)" and "atp_ID old = atp_ID q"
    and "r = Some ((f old)\<lparr>atp_UpdatedAt := env_now E\<rparr>)" and "(f old)\<lparr>atp_UpdatedAt := env_now E\<rparr> \<in> set (db_policies s')"
    and "policy_check ((f old)\<lparr>atp_UpdatedAt := env_now E\<rparr>)" and "db_jobs s' = db_jobs s"
proof -
  from assms obtain old where old: "find (\<lambda>p. atp_ID p = atp_ID q) (db_policies s) = Some old"
    by (auto simp: sql_update_policy_def find_None_iff split: option.splits)
  note mem = find_Some_mem [OF old]
  from assms(1) old mem show thesis
    by (intro that [of old])
       (auto simp: sql_update_policy_def Let_def policy_update_error_def set_update_where image_iff
          split: option.splits if_splits)
qed

lemma evaluate_triggers:
  assumes ev: "evaluateAutoTopUpTx E ctx a e now c s = Inr (Some i, s')"
  obtains p m s1 s2 r where "requireNoHandoffTx s (ca_ID a) = Inr ()"
    and "getPolicyForUpdate s (ca_ID a) = Inr p" and "ValidatePolicy (AutoTopUpPolicy.truncate p) = Inr ()"
    and "getPaymentMethodForUpdate ctx s (atp_PaymentMethodID p) = Inr (m :: method_row)"
    and "pd_Trigger (EvaluateAutoTopUp (AutoTopUpPolicy.truncate p)
           \<lparr>pe_BalanceMinor = ca_AvailableBalanceMinor a, pe_Now = now,
            pe_AttemptsToday = int (length (intents_today s (ca_ID a) now)),
            pe_AutomaticAmountTodayMinor = amount_today s (ca_ID a) now,
            pe_HasOpenIntent = has_open_intent s (ca_ID a), pe_PaymentMethodStatus = pm_Status m,
            pe_MerchantInitiatedCharge = pc_MerchantInitiatedCharge (pm_Capabilities m)\<rparr>)"
    and "sql_insert_intent E (auto_intent_values a p m e now c) s = Inr (i, s1)"
    and "sql_update_policy E (\<lambda>q. atp_ID q = atp_ID p) (\<lambda>q. q\<lparr>atp_Armed := False,
           atp_LastTriggeredAt := Some (db_time now), atp_Version := atp_Version q + 1\<rparr>) s1 = Inr (r, s2)"
    and "sql_insert_job E (pi_ID i) ReconciliationReasonCharge now s2 = Inr s'"
  using ev by (auto simp: evaluateAutoTopUpTx_def Let_def requireNoHandoffTx_def split: if_splits sum.splits)

lemma policy_found: "getPolicyForUpdate s x = Inr p \<longleftrightarrow> find (\<lambda>p. atp_AccountID p = x) (db_policies s) = Some p"
  by (simp add: getPolicyForUpdate_def)

text \<open>What the policy of account \<open>x\<close> allowed when an evaluation at \<open>now\<close> opened the intent \<open>i\<close>.\<close>

definition within_policy :: "payment_db \<Rightarrow> string \<Rightarrow> instant \<Rightarrow> int \<Rightarrow> policy_row \<Rightarrow> PaymentIntent \<Rightarrow> bool" where
  "within_policy s x now balance p i \<longleftrightarrow>
     find (\<lambda>p. atp_AccountID p = x) (db_policies s) = Some p \<and> atp_Enabled p \<and> atp_Armed p \<and>
     \<not> handoff_open s x \<and> \<not> closure_active s x \<and> balance < atp_ThresholdMinor p \<and>
     pi_AmountMinor i = atp_TopUpAmountMinor p \<and> pi_AccountID i = x \<and> \<not> has_open_intent s x \<and>
     (\<forall>t. atp_LastTriggeredAt p = Some t \<longrightarrow> cooldown_until (AutoTopUpPolicy.truncate p) t \<le> now) \<and>
     int (length (intents_today s x now)) < atp_DailyAttemptLimit p \<and>
     amount_today s x now + pi_AmountMinor i \<le> atp_DailyAmountLimitMinor p"

text \<open>What the evaluation leaves: the policy disarmed and a charge job pending.\<close>

definition charge_queued :: "payment_db \<Rightarrow> policy_row \<Rightarrow> PaymentIntent \<Rightarrow> bool" where
  "charge_queued s p i \<longleftrightarrow>
     (\<exists>p' \<in> set (db_policies s). atp_ID p' = atp_ID p \<and> \<not> atp_Armed p') \<and>
     (\<exists>j \<in> set (db_jobs s). rj_IntentID j = pi_ID i \<and> rj_Reason j = ReconciliationReasonCharge \<and>
        rj_Status j = ReconciliationStatusPending)"

lemma evaluate_within_policy:
  assumes ev: "evaluateAutoTopUpTx E ctx a e now c s = Inr (Some i, s')" and ok: "policies_ok s" and x: "ca_ID a = x"
  shows "\<exists>p. within_policy s x now (ca_AvailableBalanceMinor a) p i \<and> charge_queued s' p i"
proof -
  obtain p m s1 s2 u where fence: "requireNoHandoffTx s x = Inr ()"
      and p: "getPolicyForUpdate s x = Inr p" and valid: "ValidatePolicy (AutoTopUpPolicy.truncate p) = Inr ()"
      and trig: "pd_Trigger (EvaluateAutoTopUp (AutoTopUpPolicy.truncate p)
           \<lparr>pe_BalanceMinor = ca_AvailableBalanceMinor a, pe_Now = now,
            pe_AttemptsToday = int (length (intents_today s x now)),
            pe_AutomaticAmountTodayMinor = amount_today s x now,
            pe_HasOpenIntent = has_open_intent s x, pe_PaymentMethodStatus = pm_Status m,
            pe_MerchantInitiatedCharge = pc_MerchantInitiatedCharge (pm_Capabilities m)\<rparr>)"
      and opened: "sql_insert_intent E (auto_intent_values a p m e now c) s = Inr (i, s1)"
      and upd: "sql_update_policy E (\<lambda>q. atp_ID q = atp_ID p) (\<lambda>q. q\<lparr>atp_Armed := False,
             atp_LastTriggeredAt := Some (db_time now), atp_Version := atp_Version q + 1\<rparr>) s1 = Inr (u, s2)"
      and job: "sql_insert_job E (pi_ID i) ReconciliationReasonCharge now s2 = Inr s'"
    by (rule evaluate_triggers [OF ev, unfolded x])
  have found: "find (\<lambda>p. atp_AccountID p = x) (db_policies s) = Some p" using p by (simp add: policy_found)
  then have mem: "p \<in> set (db_policies s)" by (simp add: find_Some_mem)
  then have int64: "is_int64 (atp_DailyAmountLimitMinor (AutoTopUpPolicy.truncate p))"
    using ok by (simp add: policies_ok_def policy_check_def AutoTopUpPolicy.defs)
  have "p \<in> set (db_policies s1)"
    using mem opened by (auto simp: sql_insert_intent_def Let_def drawn_def split: if_splits)
  from update_policy_row [OF upd this] obtain old :: policy_row where old: "atp_ID old = atp_ID p"
      "(old\<lparr>atp_Armed := False, atp_LastTriggeredAt := Some (db_time now), atp_Version := atp_Version old + 1,
          atp_UpdatedAt := env_now E\<rparr>) \<in> set (db_policies s2)" by blast
  have s': "db_policies s' = db_policies s2" and j: "new_job E (pi_ID i) ReconciliationReasonCharge now s2 \<in> set (db_jobs s')"
    using job by (auto simp: sql_insert_job_def Let_def drawn_def split: if_splits)
  have "charge_queued s' p i"
    unfolding charge_queued_def s' using bexI [OF _ old(2), of "\<lambda>q. atp_ID q = atp_ID p \<and> \<not> atp_Armed q"]
      bexI [OF _ j, of "\<lambda>j. rj_IntentID j = pi_ID i \<and> rj_Reason j = ReconciliationReasonCharge \<and>
         rj_Status j = ReconciliationStatusPending"] old(1) by (simp add: new_job_def)
  moreover have "pi_AmountMinor i = atp_TopUpAmountMinor p" "pi_AccountID i = x"
    using insert_intent_rows(4) [OF opened] x by (simp_all add: auto_intent_values_def)
  with trig [unfolded EvaluateAutoTopUp_trigger_iff [OF valid int64]] found fence
  have "within_policy s x now (ca_AvailableBalanceMinor a) p i"
    by (auto simp: within_policy_def requireNoHandoffTx_def AutoTopUpPolicy.defs split: if_splits)
  ultimately show ?thesis by blast
qed

lemma post_triggers:
  assumes op: "PostLedgerEntry E ctx inp s = Inr (r, s')" and new: "\<not> plr_Duplicate r" and i: "plr_Intent r = Some i"
  obtains e a a1 s1 where "pl_Direction inp = LedgerDirectionDebit" and "ca_State a1 = AccountStateActive"
    and "insertLedgerEntryTx E a (timed E inp) s = Inr (e, a1, s1)" and "ca_ID a = pl_AccountID inp"
    and "evaluateAutoTopUpTx E ctx a1 e (now_or E (pl_Now inp)) (pl_RequestID inp) s1 = Inr (Some i, s')"
    and "plr_Account r = a1"
proof -
  from PostLedgerEntry_cases [OF op] new obtain a e a1 s1 a2 j
    where a: "getAccountForUpdate E ctx s (pl_AccountID inp) = Inr a"
      and ins: "insertLedgerEntryTx E a (timed E inp) s = Inr (e, a1, s1)"
      and rest: "after_entry E ctx (timed E inp) (now_or E (pl_Now inp)) e a1 s1 = Inr (a2, j, s')"
      and r: "plr_Account r = a2" "plr_Intent r = j"
    by (metis (no_types, lifting))
  have "ca_ID a = pl_AccountID inp" using account_for_update [OF a] by simp
  with ins rest r i show thesis
    by (intro that [of a1 a e s1]) (auto simp: after_entry_def split: if_splits)
qed


definition demo_topup :: CreateManualTopUpInput where
  "demo_topup = \<lparr>cm_AccountID = demo_uuid 0, cm_AmountMinor = 250, cm_Currency = TWD,
     cm_PaymentMethodID = demo_uuid 3, cm_IdempotencyKey = ''top-1'', cm_CorrelationID = ''corr'',
     cm_Now = 50 * second_ns\<rparr>"

text \<open>What the configured account shows, evaluated once: a debit triggers a top-up, and the owner may order one.\<close>

definition configured_view :: "payment_db \<Rightarrow> (bool \<times> int option) option \<times> bool option" where
  "configured_view s =
     (case PostLedgerEntry (demo_env 101) None demo_debit s of
        Inl _ \<Rightarrow> None
      | Inr (r, _) \<Rightarrow> Some (plr_Duplicate r, map_option pi_AmountMinor (plr_Intent r)),
      case CreateManualTopUp (demo_env 50) (Some demo_scope) demo_topup s of
        Inl _ \<Rightarrow> None | Inr (r, _) \<Rightarrow> Some (cmr_Duplicate r))"

lemma demo_configured_view: "configured_view db_configured = (Some (False, Some 1000), Some False)"
  by code_simp

lemma demo_trigger:
  "(case PostLedgerEntry (demo_env 101) None demo_debit db_configured of
      Inl _ \<Rightarrow> None
    | Inr (r, _) \<Rightarrow> Some (plr_Duplicate r, map_option pi_AmountMinor (plr_Intent r))) = Some (False, Some 1000)"
  using demo_configured_view unfolding configured_view_def prod.inject by blast

lemma demo_topup_opens:
  "(case CreateManualTopUp (demo_env 50) (Some demo_scope) demo_topup db_configured of
      Inl _ \<Rightarrow> None | Inr (r, _) \<Rightarrow> Some (cmr_Duplicate r)) = Some False"
  using demo_configured_view unfolding configured_view_def prod.inject by blast


section \<open>Retries\<close>

lemma demo_same_uuid: "same_uuid_text (demo_env m) (demo_env n)"
  by (simp add: same_uuid_text_def demo_env_def)



text \<open>An idempotency key is bound to its request: once an entry has been posted under a key of an
  account, a request under that key that differs in direction, amount, currency, reason, external
  reference or actor is refused, whoever sends it and whenever.
\<close>

theorem post_entry_conflict:
  assumes "PostLedgerEntry E ctx inp s = Inr (r, s')" and "pl_AccountID inp' = pl_AccountID inp"
    and "TrimSpace (pl_IdempotencyScope inp') = TrimSpace (pl_IdempotencyScope inp)"
    and "TrimSpace (pl_IdempotencyKey inp') = TrimSpace (pl_IdempotencyKey inp)"
    and "\<not> sameLedgerRequest (plr_Entry r) inp'"
  shows "\<exists>e. PostLedgerEntry E' ctx' inp' s' = Inl e"
proof (rule ccontr)
  assume "\<not> (\<exists>e. PostLedgerEntry E' ctx' inp' s' = Inl e)"
  then obtain r2 s2 where op2: "PostLedgerEntry E' ctx' inp' s' = Inr (r2, s2)"
    by (cases "PostLedgerEntry E' ctx' inp' s'") auto
  from PostLedgerEntry_replay [OF assms(1), of E] obtain r1 where op1: "PostLedgerEntry E ctx inp s' = Inr (r1, s')"
      "plr_Duplicate r1" "plr_Entry r1 = plr_Entry r" by (auto simp: same_uuid_text_def)
  from PostLedgerEntry_cases [OF op1(1)] op1(2,3)
  have "getLedgerEntryByIdempotency s' (pl_AccountID inp) (pl_IdempotencyScope inp) (pl_IdempotencyKey inp) = Inr (plr_Entry r)"
    by metis
  then have found: "getLedgerEntryByIdempotency s' (pl_AccountID inp') (pl_IdempotencyScope inp') (pl_IdempotencyKey inp')
      = Inr (plr_Entry r)"
    using assms(2-4) by (simp add: getLedgerEntryByIdempotency_def)
  with op2 assms(5) show False
    by (auto simp: PostLedgerEntry_def Let_def sameLedgerRequest_now split: if_splits)
qed

text \<open>A customer may repeat a top-up request: the repetitions find the intent the first one opened and
  open no other.
\<close>

theorem manual_topup_retries:
  assumes "CreateManualTopUp E ctx inp s = Inr (r, s')" and "list_all (same_uuid_text E) Es"
  shows "retry (\<lambda>E. CreateManualTopUp E ctx inp) Es s' = s' \<and>
    list_all (\<lambda>E'. \<exists>r'. CreateManualTopUp E' ctx inp s' = Inr (r', s') \<and> cmr_Duplicate r' \<and>
      cmr_Intent r' = cmr_Intent r) Es"
  using manual.retry_stable [OF assms] CreateManualTopUp_replay [OF assms(1)] assms(2) by (auto simp: list_all_iff)

text \<open>Reporting an outcome can be retried: once an intent has been moved to a state, repeating the
  report changes nothing and is answered as a duplicate with the same intent. A payment is
  therefore not credited again by a repeated report.
\<close>

theorem transition_retries:
  assumes "TransitionIntent E ctx inp s = Inr (r, s')" and "list_all (same_uuid_text E) Es"
  shows "retry (\<lambda>E. TransitionIntent E ctx inp) Es s' = s' \<and>
    list_all (\<lambda>E'. \<exists>r'. TransitionIntent E' ctx inp s' = Inr (r', s') \<and> tir_Duplicate r' \<and>
      tir_Intent r' = tir_Intent r) Es"
  using transition.retry_stable [OF assms] TransitionIntent_replay [OF assms(1)] assms(2) by (auto simp: list_all_iff)

end
