(* ===== verification/Job_Behaviour.thy ===== *)
theory Job_Behaviour
  imports Payment_Behaviour
begin

text \<open>
  The work queue: leases are exclusive and required, an unknown outcome is always followed up, only
  verified webhooks that match a payment are acted upon, repeated failures disable automatic
  top-ups, and a tenant acts only on the account it currently answers for.
\<close>

section \<open>Leases\<close>

lemma lease_job_id [simp]: "rj_ID (lease_job E now own j) = rj_ID j"
  by (simp add: lease_job_def)

lemma lease_not_claimable:
  "db_time stale < db_time now \<Longrightarrow> \<not> claimable now' stale (lease_job E now own j)"
  by (simp add: claimable_def lease_job_def)

lemma claimed_jobs:
  assumes "ClaimPaymentJobs E locked now stale own lim s = Inr (js, s')"
  shows "length js \<le> 100" and "j \<in> set js \<Longrightarrow> \<exists>old \<in> set (db_jobs s). claimable now stale old \<and> j = lease_job E now own old"
    and "db_jobs s' = update_where (\<lambda>j. rj_ID j \<in> rj_ID ` set js) (lease_job E now own) (db_jobs s)"
  using assms
  by (auto simp: ClaimPaymentJobs_def Let_def image_image split: if_splits dest!: in_set_takeD) blast+


text \<open>(C31)
  Only the worker that holds the lease of a job can act on it: when no job with this identifier is
  leased to this owner, beginning an attempt, finalizing one, completing the job and rescheduling
  it are all refused.
\<close>

theorem lease_is_required:
  assumes "list_all (\<lambda>j. \<not> held x own j) (db_jobs s)"
    and "ba_JobID b = x" and "ba_LeaseOwner b = own" and "fa_JobID f = x" and "fa_LeaseOwner f = own"
  shows "(\<exists>e. BeginProviderAttempt E ctx b s = Inl e) \<and> (\<exists>e. FinalizeProviderAttempt E ctx f s = Inl e) \<and>
    CompletePaymentJob E x own s = Inl ErrLeaseConflict \<and> RetryPaymentJob E x own due err s = Inl ErrLeaseConflict"
proof -
  have found: "rj_Status j \<noteq> ReconciliationStatusLeased \<or> rj_LeaseOwner j \<noteq> TrimSpace own" if "find_job s x = Inr j" for j
    using that assms(1) by (auto simp: find_job_def held_def list_all_iff dest!: find_Some_mem)
  have "find (held x own) (db_jobs s) = None" using assms(1) by (simp add: find_None_iff list_all_iff)
  then have "CompletePaymentJob E x own s = Inl ErrLeaseConflict" "RetryPaymentJob E x own due err s = Inl ErrLeaseConflict"
    by (simp_all add: CompletePaymentJob_def RetryPaymentJob_def sql_update_job_def)
  moreover have "\<exists>e. BeginProviderAttempt E ctx b s = Inl e" "\<exists>e. FinalizeProviderAttempt E ctx f s = Inl e"
    using found assms(2-5)
    by (cases "find_job s x"; auto simp: BeginProviderAttempt_def FinalizeProviderAttempt_def Let_def ValidateProviderResult_def
        split: PaymentIntentState.splits)+
  ultimately show ?thesis by blast
qed

section \<open>Outcomes\<close>

lemma find_job_update:
  assumes "sql_update_job E (\<lambda>j. rj_ID j = x) f s = Inr (j, s')" and "find_job s x = Inr old"
  shows "j = (f old)\<lparr>rj_UpdatedAt := env_now E\<rparr>" and "j \<in> set (db_jobs s')" and "db_intents s' = db_intents s"
proof -
  have old: "find (\<lambda>j. rj_ID j = x) (db_jobs s) = Some old" using assms(2) by (simp add: find_job_def)
  note mem = find_Some_mem [OF old]
  show "j = (f old)\<lparr>rj_UpdatedAt := env_now E\<rparr>" and "j \<in> set (db_jobs s')" and "db_intents s' = db_intents s"
    using assms(1) old mem by (auto simp: sql_update_job_def Let_def set_update_where image_iff split: if_splits)
qed

lemma update_job_ids:
  assumes "sql_update_job E p f s = Inr (j, s')" and "\<And>j. rj_ID (f j) = rj_ID j"
  shows "rj_ID ` set (db_jobs s') \<subseteq> rj_ID ` set (db_jobs s) \<and> db_seq s' = db_seq s"
proof -
  from assms(1) obtain old where old: "old \<in> set (db_jobs s)" and seq: "db_seq s' = db_seq s"
      and jobs: "db_jobs s' = update_where (\<lambda>j. rj_ID j = rj_ID old) (\<lambda>_. (f old)\<lparr>rj_UpdatedAt := env_now E\<rparr>) (db_jobs s)"
    by (auto simp: sql_update_job_def Let_def split: option.splits if_splits dest: find_Some_mem)
  then show ?thesis using assms(2) by (auto simp: set_update_where)
qed

text \<open>An open job of a reason for an intent.\<close>

definition open_job :: "payment_db \<Rightarrow> string \<Rightarrow> ReconciliationReason \<Rightarrow> bool" where
  "open_job s x reason = list_ex (\<lambda>j. rj_IntentID j = x \<and> rj_Reason j = reason \<and> job_open j) (db_jobs s)"

definition fresh_job_ids :: "env \<Rightarrow> payment_db \<Rightarrow> bool" where
  "fresh_job_ids E s \<longleftrightarrow> (\<forall>n \<ge> db_seq s. env_uuid E n \<notin> rj_ID ` set (db_jobs s))"

lemma insert_unless_open:
  assumes "next_uuid E s \<notin> rj_ID ` set (db_jobs s)"
  shows "open_job (sql_insert_job_unless E x reason due s) x reason"
  using assms
  by (auto simp: sql_insert_job_unless_def Let_def open_job_def job_conflict_def new_job_def job_open_def drawn_def
      list_ex_iff image_iff)

lemma settle_unknown:
  assumes "settle_job E job result due s = Inr (job', s')" and "pr_State result = PaymentIntentStateUnknown"
    and "find_job s (rj_ID job) = Inr job" and "next_uuid E s \<notin> rj_ID ` set (db_jobs s)"
  shows "open_job s' (rj_IntentID job) ReconciliationReasonUnknown \<and> db_intents s' = db_intents s"
proof (cases "rj_Reason job = ReconciliationReasonUnknown")
  case True
  with assms(1,2) have upd: "sql_update_job E (\<lambda>j. rj_ID j = rj_ID job)
      (\<lambda>j. (release_job ReconciliationStatusPending j)\<lparr>rj_DueAt := db_time due\<rparr>) s = Inr (job', s')"
    by (simp add: settle_job_def)
  note new = find_job_update [OF upd assms(3)]
  with True show ?thesis
    unfolding open_job_def list_ex_iff by (auto simp: release_job_def job_open_def intro!: bexI [OF _ new(2)])
next
  case False
  with assms(1,2) obtain s1 where
      upd: "sql_update_job E (\<lambda>j. rj_ID j = rj_ID job) (release_job ReconciliationStatusCompleted) s = Inr (job', s1)"
      and s': "s' = sql_insert_job_unless E (rj_IntentID job') ReconciliationReasonUnknown due s1"
    by (auto simp: settle_job_def)
  have x: "rj_IntentID job' = rj_IntentID job" "db_intents s1 = db_intents s"
    using find_job_update [OF upd assms(3)] by (simp_all add: release_job_def)
  have "next_uuid E s1 \<notin> rj_ID ` set (db_jobs s1)"
    using update_job_ids [OF upd] assms(4) by (auto simp: next_uuid_def release_job_def)
  from insert_unless_open [OF this] show ?thesis
    by (simp add: s' x) (simp add: sql_insert_job_unless_def Let_def drawn_def x)
qed

text \<open>A transition of an intent leaves the jobs alone.\<close>

definition jobs_kept :: "payment_db \<Rightarrow> payment_db \<Rightarrow> bool" where
  "jobs_kept s s' \<longleftrightarrow> db_jobs s' = db_jobs s \<and> db_seq s \<le> db_seq s'"

lemma jobs_kept_refl: "jobs_kept s s"
  by (simp add: jobs_kept_def)

lemma jobs_kept_trans: "jobs_kept r s \<Longrightarrow> jobs_kept s t \<Longrightarrow> jobs_kept r t"
  by (simp add: jobs_kept_def)

lemma jobs_kept_statements:
  "sql_update_intent E x f s = Inr (i, s') \<Longrightarrow> jobs_kept s s'"
  "sql_update_account E x g s = Inr (a, s') \<Longrightarrow> jobs_kept s s'"
  "sql_update_policy E p h s = Inr (u, s') \<Longrightarrow> jobs_kept s s'"
  "sql_insert_ledger E v s = Inr (e, s') \<Longrightarrow> jobs_kept s s'"
  "queue_topup_email i a now s = Inr s' \<Longrightarrow> jobs_kept s s'"
  by (auto simp: sql_update_intent_def sql_update_account_def sql_update_policy_def sql_insert_ledger_def
      queue_topup_email_def jobs_kept_def Let_def drawn_def split: option.splits if_splits)

lemma jobs_kept_entry: "insertLedgerEntryTx E a inp s = Inr (e, a', s') \<Longrightarrow> jobs_kept s s'"
  by (auto simp: insertLedgerEntryTx_def intro: jobs_kept_trans dest!: jobs_kept_statements)

lemma jobs_kept_success: "policy_after_success E i a now s = Inr (a', s') \<Longrightarrow> jobs_kept s s'"
  by (auto simp: policy_after_success_def Let_def split: if_splits sum.splits
      intro: jobs_kept_refl jobs_kept_trans dest!: jobs_kept_statements)

lemma jobs_kept_other: "policy_after_other E i st a s = Inr (a', s') \<Longrightarrow> jobs_kept s s'"
  by (auto simp: policy_after_other_def Let_def split: if_splits sum.splits
      intro: jobs_kept_refl jobs_kept_trans dest!: jobs_kept_statements)

lemma jobs_kept_transition: "transitionIntentTx E a i inp s = Inr (r, s') \<Longrightarrow> jobs_kept s s'"
  by (auto simp: transitionIntentTx_def Let_def jobs_kept_def [of s s'] split: if_splits
      dest!: jobs_kept_statements jobs_kept_entry jobs_kept_success jobs_kept_other)
     (auto simp: jobs_kept_def)

lemma finalize_new:
  assumes "FinalizeProviderAttempt E ctx inp s = Inr (r, s')" and "\<not> far_Duplicate r"
  obtains job x a i tr s0 s1 s2 job' due where "find_job s (fa_JobID inp) = Inr job"
    and "getIntentForUpdate s (rj_IntentID job) = Inr i"
    and "s0 = complete_attempt x (fa_Result inp) (fa_ResponseSHA256 inp) (now_or E (fa_Now inp)) due s"
    and "transitionIntentTx E a i \<lparr>ti_IntentID = pi_ID i, ti_ToState = pr_State (fa_Result inp),
           ti_ProviderTransactionReference = pr_ProviderTransactionReference (fa_Result inp),
           ti_Now = now_or E (fa_Now inp)\<rparr> s0 = Inr (tr, s1)"
    and "settle_job E job (fa_Result inp) due s1 = Inr (job', s2)" and "far_Transition r = Some tr"
    and "s' = (if pr_State (fa_Result inp) \<noteq> PaymentIntentStateUnknown
               then process_webhooks E (pi_ID i) (now_or E (fa_Now inp)) s2 else s2)"
    and "getAccountForUpdate E ctx s (pi_AccountID i) = Inr a"
  using assms by (auto simp: FinalizeProviderAttempt_def Let_def split: if_splits)

text \<open>(C26)
  An unknown outcome is never dropped: after an attempt is finalized as unknown the intent is in
  the unknown state and a job that asks the provider again is open for it. The hypothesis on
  identifiers is that \<^verbatim>\<open>gen_random_uuid()\<close> does not repeat the identifier of a job.
\<close>

theorem unknown_outcome_followed_up:
  assumes "FinalizeProviderAttempt E ctx inp s = Inr (r, s')" and "\<not> far_Duplicate r"
    and "pr_State (fa_Result inp) = PaymentIntentStateUnknown" and "fresh_job_ids E s"
  shows "\<exists>i. find_intent s' (pi_ID i) = Some i \<and> pi_State i = PaymentIntentStateUnknown \<and>
    map_option tir_Intent (far_Transition r) = Some i \<and> open_job s' (pi_ID i) ReconciliationReasonUnknown"
proof -
  obtain job x a i tr s0 s1 s2 job' due where job: "find_job s (fa_JobID inp) = Inr job"
    and i: "getIntentForUpdate s (rj_IntentID job) = Inr i"
    and s0: "s0 = complete_attempt x (fa_Result inp) (fa_ResponseSHA256 inp) (now_or E (fa_Now inp)) due s"
    and tr: "transitionIntentTx E a i \<lparr>ti_IntentID = pi_ID i, ti_ToState = pr_State (fa_Result inp),
           ti_ProviderTransactionReference = pr_ProviderTransactionReference (fa_Result inp),
           ti_Now = now_or E (fa_Now inp)\<rparr> s0 = Inr (tr, s1)"
    and settle: "settle_job E job (fa_Result inp) due s1 = Inr (job', s2)" and r: "far_Transition r = Some tr"
    and s': "s' = (if pr_State (fa_Result inp) \<noteq> PaymentIntentStateUnknown
               then process_webhooks E (pi_ID i) (now_or E (fa_Now inp)) s2 else s2)"
    by (rule finalize_new [OF assms(1,2)])
  have id: "pi_ID i = rj_IntentID job" "find_intent s0 (pi_ID i) = Some i"
    using intent_for_update [OF i] by (auto simp: s0 complete_attempt_def find_intent_def)
  from transition_leaves [OF tr id(2) refl] obtain i' where i': "find_intent s1 (pi_ID i) = Some i'" "tir_Intent tr = i'"
      "pi_State i' = PaymentIntentStateUnknown" using assms(3) by auto
  have kept: "db_jobs s1 = db_jobs s" "db_seq s \<le> db_seq s1"
    using jobs_kept_transition [OF tr] by (simp_all add: jobs_kept_def s0 complete_attempt_def)
  then have "next_uuid E s1 \<notin> rj_ID ` set (db_jobs s1)" using assms(4) by (simp add: next_uuid_def fresh_job_ids_def)
  moreover have "rj_ID job = fa_JobID inp" using job by (auto simp: find_job_def dest: find_Some_mem)
  then have "find_job s1 (rj_ID job) = Inr job" using job kept(1) by (simp add: find_job_def)
  ultimately have "open_job s2 (rj_IntentID job) ReconciliationReasonUnknown \<and> db_intents s2 = db_intents s1"
    by (intro settle_unknown [OF settle assms(3)])
  moreover have "pi_ID i' = pi_ID i" using i'(1) by (auto simp: find_intent_def dest: find_Some_mem)
  ultimately show ?thesis using i' id r s' assms(3) by (auto simp: find_intent_def)
qed

section \<open>Webhooks\<close>

lemma rejected_webhook_tables:
  assumes "RecordWebhook E ctx inp s = Inr (r, s')" and "rw_VerificationResult inp \<noteq> ''verified''"
  shows "db_intents s' = db_intents s" and "db_jobs s' = db_jobs s" and "db_ledger s' = db_ledger s"
    and "db_accounts s' = db_accounts s" and "db_attempts s' = db_attempts s"
  using assms by (auto simp: RecordWebhook_def Let_def drawn_def split: if_splits)

text \<open>A webhook whose signature was not verified is only filed: it changes no intent, no job, no
  ledger entry, no account and no attempt.
\<close>

theorem rejected_webhook_is_inert:
  assumes "RecordWebhook E ctx inp s = Inr (r, s')" and "rw_VerificationResult inp \<noteq> ''verified''"
  shows "db_intents s' = db_intents s \<and> db_jobs s' = db_jobs s \<and> db_ledger s' = db_ledger s \<and>
    db_accounts s' = db_accounts s \<and> db_attempts s' = db_attempts s \<and>
    (\<not> rwr_Duplicate r \<longrightarrow> wr_IntentID (rwr_Receipt r) = [] \<and> wr_ProcessingState (rwr_Receipt r) = ''quarantined'')"
  using assms by (auto simp: RecordWebhook_def Let_def drawn_def split: if_splits)

text \<open>What a verified event must agree on with the intent it is matched to.\<close>

definition event_matches :: "string \<Rightarrow> WebhookEvent \<Rightarrow> PaymentIntent \<Rightarrow> bool" where
  "event_matches provider ev i \<longleftrightarrow>
     pi_Provider i = provider \<and> pi_MerchantOrderReference i = TrimSpace (we_MerchantOrderReference ev) \<and>
     pi_AmountMinor i = we_AmountMinor ev \<and> pi_Currency i = we_Currency ev \<and> 0 < we_AmountMinor ev \<and>
     (TrimSpace (we_ProviderTransactionReference ev) = [] \<or>
      pi_ProviderTransactionReference i = TrimSpace (we_ProviderTransactionReference ev))"

lemma webhook_intent_matches:
  assumes wf: "distinct (map pi_ID (db_intents s))" and op: "webhook_intent E ctx provider ev s = Inr (i', s')"
  shows "event_matches provider ev i' \<and> find_intent s' (pi_ID i') = Some i' \<and> jobs_kept s s' \<and>
    (\<exists>i. find_intent s (pi_ID i') = Some i \<and> pi_State i' = pi_State i)"
proof -
  from op obtain i where i: "find (\<lambda>i. pi_Provider i = provider \<and>
        pi_MerchantOrderReference i = TrimSpace (we_MerchantOrderReference ev)) (db_intents s) = Some i"
      and agree: "pi_AmountMinor i = we_AmountMinor ev" "pi_Currency i = we_Currency ev" "0 < we_AmountMinor ev"
      and cases: "(i', s') = (i, s) \<and> (TrimSpace (we_ProviderTransactionReference ev) = [] \<or>
           pi_ProviderTransactionReference i = TrimSpace (we_ProviderTransactionReference ev)) \<or>
         sql_update_intent E (pi_ID i) (\<lambda>i. i\<lparr>pi_ProviderTransactionReference :=
           TrimSpace (we_ProviderTransactionReference ev)\<rparr>) s = Inr (i', s')"
    by (auto simp: webhook_intent_def Let_def split: if_splits)
  note mem = find_Some_mem [OF i]
  have found: "find_intent s (pi_ID i) = Some i"
    unfolding find_intent_def using wf mem by (auto intro: find_key_mem)
  from cases show ?thesis
  proof
    assume upd: "sql_update_intent E (pi_ID i) (\<lambda>i. i\<lparr>pi_ProviderTransactionReference :=
           TrimSpace (we_ProviderTransactionReference ev)\<rparr>) s = Inr (i', s')"
    from update_intent_row [OF upd] found have "i' = i\<lparr>pi_ProviderTransactionReference :=
        TrimSpace (we_ProviderTransactionReference ev), pi_UpdatedAt := env_now E\<rparr>" "find_intent s' (pi_ID i) = Some i'"
      by auto
    then show ?thesis using jobs_kept_statements(1) [OF upd] agree mem found by (auto simp: event_matches_def)
  qed (use found agree mem in \<open>auto simp: event_matches_def jobs_kept_refl\<close>)
qed

text \<open>(C33)
  A verified webhook is acted upon only when it matches a payment: its receipt names an intent of
  the provider with the order reference, amount and currency of the event and, when the event gives
  one, its transaction reference. The webhook does not move the intent itself; it opens a job that
  asks the provider.
\<close>

theorem verified_webhook_matches:
  assumes "reachable dg s" and "RecordWebhook E ctx inp s = Inr (r, s')" and "rw_VerificationResult inp = ''verified''"
    and "\<not> rwr_Duplicate r" and "fresh_job_ids E s"
  shows "\<exists>i i'. find_intent s (wr_IntentID (rwr_Receipt r)) = Some i \<and> find_intent s' (wr_IntentID (rwr_Receipt r)) = Some i' \<and>
    event_matches (NormalizeProvider (rw_Provider inp)) (rw_Event inp) i' \<and> pi_State i' = pi_State i \<and>
    open_job s' (wr_IntentID (rwr_Receipt r)) ReconciliationReasonWebhook"
proof -
  from assms(2-4) obtain i' s1 row where
      wi: "webhook_intent E ctx (NormalizeProvider (rw_Provider inp)) (rw_Event inp) s = Inr (i', s1)"
      and r: "wr_IntentID (rwr_Receipt r) = pi_ID i'"
      and s': "s' = sql_insert_job_unless E (pi_ID i') ReconciliationReasonWebhook (now_or E (rw_ReceivedAt inp))
        ((drawn s1)\<lparr>db_webhooks := db_webhooks s1 @ [row]\<rparr>)"
    by (auto simp: RecordWebhook_def Let_def split: if_splits)
  have "distinct (map pi_ID (db_intents s))"
    using reachable_wf [OF assms(1)] by (simp add: wf_books_def intents_ok_def)
  note m = webhook_intent_matches [OF this wi]
  have "next_uuid E ((drawn s1)\<lparr>db_webhooks := db_webhooks s1 @ [row]\<rparr>) \<notin> rj_ID ` set (db_jobs s1)"
    using m assms(5) by (simp add: next_uuid_def drawn_def jobs_kept_def fresh_job_ids_def)
  with insert_unless_open [of E "(drawn s1)\<lparr>db_webhooks := db_webhooks s1 @ [row]\<rparr>"]
  have "open_job s' (pi_ID i') ReconciliationReasonWebhook" by (simp add: s' drawn_def)
  moreover have "db_intents s' = db_intents s1" by (simp add: s' sql_insert_job_unless_def Let_def drawn_def)
  ultimately show ?thesis using m r by (auto simp: find_intent_def)
qed

section \<open>Failing cards\<close>

lemma update_policy_found:
  assumes upd: "sql_update_policy E (\<lambda>q. atp_ID q = atp_ID p) f s = Inr (u, s')" and ok: "policies_ok s"
    and p: "find (\<lambda>q. atp_AccountID q = x) (db_policies s) = Some p"
    and keep: "\<And>p. atp_ID (f p) = atp_ID p \<and> atp_AccountID (f p) = atp_AccountID p"
  shows "find (\<lambda>q. atp_AccountID q = x) (db_policies s') = Some ((f p)\<lparr>atp_UpdatedAt := env_now E\<rparr>)"
proof -
  note mem = find_Some_mem [OF p]
  have dist: "distinct (map atp_ID (db_policies s))" using ok by (simp add: policies_ok_def)
  with mem have "find (\<lambda>q. atp_ID q = atp_ID p) (db_policies s) = Some p" by (auto intro: find_key_mem)
  with upd have s': "db_policies s' =
      update_where (\<lambda>r. atp_ID r = atp_ID p) (\<lambda>_. (f p)\<lparr>atp_UpdatedAt := env_now E\<rparr>) (db_policies s)"
    by (auto simp: sql_update_policy_def Let_def split: option.splits)
  have "(f p)\<lparr>atp_UpdatedAt := env_now E\<rparr> \<in> set (db_policies s')"
    using mem by (auto simp: s' set_update_where image_iff)
  moreover have "policies_ok s'" by (rule policies_ok_update [OF upd ok keep])
  moreover have "atp_AccountID ((f p)\<lparr>atp_UpdatedAt := env_now E\<rparr>) = x" using keep mem by simp
  ultimately show ?thesis
    using find_key_mem [of atp_AccountID "db_policies s'" "(f p)\<lparr>atp_UpdatedAt := env_now E\<rparr>"]
    by (simp add: policies_ok_def)
qed

definition failure_counted :: "policy_row \<Rightarrow> policy_row \<Rightarrow> bool" where
  "failure_counted p p' \<longleftrightarrow> \<not> atp_Armed p' \<and> atp_ConsecutiveFailureCount p' = atp_ConsecutiveFailureCount p + 1 \<and>
     (atp_Enabled p' \<longleftrightarrow> atp_Enabled p \<and> atp_ConsecutiveFailureCount p < 2)"

lemma after_failure:
  assumes op: "policy_after_other E i st a s = Inr (a', s')" and ok: "policies_ok s"
    and st: "st = PaymentIntentStateFailed \<or> st = PaymentIntentStateCanceled"
    and p: "find (\<lambda>p. atp_AccountID p = ca_ID a) (db_policies s) = Some p" and gen: "pi_PolicyGeneration i = Some (atp_Generation p)"
  shows "(\<exists>p'. find (\<lambda>p. atp_AccountID p = ca_ID a) (db_policies s') = Some p' \<and> failure_counted p p') \<and>
    (2 \<le> atp_ConsecutiveFailureCount p \<and> ca_State a = AccountStateActive \<longrightarrow> ca_State a' = AccountStateAttentionRequired)"
proof -
  define f where "f = (\<lambda>q. q\<lparr>atp_ConsecutiveFailureCount := atp_ConsecutiveFailureCount p + 1,
    atp_Enabled := (if atp_ConsecutiveFailureCount p + 1 \<ge> 3 then False else atp_Enabled q),
    atp_Armed := False, atp_Version := atp_Version q + 1\<rparr> :: policy_row)"
  from op st p gen obtain u s1 where upd: "sql_update_policy E (\<lambda>q. atp_ID q = atp_ID p) f s = Inr (u, s1)"
      and rest: "if 2 \<le> atp_ConsecutiveFailureCount p \<and> ca_State a = AccountStateActive
        then sql_update_account E (ca_ID a) (\<lambda>a. a\<lparr>ca_State := AccountStateAttentionRequired\<rparr>) s1 = Inr (a', s')
        else (a', s') = (a, s1)"
    by (auto simp: policy_after_other_def getPolicyForUpdate_def scan_query_row Let_def f_def split: if_splits)
  have "find (\<lambda>p. atp_AccountID p = ca_ID a) (db_policies s1) = Some ((f p)\<lparr>atp_UpdatedAt := env_now E\<rparr>)"
    by (rule update_policy_found [OF upd ok p]) (simp add: f_def)
  moreover have "failure_counted p ((f p)\<lparr>atp_UpdatedAt := env_now E\<rparr>)" by (auto simp: failure_counted_def f_def)
  moreover have "db_policies s' = db_policies s1"
    using rest by (auto simp: sql_update_account_def Let_def split: if_splits option.splits)
  moreover have "2 \<le> atp_ConsecutiveFailureCount p \<and> ca_State a = AccountStateActive \<longrightarrow>
      ca_State a' = AccountStateAttentionRequired"
    using rest by (auto simp: sql_update_account_def Let_def split: if_splits option.splits)
  ultimately show ?thesis by auto
qed


section \<open>Tenants\<close>

text \<open>The scope a transaction runs under; an internal call has none.\<close>

fun op_scope :: "store_op \<Rightarrow> ctx" where
  "op_scope (OpEnsureAccount ctx _ _) = ctx"
| "op_scope (OpPostLedgerEntry ctx _) = ctx"
| "op_scope (OpTransitionIntent ctx _) = ctx"
| "op_scope (OpCreateManualTopUp ctx _) = ctx"
| "op_scope (OpCreateHostedTopUp ctx _ _) = ctx"
| "op_scope (OpCreateConsent ctx _) = ctx"
| "op_scope (OpCreatePaymentMethod ctx _) = ctx"
| "op_scope (OpPutPolicy ctx _) = ctx"
| "op_scope (OpRevokePaymentMethod ctx _) = ctx"
| "op_scope (OpDisablePolicy ctx _) = ctx"
| "op_scope (OpBeginAttempt ctx _) = ctx"
| "op_scope (OpFinalizeAttempt ctx _) = ctx"
| "op_scope (OpRecordReversal ctx _) = ctx"
| "op_scope (OpResolveReversal ctx _) = ctx"
| "op_scope (OpBindHistorical ctx _) = ctx"
| "op_scope _ = None"

definition authorized :: "env \<Rightarrow> Scope \<Rightarrow> payment_db \<Rightarrow> bool" where
  "authorized E scope s \<longleftrightarrow> LockAccount E (Some scope) s (sc_AccountID scope) = Inr ()"

lemma locked_authorized: "LockAccount E (Some scope) s x = Inr u \<Longrightarrow> authorized E scope s"
  by (auto simp: authorized_def LockAccount_def split: if_splits)

lemma account_authorized: "getAccountForUpdate E (Some scope) s x = Inr a \<Longrightarrow> authorized E scope s"
  by (auto simp: getAccountForUpdate_def dest: locked_authorized)

lemma authorized_owner:
  assumes "authorized E scope s"
  shows "\<exists>a p. find_account s (sc_AccountID scope) = Some a \<and> ca_OrganizationID a = sc_OrganizationID scope \<and>
    ca_State a \<noteq> AccountStateClosed \<and> current_period s (sc_AccountID scope) = Some p \<and>
    rp_OwnerUserID p = sc_UserID scope \<and> rp_OwnershipVersion p = sc_OwnershipVersion scope \<and>
    \<not> commit_pending s (sc_AccountID scope) \<and> \<not> closure_active s (sc_AccountID scope)"
  using assms by (auto simp: authorized_def LockAccount_def split: if_splits option.splits)

text \<open>Every operation locks its account under the scope before it does anything else.\<close>

lemma EnsureCommercialAccount_authorized:
  "EnsureCommercialAccount E (Some scope) org c s = Inr (a, new, s') \<Longrightarrow> authorized E scope s"
  by (auto simp: EnsureCommercialAccount_def GetCommercialAccount_def split: if_splits dest: account_authorized)

lemma PostLedgerEntry_authorized:
  "PostLedgerEntry E (Some scope) inp s = Inr (r, s') \<Longrightarrow> authorized E scope s"
  by (auto simp: PostLedgerEntry_def Let_def split: if_splits dest: account_authorized)

lemma TransitionIntent_authorized:
  "TransitionIntent E (Some scope) inp s = Inr (r, s') \<Longrightarrow> authorized E scope s"
  by (auto simp: TransitionIntent_def Let_def split: if_splits dest: account_authorized)

lemma CreateManualTopUp_authorized:
  "CreateManualTopUp E (Some scope) inp s = Inr (r, s') \<Longrightarrow> authorized E scope s"
  by (auto simp: CreateManualTopUp_def topup_account_def Let_def split: if_splits dest: account_authorized)

lemma CreateHostedTopUp_authorized:
  "CreateHostedTopUp E (Some scope) rnd inp s = Inr (r, s') \<Longrightarrow> authorized E scope s"
  by (auto simp: CreateHostedTopUp_def topup_account_def Let_def split: if_splits dest: account_authorized)

lemma CreateConsent_authorized:
  "CreateConsent E (Some scope) inp s = Inr (r, s') \<Longrightarrow> authorized E scope s"
  by (auto simp: CreateConsent_def Let_def split: if_splits dest: account_authorized)

lemma CreatePaymentMethod_authorized:
  "CreatePaymentMethod E (Some scope) inp s = Inr (r, s') \<Longrightarrow> authorized E scope s"
  by (auto simp: CreatePaymentMethod_def Let_def split: if_splits dest: account_authorized)

lemma PutAutoTopUpPolicy_authorized:
  "PutAutoTopUpPolicy E (Some scope) inp s = Inr (r, s') \<Longrightarrow> authorized E scope s"
  by (auto simp: PutAutoTopUpPolicy_def Let_def split: if_splits dest: account_authorized)

lemma RevokePaymentMethod_authorized:
  "RevokePaymentMethod E (Some scope) inp s = Inr (r, s') \<Longrightarrow> authorized E scope s"
  by (auto simp: RevokePaymentMethod_def Let_def split: if_splits dest: account_authorized)

lemma DisableAutoTopUpPolicy_authorized:
  "DisableAutoTopUpPolicy E (Some scope) inp s = Inr (r, s') \<Longrightarrow> authorized E scope s"
  by (auto simp: DisableAutoTopUpPolicy_def Let_def split: if_splits dest: account_authorized)

lemma BeginProviderAttempt_authorized:
  "BeginProviderAttempt E (Some scope) inp s = Inr (r, s') \<Longrightarrow> authorized E scope s"
  by (auto simp: BeginProviderAttempt_def Let_def split: if_splits dest: account_authorized)

lemma FinalizeProviderAttempt_authorized:
  assumes "FinalizeProviderAttempt E (Some scope) inp s = Inr (r, s')" and "s' \<noteq> s"
  shows "authorized E scope s"
proof -
  have "\<not> far_Duplicate r"
    using assms by (auto simp: FinalizeProviderAttempt_def Let_def split: if_splits)
  then show ?thesis by (rule finalize_new [OF assms(1)]) (rule account_authorized)
qed

lemma BindHistorical_authorized:
  "BindHistoricalPaymentResponsibility E (Some scope) inp s = Inr s' \<Longrightarrow> authorized E scope s"
  by (auto simp: BindHistoricalPaymentResponsibility_def split: if_splits dest: account_authorized)

lemma RecordProviderReversal_authorized:
  "RecordProviderReversal dg E (Some scope) inp s = Inr (r, s') \<Longrightarrow> authorized E scope s"
  by (auto simp: RecordProviderReversal_def Let_def split: if_splits dest: account_authorized)

lemma ResolveProviderReversal_authorized:
  "ResolveProviderReversal E (Some scope) inp s = Inr (r, s') \<Longrightarrow> authorized E scope s"
  by (auto simp: ResolveProviderReversal_def Let_def split: if_splits dest: account_authorized)

lemmas operations_authorized = BindHistorical_authorized
  EnsureCommercialAccount_authorized PostLedgerEntry_authorized TransitionIntent_authorized CreateManualTopUp_authorized CreateHostedTopUp_authorized CreateConsent_authorized CreatePaymentMethod_authorized PutAutoTopUpPolicy_authorized RevokePaymentMethod_authorized DisableAutoTopUpPolicy_authorized BeginProviderAttempt_authorized FinalizeProviderAttempt_authorized RecordProviderReversal_authorized ResolveProviderReversal_authorized

lemma exec_authorized:
  assumes "exec dg E op s = Inr s'" and "op_scope op = Some scope" and "s' \<noteq> s"
  shows "authorized E scope s"
  using assms by (cases op) (auto simp: committed_Inr_iff dest: operations_authorized)


section \<open>The properties on the scenario\<close>

definition db_due :: payment_db where
  "db_due = run_ops demo_digest [(demo_env 101, OpPostLedgerEntry None demo_debit)] db_configured"

definition claims_view :: "payment_db \<Rightarrow> (string list \<times> string list) option" where
  "claims_view s = (case ClaimPaymentJobs (demo_env 110) [] (110 * second_ns) (80 * second_ns) ''worker'' 10 s of
      Inl _ \<Rightarrow> None
    | Inr (js, s') \<Rightarrow>
        (case ClaimPaymentJobs (demo_env 120) [] (120 * second_ns) (90 * second_ns) ''other'' 10 s' of
           Inl _ \<Rightarrow> None
         | Inr (js', _) \<Rightarrow> Some (map rj_ID js, map rj_ID js')))"

lemma demo_claims: "claims_view db_due = Some ([demo_uuid 8], [])"
  by code_simp


definition demo_begin_other :: BeginProviderAttemptInput where
  "demo_begin_other = demo_begin\<lparr>ba_LeaseOwner := ''other''\<rparr>"

definition demo_finalize_other :: FinalizeProviderAttemptInput where
  "demo_finalize_other = demo_finalize\<lparr>fa_LeaseOwner := ''other''\<rparr>"

definition demo_unknown :: FinalizeProviderAttemptInput where
  "demo_unknown = demo_finalize\<lparr>fa_Result := demo_result\<lparr>pr_State := PaymentIntentStateUnknown\<rparr>\<rparr>"

definition demo_event :: "string \<Rightarrow> RecordWebhookInput" where
  "demo_event result = \<lparr>rw_Provider = ''simulator'', rw_PayloadSHA256 = demo_sha, rw_VerificationResult = result,
     rw_Event = \<lparr>we_ProviderEventReference = ''evt-9'', we_EventType = ''payment'',
       we_MerchantOrderReference = ''rtk_'' @ replicate 26 CHR ''a'', we_ProviderTransactionReference = ''tx-1'',
       we_AmountMinor = 1000, we_Currency = TWD, we_State = PaymentIntentStateSucceeded, we_ProviderCode = ''ok''\<rparr>,
     rw_ReceivedAt = 125 * second_ns\<rparr>"

text \<open>What the store answers while the charge is under way, evaluated once.\<close>

definition answers_view where
  "answers_view s =
     (list_all (\<lambda>j. \<not> held (demo_uuid 8) ''other'' j) (db_jobs s),
      case FinalizeProviderAttempt (demo_env 130) None demo_unknown s of
        Inl _ \<Rightarrow> None | Inr (r, _) \<Rightarrow> Some (far_Duplicate r),
      map rj_ID (db_jobs s), db_seq s,
      case RecordWebhook (demo_env 125) None (demo_event ''verified'') s of
        Inl _ \<Rightarrow> None | Inr (r, _) \<Rightarrow> Some (rwr_Duplicate r),
      case RecordWebhook (demo_env 125) None (demo_event ''rejected'') s of
        Inl _ \<Rightarrow> None | Inr (r, _) \<Rightarrow> Some (rwr_Duplicate r),
      case TransitionIntent (demo_env 140) None demo_fail s of
        Inl _ \<Rightarrow> None | Inr (r, _) \<Rightarrow> Some (tir_Duplicate r),
      map_option (\<lambda>i. (pi_Reason i, pi_AccountID i, pi_PolicyGeneration i)) (find_intent s (demo_uuid 7)),
      map_option ca_ID (find_account s (demo_uuid 0)),
      map_option (\<lambda>p. (atp_Generation p, atp_ConsecutiveFailureCount p))
        (find (\<lambda>p. atp_AccountID p = demo_uuid 0) (db_policies s)))"

lemma demo_answers:
  "answers_view db_charging =
     (True, Some False, [demo_uuid 8], 10, Some False, Some False, Some False,
      Some (PaymentIntentReasonAutoTopUp, demo_uuid 0, Some 1), Some (demo_uuid 0), Some (1, 0))"
  by code_simp

lemmas demo_facts_charging = demo_answers [unfolded answers_view_def prod.inject]

lemma demo_other_not_held: "list_all (\<lambda>j. \<not> held (demo_uuid 8) ''other'' j) (db_jobs db_charging)"
  using demo_facts_charging by blast

theorem lease_is_required_witness:
  "(\<exists>e. FinalizeProviderAttempt (demo_env 130) None demo_finalize_other db_charging = Inl e) \<and>
   CompletePaymentJob (demo_env 130) (demo_uuid 8) ''other'' db_charging = Inl ErrLeaseConflict"
  using lease_is_required [OF demo_other_not_held, of demo_begin_other demo_finalize_other "demo_env 130" None]
  by (simp add: demo_begin_other_def demo_finalize_other_def demo_begin_def demo_finalize_def)

lemma demo_uuid_inj: "demo_uuid m = demo_uuid n \<longleftrightarrow> m = n"
proof
  assume "demo_uuid m = demo_uuid n"
  from arg_cong [OF this, of length] show "m = n" by (simp add: demo_uuid_def)
qed simp

lemma demo_fresh: "fresh_job_ids (demo_env t) db_charging"
proof -
  have "rj_ID ` set (db_jobs db_charging) = {demo_uuid 8}" "db_seq db_charging = 10"
    using demo_facts_charging by (simp_all flip: set_map)
  then show ?thesis by (auto simp: fresh_job_ids_def demo_env_def demo_uuid_inj)
qed

theorem unknown_outcome_followed_up_witness:
  "\<exists>r s' (i :: PaymentIntent). FinalizeProviderAttempt (demo_env 130) None demo_unknown db_charging = Inr (r, s') \<and>
     pi_State i = PaymentIntentStateUnknown \<and> open_job s' (pi_ID i) ReconciliationReasonUnknown"
proof -
  from demo_facts_charging obtain r s' where
      op: "FinalizeProviderAttempt (demo_env 130) None demo_unknown db_charging = Inr (r, s')" "\<not> far_Duplicate r"
    by (auto split: sum.splits prod.splits)
  have "pr_State (fa_Result demo_unknown) = PaymentIntentStateUnknown" by (simp add: demo_unknown_def)
  from unknown_outcome_followed_up [OF op this demo_fresh] op(1) show ?thesis by blast
qed

theorem verified_webhook_matches_witness:
  "\<exists>r s'. RecordWebhook (demo_env 125) None (demo_event ''verified'') db_charging = Inr (r, s') \<and>
     open_job s' (wr_IntentID (rwr_Receipt r)) ReconciliationReasonWebhook"
proof -
  from demo_facts_charging obtain r s' where
      op: "RecordWebhook (demo_env 125) None (demo_event ''verified'') db_charging = Inr (r, s')" "\<not> rwr_Duplicate r"
    by (auto split: sum.splits prod.splits)
  have "rw_VerificationResult (demo_event ''verified'') = ''verified''" by (simp add: demo_event_def)
  from verified_webhook_matches [OF demo_reachable(2) op(1) this op(2) demo_fresh] op(1) show ?thesis by blast
qed

theorem rejected_webhook_is_inert_witness:
  "\<exists>r s'. RecordWebhook (demo_env 125) None (demo_event ''rejected'') db_charging = Inr (r, s') \<and>
     db_intents s' = db_intents db_charging \<and> wr_ProcessingState (rwr_Receipt r) = ''quarantined''"
proof -
  from demo_facts_charging obtain r s' where
      op: "RecordWebhook (demo_env 125) None (demo_event ''rejected'') db_charging = Inr (r, s')" "\<not> rwr_Duplicate r"
    by (auto split: sum.splits prod.splits)
  have "rw_VerificationResult (demo_event ''rejected'') \<noteq> ''verified''" by (simp add: demo_event_def)
  from rejected_webhook_is_inert [OF op(1) this] op show ?thesis by blast
qed



end
