(* ===== verification/Worker_Safety.thy ===== *)
theory Worker_Safety
  imports Payment_Worker Payment_Safety Job_Behaviour "HOL-Library.Multiset"
begin

text \<open>
  Any number of workers, interleaved with each other and with every other transaction of the store,
  crashing at any point: the provider is asked to charge for an intent at most once, and for what
  the intent says. What a single job does to its intent, and what webhooks return.
\<close>

section \<open>The stages as transactions\<close>

lemma good_run: "good_env E \<Longrightarrow> exec dg E op s = Inr s' \<Longrightarrow> (store_step dg)\<^sup>*\<^sup>* s s'"
  by (blast intro: store_step.transaction)

lemma begin_run: "good_env E \<Longrightarrow> BeginProviderAttempt E ctx inp s = Inr (w, s') \<Longrightarrow> (store_step dg)\<^sup>*\<^sup>* s s'"
  by (rule good_run [of E dg "OpBeginAttempt ctx inp"]) (simp_all add: committed_def)

lemma complete_run: "good_env E \<Longrightarrow> CompletePaymentJob E x own s = Inr s' \<Longrightarrow> (store_step dg)\<^sup>*\<^sup>* s s'"
  by (rule good_run [of E dg "OpCompleteJob x own"]) simp_all

lemma digest_run: "good_env E \<Longrightarrow> setRequestDigest h x v s = Inr s' \<Longrightarrow> (store_step dg)\<^sup>*\<^sup>* s s'"
  by (rule good_run [of E dg "OpSetDigest x (ho_digestJSON h v)"]) (simp_all add: setRequestDigest_def)

lemma finalize_attempt_run:
  "good_env E \<Longrightarrow> FinalizeProviderAttempt E ctx inp s = Inr (r, s') \<Longrightarrow> (store_step dg)\<^sup>*\<^sup>* s s'"
  by (rule good_run [of E dg "OpFinalizeAttempt ctx inp"]) (simp_all add: committed_def)

lemma finalize_run: "good_env E \<Longrightarrow> finalize svc h E w result s = Inr (r, s') \<Longrightarrow> (store_step dg)\<^sup>*\<^sup>* s s'"
  unfolding finalize_def Let_def by (rule finalize_attempt_run)

lemma begin_job_run: "good_env E \<Longrightarrow> begin_job svc E job s = (st, s') \<Longrightarrow> (store_step dg)\<^sup>*\<^sup>* s s'"
  by (auto simp: begin_job_def split: sum.splits if_splits option.splits intro: begin_run complete_run)

lemma prepare_job_run: "good_env E \<Longrightarrow> prepare_job svc h st s = (st', s') \<Longrightarrow> (store_step dg)\<^sup>*\<^sup>* s s'"
  by (cases st) (auto simp: recover_job_def charge_def query_def Let_def split: sum.splits if_splits intro: digest_run)

lemma finish_job_run: "good_env E \<Longrightarrow> finish_job svc h E st s = (r, s') \<Longrightarrow> (store_step dg)\<^sup>*\<^sup>* s s'"
  by (cases st) (auto split: sum.splits intro: finalize_run)

section \<open>Charges\<close>

text \<open>What a stage is about to charge, and what a call has charged: intent, amount and currency.\<close>

type_synonym bill = "string \<times> int \<times> Currency"

fun stage_charge :: "stage \<Rightarrow> bill option" where
  "stage_charge (Prepare operation _ work) =
     (if operation = ProviderOperationCharge
      then Some (pi_ID (aw_Intent work), pi_AmountMinor (aw_Intent work), pi_Currency (aw_Intent work)) else None)"
| "stage_charge (CallCharge _ _ r) = Some (cq_IntentID r, cq_AmountMinor r, cq_Currency r)"
| "stage_charge _ = None"

fun call_charge :: "provider_call \<Rightarrow> bill option" where
  "call_charge (Charged r) = Some (cq_IntentID r, cq_AmountMinor r, cq_Currency r)"
| "call_charge (Queried _) = None"

definition owed :: "payment_db \<Rightarrow> bill \<Rightarrow> bool" where
  "owed s b \<longleftrightarrow> (case b of (x, n, c) \<Rightarrow> \<exists>i. find_intent s x = Some i \<and> pi_AmountMinor i = n \<and> pi_Currency i = c)"

lemma owed_grows: "owed s b \<Longrightarrow> books_grow (books_of s) (books_of s') \<Longrightarrow> owed s' b"
  unfolding owed_def books_grow_def find_intent_books further_def by (cases b) fastforce

lemma prepare_charge:
  "prepare_job svc h st s = (st', s') \<Longrightarrow> stage_charge st' = None \<or> stage_charge st' = stage_charge st"
  by (cases st) (auto simp: recover_job_def charge_def query_def Let_def charge_request_def split: sum.splits if_splits)

lemma call_once:
  "call_provider k st = (st', cs) \<Longrightarrow>
     stage_charge st' = stage_charge st \<and> cs = [] \<or>
     stage_charge st' = None \<and> map call_charge cs = [stage_charge st]"
  by (cases st) (auto split: sum.splits)

text \<open>A fresh attempt at a charge is recorded for the intent that comes with the work.\<close>

lemma begin_new:
  assumes "BeginProviderAttempt E ctx inp s = Inr (w, s')" and "\<not> aw_RecoverIncompleteAttempt w"
  shows "attempt_keys s' = attempt_keys s @ [(pi_ID (aw_Intent w), ba_Operation inp)] \<and>
    find_intent s' (pi_ID (aw_Intent w)) = Some (aw_Intent w)"
proof -
  from assms obtain y i job i' s1 n now at where i: "getIntentForUpdate s y = Inr i"
      and bo: "begin_operation E job i (ba_Operation inp) s = Inr (i', s1)"
      and ins: "sql_insert_attempt E (pi_AccountID i') (pi_ID i') (ba_Operation inp) n now s1 = Inr (at, s')"
      and w: "aw_Intent w = i'"
    by (auto simp: BeginProviderAttempt_def Let_def split: if_splits option.splits)
  have "attempt_keys s1 = attempt_keys s"
    using bo by (auto simp: begin_operation_def split: if_splits dest: attempt_keys_update_intent)
  moreover have "attempt_keys s' = attempt_keys s1 @ [(pi_ID i', ba_Operation inp)]" "db_intents s' = db_intents s1"
    using ins by (auto simp: sql_insert_attempt_def Let_def attempt_keys_def attempt_key_def drawn_def split: if_splits)
  moreover have "find_intent s1 (pi_ID i') = Some i'"
  proof (cases "ba_Operation inp = ProviderOperationCharge")
    case True
    with bo obtain ref where upd: "sql_update_intent E (pi_ID i) (\<lambda>i. i\<lparr>pi_State := PaymentIntentStateProcessing,
        pi_MerchantOrderReference := ref\<rparr>) s = Inr (i', s1)"
      by (auto simp: begin_operation_def split: if_splits)
    show ?thesis
    proof (rule update_intent_row [OF upd])
      fix j assume "pi_ID j = pi_ID i" and "find_intent s1 (pi_ID i) = Some i'"
        and "i' = j\<lparr>pi_State := PaymentIntentStateProcessing, pi_MerchantOrderReference := ref\<rparr>\<lparr>pi_UpdatedAt := env_now E\<rparr>"
      then show ?thesis by simp
    qed simp
  next
    case False
    with bo have "i' = i" "s1 = s" by (auto simp: begin_operation_def split: if_splits)
    then show ?thesis using intent_for_update [OF i] by simp
  qed
  ultimately show ?thesis by (simp add: w find_intent_def)
qed

lemma charges_append: "attempt_keys s' = attempt_keys s @ ks \<Longrightarrow> charges x s' = charges x s + count_list ks (x, ProviderOperationCharge)"
  by (simp add: charges_def)

lemma charges_step: "store_step dg s s' \<Longrightarrow> charges x s \<le> charges x s'"
proof (erule store_stepE)
  fix E op assume ex: "exec dg E op s = Inr s'"
  consider "is_fence_op op" | "is_begin_op op" | "\<not> is_fence_op op" "\<not> is_begin_op op" by blast
  then show "charges x s \<le> charges x s'"
  proof cases
    case 2
    with ex obtain ctx inp w where op: "BeginProviderAttempt E ctx inp s = Inr (w, s')"
      by (cases op) (auto simp: committed_Inr_iff)
    show ?thesis
    proof (cases "attempt_keys s' = attempt_keys s")
      case False
      from begin_charge [OF op False] show ?thesis by (metis charges_append le_add1)
    qed (simp add: charges_def)
  next
    case 3
    then show ?thesis using att.P_exec_reversals [OF ex refl] by (simp add: charges_def)
  qed (use ex in \<open>cases op; auto simp: charges_def attempt_keys_def\<close>)
qed

lemma charges_run: "(store_step dg)\<^sup>*\<^sup>* s s' \<Longrightarrow> charges x s \<le> charges x s'"
  by (induction rule: rtranclp_induct) (auto dest: charges_step intro: le_trans)

lemma begin_job_charges:
  assumes "begin_job svc E job s = (st, s')" and "stage_charge st = Some b"
  shows "charges (fst b) s' = charges (fst b) s + 1 \<and> owed s' b"
proof -
  from assms obtain w provider where
      op: "BeginProviderAttempt E None \<lparr>ba_JobID = rj_ID job, ba_LeaseOwner = sv_leaseOwner svc,
             ba_Operation = job_operation job, ba_Now = env_clock E\<rparr> s = Inr (w, s')"
      and new: "\<not> aw_RecoverIncompleteAttempt w" and st: "st = Prepare (job_operation job) provider w"
    by (auto simp: begin_job_def split: sum.splits if_splits option.splits)
  with assms(2) begin_new [OF op new] show ?thesis
    by (auto simp: owed_def charges_append split: if_splits)
qed

section \<open>Interleaved workers\<close>

record worker_system =
  wk_db :: payment_db
  wk_jobs :: "stage multiset"
  wk_calls :: "provider_call list"

inductive worker_step :: "(RecordProviderReversalInput \<Rightarrow> string) \<Rightarrow> worker_system \<Rightarrow> worker_system \<Rightarrow> bool" for dg where
  other: "store_step dg (wk_db w) s \<Longrightarrow> worker_step dg w (w\<lparr>wk_db := s\<rparr>)"
| begins: "good_env E \<Longrightarrow> begin_job svc E job (wk_db w) = (st, s) \<Longrightarrow>
    worker_step dg w (w\<lparr>wk_db := s, wk_jobs := add_mset st (wk_jobs w)\<rparr>)"
| prepares: "wk_jobs w = add_mset st js \<Longrightarrow> good_env E \<Longrightarrow> prepare_job svc h st (wk_db w) = (st', s) \<Longrightarrow>
    worker_step dg w (w\<lparr>wk_db := s, wk_jobs := add_mset st' js\<rparr>)"
| calls: "wk_jobs w = add_mset st js \<Longrightarrow> call_provider k st = (st', cs) \<Longrightarrow>
    worker_step dg w (w\<lparr>wk_jobs := add_mset st' js, wk_calls := wk_calls w @ cs\<rparr>)"
| finishes: "wk_jobs w = add_mset st js \<Longrightarrow> good_env E \<Longrightarrow> finish_job svc h E st (wk_db w) = (r, s) \<Longrightarrow>
    worker_step dg w (w\<lparr>wk_db := s, wk_jobs := js\<rparr>)"
| crashes: "wk_jobs w = add_mset st js \<Longrightarrow> worker_step dg w (w\<lparr>wk_jobs := js\<rparr>)"

definition idle :: worker_system where
  "idle = \<lparr>wk_db = empty_db, wk_jobs = {#}, wk_calls = []\<rparr>"

text \<open>The charges of a system for an intent: those made and those under way.\<close>

definition billed :: "string \<Rightarrow> bill option \<Rightarrow> nat" where
  "billed x b = (case b of None \<Rightarrow> 0 | Some (y, _, _) \<Rightarrow> if y = x then 1 else 0)"

definition calls_for :: "string \<Rightarrow> provider_call list \<Rightarrow> nat" where
  "calls_for x cs = (\<Sum>c\<leftarrow>cs. billed x (call_charge c))"

definition under_way :: "string \<Rightarrow> stage multiset \<Rightarrow> nat" where
  "under_way x js = (\<Sum>st\<in>#js. billed x (stage_charge st))"

definition bills :: "stage multiset \<Rightarrow> provider_call list \<Rightarrow> bill set" where
  "bills js cs = {b. Some b \<in> stage_charge ` set_mset js \<union> call_charge ` set cs}"

definition worker_inv :: "(RecordProviderReversalInput \<Rightarrow> string) \<Rightarrow> worker_system \<Rightarrow> bool" where
  "worker_inv dg w \<longleftrightarrow> reachable dg (wk_db w) \<and>
     (\<forall>x. calls_for x (wk_calls w) + under_way x (wk_jobs w) \<le> charges x (wk_db w)) \<and>
     (\<forall>b \<in> bills (wk_jobs w) (wk_calls w). owed (wk_db w) b)"

lemma under_way_add [simp]: "under_way x (add_mset st js) = billed x (stage_charge st) + under_way x js"
  by (simp add: under_way_def)

lemma calls_for_append [simp]: "calls_for x (cs @ ds) = calls_for x cs + calls_for x ds"
  by (simp add: calls_for_def)

lemma calls_for_once: "map call_charge cs = [b] \<Longrightarrow> calls_for x cs = billed x b"
proof -
  assume "map call_charge cs = [b]"
  then obtain c where "cs = [c]" "call_charge c = b" by (cases cs) auto
  then show ?thesis by (simp add: calls_for_def)
qed

text \<open>A run of store transactions keeps what the workers rely on.\<close>

lemma worker_inv_run:
  assumes inv: "worker_inv dg w" and run: "(store_step dg)\<^sup>*\<^sup>* (wk_db w) s"
  shows "reachable dg s" and "charges x (wk_db w) \<le> charges x s" and "owed (wk_db w) b \<Longrightarrow> owed s b"
proof -
  show "reachable dg s" using inv run by (auto simp: worker_inv_def intro: rtranclp_trans)
  show "charges x (wk_db w) \<le> charges x s" by (rule charges_run [OF run])
  have "books_grow (books_of (wk_db w)) (books_of s)"
    using store.runs_grow [OF run reachable_wf [of dg]] inv by (simp add: worker_inv_def)
  then show "owed (wk_db w) b \<Longrightarrow> owed s b" by (rule owed_grows [rotated])
qed

lemma worker_inv_db:
  assumes inv: "worker_inv dg w" and run: "(store_step dg)\<^sup>*\<^sup>* (wk_db w) s"
    and fewer: "\<And>x. under_way x js \<le> under_way x (wk_jobs w)" and "bills js (wk_calls w) \<subseteq> bills (wk_jobs w) (wk_calls w)"
  shows "worker_inv dg (w\<lparr>wk_db := s, wk_jobs := js\<rparr>)"
proof -
  have "calls_for x (wk_calls w) + under_way x js \<le> charges x s" for x
    using inv fewer [of x] worker_inv_run(2) [OF inv run, of x] unfolding worker_inv_def
    by (meson add_left_mono le_trans)
  then show ?thesis
    using inv worker_inv_run(1,3) [OF inv run] assms(4) by (auto simp: worker_inv_def)
qed

lemma worker_inv_begin:
  assumes inv: "worker_inv dg w" and E: "good_env E" and bj: "begin_job svc E job (wk_db w) = (st, s)"
  shows "worker_inv dg (w\<lparr>wk_db := s, wk_jobs := add_mset st (wk_jobs w)\<rparr>)"
proof -
  note run = begin_job_run [OF E bj]
  have old: "calls_for x (wk_calls w) + under_way x (wk_jobs w) \<le> charges x (wk_db w)" for x
    using inv by (simp add: worker_inv_def)
  have "calls_for x (wk_calls w) + (billed x (stage_charge st) + under_way x (wk_jobs w)) \<le> charges x s" for x
  proof (cases "billed x (stage_charge st) = 0")
    case True
    then show ?thesis using old [of x] worker_inv_run(2) [OF inv run, of x] by simp
  next
    case False
    then obtain n c where "stage_charge st = Some (x, n, c)" "billed x (stage_charge st) = 1"
      by (auto simp: billed_def split: option.splits if_splits)
    with begin_job_charges [OF bj] old [of x] show ?thesis by auto
  qed
  moreover have "owed s b" if "stage_charge st = Some b" for b using begin_job_charges [OF bj that] by simp
  moreover have "bills (add_mset st (wk_jobs w)) (wk_calls w) =
      bills (wk_jobs w) (wk_calls w) \<union> {b. stage_charge st = Some b}" by (auto simp: bills_def)
  ultimately show ?thesis
    using inv worker_inv_run(1,3) [OF inv run] by (auto simp: worker_inv_def)
qed

lemma worker_inv_call:
  assumes inv: "worker_inv dg w" and js: "wk_jobs w = add_mset st js" and cp: "call_provider k st = (st', cs)"
  shows "worker_inv dg (w\<lparr>wk_jobs := add_mset st' js, wk_calls := wk_calls w @ cs\<rparr>)"
  using call_once [OF cp]
proof
  assume "stage_charge st' = stage_charge st \<and> cs = []"
  with inv js show ?thesis by (simp add: worker_inv_def bills_def)
next
  assume once: "stage_charge st' = None \<and> map call_charge cs = [stage_charge st]"
  then obtain c where c: "cs = [c]" "call_charge c = stage_charge st" by (cases cs) auto
  have "calls_for x cs = billed x (stage_charge st)" for x using once by (simp add: calls_for_once)
  moreover have "billed x None = 0" for x by (simp add: billed_def)
  moreover have "bills (add_mset st' js) (wk_calls w @ cs) = bills (wk_jobs w) (wk_calls w)"
    using once c js by (auto simp: bills_def)
  ultimately show ?thesis using inv js once by (simp add: worker_inv_def ac_simps)
qed

lemma worker_inv_step:
  assumes "worker_step dg w w'" and inv: "worker_inv dg w"
  shows "worker_inv dg w'"
  using assms(1)
proof cases
  case (other s)
  with worker_inv_db [OF inv r_into_rtranclp, of s "wk_jobs w"] show ?thesis by auto
next
  case (begins E svc job st s)
  then show ?thesis using worker_inv_begin [OF inv] by blast
next
  case (prepares st js E svc h st' s)
  have "billed x (stage_charge st') \<le> billed x (stage_charge st)" for x
    using prepare_charge [OF prepares(4)] by (auto simp: billed_def)
  moreover have "bills (add_mset st' js) (wk_calls w) \<subseteq> bills (wk_jobs w) (wk_calls w)"
    using prepare_charge [OF prepares(4)] prepares(2) by (auto simp: bills_def)
  ultimately show ?thesis
    using prepares(1,2) worker_inv_db [OF inv prepare_job_run [OF prepares(3,4)], of "add_mset st' js"] by simp
next
  case (calls st js k st' cs)
  then show ?thesis using worker_inv_call [OF inv] by blast
next
  case (finishes st js E svc h r s)
  then show ?thesis
    using worker_inv_db [OF inv finish_job_run [OF finishes(3,4)], of js] by (auto simp: bills_def)
next
  case (crashes st js)
  then show ?thesis using worker_inv_db [OF inv rtranclp.rtrancl_refl, of js] by (auto simp: bills_def)
qed

lemma workers_inv: "(worker_step dg)\<^sup>*\<^sup>* idle w \<Longrightarrow> worker_inv dg w"
proof (induction rule: rtranclp_induct)
  case base
  then show ?case by (simp add: worker_inv_def idle_def calls_for_def under_way_def bills_def)
qed (rule worker_inv_step)

text \<open>(C23)
  The customer is charged once and for the right amount. Whatever workers run, in whatever order
  their transactions and calls interleave with each other and with the rest of the store, and
  wherever they crash, the provider is asked to charge for an intent at most once, and the request
  names an intent of the store with that amount and currency.
\<close>

theorem provider_charged_at_most_once:
  assumes "(worker_step dg)\<^sup>*\<^sup>* idle w"
  shows "calls_for x (wk_calls w) \<le> 1 \<and>
    (\<forall>r. Charged r \<in> set (wk_calls w) \<longrightarrow> (\<exists>i. find_intent (wk_db w) (cq_IntentID r) = Some i \<and>
       pi_AmountMinor i = cq_AmountMinor r \<and> pi_Currency i = cq_Currency r))"
proof -
  have inv: "worker_inv dg w" by (rule workers_inv [OF assms])
  then have "charges x (wk_db w) \<le> 1" using reachable_charge_inv by (auto simp: worker_inv_def charge_inv_def)
  with inv have "calls_for x (wk_calls w) \<le> 1" unfolding worker_inv_def by (meson add_leD1 le_trans)
  moreover have "owed (wk_db w) (cq_IntentID r, cq_AmountMinor r, cq_Currency r)" if "Charged r \<in> set (wk_calls w)" for r
    using inv that by (force simp: worker_inv_def bills_def intro: rev_image_eqI)
  ultimately show ?thesis by (simp add: owed_def)
qed

text \<open>Processing a job to the end is one way for its stages to run.\<close>

lemma process_job_steps:
  assumes "ProcessJob svc h k Es job (wk_db w) = (r, cs, s)" and E: "good_env (Es 0)" "good_env (Es 1)"
  shows "(worker_step dg)\<^sup>*\<^sup>* w (w\<lparr>wk_calls := wk_calls w @ cs, wk_db := s\<rparr>)"
proof -
  obtain st1 s1 st2 s2 st3 where b: "begin_job svc (Es 0) job (wk_db w) = (st1, s1)"
      and p: "prepare_job svc h st1 s1 = (st2, s2)" and c: "call_provider k st2 = (st3, cs)"
      and f: "finish_job svc h (Es 1) st3 s2 = (r, s)"
    using assms(1) by (auto simp: ProcessJob_def Let_def split: prod.splits)
  let ?w1 = "w\<lparr>wk_db := s1, wk_jobs := add_mset st1 (wk_jobs w)\<rparr>"
  let ?w2 = "w\<lparr>wk_db := s2, wk_jobs := add_mset st2 (wk_jobs w)\<rparr>"
  let ?w3 = "w\<lparr>wk_db := s2, wk_jobs := add_mset st3 (wk_jobs w), wk_calls := wk_calls w @ cs\<rparr>"
  have "worker_step dg w ?w1" by (rule worker_step.begins [OF E(1) b])
  moreover have "worker_step dg ?w1 ?w2"
    using worker_step.prepares [of ?w1 st1 "wk_jobs w", OF _ E(1)] p by simp
  moreover have "worker_step dg ?w2 ?w3"
    using worker_step.calls [of ?w2 st2 "wk_jobs w"] c by simp
  moreover have "worker_step dg ?w3 (w\<lparr>wk_calls := wk_calls w @ cs, wk_db := s\<rparr>)"
    using worker_step.finishes [of ?w3 st3 "wk_jobs w", OF _ E(2)] f by simp
  ultimately show ?thesis by (meson converse_rtranclp_into_rtranclp r_into_rtranclp)
qed

lemma store_run_steps:
  "(store_step dg)\<^sup>*\<^sup>* s s' \<Longrightarrow> (worker_step dg)\<^sup>*\<^sup>* (w\<lparr>wk_db := s\<rparr>) (w\<lparr>wk_db := s'\<rparr>)"
proof (induction rule: rtranclp_induct)
  case (step s1 s2)
  have "worker_step dg (w\<lparr>wk_db := s1\<rparr>) (w\<lparr>wk_db := s1\<rparr>\<lparr>wk_db := s2\<rparr>)"
    using step(2) by (intro worker_step.other) simp
  with step show ?case by simp
qed simp

section \<open>Batches and webhooks\<close>

lemma process_job_calls: "ProcessJob svc h k Es job s = (r, cs, s') \<Longrightarrow> length cs \<le> 1"
proof -
  have "length (snd (call_provider k st)) \<le> 1" for st by (cases st) (auto split: sum.splits)
  then show "ProcessJob svc h k Es job s = (r, cs, s') \<Longrightarrow> length cs \<le> 1"
    unfolding ProcessJob_def Let_def by (auto split: prod.splits) (metis snd_conv)
qed

lemma process_jobs_bound:
  "process_jobs svc h Es k jobs s = (r, n, cs, s') \<Longrightarrow>
     k \<le> n \<and> n \<le> k + length jobs \<and> length cs \<le> Suc (n - k) \<and> (r = Inr () \<longrightarrow> n = k + length jobs \<and> length cs \<le> n - k)"
proof (induction svc h Es k jobs s arbitrary: r n cs s' rule: process_jobs.induct)
  case (2 svc h Es k job jobs s)
  obtain r1 c1 s1 where one: "ProcessJob svc h k (Es k) job s = (r1, c1, s1)" by (metis prod_cases3)
  note len = process_job_calls [OF one]
  show ?case
  proof (cases r1)
    case (Inl e)
    with 2(2) one len show ?thesis by auto
  next
    case (Inr u)
    obtain r2 n2 c2 s2 where rest: "process_jobs svc h Es (Suc k) jobs s1 = (r2, n2, c2, s2)" by (metis prod_cases4)
    from 2(1) [OF one [symmetric] _ refl _] Inr rest 2(2) one len show ?thesis by auto
  qed
qed simp

text \<open>A turn of the worker is bounded: it processes at most as many jobs as its batch size, never more
  than a hundred, and calls the provider at most once for each job it starts.
\<close>

theorem run_once_bounded:
  assumes "New options = Inr svc" and "RunOnce svc h locked E Es s = (r, n, cs, s')"
  shows "int n \<le> sv_batchSize svc \<and> sv_batchSize svc \<le> 100 \<and> length cs \<le> Suc n \<and> (r = Inr () \<longrightarrow> length cs \<le> n)"
proof -
  have batch: "0 < sv_batchSize svc" "sv_batchSize svc \<le> 100" using assms(1) by (auto simp: New_def split: if_splits)
  show ?thesis
  proof (cases "ClaimPaymentJobs E locked (env_clock E) (env_clock E - sv_leaseDuration svc) (sv_leaseOwner svc) (sv_batchSize svc) s")
    case (Inl e)
    with assms(2) batch show ?thesis by (auto simp: RunOnce_def)
  next
    case (Inr p)
    then obtain jobs s1 where c: "ClaimPaymentJobs E locked (env_clock E) (env_clock E - sv_leaseDuration svc)
        (sv_leaseOwner svc) (sv_batchSize svc) s = Inr (jobs, s1)" by (cases p) auto
    with assms(2) have "process_jobs svc h Es 0 jobs s1 = (r, n, cs, s')" by (simp add: RunOnce_def)
    from process_jobs_bound [OF this] have "n \<le> length jobs" "length cs \<le> Suc n" "r = Inr () \<longrightarrow> length cs \<le> n" by auto
    moreover have "length jobs \<le> nat (sv_batchSize svc)"
      using c batch by (auto simp: ClaimPaymentJobs_def Let_def split: if_splits)
    ultimately show ?thesis using batch by simp
  qed
qed

text \<open>(C34)
  An unverified webhook is refused: when the provider is not configured or its adapter does not
  verify the delivery, the caller gets an error and no intent, job, attempt, account or ledger
  entry changes.
\<close>

theorem unverified_webhook_refused:
  assumes "HandleWebhook svc h k E name header body s = (res, err, s')"
    and "\<And>provider. map_of (sv_providers svc) (NormalizeProvider name) = Some provider \<Longrightarrow>
      snd (pv_VerifyWebhook provider k \<lparr>wq_Header = header, wq_Body = body\<rparr>) \<noteq> None"
  shows "err \<noteq> None \<and> db_intents s' = db_intents s \<and> db_jobs s' = db_jobs s \<and> db_ledger s' = db_ledger s \<and>
    db_accounts s' = db_accounts s \<and> db_attempts s' = db_attempts s"
proof (cases "map_of (sv_providers svc) (NormalizeProvider name)")
  case None
  with assms(1) show ?thesis by (auto simp: HandleWebhook_def Let_def)
next
  case (Some provider)
  obtain ev e where v: "pv_VerifyWebhook provider k \<lparr>wq_Header = header, wq_Body = body\<rparr> = (ev, Some e)"
    using assms(2) [OF Some] by (cases "pv_VerifyWebhook provider k \<lparr>wq_Header = header, wq_Body = body\<rparr>") auto
  define inp where "inp = \<lparr>rw_Provider = NormalizeProvider name, rw_PayloadSHA256 = ho_sha256 h body,
    rw_VerificationResult = ''rejected'', rw_Event = ev, rw_ReceivedAt = env_clock E\<rparr>"
  show ?thesis
  proof (cases "RecordWebhook E None inp s")
    case (Inr p)
    obtain r s1 where rec: "RecordWebhook E None inp s = Inr (r, s1)" using Inr by (cases p) auto
    have "rw_VerificationResult inp \<noteq> ''verified''" by (simp add: inp_def)
    note inert = rejected_webhook_tables [OF rec this]
    have "err \<noteq> None" "s' = s1" using assms(1) Some v rec by (auto simp: HandleWebhook_def Let_def inp_def)
    with inert show ?thesis by simp
  qed (use assms(1) Some v in \<open>auto simp: HandleWebhook_def Let_def inp_def\<close>)
qed

section \<open>Failed lookups\<close>

text \<open>Every intent of the later state was there before, in the same state or in one that is allowed.\<close>

definition moved_to :: "PaymentIntentState set \<Rightarrow> payment_db \<Rightarrow> payment_db \<Rightarrow> bool" where
  "moved_to ok s s' \<longleftrightarrow> (\<forall>x i'. find_intent s' x = Some i' \<longrightarrow>
     (\<exists>i. find_intent s x = Some i \<and> (pi_State i' = pi_State i \<or> pi_State i' \<in> ok)))"

lemma moved_to_same: "db_intents s' = db_intents s \<Longrightarrow> moved_to ok s s'"
  by (simp add: moved_to_def find_intent_def)

lemma moved_to_trans: "moved_to ok r s \<Longrightarrow> moved_to ok s t \<Longrightarrow> moved_to ok r t"
  unfolding moved_to_def by metis

lemma moved_to_update:
  assumes "sql_update_intent E x f s = Inr (i', s')" and "pi_State i' \<in> ok" and "\<And>i. pi_ID (f i) = pi_ID i"
  shows "moved_to ok s s'"
proof (rule update_intent_row [OF assms(1)])
  fix i assume i: "find_intent s x = Some i" "pi_ID i = x" "i' = (f i)\<lparr>pi_UpdatedAt := env_now E\<rparr>"
  then have id: "pi_ID i' = x" using assms(3) by simp
  have "db_intents s' = update_where (\<lambda>r. pi_ID r = x) (\<lambda>_. i') (db_intents s)"
    using assms(1) by (auto simp: sql_update_intent_def Let_def split: option.splits if_splits)
  then have "find_intent s' y = (if y = x then Some i' else find_intent s y)" for y
    using i(1,2) id
    by (auto simp: find_intent_def find_key_update_where map_option_case split: option.splits dest: find_key_Some)
  then show ?thesis using assms(2) i(1) by (auto simp: moved_to_def)
qed (rule assms(3))

lemma moved_to_transition:
  assumes tr: "transitionIntentTx E a i inp s = Inr (r, s')" and ok: "ti_ToState inp \<in> ok"
  shows "moved_to ok s s'"
proof (cases "pi_State i = ti_ToState inp")
  case True
  with tr show ?thesis by (intro moved_to_same) (auto simp: transitionIntentTx_def Let_def split: if_splits)
next
  case False
  have first: "moved_to ok s s1" if upd: "sql_update_intent E (pi_ID i) (transition_row inp i) s = Inr (i', s1)" for i' s1
  proof (rule moved_to_update [OF upd])
    show "pi_ID (transition_row inp i j) = pi_ID j" for j by (simp add: transition_row_def)
    then show "pi_State i' \<in> ok" by (rule update_intent_row [OF upd]) (simp add: transition_row_def ok)
  qed
  from tr False show ?thesis
  proof (cases rule: transition_cases)
    case (settled i' s1 e a1 s2 s3 a2)
    have "db_intents s' = db_intents s1"
      using insert_entry_frame(2) [OF settled(5)] email_rows [OF settled(6)] live_after_success [OF settled(7)] by simp
    then show ?thesis using first [OF settled(2)] moved_to_same moved_to_trans by blast
  next
    case (other i' s1)
    have "db_intents s' = db_intents s1" using other(6) live_after_other by (auto split: if_splits)
    then show ?thesis using first [OF other(2)] moved_to_same moved_to_trans by blast
  qed
qed

lemma settle_intents: "settle_job E job result due s = Inr (job', s') \<Longrightarrow> db_intents s' = db_intents s"
  by (auto simp: settle_job_def sql_update_job_def sql_insert_job_unless_def Let_def drawn_def
      split: if_splits option.splits)

lemma moved_to_finalize:
  assumes "FinalizeProviderAttempt E ctx inp s = Inr (r, s')" and ok: "pr_State (fa_Result inp) \<in> ok"
  shows "moved_to ok s s'"
proof (cases "far_Duplicate r")
  case True
  with assms(1) show ?thesis
    by (intro moved_to_same) (auto simp: FinalizeProviderAttempt_def Let_def split: if_splits)
next
  case False
  show ?thesis
  proof (rule finalize_new [OF assms(1) False])
    fix job x a i tr s0 s1 s2 job' due
    assume s0: "s0 = complete_attempt x (fa_Result inp) (fa_ResponseSHA256 inp) (now_or E (fa_Now inp)) due s"
      and tr: "transitionIntentTx E a i \<lparr>ti_IntentID = pi_ID i, ti_ToState = pr_State (fa_Result inp),
           ti_ProviderTransactionReference = pr_ProviderTransactionReference (fa_Result inp),
           ti_Now = now_or E (fa_Now inp)\<rparr> s0 = Inr (tr, s1)"
      and st: "settle_job E job (fa_Result inp) due s1 = Inr (job', s2)"
      and s': "s' = (if pr_State (fa_Result inp) \<noteq> PaymentIntentStateUnknown
               then process_webhooks E (pi_ID i) (now_or E (fa_Now inp)) s2 else s2)"
    have "moved_to ok s s0" by (rule moved_to_same) (simp add: s0 complete_attempt_def)
    moreover have "moved_to ok s0 s1" by (rule moved_to_transition [OF tr]) (simp add: ok)
    moreover have "moved_to ok s1 s'"
      using settle_intents [OF st] by (intro moved_to_same) (simp add: s' process_webhooks_def)
    ultimately show ?thesis using moved_to_trans by blast
  qed
qed

lemma begin_query_intents:
  assumes "BeginProviderAttempt E ctx inp s = Inr (w, s')" and "ba_Operation inp = ProviderOperationQuery"
  shows "db_intents s' = db_intents s \<and> aw_Intent w \<in> set (db_intents s)"
  using assms
  by (auto simp: BeginProviderAttempt_def begin_operation_def sql_insert_attempt_def Let_def drawn_def
      getIntentForUpdate_def find_intent_def split: if_splits option.splits dest!: find_Some_mem)

lemma complete_job_intents: "CompletePaymentJob E x own s = Inr s' \<Longrightarrow> db_intents s' = db_intents s"
  by (auto simp: CompletePaymentJob_def sql_update_job_def Let_def split: sum.splits option.splits if_splits)

lemma digest_intents: "setRequestDigest h x v s = Inr s' \<Longrightarrow> db_intents s' = db_intents s"
  by (auto simp: setRequestDigest_def SetAttemptRequestDigest_def Let_def split: if_splits)

definition registered :: "Service \<Rightarrow> PaymentProvider \<Rightarrow> bool" where
  "registered svc p \<longleftrightarrow> p \<in> snd ` set (sv_providers svc)"

lemma registered_found: "find_provider svc name = Some p \<Longrightarrow> registered svc p"
  by (auto simp: find_provider_def registered_def dest!: map_of_SomeD intro: rev_image_eqI)

text \<open>The stages of a lookup: where no provider answers, the only result is unknown.\<close>

definition lookup_stage :: "Service \<Rightarrow> nat \<Rightarrow> stage \<Rightarrow> bool" where
  "lookup_stage svc k st \<longleftrightarrow>
     (case st of
        Done _ \<Rightarrow> True | Recover _ \<Rightarrow> True
      | Prepare operation p _ \<Rightarrow> operation = ProviderOperationQuery \<and> registered svc p
      | CallQuery p _ _ \<Rightarrow> registered svc p
      | Finalize _ result \<Rightarrow> pr_State result = PaymentIntentStateUnknown
      | CallCharge _ _ _ \<Rightarrow> False)"

lemma begin_lookup:
  assumes "begin_job svc E job s = (st, s')" and "rj_Reason job \<noteq> ReconciliationReasonCharge"
    and "\<forall>i \<in> set (db_intents s). find_provider svc (pi_Provider i) \<noteq> None"
  shows "lookup_stage svc k st \<and> db_intents s' = db_intents s"
proof -
  have op: "job_operation job = ProviderOperationQuery" using assms(2) by (simp add: job_operation_def)
  let ?b = "BeginProviderAttempt E None \<lparr>ba_JobID = rj_ID job, ba_LeaseOwner = sv_leaseOwner svc,
             ba_Operation = job_operation job, ba_Now = env_clock E\<rparr> s"
  show ?thesis
  proof (cases ?b)
    case (Inl e)
    with assms(1) show ?thesis
      by (auto simp: begin_job_def lookup_stage_def split: if_splits sum.splits dest: complete_job_intents)
  next
    case (Inr q)
    obtain w s1 where w: "?b = Inr (w, s1)" using Inr by (cases q) auto
    have "db_intents s1 = db_intents s \<and> aw_Intent w \<in> set (db_intents s)"
      by (rule begin_query_intents [OF w]) (simp add: op)
    moreover from this assms(3) obtain p where "find_provider svc (pi_Provider (aw_Intent w)) = Some p" by auto
    ultimately show ?thesis
      using assms(1) w registered_found by (auto simp: begin_job_def lookup_stage_def op split: if_splits)
  qed
qed

lemma prepare_lookup:
  assumes "prepare_job svc h st s = (st', s')" and "lookup_stage svc k st"
  shows "lookup_stage svc k st' \<and> db_intents s' = db_intents s"
  using assms
  by (cases st) (auto simp: lookup_stage_def recover_job_def query_def Let_def provider_result_def error_result_def
      split: sum.splits if_splits dest: digest_intents)

lemma call_lookup:
  assumes "call_provider k st = (st', cs)" and "lookup_stage svc k st"
    and "\<forall>p. registered svc p \<longrightarrow> (\<forall>q. \<exists>err. pv_Query p k q = Inl err)"
  shows "lookup_stage svc k st'"
proof (cases st)
  case (CallQuery p w q)
  with assms(2,3) obtain err where "pv_Query p k q = Inl err" by (auto simp: lookup_stage_def)
  with assms(1) CallQuery show ?thesis by (auto simp: lookup_stage_def provider_result_def error_result_def)
qed (use assms(1,2) in \<open>auto simp: lookup_stage_def\<close>)

lemma finish_lookup:
  assumes "finish_job svc h E st s = (r, s')" and "lookup_stage svc k st"
  shows "moved_to {PaymentIntentStateUnknown} s s'"
proof (cases st)
  case (Finalize w result)
  have u: "pr_State result = PaymentIntentStateUnknown" using assms(2) Finalize by (simp add: lookup_stage_def)
  then have valid: "ValidateProviderResult result = Inr ()" by (simp add: ValidateProviderResult_def)
  show ?thesis
  proof (cases "finalize svc h E w result s")
    case (Inr p)
    obtain r1 s1 where f: "finalize svc h E w result s = Inr (r1, s1)" using Inr by (cases p) auto
    then have "s' = s1" using assms(1) Finalize by simp
    with f show ?thesis
      unfolding finalize_def Let_def using valid u by (auto elim!: moved_to_finalize)
  qed (use assms(1) Finalize in \<open>auto intro: moved_to_same\<close>)
qed (use assms(1) in \<open>auto intro: moved_to_same\<close>)

text \<open>(C28)
  A failed status lookup never marks a payment failed: when the worker processes a job that asks
  about an earlier charge, every intent's provider is configured and the lookup fails, whatever the
  error, each intent keeps its state or becomes unknown.
\<close>

theorem failed_lookup_leaves_payment_open:
  assumes "ProcessJob svc h k Es job s = (r, cs, s')" and "rj_Reason job \<noteq> ReconciliationReasonCharge"
    and "\<forall>i \<in> set (db_intents s). find_provider svc (pi_Provider i) \<noteq> None"
    and "\<forall>p. registered svc p \<longrightarrow> (\<forall>q. \<exists>err. pv_Query p k q = Inl err)"
  shows "moved_to {PaymentIntentStateUnknown} s s'"
proof -
  obtain st1 s1 st2 s2 st3 where b: "begin_job svc (Es 0) job s = (st1, s1)"
      and p: "prepare_job svc h st1 s1 = (st2, s2)" and c: "call_provider k st2 = (st3, cs)"
      and f: "finish_job svc h (Es 1) st3 s2 = (r, s')"
    using assms(1) by (auto simp: ProcessJob_def Let_def split: prod.splits)
  have 1: "lookup_stage svc k st1 \<and> db_intents s1 = db_intents s" by (rule begin_lookup [OF b assms(2,3)])
  have 2: "lookup_stage svc k st2 \<and> db_intents s2 = db_intents s1" using prepare_lookup [OF p] 1 by blast
  have "moved_to {PaymentIntentStateUnknown} s2 s'" using finish_lookup [OF f call_lookup [OF c _ assms(4)]] 2 by blast
  moreover have "moved_to {PaymentIntentStateUnknown} s s2" using 1 2 by (simp add: moved_to_same)
  ultimately show ?thesis using moved_to_trans by blast
qed

section \<open>The properties on the scenario\<close>

definition demo_provider :: PaymentProvider where
  "demo_provider = \<lparr>pv_Name = ''Simulator'', pv_Charge = (\<lambda>_ _. Inr demo_result),
     pv_Query = (\<lambda>_ _. Inl (PlainError ''timeout'')),
     pv_VerifyWebhook = (\<lambda>_ _. (rw_Event (demo_event ''verified''), Some (PlainError ''signature'')))\<rparr>"

definition demo_options :: "PaymentProvider option list \<Rightarrow> Options" where
  "demo_options ps = \<lparr>op_HasStore = True, op_HasResolver = True, op_Providers = ps, op_LeaseOwner = ''worker'',
     op_LeaseDuration = 30 * second_ns, op_ReconciliationDelay = 15 * second_ns, op_BatchSize = 25,
     op_ChargeEnabled = [(''simulator'', True)]\<rparr>"

definition demo_service :: "PaymentProvider option list \<Rightarrow> Service" where
  "demo_service ps = (case New (demo_options ps) of Inr svc \<Rightarrow> svc)"

definition demo_host :: host where
  "demo_host = \<lparr>ho_digestJSON = (\<lambda>_. demo_sha), ho_sha256 = (\<lambda>_. demo_sha),
     ho_ResolveMethodReference = (\<lambda>c. Inr (''ref-'' @ c))\<rparr>"

definition db_claimed :: payment_db where
  "db_claimed = run_ops demo_digest [(demo_env 110, OpClaimJobs [] (110 * second_ns) 0 ''worker'' 10)] db_due"

definition demo_job :: "payment_db \<Rightarrow> ReconciliationJob" where
  "demo_job s = hd (filter (\<lambda>j. rj_Status j = ReconciliationStatusLeased) (db_jobs s))"

definition demo_envs :: "int \<Rightarrow> nat \<Rightarrow> env" where
  "demo_envs t n = demo_env (t + int n)"

lemma demo_envs_good: "good_env (demo_envs t n)"
  by (simp add: demo_envs_def demo_env_good)

text \<open>One turn of the worker on the due job, and the same job claimed and processed by hand, evaluated once.\<close>

definition turn_view where
  "turn_view x = (case x of (r, n, cs, s') \<Rightarrow> (r = Inr (), n, length cs))"

definition process_view where
  "process_view x = (case x of (r, cs, s') \<Rightarrow> (r = Inr (), map call_charge cs, map_option pi_State (find_intent s' (demo_uuid 7))))"

definition claimed_view where
  "claimed_view s = process_view (ProcessJob (demo_service [Some demo_provider]) demo_host 0 (demo_envs 120) (demo_job s) s)"

definition due_view where
  "due_view s =
     (turn_view (RunOnce (demo_service [Some demo_provider]) demo_host [] (demo_env 110) (\<lambda>k. demo_envs 120) s),
      claimed_view (run_ops demo_digest [(demo_env 110, OpClaimJobs [] (110 * second_ns) 0 ''worker'' 10)] s))"

lemma demo_due_view:
  "due_view db_due = ((True, 1, 1), (True, [Some (demo_uuid 7, 1000, TWD)], Some PaymentIntentStateSucceeded))"
  by code_simp

lemmas demo_due_facts = demo_due_view [unfolded due_view_def prod.inject, folded db_claimed_def, unfolded claimed_view_def]

lemma demo_reachable_claimed: "reachable demo_digest db_claimed"
  unfolding db_claimed_def db_due_def
  by (rule rtranclp_trans [OF rtranclp_trans [OF demo_reachable(1) run_ops_reachable] run_ops_reachable])
     (simp_all add: demo_env_good)

theorem provider_charged_at_most_once_witness:
  "\<exists>w. (worker_step demo_digest)\<^sup>*\<^sup>* idle w \<and> map call_charge (wk_calls w) = [Some (demo_uuid 7, 1000, TWD)] \<and>
     calls_for (demo_uuid 7) (wk_calls w) \<le> 1"
proof -
  obtain r cs s' where p: "ProcessJob (demo_service [Some demo_provider]) demo_host 0 (demo_envs 120) (demo_job db_claimed)
      db_claimed = (r, cs, s')" by (metis prod_cases3)
  then have cs: "map call_charge cs = [Some (demo_uuid 7, 1000, TWD)]" using demo_due_facts by (simp add: process_view_def)
  define w where "w = idle\<lparr>wk_db := db_claimed\<rparr>"
  have "(worker_step demo_digest)\<^sup>*\<^sup>* idle w"
    using store_run_steps [OF demo_reachable_claimed, of idle] by (simp add: w_def idle_def)
  also have "(worker_step demo_digest)\<^sup>*\<^sup>* w (w\<lparr>wk_calls := wk_calls w @ cs, wk_db := s'\<rparr>)"
    using process_job_steps [of _ _ _ _ _ w, OF _ demo_envs_good demo_envs_good] p by (simp add: w_def)
  finally have run: "(worker_step demo_digest)\<^sup>*\<^sup>* idle (w\<lparr>wk_calls := wk_calls w @ cs, wk_db := s'\<rparr>)" .
  have "wk_calls (w\<lparr>wk_calls := wk_calls w @ cs, wk_db := s'\<rparr>) = cs" by (simp add: w_def idle_def)
  with run cs provider_charged_at_most_once [OF run, of "demo_uuid 7"] show ?thesis by metis
qed

lemma demo_service_new: "New (demo_options [Some demo_provider]) = Inr (demo_service [Some demo_provider])"
proof -
  have "(case New (demo_options [Some demo_provider]) of Inl _ \<Rightarrow> False | Inr _ \<Rightarrow> True) = True" by code_simp
  then show ?thesis by (cases "New (demo_options [Some demo_provider])") (simp_all add: demo_service_def)
qed

theorem run_once_bounded_witness:
  "\<exists>r n cs s'. RunOnce (demo_service [Some demo_provider]) demo_host [] (demo_env 110) (\<lambda>k. demo_envs 120) db_due
       = (r, n, cs, s') \<and> n = 1 \<and> length cs \<le> n"
proof -
  obtain r n cs s' where t: "RunOnce (demo_service [Some demo_provider]) demo_host [] (demo_env 110) (\<lambda>k. demo_envs 120) db_due
      = (r, n, cs, s')" by (metis prod_cases4)
  with demo_due_facts run_once_bounded [OF demo_service_new t] show ?thesis by (auto simp: turn_view_def)
qed

lemma demo_providers: "sv_providers (demo_service [Some demo_provider]) = [(''simulator'', demo_provider)]"
proof -
  have "NormalizeProvider ''Simulator'' = ''simulator''" "TrimSpace ''worker'' \<noteq> []" by code_simp+
  moreover have "pv_Name demo_provider = ''Simulator''" by (simp add: demo_provider_def)
  ultimately have "map_sum (\<lambda>e. e) sv_providers (New (demo_options [Some demo_provider])) = Inr [(''simulator'', demo_provider)]"
    by (simp add: New_def demo_options_def Let_def)
  then show ?thesis by (simp add: demo_service_new)
qed

theorem unverified_webhook_refused_witness:
  "\<exists>res err s'. HandleWebhook (demo_service [Some demo_provider]) demo_host 0 (demo_env 125) ''simulator'' [] ''body'' db_charging
       = (res, err, s') \<and> err \<noteq> None \<and> db_intents s' = db_intents db_charging"
proof -
  obtain res err s' where h: "HandleWebhook (demo_service [Some demo_provider]) demo_host 0 (demo_env 125) ''simulator'' []
      ''body'' db_charging = (res, err, s')" by (metis prod_cases3)
  have "snd (pv_VerifyWebhook provider 0 \<lparr>wq_Header = [], wq_Body = ''body''\<rparr>) \<noteq> None"
    if "map_of (sv_providers (demo_service [Some demo_provider])) (NormalizeProvider ''simulator'') = Some provider" for provider
    using that unfolding demo_providers by (auto simp: demo_provider_def split: if_splits)
  from unverified_webhook_refused [OF h this] h show ?thesis by blast
qed

text \<open>The charge ended as unknown; later the job that asks again is claimed.\<close>

definition db_asking :: payment_db where
  "db_asking = run_ops demo_digest
     [(demo_env 130, OpFinalizeAttempt None demo_unknown),
      (demo_env 200, OpClaimJobs [] (200 * second_ns) 0 ''worker'' 10)] db_charging"

definition asking_view where
  "asking_view s =
     (map_option pi_State (find_intent s (demo_uuid 7)), rj_Reason (demo_job s) \<noteq> ReconciliationReasonCharge,
      map pi_Provider (db_intents s), charges (demo_uuid 7) s,
      process_view (ProcessJob (demo_service []) demo_host 0 (demo_envs 210) (demo_job s) s))"

lemma demo_lookup:
  "asking_view db_asking = (Some PaymentIntentStateUnknown, True, [''simulator''], 1, (True, [], Some PaymentIntentStateFailed))"
  by code_simp

theorem failed_lookup_leaves_payment_open_witness:
  "\<exists>r cs s'. ProcessJob (demo_service [Some demo_provider]) demo_host 0 (demo_envs 210) (demo_job db_asking) db_asking
       = (r, cs, s') \<and> moved_to {PaymentIntentStateUnknown} db_asking s'"
proof -
  obtain r cs s' where p: "ProcessJob (demo_service [Some demo_provider]) demo_host 0 (demo_envs 210) (demo_job db_asking)
      db_asking = (r, cs, s')" by (metis prod_cases3)
  have reason: "rj_Reason (demo_job db_asking) \<noteq> ReconciliationReasonCharge"
      and providers: "map pi_Provider (db_intents db_asking) = [''simulator'']" using demo_lookup by (simp_all add: asking_view_def)
  have "NormalizeProvider ''simulator'' = ''simulator''" by code_simp
  moreover have "pi_Provider i = ''simulator''" if "i \<in> set (db_intents db_asking)" for i
    using that providers by (cases "db_intents db_asking") auto
  ultimately have "\<forall>i \<in> set (db_intents db_asking). find_provider (demo_service [Some demo_provider]) (pi_Provider i) \<noteq> None"
    by (simp add: find_provider_def demo_providers)
  moreover have "\<forall>p. registered (demo_service [Some demo_provider]) p \<longrightarrow> (\<forall>q. \<exists>err. pv_Query p 0 q = Inl err)"
    unfolding registered_def demo_providers by (auto simp: demo_provider_def)
  ultimately show ?thesis using failed_lookup_leaves_payment_open [OF p reason] p by blast
qed

text \<open>
  Without the adapter of the provider the lookup is not even tried, and yet the payment, whose
  charge may have gone through, is marked failed for good.
\<close>

lemma missing_adapter_fails_open_payment:
  "map_option pi_State (find_intent db_asking (demo_uuid 7)) = Some PaymentIntentStateUnknown \<and> charges (demo_uuid 7) db_asking = 1 \<and>
   (\<exists>s'. ProcessJob (demo_service []) demo_host 0 (demo_envs 210) (demo_job db_asking) db_asking = (Inr (), [], s') \<and>
      map_option pi_State (find_intent s' (demo_uuid 7)) = Some PaymentIntentStateFailed)"
proof -
  obtain r cs s' where "ProcessJob (demo_service []) demo_host 0 (demo_envs 210) (demo_job db_asking) db_asking = (r, cs, s')"
    by (metis prod_cases3)
  with demo_lookup show ?thesis by (auto simp: asking_view_def process_view_def)
qed

end
