(* ===== verification/Billing_Handoff.thy ===== *)
theory Billing_Handoff
  imports Billing_Money
begin

text \<open>
  The financial conditions of a change of owner and of the closure of a cloud:
  \<^verbatim>\<open>internal/billing/handoff.go\<close>.
\<close>

record FinancialEvidence =
  fe_BalanceKnown :: bool
  fe_Currency :: Code
  fe_BalanceMinor :: int
  fe_UsageSettled :: bool
  fe_InvoicesReconciled :: bool
  fe_ProviderWorkReconciled :: bool
  fe_UnpaidInvoiceCount :: int
  fe_DebtMinor :: int
  fe_PendingPaymentCount :: int
  fe_PendingRefundCount :: int
  fe_OpenDisputeCount :: int
  fe_PendingSetupCount :: int
  fe_UnresolvedProviderEventCount :: int

text \<open>The counts in the order both functions and the store list them.\<close>

definition evidence_counts :: "FinancialEvidence \<Rightarrow> (int \<times> string) list" where
  "evidence_counts e =
     [(fe_UnpaidInvoiceCount e, ''unpaid_invoices''), (fe_DebtMinor e, ''outstanding_debt''),
      (fe_PendingPaymentCount e, ''payments_pending''), (fe_PendingRefundCount e, ''refunds_pending''),
      (fe_OpenDisputeCount e, ''disputes_open''), (fe_PendingSetupCount e, ''payment_setups_pending''),
      (fe_UnresolvedProviderEventCount e, ''provider_events_unresolved'')]"

definition negative_counts :: "FinancialEvidence \<Rightarrow> bool" where
  "negative_counts e = list_ex (\<lambda>(count, _). count < 0) (evidence_counts e)"

definition OwnershipTransferBlockers :: "FinancialEvidence \<Rightarrow> string list" where
  "OwnershipTransferBlockers e =
     (if \<not> fe_BalanceKnown e then [''balance_evidence_missing'']
      else (if \<not> CanSettle (fe_Currency e) then [''currency_unsupported''] else []) @
           (if fe_BalanceMinor e < 0 then [''balance_negative''] else [])) @
     (if \<not> fe_UsageSettled e then [''usage_unsettled''] else []) @
     (if \<not> fe_InvoicesReconciled e then [''invoice_evidence_missing''] else []) @
     (if \<not> fe_ProviderWorkReconciled e then [''provider_evidence_missing''] else []) @
     (if negative_counts e then [''financial_evidence_invalid''] else []) @
     map snd (filter (\<lambda>(count, _). count > 0) (evidence_counts e))"

definition CloudClosureBlockers :: "FinancialEvidence \<Rightarrow> string list" where
  "CloudClosureBlockers e =
     OwnershipTransferBlockers e @
     (if fe_BalanceKnown e \<and> fe_BalanceMinor e > 0 then [''balance_positive''] else [])"

section \<open>What no blocker means\<close>

text \<open>Everything is known, reconciled and settled, and nothing is pending.\<close>

definition all_settled :: "FinancialEvidence \<Rightarrow> bool" where
  "all_settled e \<longleftrightarrow>
     fe_BalanceKnown e \<and> CanSettle (fe_Currency e) \<and> fe_BalanceMinor e \<ge> 0 \<and> fe_UsageSettled e \<and>
     fe_InvoicesReconciled e \<and> fe_ProviderWorkReconciled e \<and> (\<forall>(count, _) \<in> set (evidence_counts e). count = 0)"

lemma no_counts_iff:
  "\<not> negative_counts e \<and> filter (\<lambda>(count, _). count > 0) (evidence_counts e) = [] \<longleftrightarrow>
     (\<forall>(count, _) \<in> set (evidence_counts e). count = 0)"
  unfolding negative_counts_def list_ex_iff filter_empty_conv by fastforce

lemma transfer_unblocked_iff: "OwnershipTransferBlockers e = [] \<longleftrightarrow> all_settled e"
  unfolding OwnershipTransferBlockers_def all_settled_def no_counts_iff [symmetric] by auto

lemma closure_unblocked_iff: "CloudClosureBlockers e = [] \<longleftrightarrow> all_settled e \<and> fe_BalanceMinor e = 0"
  unfolding CloudClosureBlockers_def append_is_Nil_conv transfer_unblocked_iff by (auto simp: all_settled_def)

end
