(* ===== verification/Ownership_Db.thy ===== *)
theory Ownership_Db
  imports Customer_Store Reversal_Store Billing_Handoff
begin

text \<open>
  The state of the ownership protocols: the tables of \<open>Payment_Db\<close> and those that the setup of
  payment methods (\<^verbatim>\<open>migrations/041\<close>), the ownership handoff (\<^verbatim>\<open>049\<close> to \<^verbatim>\<open>051\<close>), the
  cloud preflight (\<^verbatim>\<open>054\<close>), the cloud closure (\<^verbatim>\<open>055\<close>, \<^verbatim>\<open>056\<close>) and the cloud bootstrap
  (\<^verbatim>\<open>057\<close>) add, with the statements these issue. The digest of a request, SHA-256 of its JSON
  text, is a parameter; what JSON cannot write, a year that is not of four digits, is an error.
\<close>

section \<open>Rows\<close>

record PaymentMethodSetupSession =
  su_ID :: string
  su_AccountID :: string
  su_Provider :: string
  su_IdempotencyKey :: string
  su_RequestSHA256 :: string
  su_CorrelationID :: string
  su_PaymentMethodID :: string
  su_State :: PaymentIntentState
  su_ProviderCode :: string
  su_HostedURLSHA256 :: string
  su_CreatedAt :: instant
  su_UpdatedAt :: instant

record setup_row = PaymentMethodSetupSession +
  su_InvalidatedByHandoff :: string
  su_InvalidatedByClosure :: string

record setup_observation =
  so_SessionID :: string
  so_ResultSHA256 :: string
  so_ProviderState :: PaymentIntentState

record billing_period =
  bpd_ID :: string
  bpd_OrganizationID :: string
  bpd_State :: string
  bpd_Version :: int
  bpd_PeriodStart :: instant
  bpd_PeriodEnd :: instant
  bpd_UsageLockedAt :: "instant option"
  bpd_ClosedAt :: "instant option"
  bpd_PricingVersionID :: string

record settlement_link =
  sl_InvoiceID :: string
  sl_LedgerEntryID :: string
  sl_State :: string
  sl_AttemptCount :: int

record settlement_receipt =
  sr_ID :: string
  sr_OperationID :: string
  sr_OperationVersion :: int
  sr_RequestSHA256 :: string
  sr_StateSHA256 :: string
  sr_UsageCheckpointSHA256 :: string
  sr_InvoiceCheckpointSHA256 :: string
  sr_ProviderCheckpointSHA256 :: string
  sr_FinancialEvidence :: FinancialEvidence

record balance_snapshot =
  bs_OperationID :: string
  bs_Version :: int
  bs_ReceiptID :: string
  bs_BalanceMinor :: int
  bs_Currency :: Code
  bs_Cutoff :: instant

record handoff_confirmation =
  hc_OperationID :: string
  hc_SnapshotVersion :: int
  hc_UserID :: string

record handoff_cancellation =
  hcx_OperationID :: string
  hcx_CancellationID :: string
  hcx_RequestSHA256 :: string
  hcx_AMCancellationSHA256 :: string

record abort_acknowledgment =
  aa_OperationID :: string
  aa_HoldReleaseSHA256 :: string

record retired_profile =
  rpf_OperationID :: string
  rpf_SourcePeriodID :: string
  rpf_ProfileSnapshot :: BillingProfile

record CloudClosureRevocation =
  ccr_SubjectType :: string
  ccr_SubjectID :: string

record closure_revocation = CloudClosureRevocation +
  ccr_OperationID :: string

record revocation_ack =
  rak_OperationID :: string
  rak_SubjectType :: string
  rak_SubjectID :: string
  rak_ReceiptSHA256 :: string

record closure_settlement =
  cst_ID :: string
  cst_OperationID :: string
  cst_RequestSHA256 :: string
  cst_StateSHA256 :: string
  cst_FinancialEvidence :: FinancialEvidence
  cst_UsageCheckpointSHA256 :: string
  cst_InvoiceCheckpointSHA256 :: string
  cst_ProviderCheckpointSHA256 :: string
  cst_CoveredThrough :: instant
  cst_ObservedAt :: instant
  cst_ExpiresAt :: instant
  cst_CreatedAt :: instant

record closure_completion =
  ccm_OperationID :: string
  ccm_SettlementID :: string
  ccm_AMReadinessSHA256 :: string
  ccm_RequestSHA256 :: string
  ccm_ReceiptSHA256 :: string
  ccm_ClosedAt :: instant

record closure_cancellation =
  ccx_OperationID :: string
  ccx_CancellationID :: string
  ccx_AMCancellationSHA256 :: string

record release_ack =
  rla_OperationID :: string
  rla_ReceiptSHA256 :: string

record retired_command =
  rc_OperationID :: string
  rc_RequestSHA256 :: string
  rc_SettlementID :: string
  rc_AMReadinessSHA256 :: string
  rc_ReceiptSHA256 :: string
  rc_RetiredAt :: instant

record preflight_receipt =
  pfr_ID :: string
  pfr_AccountID :: string
  pfr_OwnerUserID :: string
  pfr_OwnershipVersion :: int
  pfr_RequestSHA256 :: string
  pfr_StateSHA256 :: string
  pfr_FinancialEvidence :: FinancialEvidence
  pfr_ObservedAt :: instant
  pfr_ExpiresAt :: instant
  pfr_CreatedAt :: instant

record creation_receipt =
  crc_EventID :: string
  crc_OrganizationID :: string
  crc_AccountID :: string
  crc_OwnerUserID :: string
  crc_OwnershipVersion :: int
  crc_OccurredAt :: instant
  crc_EvidenceSHA256 :: string

record access_state =
  acs_OrganizationID :: string
  acs_State :: string
  acs_ReasonCode :: string
  acs_UpdatedBy :: string
  acs_Version :: int

record ownership_db =
  od_pay :: payment_db
  od_setups :: "setup_row list"
  od_observations :: "setup_observation list"
  od_usage :: "UsageFact list"
  od_billing_periods :: "billing_period list"
  od_links :: "settlement_link list"
  od_receipts :: "settlement_receipt list"
  od_snapshots :: "balance_snapshot list"
  od_confirmations :: "handoff_confirmation list"
  od_finalizations :: "committed_decision list"
  od_cancellations :: "handoff_cancellation list"
  od_abort_acks :: "abort_acknowledgment list"
  od_retired_profiles :: "retired_profile list"
  od_revocations :: "closure_revocation list"
  od_revocation_acks :: "revocation_ack list"
  od_settlements :: "closure_settlement list"
  od_completions :: "closure_completion list"
  od_closure_cancellations :: "closure_cancellation list"
  od_release_acks :: "release_ack list"
  od_retired_commands :: "retired_command list"
  od_preflights :: "preflight_receipt list"
  od_creations :: "creation_receipt list"
  od_access :: "access_state list"

definition empty_ownership_db :: ownership_db where
  "empty_ownership_db =
     \<lparr>od_pay = empty_db, od_setups = [], od_observations = [], od_usage = [], od_billing_periods = [],
      od_links = [], od_receipts = [], od_snapshots = [], od_confirmations = [], od_finalizations = [],
      od_cancellations = [], od_abort_acks = [], od_retired_profiles = [], od_revocations = [],
      od_revocation_acks = [], od_settlements = [], od_completions = [], od_closure_cancellations = [],
      od_release_acks = [], od_retired_commands = [], od_preflights = [], od_creations = [], od_access = []\<rparr>"

text \<open>A change of the payment tables.\<close>

abbreviation pay :: "(payment_db \<Rightarrow> payment_db) \<Rightarrow> ownership_db \<Rightarrow> ownership_db" where
  "pay f s \<equiv> s\<lparr>od_pay := f (od_pay s)\<rparr>"

section \<open>Times JSON can write\<close>

text \<open>\<^verbatim>\<open>time.Time.MarshalJSON\<close> rejects a year outside 0 to 9999.\<close>

definition marshal_time :: "instant \<Rightarrow> bool" where
  "marshal_time t = (- 62167219200 * second_ns \<le> t \<and> t < 253402300800 * second_ns)"

definition json_digest :: "('a \<Rightarrow> string) \<Rightarrow> instant list \<Rightarrow> 'a \<Rightarrow> error + string" where
  "json_digest dg ts x = (if list_all marshal_time ts then Inr (dg x) else Inl ErrMarshalTime)"

section \<open>Statements\<close>

text \<open>The trigger \<^verbatim>\<open>touch_billing_authority_guard\<close> on periods, handoffs and closures.\<close>

definition touch_account :: "env \<Rightarrow> string \<Rightarrow> payment_db \<Rightarrow> payment_db" where
  "touch_account E accountID s =
     s\<lparr>db_accounts := update_where (\<lambda>a. ca_ID a = accountID) (\<lambda>a. a\<lparr>ca_UpdatedAt := env_now E\<rparr>) (db_accounts s)\<rparr>"

definition period_check :: "responsibility_period \<Rightarrow> bool" where
  "period_check p =
     (rp_OwnershipVersion p > 0 \<and> is_int64 (rp_OwnershipVersion p) \<and>
      (case rp_EffectiveUntil p of None \<Rightarrow> True | Some t \<Rightarrow> t > rp_EffectiveFrom p) \<and>
      validLowerSHA256 (rp_SourceEvidenceSHA256 p) \<and>
      (case rp_OpeningBalanceMinor p of None \<Rightarrow> True | Some b \<Rightarrow> b \<ge> 0) \<and>
      ((rp_OpeningOperationID p = []) = (rp_OpeningBalanceMinor p = None)))"

definition period_conflict :: "responsibility_period list \<Rightarrow> responsibility_period \<Rightarrow> bool" where
  "period_conflict ps p =
     list_ex (\<lambda>q. rp_ID q = rp_ID p \<or>
        rp_AccountID q = rp_AccountID p \<and>
        (rp_OwnershipVersion q = rp_OwnershipVersion p \<or>
         rp_EffectiveUntil q = None \<and> rp_EffectiveUntil p = None) \<or>
        rp_OpeningOperationID p \<noteq> [] \<and> rp_OpeningOperationID q = rp_OpeningOperationID p) ps"

definition sql_insert_period :: "env \<Rightarrow> responsibility_period \<Rightarrow> payment_db \<Rightarrow> error + payment_db" where
  "sql_insert_period E values s =
     (let row = values\<lparr>rp_ID := next_uuid E s\<rparr> in
      if closure_closed s (rp_AccountID row) then Inl closure_barrier
      else if \<not> period_check row then Inl (check_violation ''billing_responsibility_periods_check'')
      else if period_conflict (db_periods s) row
      then Inl (unique_violation ''billing_responsibility_periods_key'')
      else Inr (touch_account E (rp_AccountID row) ((drawn s)\<lparr>db_periods := db_periods s @ [row]\<rparr>)))"

text \<open>
  The end of a period passes \<^verbatim>\<open>preserve_closed_cloud_responsibility\<close>: the period of a closed
  cloud ends at the time of the closure and no other.
\<close>

definition closing_time :: "ownership_db \<Rightarrow> string \<Rightarrow> instant option" where
  "closing_time s periodID =
     (case find (\<lambda>c. cc_SourcePeriodID c = periodID \<and> cc_Phase c = ClosureClosed \<and>
                  list_ex (\<lambda>d. ccm_OperationID d = cc_ID c) (od_completions s)) (db_closures (od_pay s)) of
        None \<Rightarrow> None
      | Some c \<Rightarrow> map_option ccm_ClosedAt (find (\<lambda>d. ccm_OperationID d = cc_ID c) (od_completions s)))"

definition sql_end_period :: "env \<Rightarrow> (responsibility_period \<Rightarrow> bool) \<Rightarrow> instant \<Rightarrow> ownership_db \<Rightarrow>
    error + (responsibility_period option \<times> ownership_db)" where
  "sql_end_period E p until s =
     (case find p (db_periods (od_pay s)) of
        None \<Rightarrow> Inr (None, s)
      | Some old \<Rightarrow>
          let new = old\<lparr>rp_EffectiveUntil := Some (db_time until)\<rparr> in
          if closing_time s (rp_ID old) \<noteq> None \<and> closing_time s (rp_ID old) \<noteq> rp_EffectiveUntil new
          then Inl closure_barrier
          else if \<not> period_check new then Inl (check_violation ''billing_responsibility_periods_check'')
          else Inr (Some new, pay (\<lambda>d. touch_account E (rp_AccountID old)
                 (d\<lparr>db_periods := update_where (\<lambda>q. rp_ID q = rp_ID old) (\<lambda>_. new) (db_periods d)\<rparr>)) s))"

text \<open>A handoff only moves between active phases or out of them, so its partial unique index holds.\<close>

definition sql_update_handoff :: "env \<Rightarrow> OwnershipHandoff \<Rightarrow> (OwnershipHandoff \<Rightarrow> OwnershipHandoff) \<Rightarrow>
    payment_db \<Rightarrow> payment_db" where
  "sql_update_handoff E op f s =
     touch_account E (oh_AccountID op)
       (s\<lparr>db_handoffs := update_where (\<lambda>h. oh_ID h = oh_ID op) f (db_handoffs s)\<rparr>)"

definition set_phase :: "handoff_phase \<Rightarrow> OwnershipHandoff \<Rightarrow> OwnershipHandoff" where
  "set_phase phase h = h\<lparr>oh_Phase := phase, oh_Version := oh_Version h + 1\<rparr>"

text \<open>
  Revocations. A stored method stays within its checks when it is revoked, the payer barrier of a
  closure admits it, and a consent is revoked with a reason that is not blank.
\<close>

definition revoke_methods :: "env \<Rightarrow> (method_row \<Rightarrow> bool) \<Rightarrow> payment_db \<Rightarrow> payment_db" where
  "revoke_methods E p s =
     s\<lparr>db_methods := update_where p
        (\<lambda>m. m\<lparr>pm_Status := PaymentMethodStatusRevoked, pm_UpdatedAt := env_now E\<rparr>) (db_methods s)\<rparr>"

definition revoke_consents :: "env \<Rightarrow> (PaymentConsent \<Rightarrow> bool) \<Rightarrow> string \<Rightarrow> payment_db \<Rightarrow> payment_db" where
  "revoke_consents E p reason s =
     s\<lparr>db_consents := update_where p
        (\<lambda>c. c\<lparr>pco_RevokedAt := Some (case pco_RevokedAt c of Some t \<Rightarrow> t | None \<Rightarrow> env_now E),
               pco_RevocationReason := (if pco_RevocationReason c = [] then reason else pco_RevocationReason c),
               pco_UpdatedAt := env_now E\<rparr>) (db_consents s)\<rparr>"

definition setup_open :: "setup_row \<Rightarrow> bool" where
  "setup_open r =
     (su_State r = PaymentIntentStateCreated \<or> su_State r = PaymentIntentStateRequiresAction \<or>
      su_State r = PaymentIntentStateUnknown)"

end
