(* ===== verification/Handoff_Store.thy ===== *)
theory Handoff_Store
  imports Ownership_Db "HOL-Library.Product_Lexorder"
begin

text \<open>
  The change of the owner of a cloud: \<^verbatim>\<open>paymentstore/handoff.go\<close> (the responsibility period and
  the fence), \<^verbatim>\<open>handoff_settlement.go\<close> (the settlement evidence, the balance snapshot and its
  confirmation by both participants) and \<^verbatim>\<open>handoff_commit.go\<close> (authorization, commit, abort).
  A transaction that returns without a commit leaves the state as it was.
\<close>

section \<open>Responsibility and fence (handoff.go)\<close>

record InitialResponsibilityInput =
  iri_AccountID :: string
  iri_OwnerUserID :: string
  iri_OwnershipVersion :: int
  iri_EffectiveFrom :: instant
  iri_SourceEvidenceSHA256 :: string

definition first_period :: "payment_db \<Rightarrow> string \<Rightarrow> responsibility_period option" where
  "first_period s accountID =
     (case sort_key rp_OwnershipVersion (filter (\<lambda>p. rp_AccountID p = accountID) (db_periods s)) of
        [] \<Rightarrow> None | p # _ \<Rightarrow> Some p)"

definition initialize_audit :: "CommercialAccount \<Rightarrow> InitialResponsibilityInput \<Rightarrow> audit_event" where
  "initialize_audit account inp =
     \<lparr>ae_OrganizationID = ca_OrganizationID account, ae_EventType = ''billing.responsibility.initialize'',
      ae_ActorType = ''service'', ae_ActorID = ''billing_handoff_coordinator'',
      ae_SubjectType = ''commercial_account'', ae_SubjectID = ca_ID account,
      ae_RequestID = iri_SourceEvidenceSHA256 inp,
      ae_Payload = [(''owner_user_id'', iri_OwnerUserID inp),
                    (''ownership_version'', decimal (iri_OwnershipVersion inp)),
                    (''source_evidence_sha256'', iri_SourceEvidenceSHA256 inp)]\<rparr>"

definition InitializeResponsibility :: "env \<Rightarrow> ctx \<Rightarrow> InitialResponsibilityInput \<Rightarrow> ownership_db \<Rightarrow>
    error + ownership_db" where
  "InitializeResponsibility E ctx inp s =
     (if \<not> canonicalUUID E (iri_AccountID inp) \<or> \<not> canonicalUUID E (iri_OwnerUserID inp) \<or>
         iri_OwnershipVersion inp < 1 \<or> iri_EffectiveFrom inp = zero_time \<or>
         \<not> validLowerSHA256 (iri_SourceEvidenceSHA256 inp)
      then Inl ErrConflict
      else
        let effectiveFrom = db_time (iri_EffectiveFrom inp) in
        bindE (getAccountForUpdate E ctx (od_pay s) (iri_AccountID inp)) (\<lambda>account.
        if ca_State account = AccountStateClosed then Inl ErrAccountClosed
        else case first_period (od_pay s) (iri_AccountID inp) of
          Some p \<Rightarrow>
            if rp_OwnerUserID p \<noteq> iri_OwnerUserID inp \<or> rp_OwnershipVersion p \<noteq> iri_OwnershipVersion inp \<or>
               rp_EffectiveFrom p \<noteq> effectiveFrom \<or> rp_SourceEvidenceSHA256 p \<noteq> iri_SourceEvidenceSHA256 inp
            then Inl ErrIdempotencyConflict else Inr s
        | None \<Rightarrow>
            bindE (sql_insert_period E
              \<lparr>rp_ID = [], rp_AccountID = iri_AccountID inp, rp_OwnerUserID = iri_OwnerUserID inp,
               rp_OwnershipVersion = iri_OwnershipVersion inp, rp_EffectiveFrom = effectiveFrom,
               rp_EffectiveUntil = None, rp_SourceEvidenceSHA256 = iri_SourceEvidenceSHA256 inp,
               rp_OpeningOperationID = [], rp_OpeningBalanceMinor = None\<rparr> (od_pay s)) (\<lambda>d.
            Inr (s\<lparr>od_pay := sql_insert_audit (initialize_audit account inp) d\<rparr>))))"

record PrepareOwnershipHandoffInput =
  poh_OperationID :: string
  poh_OrganizationID :: string
  poh_SourceUserID :: string
  poh_TargetUserID :: string
  poh_OwnershipVersion :: int
  poh_Cutoff :: instant

definition handoff_audit :: "string \<Rightarrow> string \<Rightarrow> string \<Rightarrow> string \<Rightarrow> string \<Rightarrow> string \<Rightarrow> (string \<times> string) list \<Rightarrow>
    audit_event" where
  "handoff_audit organizationID event actorType actorID operationID requestID payload =
     \<lparr>ae_OrganizationID = organizationID, ae_EventType = ''billing.ownership_handoff.'' @ event,
      ae_ActorType = actorType, ae_ActorID = actorID, ae_SubjectType = ''ownership_handoff'',
      ae_SubjectID = operationID, ae_RequestID = requestID, ae_Payload = payload\<rparr>"

text \<open>Setups that are still open are invalidated, their methods and the consents of these revoked.\<close>

definition invalidate_setups :: "env \<Rightarrow> string \<Rightarrow> string \<Rightarrow> ownership_db \<Rightarrow> ownership_db" where
  "invalidate_setups E accountID operationID s =
     (let setups = update_where
            (\<lambda>r. su_AccountID r = accountID \<and> setup_open r \<and> su_InvalidatedByHandoff r = [])
            (\<lambda>r. r\<lparr>su_InvalidatedByHandoff := operationID, su_State := PaymentIntentStateFailed,
                   su_UpdatedAt := env_now E\<rparr>) (od_setups s);
          methods = map su_PaymentMethodID (filter (\<lambda>r. su_InvalidatedByHandoff r = operationID) setups);
          consents = map pm_ConsentID (filter (\<lambda>m. pm_ID m \<in> set methods) (db_methods (od_pay s)))
      in pay (\<lambda>d. revoke_consents E (\<lambda>c. pco_ID c \<in> set consents) ''ownership_handoff_setup_invalidated''
                (revoke_methods E (\<lambda>m. pm_ID m \<in> set methods) d)) (s\<lparr>od_setups := setups\<rparr>))"

definition sql_insert_handoff :: "env \<Rightarrow> OwnershipHandoff \<Rightarrow> payment_db \<Rightarrow> error + payment_db" where
  "sql_insert_handoff E row s =
     (if closure_active s (oh_AccountID row) then Inl closure_barrier
      else if oh_SourceUserID row = oh_TargetUserID row \<or> \<not> validLowerSHA256 (oh_RequestSHA256 row)
      then Inl (check_violation ''billing_ownership_handoffs_check'')
      else if list_ex (\<lambda>h. oh_ID h = oh_ID row) (db_handoffs s) \<or> handoff_open s (oh_AccountID row)
      then Inl (unique_violation ''billing_ownership_handoffs_key'')
      else Inr (touch_account E (oh_AccountID row) (s\<lparr>db_handoffs := db_handoffs s @ [row]\<rparr>)))"

definition is_unique_violation :: "error \<Rightarrow> bool" where
  "is_unique_violation e = (case e of PgError code _ \<Rightarrow> code = ''23505'' | _ \<Rightarrow> False)"

definition PrepareOwnershipHandoff :: "(PrepareOwnershipHandoffInput \<Rightarrow> string) \<Rightarrow> env \<Rightarrow>
    PrepareOwnershipHandoffInput \<Rightarrow> ownership_db \<Rightarrow> error + (OwnershipHandoff \<times> ownership_db)" where
  "PrepareOwnershipHandoff dg E inp s =
     (if \<not> canonicalUUID E (poh_OperationID inp) \<or> \<not> canonicalUUID E (poh_OrganizationID inp) \<or>
         \<not> canonicalUUID E (poh_SourceUserID inp) \<or> \<not> canonicalUUID E (poh_TargetUserID inp) \<or>
         poh_SourceUserID inp = poh_TargetUserID inp \<or> poh_OwnershipVersion inp < 1 \<or> poh_Cutoff inp = zero_time
      then Inl ErrConflict
      else
        let inp = inp\<lparr>poh_Cutoff := db_time (poh_Cutoff inp)\<rparr> in
        case json_digest dg [poh_Cutoff inp] inp of Inl _ \<Rightarrow> Inl ErrConflict | Inr digest \<Rightarrow>
        bindE (find_org_account (od_pay s) (poh_OrganizationID inp) Settlement) (\<lambda>account.
        case find (\<lambda>h. oh_ID h = poh_OperationID inp) (db_handoffs (od_pay s)) of
          Some previous \<Rightarrow>
            if oh_AccountID previous \<noteq> ca_ID account \<or> oh_RequestSHA256 previous \<noteq> digest
            then Inl ErrIdempotencyConflict else Inr (previous, s)
        | None \<Rightarrow>
            if ca_State account = AccountStateClosed then Inl ErrAccountClosed
            else
            bindE (requireNoHandoffTx (od_pay s) (ca_ID account)) (\<lambda>_.
            case current_period (od_pay s) (ca_ID account) of
              None \<Rightarrow> Inl ErrOwnershipEvidenceMissing
            | Some p \<Rightarrow>
                if rp_OwnerUserID p \<noteq> poh_SourceUserID inp \<or> rp_OwnershipVersion p \<noteq> poh_OwnershipVersion inp \<or>
                   poh_Cutoff inp < rp_EffectiveFrom p
                then Inl ErrOwnershipVersionConflict
                else
                  let op = \<lparr>oh_ID = poh_OperationID inp, oh_AccountID = ca_ID account,
                            oh_SourcePeriodID = rp_ID p, oh_SourceUserID = poh_SourceUserID inp,
                            oh_TargetUserID = poh_TargetUserID inp,
                            oh_OwnershipVersion = poh_OwnershipVersion inp, oh_Cutoff = poh_Cutoff inp,
                            oh_Phase = HandoffPreparing, oh_Version = 1, oh_CreatedAt = env_now E,
                            oh_RequestSHA256 = digest\<rparr>
                  in case scan (sql_insert_handoff E op (od_pay s)) of
                       Inl e \<Rightarrow> Inl (if is_unique_violation e then ErrIdempotencyConflict else e)
                     | Inr d \<Rightarrow>
                         let s = invalidate_setups E (ca_ID account) (oh_ID op) (s\<lparr>od_pay := d\<rparr>)
                         in Inr (op, pay (sql_insert_audit
                              (handoff_audit (poh_OrganizationID inp) ''prepare'' ''service''
                                ''billing_handoff_coordinator'' (oh_ID op) (oh_ID op)
                                [(''source_user_id'', poh_SourceUserID inp), (''target_user_id'', poh_TargetUserID inp),
                                 (''ownership_version'', decimal (poh_OwnershipVersion inp)),
                                 (''request_sha256'', digest)])) s))))"

definition GetOwnershipHandoff :: "env \<Rightarrow> string \<Rightarrow> string \<Rightarrow> ownership_db \<Rightarrow> error + OwnershipHandoff" where
  "GetOwnershipHandoff E organizationID operationID s =
     (if \<not> canonicalUUID E organizationID \<or> \<not> canonicalUUID E operationID then Inl ErrConflict
      else scan (query_row (find (\<lambda>h. oh_ID h = operationID \<and>
             list_ex (\<lambda>a. ca_ID a = oh_AccountID h \<and> ca_OrganizationID a = organizationID) (db_accounts (od_pay s)))
             (db_handoffs (od_pay s)))))"

section \<open>Settlement evidence (handoff_settlement.go)\<close>

record HandoffScope =
  hs_OrganizationID :: string
  hs_OperationID :: string
  hs_OwnershipVersion :: int

record SettlementState =
  ss_SHA256 :: string
  ss_Financial :: FinancialEvidence

record RecordSettlementInput =
  rsi_Scope :: HandoffScope
  rsi_ReceiptID :: string
  rsi_StateSHA256 :: string
  rsi_UsageCheckpointSHA256 :: string
  rsi_InvoiceCheckpointSHA256 :: string
  rsi_ProviderCheckpointSHA256 :: string
  rsi_Financial :: FinancialEvidence

record HandoffBalanceSnapshot =
  hbs_Version :: int
  hbs_BalanceMinor :: int
  hbs_Currency :: Code
  hbs_Cutoff :: instant
  hbs_SourceConfirmed :: bool
  hbs_TargetConfirmed :: bool

record HandoffSettlementStatus =
  hst_OperationID :: string
  hst_Phase :: handoff_phase
  hst_Snapshot :: "HandoffBalanceSnapshot option"
  hst_Blockers :: "string list"

definition validHandoffScope :: "env \<Rightarrow> HandoffScope \<Rightarrow> bool" where
  "validHandoffScope E scope =
     (canonicalUUID E (hs_OrganizationID scope) \<and> canonicalUUID E (hs_OperationID scope) \<and>
      hs_OwnershipVersion scope > 0)"

definition lockHandoffOperationTx :: "HandoffScope \<Rightarrow> ownership_db \<Rightarrow>
    error + (CommercialAccount \<times> OwnershipHandoff)" where
  "lockHandoffOperationTx scope s =
     bindE (find_org_account (od_pay s) (hs_OrganizationID scope) Settlement) (\<lambda>account.
     bindE (scan (query_row (find (\<lambda>h. oh_ID h = hs_OperationID scope \<and> oh_AccountID h = ca_ID account)
       (db_handoffs (od_pay s))))) (\<lambda>op.
     if oh_OwnershipVersion op \<noteq> hs_OwnershipVersion scope then Inl ErrOwnershipVersionConflict
     else Inr (account, op)))"

definition requireSourceResponsibilityTx :: "CommercialAccount \<Rightarrow> OwnershipHandoff \<Rightarrow> ownership_db \<Rightarrow> error + unit" where
  "requireSourceResponsibilityTx account op s =
     (if list_ex (\<lambda>p. rp_AccountID p = ca_ID account \<and> rp_OwnerUserID p = oh_SourceUserID op \<and>
           rp_OwnershipVersion p = oh_OwnershipVersion op \<and> rp_EffectiveUntil p = None) (db_periods (od_pay s))
      then Inr () else Inl ErrOwnershipVersionConflict)"

definition loadHandoffScopeTx :: "HandoffScope \<Rightarrow> ownership_db \<Rightarrow>
    error + (CommercialAccount \<times> OwnershipHandoff)" where
  "loadHandoffScopeTx scope s =
     bindE (lockHandoffOperationTx scope s) (\<lambda>(account, op).
     bindE (requireSourceResponsibilityTx account op s) (\<lambda>_. Inr (account, op)))"

text \<open>What the query of \<open>captureSettlementStateTx\<close> reads of an account, each table in the order of its key.\<close>

record settlement_view =
  sv_account :: "string \<times> int \<times> int \<times> Code \<times> AccountState"
  sv_usage :: "UsageFact list"
  sv_periods :: "billing_period list"
  sv_invoices :: "(string \<times> InvoiceState \<times> int \<times> int \<times> int \<times> int \<times> string) list"
  sv_settlements :: "settlement_link list"
  sv_intents :: "(string \<times> PaymentIntentState \<times> int \<times> Currency \<times> instant) list"
  sv_jobs :: "(string \<times> string \<times> ReconciliationReason \<times> ReconciliationStatus) list"
  sv_attempts :: "(string \<times> string \<times> ProviderOperation \<times> string \<times> instant option) list"
  sv_setups :: "(string \<times> PaymentIntentState \<times> string \<times> instant) list"
  sv_observations :: "(string \<times> string) list"
  sv_webhooks :: "(string \<times> string \<times> string \<times> string) list"
  sv_reversals :: "(string \<times> string \<times> string) list"

definition account_invoices :: "payment_db \<Rightarrow> string \<Rightarrow> Invoice list" where
  "account_invoices d accountID = filter (\<lambda>i. iv_AccountID i = accountID) (db_invoices d)"

definition account_links :: "ownership_db \<Rightarrow> string \<Rightarrow> settlement_link list" where
  "account_links s accountID =
     filter (\<lambda>l. list_ex (\<lambda>i. iv_ID i = sl_InvoiceID l) (account_invoices (od_pay s) accountID)) (od_links s)"

definition account_intents :: "payment_db \<Rightarrow> string \<Rightarrow> PaymentIntent list" where
  "account_intents d accountID = filter (\<lambda>i. pi_AccountID i = accountID) (db_intents d)"

definition of_account :: "payment_db \<Rightarrow> string \<Rightarrow> string \<Rightarrow> bool" where
  "of_account d accountID intentID = list_ex (\<lambda>i. pi_ID i = intentID) (account_intents d accountID)"

definition account_jobs :: "payment_db \<Rightarrow> string \<Rightarrow> ReconciliationJob list" where
  "account_jobs d accountID = filter (\<lambda>j. of_account d accountID (rj_IntentID j)) (db_jobs d)"

definition account_attempts :: "payment_db \<Rightarrow> string \<Rightarrow> PaymentAttempt list" where
  "account_attempts d accountID = filter (\<lambda>a. of_account d accountID (pa_IntentID a)) (db_attempts d)"

definition account_webhooks :: "payment_db \<Rightarrow> string \<Rightarrow> WebhookReceipt list" where
  "account_webhooks d accountID = filter (\<lambda>w. of_account d accountID (wr_IntentID w)) (db_webhooks d)"

definition account_setups :: "ownership_db \<Rightarrow> string \<Rightarrow> setup_row list" where
  "account_setups s accountID = filter (\<lambda>r. su_AccountID r = accountID) (od_setups s)"

definition account_observations :: "ownership_db \<Rightarrow> string \<Rightarrow> setup_observation list" where
  "account_observations s accountID =
     filter (\<lambda>o'. list_ex (\<lambda>r. su_ID r = so_SessionID o') (account_setups s accountID)) (od_observations s)"

definition unresolved_reversals :: "payment_db \<Rightarrow> string \<Rightarrow> (string \<times> string \<times> string) list" where
  "unresolved_reversals d accountID =
     [(re_ID e, re_RequestSHA256 e, rrv_ReasonCode r).
        e \<leftarrow> db_reversal_events d, r \<leftarrow> db_reversal_reviews d,
        rrv_EventID r = re_ID e \<and> re_AccountID e = accountID \<and>
        \<not> list_ex (\<lambda>a. ral_EventID a = re_ID e) (db_reversal_allocations d)]"

definition settlement_view_of :: "CommercialAccount \<Rightarrow> ownership_db \<Rightarrow> settlement_view" where
  "settlement_view_of account s =
     (let d = od_pay s; x = ca_ID account; org = ca_OrganizationID account in
      \<lparr>sv_account = (x, ca_AvailableBalanceMinor account, ca_Version account, ca_Currency account, ca_State account),
       sv_usage = sort_key uf_ID (filter (\<lambda>u. uf_OrganizationID u = org) (od_usage s)),
       sv_periods = sort_key bpd_ID (filter (\<lambda>p. bpd_OrganizationID p = org) (od_billing_periods s)),
       sv_invoices = map (\<lambda>i. (iv_ID i, iv_State i, iv_Version i, iv_TotalMinor i, iv_AmountDueMinor i,
                            iv_AmountSettledMinor i, iv_PeriodID i)) (sort_key iv_ID (account_invoices d x)),
       sv_settlements = sort_key sl_InvoiceID (account_links s x),
       sv_intents = map (\<lambda>i. (pi_ID i, pi_State i, pi_AmountMinor i, pi_Currency i, pi_UpdatedAt i))
                      (sort_key pi_ID (account_intents d x)),
       sv_jobs = map (\<lambda>j. (rj_ID j, rj_IntentID j, rj_Reason j, rj_Status j)) (sort_key rj_ID (account_jobs d x)),
       sv_attempts = map (\<lambda>a. (pa_ID a, pa_IntentID a, pa_Operation a, pa_NormalizedResult a, pa_CompletedAt a))
                       (sort_key pa_ID (account_attempts d x)),
       sv_setups = map (\<lambda>r. (su_ID r, su_State r, su_InvalidatedByHandoff r, su_UpdatedAt r))
                     (sort_key su_ID (account_setups s x)),
       sv_observations = sort (map (\<lambda>o'. (so_SessionID o', so_ResultSHA256 o')) (account_observations s x)),
       sv_webhooks = map (\<lambda>w. (wr_ID w, wr_IntentID w, wr_ProcessingState w, wr_PayloadSHA256 w))
                       (sort_key wr_ID (account_webhooks d x)),
       sv_reversals = sort_key fst (unresolved_reversals d x)\<rparr>)"

definition invoice_unpaid :: "ownership_db \<Rightarrow> string \<Rightarrow> Invoice \<Rightarrow> bool" where
  "invoice_unpaid s accountID i =
     (iv_State i \<noteq> InvoiceStateVoid \<and>
      (iv_State i \<noteq> InvoiceStateSettled \<or>
       iv_TotalMinor i > 0 \<and>
       \<not> list_ex (\<lambda>l. sl_InvoiceID l = iv_ID i \<and> sl_State l = ''posted'' \<and> sl_LedgerEntryID l \<noteq> [])
           (account_links s accountID)))"

text \<open>The ids a payment is pending under, without repetition (\<^verbatim>\<open>UNION\<close>).\<close>

definition open_payment_intents :: "payment_db \<Rightarrow> string \<Rightarrow> string list" where
  "open_payment_intents d accountID =
     remdups
       (map pi_ID (filter (\<lambda>i. intent_open (pi_State i)) (account_intents d accountID)) @
        map rj_IntentID (filter (\<lambda>j. rj_Status j \<noteq> ReconciliationStatusCompleted) (account_jobs d accountID)) @
        map pa_IntentID (filter (\<lambda>a. pa_CompletedAt a = None) (account_attempts d accountID)) @
        map wr_IntentID (filter (\<lambda>w. wr_ProcessingState w \<noteq> ''processed'') (account_webhooks d accountID)))"

definition captureSettlementStateTx :: "(settlement_view \<Rightarrow> string) \<Rightarrow> CommercialAccount \<Rightarrow> ownership_db \<Rightarrow>
    error + SettlementState" where
  "captureSettlementStateTx sha account s =
     (let d = od_pay s; x = ca_ID account;
          debt = sum_list (map iv_AmountDueMinor
                   (filter (\<lambda>i. iv_State i \<noteq> InvoiceStateVoid) (account_invoices d x)))
      in if \<not> is_int64 debt then Inl (PgError ''22003'' [])
         else Inr \<lparr>ss_SHA256 = sha (settlement_view_of account s),
           ss_Financial =
             \<lparr>fe_BalanceKnown = True, fe_Currency = ca_Currency account,
              fe_BalanceMinor = ca_AvailableBalanceMinor account, fe_UsageSettled = False,
              fe_InvoicesReconciled = False, fe_ProviderWorkReconciled = False,
              fe_UnpaidInvoiceCount = int (length (filter (invoice_unpaid s x) (account_invoices d x))),
              fe_DebtMinor = debt,
              fe_PendingPaymentCount = int (length (open_payment_intents d x)),
              fe_PendingRefundCount = int (length (filter (\<lambda>j. rj_Reason j = ReconciliationReasonRefund \<and>
                 rj_Status j \<noteq> ReconciliationStatusCompleted) (account_jobs d x))),
              fe_OpenDisputeCount = 0,
              fe_PendingSetupCount = int (length (filter setup_open (account_setups s x))),
              fe_UnresolvedProviderEventCount = int (length (unresolved_reversals d x))\<rparr>\<rparr>)"

end
