(* ===== verification/Handoff_Protocol.thy ===== *)
theory Handoff_Protocol
  imports Handoff_Store
begin

text \<open>
  The protocol that carries a prepared handoff to its commit or its abort: the recorded settlement
  and the confirmation of its balance (\<^verbatim>\<open>paymentstore/handoff_settlement.go\<close>), the commit
  authorization, the committed decision, the finalization and the abort
  (\<^verbatim>\<open>paymentstore/handoff_commit.go\<close>). The digests of the requests are
  parameters of the operations.
\<close>

section \<open>Recording and confirming a settlement (handoff_settlement.go)\<close>

definition preparing :: "OwnershipHandoff \<Rightarrow> bool" where
  "preparing op = (oh_Phase op = HandoffPreparing \<or> oh_Phase op = HandoffPrepared)"

definition CaptureHandoffSettlementState :: "(settlement_view \<Rightarrow> string) \<Rightarrow> env \<Rightarrow> HandoffScope \<Rightarrow> ownership_db \<Rightarrow>
    error + SettlementState" where
  "CaptureHandoffSettlementState sha E scope s =
     (if \<not> validHandoffScope E scope then Inl ErrConflict
      else bindE (loadHandoffScopeTx scope s) (\<lambda>(account, op).
        if \<not> preparing op then Inl ErrConflict else captureSettlementStateTx sha account s))"

definition validCheckpoint :: "bool \<Rightarrow> string \<Rightarrow> bool" where
  "validCheckpoint complete digest = (if digest = [] then \<not> complete else validLowerSHA256 digest)"

definition mergeSettlementEvidence :: "FinancialEvidence \<Rightarrow> FinancialEvidence \<Rightarrow> FinancialEvidence" where
  "mergeSettlementEvidence external local =
     external\<lparr>fe_BalanceKnown := fe_BalanceKnown local, fe_Currency := fe_Currency local,
       fe_BalanceMinor := fe_BalanceMinor local,
       fe_UnpaidInvoiceCount := max (fe_UnpaidInvoiceCount external) (fe_UnpaidInvoiceCount local),
       fe_DebtMinor := max (fe_DebtMinor external) (fe_DebtMinor local),
       fe_PendingPaymentCount := max (fe_PendingPaymentCount external) (fe_PendingPaymentCount local),
       fe_PendingRefundCount := max (fe_PendingRefundCount external) (fe_PendingRefundCount local),
       fe_PendingSetupCount := max (fe_PendingSetupCount external) (fe_PendingSetupCount local),
       fe_UnresolvedProviderEventCount :=
         max (fe_UnresolvedProviderEventCount external) (fe_UnresolvedProviderEventCount local)\<rparr>"

definition no_evidence :: FinancialEvidence where
  "no_evidence =
     \<lparr>fe_BalanceKnown = False, fe_Currency = [], fe_BalanceMinor = 0, fe_UsageSettled = False,
      fe_InvoicesReconciled = False, fe_ProviderWorkReconciled = False, fe_UnpaidInvoiceCount = 0,
      fe_DebtMinor = 0, fe_PendingPaymentCount = 0, fe_PendingRefundCount = 0, fe_OpenDisputeCount = 0,
      fe_PendingSetupCount = 0, fe_UnresolvedProviderEventCount = 0\<rparr>"

definition find_receipt :: "ownership_db \<Rightarrow> string \<Rightarrow> int \<Rightarrow> settlement_receipt option" where
  "find_receipt s operationID version =
     find (\<lambda>r. sr_OperationID r = operationID \<and> sr_OperationVersion r = version) (od_receipts s)"

definition confirmed :: "ownership_db \<Rightarrow> string \<Rightarrow> int \<Rightarrow> string \<Rightarrow> bool" where
  "confirmed s operationID version userID =
     list_ex (\<lambda>c. hc_OperationID c = operationID \<and> hc_SnapshotVersion c = version \<and> hc_UserID c = userID)
       (od_confirmations s)"

definition settlement_blockers :: "SettlementState \<Rightarrow> CommercialAccount \<Rightarrow> settlement_receipt option \<Rightarrow> string list" where
  "settlement_blockers local account receipt =
     (case receipt of
        None \<Rightarrow> [''settlement_evidence_missing'']
      | Some r \<Rightarrow> if sr_StateSHA256 r \<noteq> ss_SHA256 local then [''settlement_evidence_stale''] else []) @
     OwnershipTransferBlockers (mergeSettlementEvidence
       (case receipt of None \<Rightarrow> no_evidence | Some r \<Rightarrow> sr_FinancialEvidence r) (ss_Financial local)) @
     (if ca_State account = AccountStateClosed then [''account_closed''] else [])"

definition handoffSettlementStatusTx :: "(settlement_view \<Rightarrow> string) \<Rightarrow> CommercialAccount \<Rightarrow> OwnershipHandoff \<Rightarrow>
    ownership_db \<Rightarrow> error + HandoffSettlementStatus" where
  "handoffSettlementStatusTx sha account op s =
     (let status = \<lparr>hst_OperationID = oh_ID op, hst_Phase = oh_Phase op, hst_Snapshot = None, hst_Blockers = []\<rparr> in
      if \<not> preparing op then Inr (status\<lparr>hst_Blockers := [''handoff_not_confirmable'']\<rparr>)
      else
        bindE (captureSettlementStateTx sha account s) (\<lambda>local.
        let blockers = settlement_blockers local account (find_receipt s (oh_ID op) (oh_Version op)) in
        if blockers \<noteq> [] then Inr (status\<lparr>hst_Blockers := blockers, hst_Phase := HandoffPreparing\<rparr>)
        else
          bindE (scan (query_row (find (\<lambda>b. bs_OperationID b = oh_ID op \<and> bs_Version b = oh_Version op)
            (od_snapshots s)))) (\<lambda>b.
          Inr (status\<lparr>hst_Snapshot := Some
            \<lparr>hbs_Version = bs_Version b, hbs_BalanceMinor = bs_BalanceMinor b, hbs_Currency = bs_Currency b,
             hbs_Cutoff = bs_Cutoff b,
             hbs_SourceConfirmed = confirmed s (oh_ID op) (oh_Version op) (oh_SourceUserID op),
             hbs_TargetConfirmed = confirmed s (oh_ID op) (oh_Version op) (oh_TargetUserID op)\<rparr>\<rparr>))))"

definition GetHandoffSettlementStatus :: "(settlement_view \<Rightarrow> string) \<Rightarrow> env \<Rightarrow> HandoffScope \<Rightarrow> ownership_db \<Rightarrow>
    error + HandoffSettlementStatus" where
  "GetHandoffSettlementStatus sha E scope s =
     (if \<not> validHandoffScope E scope then Inl ErrConflict
      else bindE (loadHandoffScopeTx scope s) (\<lambda>(account, op). handoffSettlementStatusTx sha account op s))"

definition sql_insert_receipt :: "settlement_receipt \<Rightarrow> ownership_db \<Rightarrow> error + ownership_db" where
  "sql_insert_receipt row s =
     (if sr_OperationVersion row \<le> 1 \<or> \<not> validLowerSHA256 (sr_RequestSHA256 row) \<or>
         \<not> validLowerSHA256 (sr_StateSHA256 row) \<or>
         list_ex (\<lambda>c. c \<noteq> [] \<and> \<not> validLowerSHA256 c)
           [sr_UsageCheckpointSHA256 row, sr_InvoiceCheckpointSHA256 row, sr_ProviderCheckpointSHA256 row]
      then Inl (check_violation ''billing_handoff_settlement_receipts_check'')
      else if list_ex (\<lambda>r. sr_ID r = sr_ID row \<or>
                sr_OperationID r = sr_OperationID row \<and> sr_OperationVersion r = sr_OperationVersion row) (od_receipts s)
      then Inl (unique_violation ''billing_handoff_settlement_receipts_key'')
      else Inr (s\<lparr>od_receipts := od_receipts s @ [row]\<rparr>))"

definition sql_insert_snapshot :: "balance_snapshot \<Rightarrow> ownership_db \<Rightarrow> error + ownership_db" where
  "sql_insert_snapshot row s =
     (if bs_BalanceMinor row < 0 \<or> bs_Currency row \<noteq> TWD
      then Inl (check_violation ''billing_handoff_balance_snapshots_check'')
      else if list_ex (\<lambda>b. bs_OperationID b = bs_OperationID row \<and> bs_Version b = bs_Version row) (od_snapshots s)
      then Inl (unique_violation ''billing_handoff_balance_snapshots_pkey'')
      else Inr (s\<lparr>od_snapshots := od_snapshots s @ [row]\<rparr>))"

fun phase_text :: "handoff_phase \<Rightarrow> string" where
  "phase_text HandoffPreparing = ''preparing''"
| "phase_text HandoffPrepared = ''prepared''"
| "phase_text HandoffCommitAuthorized = ''commit_authorized''"
| "phase_text HandoffFinalizing = ''finalizing''"
| "phase_text HandoffFinalized = ''finalized''"
| "phase_text HandoffAbortPending = ''abort_pending''"
| "phase_text HandoffAborted = ''aborted''"

definition RecordHandoffSettlement :: "(settlement_view \<Rightarrow> string) \<Rightarrow> (RecordSettlementInput \<Rightarrow> string) \<Rightarrow> env \<Rightarrow>
    RecordSettlementInput \<Rightarrow> ownership_db \<Rightarrow> error + (HandoffSettlementStatus \<times> ownership_db)" where
  "RecordHandoffSettlement sha dg E inp s =
     (if \<not> validHandoffScope E (rsi_Scope inp) \<or> \<not> canonicalUUID E (rsi_ReceiptID inp) \<or>
         \<not> validLowerSHA256 (rsi_StateSHA256 inp) \<or>
         \<not> validCheckpoint (fe_UsageSettled (rsi_Financial inp)) (rsi_UsageCheckpointSHA256 inp) \<or>
         \<not> validCheckpoint (fe_InvoicesReconciled (rsi_Financial inp)) (rsi_InvoiceCheckpointSHA256 inp) \<or>
         \<not> validCheckpoint (fe_ProviderWorkReconciled (rsi_Financial inp)) (rsi_ProviderCheckpointSHA256 inp) \<or>
         negative_counts (rsi_Financial inp)
      then Inl ErrConflict
      else
        let digest = dg inp in
        bindE (loadHandoffScopeTx (rsi_Scope inp) s) (\<lambda>(account, op).
        case find (\<lambda>r. sr_ID r = rsi_ReceiptID inp) (od_receipts s) of
          Some r \<Rightarrow>
            if sr_RequestSHA256 r \<noteq> digest then Inl ErrIdempotencyConflict
            else bindE (handoffSettlementStatusTx sha account op s) (\<lambda>status. Inr (status, s))
        | None \<Rightarrow>
            if \<not> preparing op then Inl ErrConflict
            else
            bindE (captureSettlementStateTx sha account s) (\<lambda>state.
            if ss_SHA256 state \<noteq> rsi_StateSHA256 inp then Inl ErrSettlementEvidenceStale
            else if \<not> fe_BalanceKnown (rsi_Financial inp) \<or>
                    fe_BalanceMinor (rsi_Financial inp) \<noteq> fe_BalanceMinor (ss_Financial state) \<or>
                    fe_Currency (rsi_Financial inp) \<noteq> fe_Currency (ss_Financial state)
            then Inl ErrSettlementEvidenceStale
            else
              let evidence = mergeSettlementEvidence (rsi_Financial inp) (ss_Financial state);
                  blockers = OwnershipTransferBlockers evidence @
                    (if ca_State account = AccountStateClosed then [''account_closed''] else []);
                  op = op\<lparr>oh_Version := oh_Version op + 1,
                          oh_Phase := (if blockers = [] then HandoffPrepared else HandoffPreparing)\<rparr>
              in case sql_insert_receipt
                   \<lparr>sr_ID = rsi_ReceiptID inp, sr_OperationID = oh_ID op, sr_OperationVersion = oh_Version op,
                    sr_RequestSHA256 = digest, sr_StateSHA256 = ss_SHA256 state,
                    sr_UsageCheckpointSHA256 = rsi_UsageCheckpointSHA256 inp,
                    sr_InvoiceCheckpointSHA256 = rsi_InvoiceCheckpointSHA256 inp,
                    sr_ProviderCheckpointSHA256 = rsi_ProviderCheckpointSHA256 inp,
                    sr_FinancialEvidence = evidence\<rparr> s of
                   Inl e \<Rightarrow> Inl (if is_unique_violation e then ErrIdempotencyConflict else e)
                 | Inr s \<Rightarrow>
                     let s = pay (sql_update_handoff E op
                           (\<lambda>h. h\<lparr>oh_Phase := oh_Phase op, oh_Version := oh_Version op\<rparr>)) s
                     in bindE (if blockers = [] then sql_insert_snapshot
                          \<lparr>bs_OperationID = oh_ID op, bs_Version = oh_Version op, bs_ReceiptID = rsi_ReceiptID inp,
                           bs_BalanceMinor = fe_BalanceMinor evidence, bs_Currency = fe_Currency evidence,
                           bs_Cutoff = oh_Cutoff op\<rparr> s else Inr s) (\<lambda>s.
                        let s = pay (sql_insert_audit
                              (handoff_audit (hs_OrganizationID (rsi_Scope inp)) ''settlement'' ''service''
                                ''billing_settlement_collector'' (oh_ID op) (rsi_ReceiptID inp)
                                [(''version'', decimal (oh_Version op)), (''phase'', phase_text (oh_Phase op)),
                                 (''request_sha256'', digest)])) s
                        in bindE (handoffSettlementStatusTx sha account op s) (\<lambda>status. Inr (status, s))))))"

record ConfirmHandoffSnapshotInput =
  chs_Scope :: HandoffScope
  chs_UserID :: string
  chs_SnapshotVersion :: int
  chs_BalanceMinor :: int
  chs_Currency :: Code

definition ConfirmHandoffSnapshot :: "(settlement_view \<Rightarrow> string) \<Rightarrow> env \<Rightarrow> ConfirmHandoffSnapshotInput \<Rightarrow>
    ownership_db \<Rightarrow> error + (HandoffSettlementStatus \<times> ownership_db)" where
  "ConfirmHandoffSnapshot sha E inp s =
     (if \<not> validHandoffScope E (chs_Scope inp) \<or> \<not> canonicalUUID E (chs_UserID inp) \<or>
         chs_SnapshotVersion inp < 2 \<or> chs_BalanceMinor inp < 0 \<or> \<not> CanSettle (chs_Currency inp)
      then Inl ErrConflict
      else
        bindE (loadHandoffScopeTx (chs_Scope inp) s) (\<lambda>(account, op).
        if chs_UserID inp \<noteq> oh_SourceUserID op \<and> chs_UserID inp \<noteq> oh_TargetUserID op
        then Inl ErrHandoffParticipant
        else
        bindE (handoffSettlementStatusTx sha account op s) (\<lambda>status.
        case hst_Snapshot status of
          None \<Rightarrow> Inl ErrHandoffNotConfirmable
        | Some snap \<Rightarrow>
            if hbs_Version snap \<noteq> chs_SnapshotVersion inp \<or> hbs_BalanceMinor snap \<noteq> chs_BalanceMinor inp \<or>
               hbs_Currency snap \<noteq> chs_Currency inp
            then Inl ErrHandoffNotConfirmable
            else
              let snap' = snap\<lparr>hbs_SourceConfirmed := (hbs_SourceConfirmed snap \<or> chs_UserID inp = oh_SourceUserID op),
                               hbs_TargetConfirmed := (hbs_TargetConfirmed snap \<or> chs_UserID inp = oh_TargetUserID op)\<rparr>;
                  status' = status\<lparr>hst_Snapshot := Some snap'\<rparr>
              in if confirmed s (oh_ID op) (chs_SnapshotVersion inp) (chs_UserID inp) then Inr (status', s)
                 else Inr (status', pay (sql_insert_audit
                        (handoff_audit (hs_OrganizationID (chs_Scope inp)) ''confirm'' ''user'' (chs_UserID inp)
                          (oh_ID op) (oh_ID op)
                          [(''snapshot_version'', decimal (chs_SnapshotVersion inp)),
                           (''balance_minor'', decimal (chs_BalanceMinor inp)), (''currency'', chs_Currency inp)]))
                        (s\<lparr>od_confirmations := od_confirmations s @
                            [\<lparr>hc_OperationID = oh_ID op, hc_SnapshotVersion = chs_SnapshotVersion inp,
                              hc_UserID = chs_UserID inp\<rparr>]\<rparr>)))))"

section \<open>Commit (handoff_commit.go)\<close>

record AuthorizeHandoffCommitInput =
  ahc_Scope :: HandoffScope
  ahc_AuthorizationID :: string
  ahc_SnapshotVersion :: int

definition handoffProtocolAuditTx :: "HandoffScope \<Rightarrow> string \<Rightarrow> string \<Rightarrow> string \<Rightarrow> ownership_db \<Rightarrow> ownership_db" where
  "handoffProtocolAuditTx scope event requestID digest s =
     pay (sql_insert_audit
       (handoff_audit (hs_OrganizationID scope) event ''service'' ''billing_handoff_coordinator''
         (hs_OperationID scope) requestID
         [(''ownership_version'', decimal (hs_OwnershipVersion scope)), (''evidence_sha256'', digest)])) s"

definition find_authorization :: "ownership_db \<Rightarrow> string \<Rightarrow> HandoffCommitAuthorization option" where
  "find_authorization s operationID =
     find (\<lambda>a. hca_OperationID a = operationID) (db_commit_authorizations (od_pay s))"

definition sql_insert_authorization :: "HandoffCommitAuthorization \<Rightarrow> payment_db \<Rightarrow> error + payment_db" where
  "sql_insert_authorization row d =
     (if \<not> validLowerSHA256 (hca_RequestSHA256 row) \<or> \<not> validLowerSHA256 (hca_StateSHA256 row)
      then Inl (check_violation ''billing_handoff_commit_authorizations_check'')
      else if list_ex (\<lambda>a. hca_OperationID a = hca_OperationID row \<or> hca_AuthorizationID a = hca_AuthorizationID row)
             (db_commit_authorizations d)
      then Inl (unique_violation ''billing_handoff_commit_authorizations_key'')
      else Inr (d\<lparr>db_commit_authorizations := db_commit_authorizations d @ [row]\<rparr>))"

definition AuthorizeHandoffCommit :: "(settlement_view \<Rightarrow> string) \<Rightarrow> (AuthorizeHandoffCommitInput \<Rightarrow> string) \<Rightarrow> env \<Rightarrow>
    AuthorizeHandoffCommitInput \<Rightarrow> ownership_db \<Rightarrow> error + (HandoffCommitAuthorization \<times> ownership_db)" where
  "AuthorizeHandoffCommit sha dg E inp s =
     (if \<not> validHandoffScope E (ahc_Scope inp) \<or> \<not> canonicalUUID E (ahc_AuthorizationID inp) \<or>
         ahc_SnapshotVersion inp < 2
      then Inl ErrConflict
      else
        let digest = dg inp in
        bindE (loadHandoffScopeTx (ahc_Scope inp) s) (\<lambda>(account, op).
        case find_authorization s (oh_ID op) of
          Some prior \<Rightarrow>
            if hca_RequestSHA256 prior \<noteq> digest then Inl ErrIdempotencyConflict
            else if oh_Phase op \<noteq> HandoffCommitAuthorized then Inl ErrConflict
            else bindE (captureSettlementStateTx sha account s) (\<lambda>state.
              if ss_SHA256 state \<noteq> hca_StateSHA256 prior then Inl ErrSettlementEvidenceStale
              else Inr (prior, s))
        | None \<Rightarrow>
            bindE (handoffSettlementStatusTx sha account op s) (\<lambda>status.
            case hst_Snapshot status of
              None \<Rightarrow> Inl ErrHandoffNotConfirmable
            | Some snap \<Rightarrow>
                if hbs_Version snap \<noteq> ahc_SnapshotVersion inp \<or> \<not> hbs_SourceConfirmed snap \<or>
                   \<not> hbs_TargetConfirmed snap
                then Inl ErrHandoffNotConfirmable
                else
                  bindE (query_row (find_receipt s (oh_ID op) (ahc_SnapshotVersion inp))) (\<lambda>receipt.
                  let grant = \<lparr>hca_OperationID = oh_ID op, hca_AuthorizationID = ahc_AuthorizationID inp,
                               hca_SnapshotVersion = ahc_SnapshotVersion inp, hca_CreatedAt = env_now E,
                               hca_RequestSHA256 = digest, hca_StateSHA256 = sr_StateSHA256 receipt\<rparr>
                  in bindE (scan (sql_insert_authorization grant (od_pay s))) (\<lambda>d.
                     Inr (grant, handoffProtocolAuditTx (ahc_Scope inp) ''authorize_commit''
                       (ahc_AuthorizationID inp) digest
                       (s\<lparr>od_pay := sql_update_handoff E op (set_phase HandoffCommitAuthorized) d\<rparr>)))))))"

record FinalizeHandoffInput =
  fhi_Scope :: HandoffScope
  fhi_AuthorizationID :: string
  fhi_CommittedOwnerUserID :: string
  fhi_CommittedOwnershipVersion :: int
  fhi_CommittedAt :: instant
  fhi_AMCommitSHA256 :: string

record HandoffProtocolAck =
  hpa_OperationID :: string
  hpa_Phase :: handoff_phase

definition decision_of :: "string \<Rightarrow> string \<Rightarrow> FinalizeHandoffInput \<Rightarrow> committed_decision" where
  "decision_of operationID digest inp =
     \<lparr>hcd_OperationID = operationID, hcd_RequestSHA256 = digest, hcd_AMCommitSHA256 = fhi_AMCommitSHA256 inp,
      hcd_CommittedOwnershipVersion = fhi_CommittedOwnershipVersion inp, hcd_CommittedAt = fhi_CommittedAt inp\<rparr>"

text \<open>The check and the primary key of both tables that keep a committed decision.\<close>

definition sql_insert_decision :: "committed_decision \<Rightarrow> committed_decision list \<Rightarrow> error + committed_decision list" where
  "sql_insert_decision row rows =
     (if \<not> validLowerSHA256 (hcd_RequestSHA256 row) \<or> \<not> validLowerSHA256 (hcd_AMCommitSHA256 row) \<or>
         hcd_CommittedOwnershipVersion row \<le> 1
      then Inl (check_violation ''billing_handoff_decision_check'')
      else if list_ex (\<lambda>d. hcd_OperationID d = hcd_OperationID row) rows
      then Inl (unique_violation ''billing_handoff_decision_pkey'')
      else Inr (rows @ [row]))"

definition recordCommittedHandoffDecision :: "env \<Rightarrow> FinalizeHandoffInput \<Rightarrow> string \<Rightarrow> ownership_db \<Rightarrow>
    error + ownership_db" where
  "recordCommittedHandoffDecision E inp digest s =
     bindE (lockHandoffOperationTx (fhi_Scope inp) s) (\<lambda>(account, op).
     case find (\<lambda>d. hcd_OperationID d = oh_ID op) (db_committed_decisions (od_pay s)) of
       Some prior \<Rightarrow> if hcd_RequestSHA256 prior \<noteq> digest then Inl ErrIdempotencyConflict else Inr s
     | None \<Rightarrow>
         if oh_Phase op \<noteq> HandoffCommitAuthorized \<or> fhi_CommittedOwnerUserID inp \<noteq> oh_TargetUserID op \<or>
            fhi_CommittedAt inp < oh_Cutoff op
         then Inl ErrConflict
         else
         bindE (requireSourceResponsibilityTx account op s) (\<lambda>_.
         bindE (scan (query_row (find_authorization s (oh_ID op)))) (\<lambda>grant.
         if hca_AuthorizationID grant \<noteq> fhi_AuthorizationID inp then Inl ErrConflict
         else
         bindE (sql_insert_decision (decision_of (oh_ID op) digest inp) (db_committed_decisions (od_pay s))) (\<lambda>ds.
         Inr (handoffProtocolAuditTx (fhi_Scope inp) ''commit_observed'' (fhi_AuthorizationID inp) digest
           (pay (\<lambda>d. sql_update_handoff E op (set_phase HandoffFinalizing) (d\<lparr>db_committed_decisions := ds\<rparr>)) s))))))"

text \<open>The empty profile the successor configures, in place of the predecessor's.\<close>

definition successor_profile :: "env \<Rightarrow> string \<Rightarrow> int \<Rightarrow> BillingProfile option \<Rightarrow> BillingProfile" where
  "successor_profile E organizationID version old =
     \<lparr>bp_OwnershipVersion = Some version, bp_RequiresConfiguration = True, bp_OrganizationID = organizationID,
      bp_LegalName = [], bp_TaxIdentifier = [], bp_BillingAddress = [], bp_ContactEmail = [],
      bp_Locale = ''zh-TW'', bp_Timezone = ''Asia/Taipei'', bp_DeliveryPreference = ''portal'',
      bp_Version = (case old of None \<Rightarrow> 1 | Some p \<Rightarrow> bp_Version p + 1),
      bp_CreatedAt = (case old of None \<Rightarrow> env_now E | Some p \<Rightarrow> bp_CreatedAt p), bp_UpdatedAt = env_now E\<rparr>"

definition replace_profile :: "env \<Rightarrow> string \<Rightarrow> int \<Rightarrow> payment_db \<Rightarrow> payment_db" where
  "replace_profile E organizationID version d =
     (case find (\<lambda>p. bp_OrganizationID p = organizationID) (db_profiles d) of
        None \<Rightarrow> d\<lparr>db_profiles := db_profiles d @ [successor_profile E organizationID version None]\<rparr>
      | Some old \<Rightarrow> d\<lparr>db_profiles := update_where (\<lambda>p. bp_OrganizationID p = organizationID)
                        (\<lambda>p. successor_profile E organizationID version (Some p)) (db_profiles d)\<rparr>)"

definition retire_profile :: "string \<Rightarrow> string \<Rightarrow> string \<Rightarrow> ownership_db \<Rightarrow> error + ownership_db" where
  "retire_profile operationID periodID organizationID s =
     (let rows = map (\<lambda>p. \<lparr>rpf_OperationID = operationID, rpf_SourcePeriodID = periodID, rpf_ProfileSnapshot = p\<rparr>)
                   (filter (\<lambda>p. bp_OrganizationID p = organizationID) (db_profiles (od_pay s)))
      in if rows \<noteq> [] \<and> list_ex (\<lambda>r. rpf_OperationID r = operationID) (od_retired_profiles s)
         then Inl (unique_violation ''billing_retired_profiles_pkey'')
         else Inr (s\<lparr>od_retired_profiles := od_retired_profiles s @ rows\<rparr>))"

text \<open>
  The local effects of a committed decision: the source period ends, the successor's opens with the
  balance of the account, and nothing the predecessor authorized stays in force.
\<close>

definition transfer_responsibility :: "env \<Rightarrow> FinalizeHandoffInput \<Rightarrow> CommercialAccount \<Rightarrow> OwnershipHandoff \<Rightarrow>
    ownership_db \<Rightarrow> error + ownership_db" where
  "transfer_responsibility E inp account op s =
     bindE (scan (sql_end_period E (\<lambda>p. rp_AccountID p = ca_ID account \<and> rp_OwnerUserID p = oh_SourceUserID op \<and>
         rp_OwnershipVersion p = oh_OwnershipVersion op \<and> rp_EffectiveUntil p = None \<and>
         rp_EffectiveFrom p < fhi_CommittedAt inp) (fhi_CommittedAt inp) s)) (\<lambda>(ended, s).
     case ended of
       None \<Rightarrow> Inl ErrNotFound
     | Some source \<Rightarrow>
         bindE (sql_insert_period E
           \<lparr>rp_ID = [], rp_AccountID = ca_ID account, rp_OwnerUserID = oh_TargetUserID op,
            rp_OwnershipVersion = fhi_CommittedOwnershipVersion inp, rp_EffectiveFrom = fhi_CommittedAt inp,
            rp_EffectiveUntil = None, rp_SourceEvidenceSHA256 = fhi_AMCommitSHA256 inp,
            rp_OpeningOperationID = oh_ID op,
            rp_OpeningBalanceMinor = Some (ca_AvailableBalanceMinor account)\<rparr> (od_pay s)) (\<lambda>d.
         bindE (retire_profile (oh_ID op) (rp_ID source) (ca_OrganizationID account) (s\<lparr>od_pay := d\<rparr>)) (\<lambda>s.
         let d = revoke_methods E (\<lambda>m. pm_AccountID m = ca_ID account \<and> pm_Status m \<noteq> PaymentMethodStatusRevoked)
               (revoke_consents E (\<lambda>c. pco_AccountID c = ca_ID account) ''ownership_transferred''
                 (replace_profile E (ca_OrganizationID account) (fhi_CommittedOwnershipVersion inp) (od_pay s)))
         in bindE (sql_update_policy E (\<lambda>p. atp_AccountID p = ca_ID account)
               (\<lambda>p. p\<lparr>atp_Enabled := False, atp_Armed := False, atp_Version := atp_Version p + 1,
                      atp_Generation := atp_Generation p + 1\<rparr>) d) (\<lambda>(_, d).
            Inr (s\<lparr>od_pay := d\<rparr>)))))"

definition finalize_tx :: "(settlement_view \<Rightarrow> string) \<Rightarrow> env \<Rightarrow> FinalizeHandoffInput \<Rightarrow> string \<Rightarrow> ownership_db \<Rightarrow>
    error + (HandoffProtocolAck \<times> ownership_db)" where
  "finalize_tx sha E inp digest s =
     bindE (lockHandoffOperationTx (fhi_Scope inp) s) (\<lambda>(account, op).
     let ack = \<lparr>hpa_OperationID = oh_ID op, hpa_Phase = HandoffFinalized\<rparr> in
     case find (\<lambda>d. hcd_OperationID d = oh_ID op) (od_finalizations s) of
       Some prior \<Rightarrow> if hcd_RequestSHA256 prior \<noteq> digest then Inl ErrIdempotencyConflict else Inr (ack, s)
     | None \<Rightarrow>
         if oh_Phase op \<noteq> HandoffFinalizing \<or> fhi_CommittedOwnerUserID inp \<noteq> oh_TargetUserID op \<or>
            fhi_CommittedAt inp < oh_Cutoff op
         then Inl ErrConflict
         else
         bindE (requireSourceResponsibilityTx account op s) (\<lambda>_.
         bindE (scan (query_row (find_authorization s (oh_ID op)))) (\<lambda>grant.
         if hca_AuthorizationID grant \<noteq> fhi_AuthorizationID inp then Inl ErrConflict
         else
         bindE (captureSettlementStateTx sha account s) (\<lambda>state.
         if ss_SHA256 state \<noteq> hca_StateSHA256 grant \<or> ca_AvailableBalanceMinor account < 0
         then Inl ErrSettlementEvidenceStale
         else
         bindE (sql_insert_decision (decision_of (oh_ID op) digest inp) (od_finalizations s)) (\<lambda>fs.
         bindE (transfer_responsibility E inp account op (s\<lparr>od_finalizations := fs\<rparr>)) (\<lambda>s.
         Inr (ack, handoffProtocolAuditTx (fhi_Scope inp) ''finalize'' (fhi_AuthorizationID inp) digest
                (pay (sql_update_handoff E op (set_phase HandoffFinalized)) s))))))))"

text \<open>The checks of the request, and the request with its time truncated and its digest.\<close>

definition check_finalize :: "(FinalizeHandoffInput \<Rightarrow> string) \<Rightarrow> env \<Rightarrow> FinalizeHandoffInput \<Rightarrow>
    error + (FinalizeHandoffInput \<times> string)" where
  "check_finalize dg E inp0 =
     (let inp = inp0\<lparr>fhi_CommittedAt := db_time (fhi_CommittedAt inp0)\<rparr> in
      if \<not> validHandoffScope E (fhi_Scope inp) \<or> \<not> canonicalUUID E (fhi_AuthorizationID inp) \<or>
         \<not> canonicalUUID E (fhi_CommittedOwnerUserID inp) \<or> hs_OwnershipVersion (fhi_Scope inp) = maxInt64 \<or>
         fhi_CommittedOwnershipVersion inp \<noteq> hs_OwnershipVersion (fhi_Scope inp) + 1 \<or>
         fhi_CommittedAt inp0 = zero_time \<or> \<not> validLowerSHA256 (fhi_AMCommitSHA256 inp)
      then Inl ErrConflict
      else case json_digest dg [fhi_CommittedAt inp] inp of
        Inl _ \<Rightarrow> Inl ErrConflict | Inr digest \<Rightarrow> Inr (inp, digest))"

text \<open>
  Two transactions: the committed decision is kept even when the second one fails, so the result
  and the state are returned apart.
\<close>

definition FinalizeOwnershipHandoff :: "(settlement_view \<Rightarrow> string) \<Rightarrow> (FinalizeHandoffInput \<Rightarrow> string) \<Rightarrow> env \<Rightarrow> env \<Rightarrow>
    FinalizeHandoffInput \<Rightarrow> ownership_db \<Rightarrow> (error + HandoffProtocolAck) \<times> ownership_db" where
  "FinalizeOwnershipHandoff sha dg E E' inp0 s =
     (case check_finalize dg E inp0 of
        Inl e \<Rightarrow> (Inl e, s)
      | Inr (inp, digest) \<Rightarrow>
          (case recordCommittedHandoffDecision E inp digest s of
             Inl e \<Rightarrow> (Inl e, s)
           | Inr s \<Rightarrow>
               (case finalize_tx sha E' inp digest s of
                  Inl e \<Rightarrow> (Inl e, s)
                | Inr (ack, s) \<Rightarrow> (Inr ack, s))))"

section \<open>Abort (handoff_commit.go)\<close>

record BeginHandoffAbortInput =
  bha_Scope :: HandoffScope
  bha_CancellationID :: string
  bha_AMCancellationSHA256 :: string
  bha_AuthorizationID :: string

definition sql_insert_cancellation :: "handoff_cancellation \<Rightarrow> ownership_db \<Rightarrow> error + ownership_db" where
  "sql_insert_cancellation row s =
     (if \<not> validLowerSHA256 (hcx_RequestSHA256 row) \<or> \<not> validLowerSHA256 (hcx_AMCancellationSHA256 row)
      then Inl (check_violation ''billing_handoff_cancellations_check'')
      else if list_ex (\<lambda>c. hcx_OperationID c = hcx_OperationID row \<or> hcx_CancellationID c = hcx_CancellationID row)
             (od_cancellations s)
      then Inl (unique_violation ''billing_handoff_cancellations_key'')
      else Inr (s\<lparr>od_cancellations := od_cancellations s @ [row]\<rparr>))"

definition BeginOwnershipHandoffAbort :: "(BeginHandoffAbortInput \<Rightarrow> string) \<Rightarrow> env \<Rightarrow> BeginHandoffAbortInput \<Rightarrow>
    ownership_db \<Rightarrow> error + (HandoffProtocolAck \<times> ownership_db)" where
  "BeginOwnershipHandoffAbort dg E inp s =
     (if \<not> validHandoffScope E (bha_Scope inp) \<or> \<not> canonicalUUID E (bha_CancellationID inp) \<or>
         \<not> validLowerSHA256 (bha_AMCancellationSHA256 inp) \<or>
         (bha_AuthorizationID inp \<noteq> [] \<and> \<not> canonicalUUID E (bha_AuthorizationID inp))
      then Inl ErrConflict
      else
        let digest = dg inp in
        bindE (lockHandoffOperationTx (bha_Scope inp) s) (\<lambda>(account, op).
        case find (\<lambda>c. hcx_OperationID c = oh_ID op) (od_cancellations s) of
          Some prior \<Rightarrow>
            if hcx_RequestSHA256 prior \<noteq> digest then Inl ErrIdempotencyConflict
            else Inr (\<lparr>hpa_OperationID = oh_ID op, hpa_Phase = oh_Phase op\<rparr>, s)
        | None \<Rightarrow>
            if \<not> preparing op \<and> oh_Phase op \<noteq> HandoffCommitAuthorized then Inl ErrConflict
            else
            bindE (requireSourceResponsibilityTx account op s) (\<lambda>_.
            let grantID = (case find_authorization s (oh_ID op) of None \<Rightarrow> [] | Some a \<Rightarrow> hca_AuthorizationID a) in
            if grantID \<noteq> [] \<and> grantID \<noteq> bha_AuthorizationID inp then Inl ErrConflict
            else
            bindE (sql_insert_cancellation
              \<lparr>hcx_OperationID = oh_ID op, hcx_CancellationID = bha_CancellationID inp,
               hcx_RequestSHA256 = digest, hcx_AMCancellationSHA256 = bha_AMCancellationSHA256 inp\<rparr> s) (\<lambda>s.
            Inr (\<lparr>hpa_OperationID = oh_ID op, hpa_Phase = HandoffAbortPending\<rparr>,
                 handoffProtocolAuditTx (bha_Scope inp) ''abort_requested'' (bha_CancellationID inp) digest
                   (pay (sql_update_handoff E op (set_phase HandoffAbortPending)) s))))))"

record CompleteHandoffAbortInput =
  cha_Scope :: HandoffScope
  cha_CancellationID :: string
  cha_HoldReleaseSHA256 :: string

definition CompleteOwnershipHandoffAbort :: "env \<Rightarrow> CompleteHandoffAbortInput \<Rightarrow> ownership_db \<Rightarrow>
    error + (HandoffProtocolAck \<times> ownership_db)" where
  "CompleteOwnershipHandoffAbort E inp s =
     (if \<not> validHandoffScope E (cha_Scope inp) \<or> \<not> canonicalUUID E (cha_CancellationID inp) \<or>
         \<not> validLowerSHA256 (cha_HoldReleaseSHA256 inp)
      then Inl ErrConflict
      else
        bindE (lockHandoffOperationTx (cha_Scope inp) s) (\<lambda>(account, op).
        let ack = \<lparr>hpa_OperationID = oh_ID op, hpa_Phase = HandoffAborted\<rparr> in
        bindE (scan (query_row (find (\<lambda>c. hcx_OperationID c = oh_ID op) (od_cancellations s)))) (\<lambda>cancellation.
        if hcx_CancellationID cancellation \<noteq> cha_CancellationID inp then Inl ErrIdempotencyConflict
        else case find (\<lambda>a. aa_OperationID a = oh_ID op) (od_abort_acks s) of
          Some prior \<Rightarrow>
            if aa_HoldReleaseSHA256 prior \<noteq> cha_HoldReleaseSHA256 inp then Inl ErrIdempotencyConflict
            else Inr (ack, s)
        | None \<Rightarrow>
            if oh_Phase op \<noteq> HandoffAbortPending then Inl ErrConflict
            else
            bindE (requireSourceResponsibilityTx account op s) (\<lambda>_.
            Inr (ack, handoffProtocolAuditTx (cha_Scope inp) ''abort_completed'' (cha_CancellationID inp)
                   (cha_HoldReleaseSHA256 inp)
                   (pay (sql_update_handoff E op (set_phase HandoffAborted))
                     (s\<lparr>od_abort_acks := od_abort_acks s @
                         [\<lparr>aa_OperationID = oh_ID op, aa_HoldReleaseSHA256 = cha_HoldReleaseSHA256 inp\<rparr>]\<rparr>)))))))"

end
