(* ===== verification/Handoff_Spec.thy ===== *)
theory Handoff_Spec
  imports Handoff_Protocol
begin

text \<open>
  The abstract specification of an ownership handoff: the file of one operation, that is its row and
  the evidence kept for it, and the steps a file may take. The invariant of a file, which evidence
  each phase has, is proved here once; the stores are shown to refine this machine in
  \<open>Handoff_Refinement\<close>.
\<close>

section \<open>The file of an operation\<close>

record handoff_file =
  hf_handoffs :: "OwnershipHandoff list"
  hf_snapshots :: "balance_snapshot list"
  hf_confirmations :: "handoff_confirmation list"
  hf_authorizations :: "HandoffCommitAuthorization list"
  hf_decisions :: "committed_decision list"
  hf_finalizations :: "committed_decision list"
  hf_cancellations :: "handoff_cancellation list"
  hf_abort_acks :: "abort_acknowledgment list"

definition file_of :: "ownership_db \<Rightarrow> string \<Rightarrow> handoff_file" where
  "file_of s op =
     \<lparr>hf_handoffs = filter (\<lambda>h. oh_ID h = op) (db_handoffs (od_pay s)),
      hf_snapshots = filter (\<lambda>b. bs_OperationID b = op) (od_snapshots s),
      hf_confirmations = filter (\<lambda>c. hc_OperationID c = op) (od_confirmations s),
      hf_authorizations = filter (\<lambda>a. hca_OperationID a = op) (db_commit_authorizations (od_pay s)),
      hf_decisions = filter (\<lambda>d. hcd_OperationID d = op) (db_committed_decisions (od_pay s)),
      hf_finalizations = filter (\<lambda>d. hcd_OperationID d = op) (od_finalizations s),
      hf_cancellations = filter (\<lambda>c. hcx_OperationID c = op) (od_cancellations s),
      hf_abort_acks = filter (\<lambda>a. aa_OperationID a = op) (od_abort_acks s)\<rparr>"

definition empty_file :: handoff_file where
  "empty_file = \<lparr>hf_handoffs = [], hf_snapshots = [], hf_confirmations = [], hf_authorizations = [],
     hf_decisions = [], hf_finalizations = [], hf_cancellations = [], hf_abort_acks = []\<rparr>"

definition confirms :: "handoff_file \<Rightarrow> int \<Rightarrow> string \<Rightarrow> bool" where
  "confirms f v user \<longleftrightarrow> (\<exists>c \<in> set (hf_confirmations f). hc_SnapshotVersion c = v \<and> hc_UserID c = user)"

definition has_snapshot :: "handoff_file \<Rightarrow> int \<Rightarrow> bool" where
  "has_snapshot f v \<longleftrightarrow> (\<exists>b \<in> set (hf_snapshots f). bs_Version b = v)"

section \<open>Steps\<close>

inductive file_step :: "handoff_file \<Rightarrow> handoff_file \<Rightarrow> bool" where
  prepare: "hf_handoffs f = [] \<Longrightarrow> oh_Phase h = HandoffPreparing \<Longrightarrow> file_step f (f\<lparr>hf_handoffs := [h]\<rparr>)"
| resettle: "hf_handoffs f = [h] \<Longrightarrow> preparing h \<Longrightarrow>
    file_step f (f\<lparr>hf_handoffs := [h\<lparr>oh_Phase := HandoffPreparing, oh_Version := oh_Version h + 1\<rparr>]\<rparr>)"
| settle: "hf_handoffs f = [h] \<Longrightarrow> preparing h \<Longrightarrow> bs_Version b = oh_Version h + 1 \<Longrightarrow>
    file_step f (f\<lparr>hf_handoffs := [h\<lparr>oh_Phase := HandoffPrepared, oh_Version := oh_Version h + 1\<rparr>],
                   hf_snapshots := hf_snapshots f @ [b]\<rparr>)"
| confirm: "hf_handoffs f = [h] \<Longrightarrow> preparing h \<Longrightarrow> has_snapshot f (oh_Version h) \<Longrightarrow>
    hc_SnapshotVersion c = oh_Version h \<Longrightarrow> hc_UserID c = oh_SourceUserID h \<or> hc_UserID c = oh_TargetUserID h \<Longrightarrow>
    file_step f (f\<lparr>hf_confirmations := hf_confirmations f @ [c]\<rparr>)"
| authorize: "hf_handoffs f = [h] \<Longrightarrow> preparing h \<Longrightarrow> hf_authorizations f = [] \<Longrightarrow>
    has_snapshot f (oh_Version h) \<Longrightarrow> hca_SnapshotVersion a = oh_Version h \<Longrightarrow>
    confirms f (oh_Version h) (oh_SourceUserID h) \<Longrightarrow> confirms f (oh_Version h) (oh_TargetUserID h) \<Longrightarrow>
    file_step f (f\<lparr>hf_handoffs := [set_phase HandoffCommitAuthorized h], hf_authorizations := [a]\<rparr>)"
| decide: "hf_handoffs f = [h] \<Longrightarrow> oh_Phase h = HandoffCommitAuthorized \<Longrightarrow> hf_decisions f = [] \<Longrightarrow>
    file_step f (f\<lparr>hf_handoffs := [set_phase HandoffFinalizing h], hf_decisions := [d]\<rparr>)"
| finalize: "hf_handoffs f = [h] \<Longrightarrow> oh_Phase h = HandoffFinalizing \<Longrightarrow> hf_finalizations f = [] \<Longrightarrow>
    file_step f (f\<lparr>hf_handoffs := [set_phase HandoffFinalized h], hf_finalizations := [d]\<rparr>)"
| abort: "hf_handoffs f = [h] \<Longrightarrow> preparing h \<or> oh_Phase h = HandoffCommitAuthorized \<Longrightarrow> hf_cancellations f = [] \<Longrightarrow>
    file_step f (f\<lparr>hf_handoffs := [set_phase HandoffAbortPending h], hf_cancellations := [c]\<rparr>)"
| aborted: "hf_handoffs f = [h] \<Longrightarrow> oh_Phase h = HandoffAbortPending \<Longrightarrow> hf_abort_acks f = [] \<Longrightarrow>
    file_step f (f\<lparr>hf_handoffs := [set_phase HandoffAborted h], hf_abort_acks := [k]\<rparr>)"

inductive_cases file_stepE: "file_step f f'"

section \<open>The invariant of a file\<close>

definition committing :: "handoff_phase \<Rightarrow> bool" where
  "committing p \<longleftrightarrow> p = HandoffCommitAuthorized \<or> p = HandoffFinalizing \<or> p = HandoffFinalized"

definition decided :: "handoff_phase \<Rightarrow> bool" where
  "decided p \<longleftrightarrow> p = HandoffFinalizing \<or> p = HandoffFinalized"

definition canceled :: "handoff_phase \<Rightarrow> bool" where
  "canceled p \<longleftrightarrow> p = HandoffAbortPending \<or> p = HandoffAborted"

lemmas phase_defs = committing_def decided_def canceled_def preparing_def set_phase_def

text \<open>
  A committing handoff has exactly one authorization, of a snapshot that exists and that both
  participants confirmed; what was decided, finalized, canceled and acknowledged agrees with the
  phase, at most one of each.
\<close>

definition authorization_ok :: "handoff_file \<Rightarrow> OwnershipHandoff \<Rightarrow> HandoffCommitAuthorization \<Rightarrow> bool" where
  "authorization_ok f h a \<longleftrightarrow>
     has_snapshot f (hca_SnapshotVersion a) \<and> confirms f (hca_SnapshotVersion a) (oh_SourceUserID h) \<and>
     confirms f (hca_SnapshotVersion a) (oh_TargetUserID h)"

definition phase_evidence :: "handoff_file \<Rightarrow> OwnershipHandoff \<Rightarrow> bool" where
  "phase_evidence f h \<longleftrightarrow>
     length (hf_authorizations f) \<le> 1 \<and>
     (committing (oh_Phase h) \<longrightarrow> hf_authorizations f \<noteq> []) \<and> (preparing h \<longrightarrow> hf_authorizations f = []) \<and>
     (\<forall>a \<in> set (hf_authorizations f). authorization_ok f h a) \<and>
     length (hf_decisions f) = (if decided (oh_Phase h) then 1 else 0) \<and>
     length (hf_finalizations f) = (if oh_Phase h = HandoffFinalized then 1 else 0) \<and>
     length (hf_cancellations f) = (if canceled (oh_Phase h) then 1 else 0) \<and>
     length (hf_abort_acks f) = (if oh_Phase h = HandoffAborted then 1 else 0)"

definition file_inv :: "handoff_file \<Rightarrow> bool" where
  "file_inv f \<longleftrightarrow>
     (case hf_handoffs f of
        [] \<Rightarrow> hf_authorizations f = [] \<and> hf_decisions f = [] \<and> hf_finalizations f = [] \<and>
              hf_cancellations f = [] \<and> hf_abort_acks f = []
      | [h] \<Rightarrow> phase_evidence f h
      | _ \<Rightarrow> False)"

lemma empty_file_inv: "file_inv empty_file"
  by (simp add: file_inv_def empty_file_def)

lemma file_inv_single: "file_inv f \<Longrightarrow> h \<in> set (hf_handoffs f) \<Longrightarrow> hf_handoffs f = [h] \<and> phase_evidence f h"
  by (auto simp: file_inv_def split: list.splits)

lemma authorization_ok_mono:
  "authorization_ok f h a \<Longrightarrow> set (hf_snapshots f) \<subseteq> set (hf_snapshots f') \<Longrightarrow>
   set (hf_confirmations f) \<subseteq> set (hf_confirmations f') \<Longrightarrow> oh_SourceUserID h' = oh_SourceUserID h \<Longrightarrow>
   oh_TargetUserID h' = oh_TargetUserID h \<Longrightarrow> authorization_ok f' h' a"
  unfolding authorization_ok_def has_snapshot_def confirms_def by auto

lemma authorization_ok_frame:
  "authorization_ok (f\<lparr>hf_handoffs := hs, hf_decisions := ds\<rparr>) (h\<lparr>oh_Phase := p, oh_Version := v\<rparr>) a = authorization_ok f h a"
  "authorization_ok (f\<lparr>hf_handoffs := hs, hf_finalizations := ds\<rparr>) (h\<lparr>oh_Phase := p, oh_Version := v\<rparr>) a = authorization_ok f h a"
  "authorization_ok (f\<lparr>hf_handoffs := hs, hf_cancellations := cs\<rparr>) (h\<lparr>oh_Phase := p, oh_Version := v\<rparr>) a = authorization_ok f h a"
  "authorization_ok (f\<lparr>hf_handoffs := hs, hf_abort_acks := ks\<rparr>) (h\<lparr>oh_Phase := p, oh_Version := v\<rparr>) a = authorization_ok f h a"
  by (simp_all add: authorization_ok_def has_snapshot_def confirms_def)

lemma phase_evidence_cong:
  assumes "phase_evidence f h" and "oh_Phase h' = oh_Phase h \<or> preparing h \<and> preparing h'"
    and "hf_authorizations f' = hf_authorizations f" "hf_decisions f' = hf_decisions f"
      "hf_finalizations f' = hf_finalizations f" "hf_cancellations f' = hf_cancellations f"
      "hf_abort_acks f' = hf_abort_acks f"
    and "set (hf_snapshots f) \<subseteq> set (hf_snapshots f')" "set (hf_confirmations f) \<subseteq> set (hf_confirmations f')"
      "oh_SourceUserID h' = oh_SourceUserID h" "oh_TargetUserID h' = oh_TargetUserID h"
  shows "phase_evidence f' h'"
proof -
  have phase: "committing (oh_Phase h') = committing (oh_Phase h)" "decided (oh_Phase h') = decided (oh_Phase h)"
      "canceled (oh_Phase h') = canceled (oh_Phase h)" "preparing h' = preparing h"
      "(oh_Phase h' = HandoffFinalized) = (oh_Phase h = HandoffFinalized)" "(oh_Phase h' = HandoffAborted) = (oh_Phase h = HandoffAborted)"
    using assms(2) by (auto simp: phase_defs)
  show ?thesis
    using assms(1) authorization_ok_mono [OF _ assms(8-11)] unfolding phase_evidence_def assms(3-7) phase by blast
qed

lemma file_inv_step:
  assumes "file_step f f'" and "file_inv f"
  shows "file_inv f'"
  using assms
proof (induction rule: file_step.induct)
  case (prepare f h)
  then show ?case by (simp add: file_inv_def phase_evidence_def phase_defs)
next
  case (resettle f h)
  then have "phase_evidence f h" by (simp add: file_inv_def)
  then show ?case using resettle by (auto simp: file_inv_def preparing_def elim: phase_evidence_cong)
next
  case (settle f h b)
  then have "phase_evidence f h" by (simp add: file_inv_def)
  then show ?case using settle by (auto simp: file_inv_def preparing_def elim: phase_evidence_cong)
next
  case (confirm f h c)
  then have "phase_evidence f h" by (simp add: file_inv_def)
  then show ?case using confirm by (auto simp: file_inv_def elim: phase_evidence_cong)
next
  case (authorize f h a)
  then have "authorization_ok f h a" by (simp add: authorization_ok_def)
  then have "authorization_ok (f\<lparr>hf_handoffs := [set_phase HandoffCommitAuthorized h], hf_authorizations := [a]\<rparr>)
      (set_phase HandoffCommitAuthorized h) a"
    by (rule authorization_ok_mono) (simp_all add: set_phase_def)
  with authorize show ?case by (auto simp: file_inv_def phase_evidence_def phase_defs)
qed (auto simp: file_inv_def phase_evidence_def phase_defs length_Suc_conv authorization_ok_frame split: if_splits)

section \<open>All operations together\<close>

text \<open>A step of the protocol is a step of the file of one operation.\<close>

inductive handoff_step :: "(string \<Rightarrow> handoff_file) \<Rightarrow> (string \<Rightarrow> handoff_file) \<Rightarrow> bool" where
  operation: "file_step (F op) f \<Longrightarrow> handoff_step F (F(op := f))"

definition handoff_inv :: "(string \<Rightarrow> handoff_file) \<Rightarrow> bool" where
  "handoff_inv F \<longleftrightarrow> (\<forall>op. file_inv (F op))"

lemma handoff_inv_step: "handoff_step F F' \<Longrightarrow> handoff_inv F \<Longrightarrow> handoff_inv F'"
  by (induction rule: handoff_step.induct) (auto simp: handoff_inv_def intro: file_inv_step)

section \<open>How the files grow\<close>

text \<open>The same handoff later on: it only changes phase and version, and neither once it has ended.\<close>

definition same_handoff :: "OwnershipHandoff \<Rightarrow> OwnershipHandoff \<Rightarrow> bool" where
  "same_handoff h h' \<longleftrightarrow> h' = h\<lparr>oh_Phase := oh_Phase h', oh_Version := oh_Version h'\<rparr> \<and> oh_Version h \<le> oh_Version h' \<and>
     (oh_Phase h = HandoffFinalized \<or> oh_Phase h = HandoffAborted \<longrightarrow> h' = h)"

text \<open>No row of a file is withdrawn.\<close>

definition file_grow :: "handoff_file \<Rightarrow> handoff_file \<Rightarrow> bool" where
  "file_grow f f' \<longleftrightarrow>
     (hf_handoffs f = [] \<or> list_all2 same_handoff (hf_handoffs f) (hf_handoffs f')) \<and>
     prefix (hf_snapshots f) (hf_snapshots f') \<and> prefix (hf_confirmations f) (hf_confirmations f') \<and>
     prefix (hf_authorizations f) (hf_authorizations f') \<and> prefix (hf_decisions f) (hf_decisions f') \<and>
     prefix (hf_finalizations f) (hf_finalizations f') \<and> prefix (hf_cancellations f) (hf_cancellations f') \<and>
     prefix (hf_abort_acks f) (hf_abort_acks f')"

definition handoffs_grow :: "(string \<Rightarrow> handoff_file) \<Rightarrow> (string \<Rightarrow> handoff_file) \<Rightarrow> bool" where
  "handoffs_grow F F' \<longleftrightarrow> (\<forall>op. file_grow (F op) (F' op))"

lemma same_handoff_refl: "same_handoff h h"
  by (simp add: same_handoff_def)

lemma same_handoff_trans: "same_handoff a b \<Longrightarrow> same_handoff b c \<Longrightarrow> same_handoff a c"
  by (cases a; cases b; cases c) (auto simp: same_handoff_def)

lemma file_grow_refl: "file_grow f f"
  by (simp add: file_grow_def list_all2_refl same_handoff_refl)

lemma file_grow_trans: "file_grow f g \<Longrightarrow> file_grow g h \<Longrightarrow> file_grow f h"
  using list_all2_trans [of same_handoff same_handoff same_handoff "hf_handoffs f" "hf_handoffs g" "hf_handoffs h"]
    same_handoff_trans
  unfolding file_grow_def by auto

lemma same_handoff_set:
  "oh_Phase h \<noteq> HandoffFinalized \<Longrightarrow> oh_Phase h \<noteq> HandoffAborted \<Longrightarrow> oh_Version h \<le> v \<Longrightarrow>
   same_handoff h (h\<lparr>oh_Phase := p, oh_Version := v\<rparr>)"
  by (simp add: same_handoff_def)

lemma file_grow_step: "file_step f f' \<Longrightarrow> file_grow f f'"
  by (induction rule: file_step.induct)
     (auto simp: file_grow_def phase_defs same_handoff_refl intro: same_handoff_set)

lemma handoffs_grow_refl: "handoffs_grow F F"
  by (simp add: handoffs_grow_def file_grow_refl)

lemma handoffs_grow_trans: "handoffs_grow F G \<Longrightarrow> handoffs_grow G H \<Longrightarrow> handoffs_grow F H"
  unfolding handoffs_grow_def using file_grow_trans by blast

lemma handoffs_grow_step: "handoff_step F F' \<Longrightarrow> handoffs_grow F F'"
  by (induction rule: handoff_step.induct) (auto simp: handoffs_grow_def file_grow_refl intro: file_grow_step)

end
