(* ===== verification/Setup_Store.thy ===== *)
theory Setup_Store
  imports Ownership_Db
begin

text \<open>
  The setup of a payment method at a provider: \<^verbatim>\<open>paymentstore/setups.go\<close>, with the table of
  \<^verbatim>\<open>migrations/041\<close> and the triggers of \<^verbatim>\<open>055\<close> on setups, methods and consents.
\<close>

record BeginPaymentMethodSetupInput =
  bms_AccountID :: string
  bms_Provider :: string
  bms_IdempotencyKey :: string
  bms_RequestSHA256 :: string
  bms_CorrelationID :: string
  bms_Capabilities :: ProviderCapabilities
  bms_Consent :: CreateConsentInput
  bms_Now :: instant

record BeginPaymentMethodSetupResult =
  bmr_Session :: setup_row
  bmr_Consent :: PaymentConsent
  bmr_Method :: method_row
  bmr_Duplicate :: bool

section \<open>Statements\<close>

definition sql_insert_consent :: "env \<Rightarrow> PaymentConsent \<Rightarrow> payment_db \<Rightarrow> error + (PaymentConsent \<times> payment_db)" where
  "sql_insert_consent E values s =
     (let row = values\<lparr>pco_ID := next_uuid E s, pco_CreatedAt := env_now E, pco_UpdatedAt := env_now E\<rparr> in
      if closure_active s (pco_AccountID row) then Inl closure_barrier
      else if \<not> consent_check row then Inl (check_violation ''payment_consents_check'')
      else if list_ex (\<lambda>c. pco_ID c = pco_ID row) (db_consents s)
      then Inl (unique_violation ''payment_consents_pkey'')
      else Inr (row, (drawn s)\<lparr>db_consents := db_consents s @ [row]\<rparr>))"

definition setup_check :: "setup_row \<Rightarrow> bool" where
  "setup_check r =
     (not_blank (su_Provider r) \<and> ToLower (su_Provider r) = su_Provider r \<and> not_blank (su_IdempotencyKey r) \<and>
      validLowerSHA256 (su_RequestSHA256 r) \<and> not_blank (su_CorrelationID r) \<and>
      su_State r \<in> {PaymentIntentStateCreated, PaymentIntentStateRequiresAction, PaymentIntentStateSucceeded,
                    PaymentIntentStateFailed, PaymentIntentStateUnknown} \<and>
      (su_ProviderCode r = [] \<or> not_blank (su_ProviderCode r)) \<and>
      (su_HostedURLSHA256 r = [] \<or> validLowerSHA256 (su_HostedURLSHA256 r)))"

definition sql_insert_setup :: "env \<Rightarrow> setup_row \<Rightarrow> ownership_db \<Rightarrow> error + (setup_row \<times> ownership_db)" where
  "sql_insert_setup E values s =
     (let row = values\<lparr>su_ID := next_uuid E (od_pay s)\<rparr> in
      if closure_active (od_pay s) (su_AccountID row) then Inl closure_barrier
      else if \<not> setup_check row then Inl (check_violation ''payment_method_setup_check'')
      else if list_ex (\<lambda>r. su_ID r = su_ID row \<or>
                su_AccountID r = su_AccountID row \<and> su_Provider r = su_Provider row \<and>
                su_IdempotencyKey r = su_IdempotencyKey row) (od_setups s)
      then Inl (unique_violation ''payment_method_setup_account_provider_key_unique'')
      else Inr (row, (pay drawn s)\<lparr>od_setups := od_setups s @ [row]\<rparr>))"

text \<open>What \<^verbatim>\<open>enforce_cloud_closure_payer_barrier\<close> admits as an update of a setup and of a method.\<close>

definition setup_update_error :: "ownership_db \<Rightarrow> setup_row \<Rightarrow> setup_row \<Rightarrow> error option" where
  "setup_update_error s old new =
     (if su_InvalidatedByClosure old \<noteq> [] \<and>
         (su_InvalidatedByClosure new \<noteq> su_InvalidatedByClosure old \<or> su_State new \<noteq> PaymentIntentStateFailed)
      then Some closure_barrier
      else if closure_active (od_pay s) (su_AccountID new) \<and>
         \<not> (su_State new = PaymentIntentStateFailed \<and> su_InvalidatedByClosure new \<noteq> [] \<and>
            new = old\<lparr>su_State := su_State new, su_InvalidatedByClosure := su_InvalidatedByClosure new,
                      su_UpdatedAt := su_UpdatedAt new\<rparr>)
      then Some closure_barrier
      else if \<not> setup_check new then Some (check_violation ''payment_method_setup_check'')
      else None)"

definition sql_update_setup :: "env \<Rightarrow> string \<Rightarrow> (setup_row \<Rightarrow> setup_row) \<Rightarrow> ownership_db \<Rightarrow>
    error + (setup_row \<times> ownership_db)" where
  "sql_update_setup E sessionID f s =
     (case find (\<lambda>r. su_ID r = sessionID) (od_setups s) of
        None \<Rightarrow> Inl ErrNoRows
      | Some old \<Rightarrow>
          let new = (f old)\<lparr>su_UpdatedAt := env_now E\<rparr> in
          (case setup_update_error s old new of
             Some e \<Rightarrow> Inl e
           | None \<Rightarrow> Inr (new, s\<lparr>od_setups := update_where (\<lambda>r. su_ID r = sessionID) (\<lambda>_. new) (od_setups s)\<rparr>)))"

definition method_update_error :: "ownership_db \<Rightarrow> method_row \<Rightarrow> method_row \<Rightarrow> error option" where
  "method_update_error s old new =
     (if pm_Status new \<noteq> PaymentMethodStatusRevoked \<and>
         list_ex (\<lambda>t. ccr_SubjectType t = ''method'' \<and> ccr_SubjectID t = pm_ID new) (od_revocations s)
      then Some closure_barrier
      else if closure_active (od_pay s) (pm_AccountID new) \<and>
         \<not> (pm_Status new = PaymentMethodStatusRevoked \<and>
            new = old\<lparr>pm_Status := pm_Status new, pm_UpdatedAt := pm_UpdatedAt new\<rparr>)
      then Some closure_barrier
      else if \<not> method_check new then Some (check_violation ''payment_methods_check'')
      else if pmr_MethodRefSHA256 new \<noteq> [] \<and>
              list_ex (\<lambda>m. pm_ID m \<noteq> pm_ID old \<and> pm_AccountID m = pm_AccountID new \<and> pm_Provider m = pm_Provider new \<and>
                           pmr_MethodRefSHA256 m = pmr_MethodRefSHA256 new) (db_methods (od_pay s))
      then Some (unique_violation ''payment_methods_provider_ref_unique_idx'')
      else None)"

definition sql_update_method :: "env \<Rightarrow> string \<Rightarrow> (method_row \<Rightarrow> method_row) \<Rightarrow> ownership_db \<Rightarrow>
    error + (method_row \<times> ownership_db)" where
  "sql_update_method E methodID f s =
     (case find (\<lambda>m. pm_ID m = methodID) (db_methods (od_pay s)) of
        None \<Rightarrow> Inl ErrNoRows
      | Some old \<Rightarrow>
          let new = (f old)\<lparr>pm_UpdatedAt := env_now E\<rparr> in
          (case method_update_error s old new of
             Some e \<Rightarrow> Inl e
           | None \<Rightarrow> Inr (new, pay (\<lambda>d. d\<lparr>db_methods :=
               update_where (\<lambda>m. pm_ID m = methodID) (\<lambda>_. new) (db_methods d)\<rparr>) s)))"

section \<open>Beginning a setup\<close>

definition getPaymentMethodSetupByKey :: "ownership_db \<Rightarrow> string \<Rightarrow> string \<Rightarrow> string \<Rightarrow> error + setup_row" where
  "getPaymentMethodSetupByKey s accountID provider key =
     scan (query_row (find (\<lambda>r. su_AccountID r = accountID \<and> su_Provider r = provider \<and> su_IdempotencyKey r = key)
       (od_setups s)))"

definition getPaymentMethodSetupByID :: "ownership_db \<Rightarrow> string \<Rightarrow> error + setup_row" where
  "getPaymentMethodSetupByID s sessionID = scan (query_row (find (\<lambda>r. su_ID r = sessionID) (od_setups s)))"

definition normalize_setup :: "BeginPaymentMethodSetupInput \<Rightarrow> BeginPaymentMethodSetupInput" where
  "normalize_setup inp =
     inp\<lparr>bms_Provider := NormalizeProvider (bms_Provider inp),
         bms_IdempotencyKey := TrimSpace (bms_IdempotencyKey inp),
         bms_RequestSHA256 := ToLower (TrimSpace (bms_RequestSHA256 inp)),
         bms_CorrelationID := TrimSpace (bms_CorrelationID inp)\<rparr>"

definition setup_input_ok :: "BeginPaymentMethodSetupInput \<Rightarrow> bool" where
  "setup_input_ok inp =
     (let c = bms_Consent inp in
      required (bms_AccountID inp) \<and> bms_Provider inp \<noteq> [] \<and> required (bms_IdempotencyKey inp) \<and>
      length (bms_IdempotencyKey inp) \<le> 128 \<and> validLowerSHA256 (bms_RequestSHA256 inp) \<and>
      required (bms_CorrelationID inp) \<and> ccn_AccountID c = bms_AccountID inp \<and>
      ccn_ConsentType c = ''payment_method'' \<and> required (ccn_TextVersion c) \<and>
      validLowerSHA256 (ToLower (ccn_TextSHA256 c)) \<and> required (ccn_AcceptedActorType c) \<and>
      required (ccn_AcceptedActorID c) \<and> required (ccn_Locale c) \<and> required (ccn_Source c))"

definition setup_consent :: "BeginPaymentMethodSetupInput \<Rightarrow> instant \<Rightarrow> PaymentConsent" where
  "setup_consent inp now =
     (let c = bms_Consent inp in
      \<lparr>pco_ID = [], pco_AccountID = bms_AccountID inp, pco_ConsentType = ''payment_method'',
       pco_TextVersion = TrimSpace (ccn_TextVersion c), pco_TextSHA256 = ToLower (ccn_TextSHA256 c),
       pco_AcceptedActorType = TrimSpace (ccn_AcceptedActorType c),
       pco_AcceptedActorID = TrimSpace (ccn_AcceptedActorID c), pco_AcceptedAt = db_time now,
       pco_Locale = TrimSpace (ccn_Locale c), pco_Source = TrimSpace (ccn_Source c), pco_RevokedAt = None,
       pco_RevocationReason = [], pco_CreatedAt = zero_time, pco_UpdatedAt = zero_time\<rparr>)"

definition setup_method :: "BeginPaymentMethodSetupInput \<Rightarrow> string \<Rightarrow> method_row" where
  "setup_method inp consentID =
     \<lparr>pm_ID = [], pm_AccountID = bms_AccountID inp, pm_Provider = bms_Provider inp,
      pm_Status = PaymentMethodStatusPending, pm_CardBrand = [], pm_LastFour = [], pm_ExpiryMonth = None,
      pm_ExpiryYear = None, pm_Capabilities = bms_Capabilities inp, pm_ConsentID = consentID,
      pm_CreatedAt = zero_time, pm_UpdatedAt = zero_time, pmr_CustomerRefCiphertext = [],
      pmr_MethodRefCiphertext = [], pmr_MethodRefSHA256 = []\<rparr>"

definition BeginPaymentMethodSetup :: "env \<Rightarrow> ctx \<Rightarrow> BeginPaymentMethodSetupInput \<Rightarrow> ownership_db \<Rightarrow>
    error + (BeginPaymentMethodSetupResult \<times> ownership_db)" where
  "BeginPaymentMethodSetup E ctx inp0 s =
     (let inp = normalize_setup inp0 in
      if \<not> setup_input_ok inp then Inl ErrConflict
      else
        let now = now_or E (bms_Now inp) in
        bindE (getAccountForUpdate E ctx (od_pay s) (bms_AccountID inp)) (\<lambda>account.
        if ca_State account = AccountStateClosed then Inl ErrAccountClosed
        else
        bindE (requireNoHandoffTx (od_pay s) (ca_ID account)) (\<lambda>_.
        case getPaymentMethodSetupByKey s (bms_AccountID inp) (bms_Provider inp) (bms_IdempotencyKey inp) of
          Inr existing \<Rightarrow>
            if su_RequestSHA256 existing \<noteq> bms_RequestSHA256 inp then Inl ErrIdempotencyConflict
            else
              bindE (getPaymentMethodForUpdate ctx (od_pay s) (su_PaymentMethodID existing)) (\<lambda>method.
              bindE (getConsentForUpdate (od_pay s) (pm_ConsentID method)) (\<lambda>consent.
              Inr (\<lparr>bmr_Session = existing, bmr_Consent = consent, bmr_Method = method, bmr_Duplicate = True\<rparr>, s)))
        | Inl e \<Rightarrow>
            if e \<noteq> ErrNotFound then Inl e
            else
              bindE (scan (sql_insert_consent E (setup_consent inp now) (od_pay s))) (\<lambda>(consent, d).
              bindE (scan (sql_insert_method E (setup_method inp (pco_ID consent)) d)) (\<lambda>(method, d).
              bindE (scan (sql_insert_setup E
                \<lparr>su_ID = [], su_AccountID = bms_AccountID inp, su_Provider = bms_Provider inp,
                 su_IdempotencyKey = bms_IdempotencyKey inp, su_RequestSHA256 = bms_RequestSHA256 inp,
                 su_CorrelationID = bms_CorrelationID inp, su_PaymentMethodID = pm_ID method,
                 su_State = PaymentIntentStateCreated, su_ProviderCode = [], su_HostedURLSHA256 = [],
                 su_CreatedAt = db_time now, su_UpdatedAt = db_time now,
                 su_InvalidatedByHandoff = [], su_InvalidatedByClosure = []\<rparr> (s\<lparr>od_pay := d\<rparr>))) (\<lambda>(session, s).
              Inr (\<lparr>bmr_Session = session, bmr_Consent = consent, bmr_Method = method, bmr_Duplicate = False\<rparr>, s)))))))"

section \<open>Completing a setup\<close>

record CompletePaymentMethodSetupInput =
  cps_AccountID :: string
  cps_SessionID :: string
  cps_State :: PaymentIntentState
  cps_ProviderCode :: string
  cps_HostedURLSHA256 :: string
  cps_ProviderCustomerRefCiphertext :: string
  cps_ProviderMethodRefCiphertext :: string
  cps_ProviderMethodRefSHA256 :: string
  cps_CardBrand :: string
  cps_LastFour :: string
  cps_ExpiryMonth :: "int option"
  cps_ExpiryYear :: "int option"
  cps_Now :: instant

record CompletePaymentMethodSetupResult =
  cpr_Session :: setup_row
  cpr_Method :: method_row
  cpr_Duplicate :: bool

definition normalize_completion :: "CompletePaymentMethodSetupInput \<Rightarrow> CompletePaymentMethodSetupInput" where
  "normalize_completion inp =
     inp\<lparr>cps_ProviderCode := NormalizeProviderCode (cps_ProviderCode inp),
         cps_HostedURLSHA256 := ToLower (TrimSpace (cps_HostedURLSHA256 inp)),
         cps_ProviderMethodRefSHA256 := ToLower (TrimSpace (cps_ProviderMethodRefSHA256 inp))\<rparr>"

definition completion_input_ok :: "CompletePaymentMethodSetupInput \<Rightarrow> bool" where
  "completion_input_ok inp =
     (required (cps_AccountID inp) \<and> required (cps_SessionID inp) \<and> validLowerSHA256 (cps_HostedURLSHA256 inp) \<and>
      (if cps_State inp = PaymentIntentStateRequiresAction \<or> cps_State inp = PaymentIntentStateFailed
       then cps_ProviderCustomerRefCiphertext inp = [] \<and> cps_ProviderMethodRefCiphertext inp = [] \<and>
            cps_ProviderMethodRefSHA256 inp = []
       else if cps_State inp = PaymentIntentStateSucceeded
       then cps_ProviderCustomerRefCiphertext inp \<noteq> [] \<and> cps_ProviderMethodRefCiphertext inp \<noteq> [] \<and>
            validLowerSHA256 (cps_ProviderMethodRefSHA256 inp)
       else False) \<and>
      (cps_LastFour inp = [] \<or> length (cps_LastFour inp) = 4 \<and> list_all digit (cps_LastFour inp)))"

text \<open>A session that already has an outcome takes the same one again, or the end of a hosted step.\<close>

definition completion_replay :: "setup_row \<Rightarrow> string \<Rightarrow> CompletePaymentMethodSetupInput \<Rightarrow> bool" where
  "completion_replay session methodSHA inp =
     (su_State session = cps_State inp \<and> su_ProviderCode session = cps_ProviderCode inp \<and>
      su_HostedURLSHA256 session = cps_HostedURLSHA256 inp \<and>
      (cps_State inp \<noteq> PaymentIntentStateSucceeded \<or> methodSHA = cps_ProviderMethodRefSHA256 inp))"

definition completion_conflict :: "setup_row \<Rightarrow> CompletePaymentMethodSetupInput \<Rightarrow> bool" where
  "completion_conflict session inp =
     (su_State session \<noteq> PaymentIntentStateRequiresAction \<or>
      (cps_State inp \<noteq> PaymentIntentStateSucceeded \<and> cps_State inp \<noteq> PaymentIntentStateFailed) \<or>
      su_HostedURLSHA256 session \<noteq> cps_HostedURLSHA256 inp)"

definition completion_status :: "PaymentIntentState \<Rightarrow> PaymentMethodStatus" where
  "completion_status state =
     (if state = PaymentIntentStateSucceeded then PaymentMethodStatusActive
      else if state = PaymentIntentStateFailed then PaymentMethodStatusFailed
      else PaymentMethodStatusPending)"

definition complete_setup :: "env \<Rightarrow> CompletePaymentMethodSetupInput \<Rightarrow> setup_row \<Rightarrow> method_row \<Rightarrow> ownership_db \<Rightarrow>
    error + (CompletePaymentMethodSetupResult \<times> ownership_db)" where
  "complete_setup E inp session method s =
     bindE (scan (sql_update_method E (pm_ID method)
       (\<lambda>m. m\<lparr>pmr_CustomerRefCiphertext := cps_ProviderCustomerRefCiphertext inp,
              pmr_MethodRefCiphertext := cps_ProviderMethodRefCiphertext inp,
              pmr_MethodRefSHA256 := cps_ProviderMethodRefSHA256 inp,
              pm_CardBrand := TrimSpace (cps_CardBrand inp), pm_LastFour := TrimSpace (cps_LastFour inp),
              pm_ExpiryMonth := cps_ExpiryMonth inp, pm_ExpiryYear := cps_ExpiryYear inp,
              pm_Status := completion_status (cps_State inp)\<rparr>) s)) (\<lambda>(method, s).
     bindE (scan (sql_update_setup E (su_ID session)
       (\<lambda>r. r\<lparr>su_State := cps_State inp, su_ProviderCode := cps_ProviderCode inp,
              su_HostedURLSHA256 := cps_HostedURLSHA256 inp\<rparr>) s)) (\<lambda>(session, s).
     Inr (\<lparr>cpr_Session = session, cpr_Method = method, cpr_Duplicate = False\<rparr>, s)))"

text \<open>
  The outcome of a session that a handoff or a closure invalidated is kept as evidence, and the
  call returns its result together with the error.
\<close>

definition observe_setup :: "(PaymentIntentState \<times> string \<times> string \<times> string \<Rightarrow> string) \<Rightarrow>
    CompletePaymentMethodSetupInput \<Rightarrow> setup_row \<Rightarrow> method_row \<Rightarrow> ownership_db \<Rightarrow>
    CompletePaymentMethodSetupResult \<times> ownership_db" where
  "observe_setup dg inp session method s =
     (let digest = dg (cps_State inp, cps_ProviderCode inp, cps_HostedURLSHA256 inp, cps_ProviderMethodRefSHA256 inp);
          seen = list_ex (\<lambda>o'. so_SessionID o' = su_ID session \<and> so_ResultSHA256 o' = digest) (od_observations s)
      in (\<lparr>cpr_Session = session, cpr_Method = method, cpr_Duplicate = seen\<rparr>,
          if seen then s
          else s\<lparr>od_observations := od_observations s @
                 [\<lparr>so_SessionID = su_ID session, so_ResultSHA256 = digest, so_ProviderState = cps_State inp\<rparr>]\<rparr>))"

definition CompletePaymentMethodSetup :: "(PaymentIntentState \<times> string \<times> string \<times> string \<Rightarrow> string) \<Rightarrow> env \<Rightarrow> ctx \<Rightarrow>
    CompletePaymentMethodSetupInput \<Rightarrow> ownership_db \<Rightarrow>
    error + (CompletePaymentMethodSetupResult \<times> error option \<times> ownership_db)" where
  "CompletePaymentMethodSetup dg E ctx inp0 s =
     (let inp = normalize_completion inp0 in
      if \<not> completion_input_ok inp then Inl ErrConflict
      else
        bindE (getAccountForUpdate E ctx (od_pay s) (cps_AccountID inp)) (\<lambda>_.
        bindE (getPaymentMethodSetupByID s (cps_SessionID inp)) (\<lambda>session.
        if su_AccountID session \<noteq> cps_AccountID inp then Inl ErrNotFound
        else
        bindE (getPaymentMethodForUpdate ctx (od_pay s) (su_PaymentMethodID session)) (\<lambda>method.
        if su_InvalidatedByHandoff session \<noteq> [] \<or> su_InvalidatedByClosure session \<noteq> []
        then let (result, s) = observe_setup dg inp session method s in Inr (result, Some ErrSetupInvalidated, s)
        else
        bindE (requireNoHandoffTx (od_pay s) (cps_AccountID inp)) (\<lambda>_.
        if su_State session \<noteq> PaymentIntentStateCreated \<and> completion_replay session (pmr_MethodRefSHA256 method) inp
        then Inr (\<lparr>cpr_Session = session, cpr_Method = method, cpr_Duplicate = True\<rparr>, None, s)
        else if su_State session \<noteq> PaymentIntentStateCreated \<and> completion_conflict session inp
        then Inl ErrIdempotencyConflict
        else bindE (complete_setup E inp session method s) (\<lambda>(result, s). Inr (result, None, s)))))))"

end
