(* ===== verification/Closure_Store.thy ===== *)
theory Closure_Store
  imports Handoff_Protocol
begin

text \<open>
  The closure of a cloud: \<^verbatim>\<open>paymentstore/cloud_closure.go\<close> and
  \<^verbatim>\<open>cloud_closure_retirement.go\<close>, with the guards of \<^verbatim>\<open>migrations/055\<close> and \<^verbatim>\<open>056\<close>.
  \<^verbatim>\<open>clock_timestamp()\<close> is read once per transaction.
\<close>

section \<open>Preparation\<close>

record CloudPreflightScope =
  cpf_OrganizationID :: string
  cpf_OwnerUserID :: string
  cpf_OwnershipVersion :: int

record CloudClosureScope = CloudPreflightScope +
  ccs_OperationID :: string

definition valid_preflight_scope :: "env \<Rightarrow> 'a CloudPreflightScope_scheme \<Rightarrow> bool" where
  "valid_preflight_scope E scope =
     (canonicalUUID E (cpf_OrganizationID scope) \<and> canonicalUUID E (cpf_OwnerUserID scope) \<and>
      cpf_OwnershipVersion scope > 0)"

definition valid_closure_scope :: "env \<Rightarrow> CloudClosureScope \<Rightarrow> bool" where
  "valid_closure_scope E scope = (valid_preflight_scope E scope \<and> canonicalUUID E (ccs_OperationID scope))"

record PrepareCloudClosureInput =
  pcc_Scope :: CloudClosureScope
  pcc_Cutoff :: instant
  pcc_AMRequestSHA256 :: string

definition cloudClosureAuditTx :: "CloudClosureScope \<Rightarrow> string \<Rightarrow> string \<Rightarrow> ownership_db \<Rightarrow> ownership_db" where
  "cloudClosureAuditTx scope action digest s =
     pay (sql_insert_audit
       \<lparr>ae_OrganizationID = cpf_OrganizationID scope, ae_EventType = ''billing.cloud_closure.'' @ action,
        ae_ActorType = ''service'', ae_ActorID = ''cloud_closure_coordinator'', ae_SubjectType = ''cloud_closure'',
        ae_SubjectID = ccs_OperationID scope, ae_RequestID = digest,
        ae_Payload = [(''request_sha256'', digest)]\<rparr>) s"

text \<open>The guard of an insertion (\<^verbatim>\<open>guard_billing_cloud_closure\<close>) and the index of one closure per account.\<close>

definition closure_insert_ok :: "payment_db \<Rightarrow> CloudClosure \<Rightarrow> bool" where
  "closure_insert_ok d c =
     (\<not> handoff_open d (cc_AccountID c) \<and>
      list_ex (\<lambda>p. rp_ID p = cc_SourcePeriodID c \<and> rp_EffectiveUntil p = None \<and> rp_EffectiveFrom p \<le> cc_Cutoff c)
        (db_periods d) \<and>
      list_ex (\<lambda>a. ca_ID a = cc_AccountID c \<and> ca_State a = AccountStateActive) (db_accounts d) \<and>
      validLowerSHA256 (cc_AMRequestSHA256 c) \<and> validLowerSHA256 (cc_RequestSHA256 c))"

definition sql_insert_closure :: "env \<Rightarrow> CloudClosure \<Rightarrow> payment_db \<Rightarrow> error + payment_db" where
  "sql_insert_closure E row d =
     (if \<not> closure_insert_ok d row then Inl (check_violation ''billing_cloud_closures_check'')
      else if list_ex (\<lambda>c. cc_ID c = cc_ID row) (db_closures d) \<or> closure_active d (cc_AccountID row)
      then Inl (unique_violation ''billing_one_cloud_closure'')
      else Inr (touch_account E (cc_AccountID row) (d\<lparr>db_closures := db_closures d @ [row]\<rparr>)))"

text \<open>
  The inventory of what the providers have to revoke, kept before the local authority is revoked:
  every method of the account and every setup still open.
\<close>

definition closure_tasks :: "string \<Rightarrow> string \<Rightarrow> ownership_db \<Rightarrow> closure_revocation list" where
  "closure_tasks operationID accountID s =
     map (\<lambda>m. \<lparr>ccr_SubjectType = ''method'', ccr_SubjectID = pm_ID m, ccr_OperationID = operationID\<rparr>)
       (filter (\<lambda>m. pm_AccountID m = accountID) (db_methods (od_pay s))) @
     map (\<lambda>r. \<lparr>ccr_SubjectType = ''setup'', ccr_SubjectID = su_ID r, ccr_OperationID = operationID\<rparr>)
       (filter (\<lambda>r. su_AccountID r = accountID \<and> setup_open r) (od_setups s))"

definition revoke_for_closure :: "env \<Rightarrow> string \<Rightarrow> string \<Rightarrow> ownership_db \<Rightarrow> error + ownership_db" where
  "revoke_for_closure E operationID accountID s =
     (let s = s\<lparr>od_revocations := od_revocations s @ closure_tasks operationID accountID s,
                od_setups := update_where (\<lambda>r. su_AccountID r = accountID \<and> setup_open r)
                  (\<lambda>r. r\<lparr>su_State := PaymentIntentStateFailed, su_InvalidatedByClosure := operationID,
                         su_UpdatedAt := env_now E\<rparr>) (od_setups s)\<rparr>;
          d = revoke_methods E (\<lambda>m. pm_AccountID m = accountID \<and> pm_Status m \<noteq> PaymentMethodStatusRevoked) (od_pay s);
          d = d\<lparr>db_consents := update_where (\<lambda>c. pco_AccountID c = accountID \<and> pco_RevokedAt c = None)
                  (\<lambda>c. c\<lparr>pco_RevokedAt := Some (env_now E), pco_RevocationReason := ''cloud_closure'',
                         pco_UpdatedAt := env_now E\<rparr>) (db_consents d)\<rparr>
      in bindE (sql_update_policy E (\<lambda>p. atp_AccountID p = accountID \<and> (atp_Enabled p \<or> atp_Armed p))
            (\<lambda>p. p\<lparr>atp_Enabled := False, atp_Armed := False, atp_Version := atp_Version p + 1,
                   pol_UpdatedBy := ''cloud_closure''\<rparr>) d) (\<lambda>(_, d).
         Inr (s\<lparr>od_pay := d\<rparr>)))"

definition PrepareCloudClosure :: "(PrepareCloudClosureInput \<Rightarrow> string) \<Rightarrow> env \<Rightarrow> PrepareCloudClosureInput \<Rightarrow>
    ownership_db \<Rightarrow> error + (CloudClosure \<times> ownership_db)" where
  "PrepareCloudClosure dg E inp0 s =
     (let inp = inp0\<lparr>pcc_Cutoff := db_time (pcc_Cutoff inp0)\<rparr>; scope = pcc_Scope inp in
      if \<not> valid_closure_scope E scope \<or> pcc_Cutoff inp0 = zero_time \<or>
         \<not> validLowerSHA256 (pcc_AMRequestSHA256 inp)
      then Inl ErrConflict
      else
        bindE (json_digest dg [pcc_Cutoff inp] inp) (\<lambda>digest.
        bindE (find_org_account (od_pay s) (cpf_OrganizationID scope) Settlement) (\<lambda>account.
        case find (\<lambda>c. cc_ID c = ccs_OperationID scope) (db_closures (od_pay s)) of
          Some prior \<Rightarrow>
            if cc_AccountID prior \<noteq> ca_ID account \<or> cc_RequestSHA256 prior \<noteq> digest
            then Inl ErrIdempotencyConflict else Inr (prior, s)
        | None \<Rightarrow>
            bindE (requireNoHandoffTx (od_pay s) (ca_ID account)) (\<lambda>_.
            if ca_State account \<noteq> AccountStateActive then Inl ErrConflict
            else case find (\<lambda>p. rp_AccountID p = ca_ID account \<and> rp_OwnerUserID p = cpf_OwnerUserID scope \<and>
                   rp_OwnershipVersion p = cpf_OwnershipVersion scope \<and> rp_EffectiveUntil p = None)
                   (db_periods (od_pay s)) of
              None \<Rightarrow> Inl ErrOwnershipVersionConflict
            | Some p \<Rightarrow>
                if \<not> (rp_EffectiveFrom p \<le> pcc_Cutoff inp \<and> pcc_Cutoff inp \<le> env_clock E)
                then Inl ErrOwnershipVersionConflict
                else
                  let op = \<lparr>cc_ID = ccs_OperationID scope, cc_AccountID = ca_ID account,
                            cc_OwnerUserID = cpf_OwnerUserID scope, cc_OwnershipVersion = cpf_OwnershipVersion scope,
                            cc_Cutoff = pcc_Cutoff inp, cc_Phase = ClosurePreparing, cc_Version = 1,
                            cc_CreatedAt = env_now E, cc_SourcePeriodID = rp_ID p, cc_RequestSHA256 = digest,
                            cc_AMRequestSHA256 = pcc_AMRequestSHA256 inp\<rparr>
                  in bindE (scan (sql_insert_closure E op (od_pay s))) (\<lambda>d.
                     bindE (revoke_for_closure E (cc_ID op) (ca_ID account) (s\<lparr>od_pay := d\<rparr>)) (\<lambda>s.
                     Inr (op, cloudClosureAuditTx scope ''prepare'' digest s)))))))"

definition loadCloudClosureTx :: "CloudClosureScope \<Rightarrow> ownership_db \<Rightarrow> error + (CommercialAccount \<times> CloudClosure)" where
  "loadCloudClosureTx scope s =
     bindE (find_org_account (od_pay s) (cpf_OrganizationID scope) Settlement) (\<lambda>account.
     bindE (scan (query_row (find (\<lambda>c. cc_ID c = ccs_OperationID scope \<and> cc_AccountID c = ca_ID account)
       (db_closures (od_pay s))))) (\<lambda>op.
     if cc_OwnerUserID op \<noteq> cpf_OwnerUserID scope \<or> cc_OwnershipVersion op \<noteq> cpf_OwnershipVersion scope
     then Inl ErrOwnershipVersionConflict else Inr (account, op)))"

definition requireClosureOwnerTx :: "CloudClosure \<Rightarrow> ownership_db \<Rightarrow> error + unit" where
  "requireClosureOwnerTx op s =
     (if list_ex (\<lambda>p. rp_ID p = cc_SourcePeriodID op \<and> rp_AccountID p = cc_AccountID op \<and>
           rp_OwnerUserID p = cc_OwnerUserID op \<and> rp_OwnershipVersion p = cc_OwnershipVersion op \<and>
           rp_EffectiveUntil p = None) (db_periods (od_pay s))
      then Inr () else Inl ErrOwnershipVersionConflict)"

section \<open>Revocations by the providers\<close>

definition acked :: "ownership_db \<Rightarrow> closure_revocation \<Rightarrow> bool" where
  "acked s t =
     list_ex (\<lambda>a. rak_OperationID a = ccr_OperationID t \<and> rak_SubjectType a = ccr_SubjectType t \<and>
       rak_SubjectID a = ccr_SubjectID t) (od_revocation_acks s)"

definition closure_revocations :: "ownership_db \<Rightarrow> string \<Rightarrow> closure_revocation list" where
  "closure_revocations s operationID =
     sort_key (\<lambda>t. (ccr_SubjectType t, ccr_SubjectID t))
       (filter (\<lambda>t. ccr_OperationID t = operationID) (od_revocations s))"

definition PendingCloudClosureRevocations :: "env \<Rightarrow> CloudClosureScope \<Rightarrow> ownership_db \<Rightarrow>
    error + CloudClosureRevocation list" where
  "PendingCloudClosureRevocations E scope s =
     (if \<not> valid_closure_scope E scope then Inl ErrConflict
      else bindE (loadCloudClosureTx scope s) (\<lambda>(_, op).
        Inr (map CloudClosureRevocation.truncate (filter (\<lambda>t. \<not> acked s t) (closure_revocations s (cc_ID op))))))"

definition RecordCloudClosureRevocation :: "env \<Rightarrow> CloudClosureScope \<Rightarrow> CloudClosureRevocation \<Rightarrow> string \<Rightarrow>
    ownership_db \<Rightarrow> error + ownership_db" where
  "RecordCloudClosureRevocation E scope task receiptSHA s =
     (if \<not> valid_closure_scope E scope \<or> \<not> canonicalUUID E (ccr_SubjectID task) \<or>
         (ccr_SubjectType task \<noteq> ''method'' \<and> ccr_SubjectType task \<noteq> ''setup'') \<or> \<not> validLowerSHA256 receiptSHA
      then Inl ErrConflict
      else bindE (loadCloudClosureTx scope s) (\<lambda>(_, op).
        case find (\<lambda>a. rak_OperationID a = cc_ID op \<and> rak_SubjectType a = ccr_SubjectType task \<and>
               rak_SubjectID a = ccr_SubjectID task) (od_revocation_acks s) of
          Some prior \<Rightarrow> if rak_ReceiptSHA256 prior \<noteq> receiptSHA then Inl ErrIdempotencyConflict else Inr s
        | None \<Rightarrow>
            if cc_Phase op \<noteq> ClosurePreparing \<and> cc_Phase op \<noteq> ClosureCanceling then Inl ErrConflict
            else if \<not> list_ex (\<lambda>t. ccr_OperationID t = cc_ID op \<and> ccr_SubjectType t = ccr_SubjectType task \<and>
                      ccr_SubjectID t = ccr_SubjectID task) (od_revocations s)
            then Inl ErrNotFound
            else Inr (cloudClosureAuditTx scope ''provider_revocation'' receiptSHA
                   (s\<lparr>od_revocation_acks := od_revocation_acks s @
                       [\<lparr>rak_OperationID = cc_ID op, rak_SubjectType = ccr_SubjectType task,
                         rak_SubjectID = ccr_SubjectID task, rak_ReceiptSHA256 = receiptSHA\<rparr>]\<rparr>))))"

section \<open>Settlement of a closure\<close>

record CloudClosureState =
  cls_Scope :: CloudClosureScope
  cls_SHA256 :: string
  cls_Financial :: FinancialEvidence
  cls_Cutoff :: instant
  cls_ObservedAt :: instant

text \<open>The inventory of revocations with the receipt of each, empty while it is pending.\<close>

type_synonym manifest = "(string \<times> string \<times> string) list"

definition closure_manifest :: "ownership_db \<Rightarrow> string \<Rightarrow> manifest" where
  "closure_manifest s operationID =
     map (\<lambda>t. (ccr_SubjectType t, ccr_SubjectID t,
            case find (\<lambda>a. rak_OperationID a = operationID \<and> rak_SubjectType a = ccr_SubjectType t \<and>
                   rak_SubjectID a = ccr_SubjectID t) (od_revocation_acks s) of
              None \<Rightarrow> [] | Some a \<Rightarrow> rak_ReceiptSHA256 a))
       (closure_revocations s operationID)"

text \<open>The digests of the settlement state and of a closure's state, the latter of the former, the inventory and the request.\<close>

record closure_digests =
  cd_state :: "settlement_view \<Rightarrow> string"
  cd_closure :: "string \<times> manifest \<times> string \<Rightarrow> string"
  cd_receipt :: "string \<times> instant \<Rightarrow> string"

definition captureCloudClosureStateTx :: "closure_digests \<Rightarrow> env \<Rightarrow> CommercialAccount \<Rightarrow> CloudClosure \<Rightarrow>
    CloudClosureScope \<Rightarrow> ownership_db \<Rightarrow> error + CloudClosureState" where
  "captureCloudClosureStateTx dg E account op scope s =
     bindE (captureSettlementStateTx (cd_state dg) account s) (\<lambda>state.
     Inr \<lparr>cls_Scope = scope,
          cls_SHA256 = cd_closure dg (ss_SHA256 state, closure_manifest s (cc_ID op), cc_RequestSHA256 op),
          cls_Financial = ss_Financial state, cls_Cutoff = cc_Cutoff op, cls_ObservedAt = db_time (env_clock E)\<rparr>)"

definition CaptureCloudClosureState :: "closure_digests \<Rightarrow> env \<Rightarrow> CloudClosureScope \<Rightarrow> ownership_db \<Rightarrow>
    error + CloudClosureState" where
  "CaptureCloudClosureState dg E scope s =
     (if \<not> valid_closure_scope E scope then Inl ErrConflict
      else bindE (loadCloudClosureTx scope s) (\<lambda>(account, op).
        if cc_Phase op \<noteq> ClosurePreparing then Inl ErrConflict
        else bindE (requireClosureOwnerTx op s) (\<lambda>_. captureCloudClosureStateTx dg E account op scope s)))"

record RecordCloudClosureSettlementInput =
  rcs_State :: CloudClosureState
  rcs_ReceiptID :: string
  rcs_CoveredThrough :: instant
  rcs_ExpiresAt :: instant
  rcs_UsageCheckpointSHA256 :: string
  rcs_InvoiceCheckpointSHA256 :: string
  rcs_ProviderCheckpointSHA256 :: string

definition five_minutes :: int where
  "five_minutes = 5 * minute_ns"

definition sql_insert_closure_settlement :: "closure_settlement \<Rightarrow> ownership_db \<Rightarrow> error + ownership_db" where
  "sql_insert_closure_settlement row s =
     (if \<not> validLowerSHA256 (cst_RequestSHA256 row) \<or> \<not> validLowerSHA256 (cst_StateSHA256 row) \<or>
         list_ex (\<lambda>c. c \<noteq> [] \<and> \<not> validLowerSHA256 c)
           [cst_UsageCheckpointSHA256 row, cst_InvoiceCheckpointSHA256 row, cst_ProviderCheckpointSHA256 row] \<or>
         \<not> (cst_CoveredThrough row \<le> cst_ObservedAt row \<and> cst_ExpiresAt row > cst_ObservedAt row \<and>
            cst_ExpiresAt row \<le> cst_ObservedAt row + five_minutes)
      then Inl (check_violation ''billing_cloud_closure_settlements_check'')
      else if list_ex (\<lambda>c. cst_ID c = cst_ID row) (od_settlements s)
      then Inl (unique_violation ''billing_cloud_closure_settlements_pkey'')
      else Inr (s\<lparr>od_settlements := od_settlements s @ [row]\<rparr>))"

definition RecordCloudClosureSettlement :: "closure_digests \<Rightarrow> (RecordCloudClosureSettlementInput \<Rightarrow> string) \<Rightarrow> env \<Rightarrow>
    RecordCloudClosureSettlementInput \<Rightarrow> ownership_db \<Rightarrow> error + ownership_db" where
  "RecordCloudClosureSettlement dg dgr E inp0 s =
     (let st = rcs_State inp0; f = cls_Financial st in
      if \<not> valid_closure_scope E (cls_Scope st) \<or> \<not> canonicalUUID E (rcs_ReceiptID inp0) \<or>
         \<not> validLowerSHA256 (cls_SHA256 st) \<or>
         \<not> validCheckpoint (fe_UsageSettled f) (rcs_UsageCheckpointSHA256 inp0) \<or>
         \<not> validCheckpoint (fe_InvoicesReconciled f) (rcs_InvoiceCheckpointSHA256 inp0) \<or>
         \<not> validCheckpoint (fe_ProviderWorkReconciled f) (rcs_ProviderCheckpointSHA256 inp0) \<or>
         rcs_CoveredThrough inp0 < cls_Cutoff st \<or> rcs_CoveredThrough inp0 > cls_ObservedAt st \<or>
         cls_ObservedAt st = zero_time \<or> rcs_ExpiresAt inp0 \<le> cls_ObservedAt st \<or>
         rcs_ExpiresAt inp0 > cls_ObservedAt st + five_minutes \<or> negative_counts f
      then Inl ErrConflict
      else
        let st = st\<lparr>cls_Cutoff := db_time (cls_Cutoff st), cls_ObservedAt := db_time (cls_ObservedAt st)\<rparr>;
            inp = inp0\<lparr>rcs_State := st, rcs_CoveredThrough := db_time (rcs_CoveredThrough inp0),
                       rcs_ExpiresAt := db_time (rcs_ExpiresAt inp0)\<rparr> in
        bindE (json_digest dgr [cls_Cutoff st, cls_ObservedAt st, rcs_CoveredThrough inp, rcs_ExpiresAt inp] inp)
          (\<lambda>digest.
        bindE (loadCloudClosureTx (cls_Scope st) s) (\<lambda>(account, op).
        case find (\<lambda>c. cst_ID c = rcs_ReceiptID inp) (od_settlements s) of
          Some prior \<Rightarrow> if cst_RequestSHA256 prior \<noteq> digest then Inl ErrIdempotencyConflict else Inr s
        | None \<Rightarrow>
            if cc_Phase op \<noteq> ClosurePreparing \<or> cc_Cutoff op \<noteq> cls_Cutoff st then Inl ErrConflict
            else
            bindE (requireClosureOwnerTx op s) (\<lambda>_.
            bindE (captureCloudClosureStateTx dg E account op (cls_Scope st) s) (\<lambda>current.
            if cls_SHA256 current \<noteq> cls_SHA256 st \<or> cls_ObservedAt st > cls_ObservedAt current \<or>
               rcs_ExpiresAt inp \<le> cls_ObservedAt current \<or> \<not> fe_BalanceKnown f \<or>
               fe_Currency f \<noteq> fe_Currency (cls_Financial current) \<or>
               fe_BalanceMinor f \<noteq> fe_BalanceMinor (cls_Financial current)
            then Inl ErrSettlementEvidenceStale
            else
            bindE (sql_insert_closure_settlement
              \<lparr>cst_ID = rcs_ReceiptID inp, cst_OperationID = cc_ID op, cst_RequestSHA256 = digest,
               cst_StateSHA256 = cls_SHA256 current,
               cst_FinancialEvidence = mergeSettlementEvidence f (cls_Financial current),
               cst_UsageCheckpointSHA256 = rcs_UsageCheckpointSHA256 inp,
               cst_InvoiceCheckpointSHA256 = rcs_InvoiceCheckpointSHA256 inp,
               cst_ProviderCheckpointSHA256 = rcs_ProviderCheckpointSHA256 inp,
               cst_CoveredThrough = rcs_CoveredThrough inp, cst_ObservedAt = cls_ObservedAt st,
               cst_ExpiresAt = rcs_ExpiresAt inp, cst_CreatedAt = env_now E\<rparr> s) (\<lambda>s.
            Inr (cloudClosureAuditTx (cls_Scope st) ''settlement'' digest s)))))))"

record CloudClosureStatus =
  ccst_Operation :: CloudClosure
  ccst_Ready :: bool
  ccst_ReceiptID :: string
  ccst_Blockers :: "string list"

definition latest_settlement :: "ownership_db \<Rightarrow> string \<Rightarrow> closure_settlement option" where
  "latest_settlement s operationID =
     (case rev (sort_key (\<lambda>c. (cst_ObservedAt c, cst_CreatedAt c, cst_ID c))
        (filter (\<lambda>c. cst_OperationID c = operationID) (od_settlements s))) of
        [] \<Rightarrow> None | c # _ \<Rightarrow> Some c)"

text \<open>The latest receipt counts while it is of the current state, not expired and covers the cutoff.\<close>

definition current_settlement :: "CloudClosure \<Rightarrow> CloudClosureState \<Rightarrow> ownership_db \<Rightarrow> closure_settlement option" where
  "current_settlement op state s =
     (case latest_settlement s (cc_ID op) of
        None \<Rightarrow> None
      | Some c \<Rightarrow>
          if cst_StateSHA256 c = cls_SHA256 state \<and> cst_ObservedAt c \<le> cls_ObservedAt state \<and>
             cst_ExpiresAt c > cls_ObservedAt state \<and> cst_CoveredThrough c \<ge> cc_Cutoff op
          then Some c else None)"

definition closure_blockers :: "CommercialAccount \<Rightarrow> CloudClosure \<Rightarrow> CloudClosureState \<Rightarrow> ownership_db \<Rightarrow> string list" where
  "closure_blockers account op state s =
     (case current_settlement op state s of None \<Rightarrow> [''evidence_unavailable''] | Some _ \<Rightarrow> []) @
     CloudClosureBlockers
       (case current_settlement op state s of
          None \<Rightarrow> cls_Financial state
        | Some c \<Rightarrow> mergeSettlementEvidence (cst_FinancialEvidence c) (cls_Financial state)) @
     (if list_ex (\<lambda>t. ccr_OperationID t = cc_ID op \<and> \<not> acked s t) (od_revocations s)
      then [''provider_revocations_pending''] else []) @
     (if ca_State account \<noteq> AccountStateActive then [''account_not_active''] else [])"

definition cloudClosureStatusTx :: "closure_digests \<Rightarrow> env \<Rightarrow> CommercialAccount \<Rightarrow> CloudClosure \<Rightarrow> CloudClosureScope \<Rightarrow>
    ownership_db \<Rightarrow> error + CloudClosureStatus" where
  "cloudClosureStatusTx dg E account op scope s =
     (if cc_Phase op \<noteq> ClosurePreparing
      then Inr \<lparr>ccst_Operation = op, ccst_Ready = False, ccst_ReceiptID = [], ccst_Blockers = []\<rparr>
      else
        bindE (requireClosureOwnerTx op s) (\<lambda>_.
        bindE (captureCloudClosureStateTx dg E account op scope s) (\<lambda>state.
        let blockers = remdups_adj (sort (closure_blockers account op state s)) in
        Inr \<lparr>ccst_Operation = op, ccst_Ready = (blockers = []),
             ccst_ReceiptID = (case current_settlement op state s of None \<Rightarrow> [] | Some c \<Rightarrow> cst_ID c),
             ccst_Blockers = blockers\<rparr>)))"

definition GetCloudClosureStatus :: "closure_digests \<Rightarrow> env \<Rightarrow> CloudClosureScope \<Rightarrow> ownership_db \<Rightarrow>
    error + CloudClosureStatus" where
  "GetCloudClosureStatus dg E scope s =
     (if \<not> valid_closure_scope E scope then Inl ErrConflict
      else bindE (loadCloudClosureTx scope s) (\<lambda>(account, op). cloudClosureStatusTx dg E account op scope s))"

section \<open>Closing, retiring and cancelling\<close>

record CloseCloudInput =
  cci_Scope :: CloudClosureScope
  cci_SettlementID :: string
  cci_AMReadinessSHA256 :: string

record CloudClosureAck =
  cca_OperationID :: string
  cca_ClosedAt :: instant
  cca_ReceiptSHA256 :: string

text \<open>The transitions \<^verbatim>\<open>guard_billing_cloud_closure\<close> admits.\<close>

definition closure_step_ok :: "ownership_db \<Rightarrow> CloudClosure \<Rightarrow> closure_phase \<Rightarrow> bool" where
  "closure_step_ok s op phase =
     (((cc_Phase op = ClosurePreparing \<and> (phase = ClosureClosed \<or> phase = ClosureCanceling)) \<or>
       (cc_Phase op = ClosureCanceling \<and> phase = ClosureCanceled)) \<and>
      (phase = ClosureClosed \<longrightarrow> list_ex (\<lambda>c. ccm_OperationID c = cc_ID op) (od_completions s)) \<and>
      (phase = ClosureCanceling \<or> phase = ClosureCanceled \<longrightarrow>
         \<not> list_ex (\<lambda>c. ccm_OperationID c = cc_ID op) (od_completions s) \<and>
         list_ex (\<lambda>c. ccx_OperationID c = cc_ID op) (od_closure_cancellations s)) \<and>
      (phase = ClosureCanceled \<longrightarrow>
         list_ex (\<lambda>r. rla_OperationID r = cc_ID op) (od_release_acks s) \<and>
         \<not> list_ex (\<lambda>t. ccr_OperationID t = cc_ID op \<and> \<not> acked s t) (od_revocations s)))"

definition sql_update_closure :: "env \<Rightarrow> CloudClosure \<Rightarrow> closure_phase \<Rightarrow> ownership_db \<Rightarrow>
    error + (CloudClosure \<times> ownership_db)" where
  "sql_update_closure E op phase s =
     (if \<not> closure_step_ok s op phase then Inl (check_violation ''billing_cloud_closures_transition'')
      else let new = op\<lparr>cc_Phase := phase, cc_Version := cc_Version op + 1\<rparr> in
        Inr (new, pay (\<lambda>d. touch_account E (cc_AccountID op)
          (d\<lparr>db_closures := update_where (\<lambda>c. cc_ID c = cc_ID op) (\<lambda>_. new) (db_closures d)\<rparr>)) s))"

definition command_retired :: "ownership_db \<Rightarrow> string \<Rightarrow> string \<Rightarrow> bool" where
  "command_retired s operationID digest =
     list_ex (\<lambda>r. rc_OperationID r = operationID \<and> rc_RequestSHA256 r = digest) (od_retired_commands s)"

definition sql_insert_completion :: "closure_completion \<Rightarrow> ownership_db \<Rightarrow> error + ownership_db" where
  "sql_insert_completion row s =
     (if command_retired s (ccm_OperationID row) (ccm_RequestSHA256 row) \<or>
         \<not> validLowerSHA256 (ccm_AMReadinessSHA256 row) \<or> \<not> validLowerSHA256 (ccm_RequestSHA256 row) \<or>
         \<not> validLowerSHA256 (ccm_ReceiptSHA256 row)
      then Inl (check_violation ''billing_cloud_closure_completions_check'')
      else if list_ex (\<lambda>c. ccm_OperationID c = ccm_OperationID row) (od_completions s)
      then Inl (unique_violation ''billing_cloud_closure_completions_pkey'')
      else Inr (s\<lparr>od_completions := od_completions s @ [row]\<rparr>))"

definition close_access :: "string \<Rightarrow> ownership_db \<Rightarrow> ownership_db" where
  "close_access organizationID s =
     (if list_ex (\<lambda>a. acs_OrganizationID a = organizationID) (od_access s)
      then s\<lparr>od_access := update_where (\<lambda>a. acs_OrganizationID a = organizationID)
             (\<lambda>a. a\<lparr>acs_State := ''closed'', acs_ReasonCode := ''cloud_deleted'',
                    acs_UpdatedBy := ''cloud_closure'', acs_Version := acs_Version a + 1\<rparr>) (od_access s)\<rparr>
      else s\<lparr>od_access := od_access s @ [\<lparr>acs_OrganizationID = organizationID, acs_State = ''closed'',
             acs_ReasonCode = ''cloud_deleted'', acs_UpdatedBy = ''cloud_closure'', acs_Version = 1\<rparr>]\<rparr>)"

text \<open>The deferred check of a completion at the end of its transaction (\<^verbatim>\<open>verify_billing_cloud_closure_completion\<close>).\<close>

definition completion_consistent :: "string \<Rightarrow> instant \<Rightarrow> ownership_db \<Rightarrow> bool" where
  "completion_consistent operationID closedAt s =
     (let d = od_pay s in
      list_ex (\<lambda>c. cc_ID c = operationID \<and> cc_Phase c = ClosureClosed \<and>
        list_ex (\<lambda>a. ca_ID a = cc_AccountID c \<and> ca_State a = AccountStateClosed \<and> ca_AvailableBalanceMinor a = 0 \<and>
          list_ex (\<lambda>b. acs_OrganizationID b = ca_OrganizationID a \<and> acs_State b = ''closed'') (od_access s)) (db_accounts d) \<and>
        list_ex (\<lambda>p. rp_ID p = cc_SourcePeriodID c \<and> rp_EffectiveUntil p = Some closedAt) (db_periods d) \<and>
        \<not> list_ex (\<lambda>m. pm_AccountID m = cc_AccountID c \<and> pm_Status m \<noteq> PaymentMethodStatusRevoked) (db_methods d) \<and>
        \<not> list_ex (\<lambda>k. pco_AccountID k = cc_AccountID c \<and> pco_RevokedAt k = None) (db_consents d) \<and>
        \<not> list_ex (\<lambda>p. atp_AccountID p = cc_AccountID c \<and> (atp_Enabled p \<or> atp_Armed p)) (db_policies d) \<and>
        \<not> list_ex (\<lambda>t. ccr_OperationID t = cc_ID c \<and> \<not> acked s t) (od_revocations s) \<and>
        \<not> list_ex (\<lambda>m. pm_AccountID m = cc_AccountID c \<and>
             \<not> list_ex (\<lambda>t. ccr_OperationID t = cc_ID c \<and> ccr_SubjectType t = ''method'' \<and> ccr_SubjectID t = pm_ID m)
                 (od_revocations s)) (db_methods d))
        (db_closures d))"

definition close_account :: "env \<Rightarrow> CommercialAccount \<Rightarrow> CloudClosure \<Rightarrow> instant \<Rightarrow> ownership_db \<Rightarrow> error + ownership_db" where
  "close_account E account op closedAt s =
     bindE (sql_update_closure E op ClosureClosed s) (\<lambda>(_, s).
     bindE (sql_update_account E (ca_ID account)
       (\<lambda>a. a\<lparr>ca_State := AccountStateClosed, ca_Version := ca_Version a + 1\<rparr>) (od_pay s)) (\<lambda>(_, d).
     bindE (sql_end_period E (\<lambda>p. rp_ID p = cc_SourcePeriodID op \<and> rp_EffectiveUntil p = None) closedAt
       (s\<lparr>od_pay := d\<rparr>)) (\<lambda>(_, s). Inr s)))"

definition CloseCloud :: "closure_digests \<Rightarrow> (CloseCloudInput \<Rightarrow> string) \<Rightarrow> env \<Rightarrow> CloseCloudInput \<Rightarrow> ownership_db \<Rightarrow>
    error + (CloudClosureAck \<times> ownership_db)" where
  "CloseCloud dg dgc E inp s =
     (if \<not> valid_closure_scope E (cci_Scope inp) \<or> \<not> canonicalUUID E (cci_SettlementID inp) \<or>
         \<not> validLowerSHA256 (cci_AMReadinessSHA256 inp)
      then Inl ErrConflict
      else
        let digest = dgc inp in
        bindE (loadCloudClosureTx (cci_Scope inp) s) (\<lambda>(account, op).
        if command_retired s (cc_ID op) digest then Inl ErrCloudClosureCommandRetired
        else case find (\<lambda>c. ccm_OperationID c = cc_ID op) (od_completions s) of
          Some prior \<Rightarrow>
            if ccm_RequestSHA256 prior \<noteq> digest then Inl ErrIdempotencyConflict
            else Inr (\<lparr>cca_OperationID = cc_ID op, cca_ClosedAt = ccm_ClosedAt prior,
                       cca_ReceiptSHA256 = ccm_ReceiptSHA256 prior\<rparr>, s)
        | None \<Rightarrow>
            bindE (cloudClosureStatusTx dg E account op (cci_Scope inp) s) (\<lambda>status.
            if \<not> ccst_Ready status \<or> ccst_ReceiptID status \<noteq> cci_SettlementID inp then Inl ErrCloudClosureNotReady
            else
              let closedAt = db_time (env_clock E) in
              bindE (json_digest (cd_receipt dg) [closedAt] (digest, closedAt)) (\<lambda>receipt.
              bindE (sql_insert_completion
                \<lparr>ccm_OperationID = cc_ID op, ccm_SettlementID = cci_SettlementID inp,
                 ccm_AMReadinessSHA256 = cci_AMReadinessSHA256 inp, ccm_RequestSHA256 = digest,
                 ccm_ReceiptSHA256 = receipt, ccm_ClosedAt = closedAt\<rparr> s) (\<lambda>s.
              bindE (close_account E account op closedAt s) (\<lambda>s.
              let s = cloudClosureAuditTx (cci_Scope inp) ''closed'' digest
                        (close_access (cpf_OrganizationID (cci_Scope inp)) s)
              in if \<not> completion_consistent (cc_ID op) closedAt s
                 then Inl (check_violation ''cloud_closure_completion_consistency'')
                 else Inr (\<lparr>cca_OperationID = cc_ID op, cca_ClosedAt = closedAt,
                            cca_ReceiptSHA256 = receipt\<rparr>, s)))))))"

record CloudCloseResolution =
  ccrs_OperationID :: string
  ccrs_Outcome :: string
  ccrs_ReceiptSHA256 :: string
  ccrs_RetiredAt :: "instant option"
  ccrs_Acknowledgment :: "CloudClosureAck option"

definition RetireCloudClose :: "closure_digests \<Rightarrow> (CloseCloudInput \<Rightarrow> string) \<Rightarrow> env \<Rightarrow> CloseCloudInput \<Rightarrow> ownership_db \<Rightarrow>
    error + (CloudCloseResolution \<times> ownership_db)" where
  "RetireCloudClose dg dgc E inp s =
     (if \<not> valid_closure_scope E (cci_Scope inp) \<or> \<not> canonicalUUID E (cci_SettlementID inp) \<or>
         \<not> validLowerSHA256 (cci_AMReadinessSHA256 inp)
      then Inl ErrConflict
      else
        let digest = dgc inp in
        bindE (loadCloudClosureTx (cci_Scope inp) s) (\<lambda>(_, op).
        case find (\<lambda>r. rc_OperationID r = cc_ID op \<and> rc_RequestSHA256 r = digest) (od_retired_commands s) of
          Some r \<Rightarrow>
            Inr (\<lparr>ccrs_OperationID = cc_ID op, ccrs_Outcome = ''retired'', ccrs_ReceiptSHA256 = rc_ReceiptSHA256 r,
                  ccrs_RetiredAt = Some (rc_RetiredAt r), ccrs_Acknowledgment = None\<rparr>, s)
        | None \<Rightarrow>
            (case find (\<lambda>c. ccm_OperationID c = cc_ID op) (od_completions s) of
               Some prior \<Rightarrow>
                 if ccm_RequestSHA256 prior \<noteq> digest then Inl ErrIdempotencyConflict
                 else Inr (\<lparr>ccrs_OperationID = cc_ID op, ccrs_Outcome = ''closed'', ccrs_ReceiptSHA256 = [],
                        ccrs_RetiredAt = None,
                        ccrs_Acknowledgment = Some \<lparr>cca_OperationID = cc_ID op, cca_ClosedAt = ccm_ClosedAt prior,
                          cca_ReceiptSHA256 = ccm_ReceiptSHA256 prior\<rparr>\<rparr>, s)
             | None \<Rightarrow>
                 if cc_Phase op \<noteq> ClosurePreparing then Inl ErrConflict
                 else
                   let retired = db_time (env_clock E) in
                   bindE (json_digest (cd_receipt dg) [retired] (digest, retired)) (\<lambda>receipt.
                   if \<not> validLowerSHA256 digest \<or> \<not> validLowerSHA256 receipt
                   then Inl (check_violation ''billing_cloud_closure_retired_commands_check'')
                   else Inr (\<lparr>ccrs_OperationID = cc_ID op, ccrs_Outcome = ''retired'', ccrs_ReceiptSHA256 = receipt,
                          ccrs_RetiredAt = Some retired, ccrs_Acknowledgment = None\<rparr>,
                        cloudClosureAuditTx (cci_Scope inp) ''command_retired'' receipt
                          (s\<lparr>od_retired_commands := od_retired_commands s @
                              [\<lparr>rc_OperationID = cc_ID op, rc_RequestSHA256 = digest,
                                rc_SettlementID = cci_SettlementID inp,
                                rc_AMReadinessSHA256 = cci_AMReadinessSHA256 inp, rc_ReceiptSHA256 = receipt,
                                rc_RetiredAt = retired\<rparr>]\<rparr>))))))"

definition CancelCloudClosure :: "env \<Rightarrow> CloudClosureScope \<Rightarrow> string \<Rightarrow> string \<Rightarrow> ownership_db \<Rightarrow>
    error + (CloudClosure \<times> ownership_db)" where
  "CancelCloudClosure E scope cancellationID decisionSHA s =
     (if \<not> valid_closure_scope E scope \<or> \<not> canonicalUUID E cancellationID \<or> \<not> validLowerSHA256 decisionSHA
      then Inl ErrConflict
      else bindE (loadCloudClosureTx scope s) (\<lambda>(_, op).
        case find (\<lambda>c. ccx_OperationID c = cc_ID op) (od_closure_cancellations s) of
          Some prior \<Rightarrow>
            if ccx_CancellationID prior \<noteq> cancellationID \<or> ccx_AMCancellationSHA256 prior \<noteq> decisionSHA
            then Inl ErrIdempotencyConflict else Inr (op, s)
        | None \<Rightarrow>
            if cc_Phase op \<noteq> ClosurePreparing then Inl ErrConflict
            else if list_ex (\<lambda>c. ccx_CancellationID c = cancellationID) (od_closure_cancellations s)
            then Inl (unique_violation ''billing_cloud_closure_cancellations_cancellation_id_key'')
            else
              bindE (scan (sql_update_closure E op ClosureCanceling
                (s\<lparr>od_closure_cancellations := od_closure_cancellations s @
                    [\<lparr>ccx_OperationID = cc_ID op, ccx_CancellationID = cancellationID,
                      ccx_AMCancellationSHA256 = decisionSHA\<rparr>]\<rparr>))) (\<lambda>(op, s).
              Inr (op, cloudClosureAuditTx scope ''canceling'' decisionSHA s))))"

definition CompleteCloudClosureCancellation :: "env \<Rightarrow> CloudClosureScope \<Rightarrow> string \<Rightarrow> string \<Rightarrow> ownership_db \<Rightarrow>
    error + (CloudClosure \<times> ownership_db)" where
  "CompleteCloudClosureCancellation E scope cancellationID releaseSHA s =
     (if \<not> valid_closure_scope E scope \<or> \<not> canonicalUUID E cancellationID \<or> \<not> validLowerSHA256 releaseSHA
      then Inl ErrConflict
      else bindE (loadCloudClosureTx scope s) (\<lambda>(_, op).
        bindE (scan (query_row (find (\<lambda>c. ccx_OperationID c = cc_ID op) (od_closure_cancellations s)))) (\<lambda>prior.
        if ccx_CancellationID prior \<noteq> cancellationID then Inl ErrIdempotencyConflict
        else case find (\<lambda>r. rla_OperationID r = cc_ID op) (od_release_acks s) of
          Some ack \<Rightarrow> if rla_ReceiptSHA256 ack \<noteq> releaseSHA then Inl ErrIdempotencyConflict else Inr (op, s)
        | None \<Rightarrow>
            if cc_Phase op \<noteq> ClosureCanceling then Inl ErrConflict
            else
              bindE (scan (sql_update_closure E op ClosureCanceled
                (s\<lparr>od_release_acks := od_release_acks s @
                    [\<lparr>rla_OperationID = cc_ID op, rla_ReceiptSHA256 = releaseSHA\<rparr>]\<rparr>))) (\<lambda>(op, s).
              Inr (op, cloudClosureAuditTx scope ''canceled'' releaseSHA s)))))"

end
