(* ===== verification/Cloud_Store.thy ===== *)
theory Cloud_Store
  imports Closure_Store
begin

text \<open>
  What the cloud's life cycle asks of Billing around the protocols: the bootstrap of a new cloud
  (\<^verbatim>\<open>paymentstore/cloud_creation.go\<close>), the evidence of the settlement collector
  (\<^verbatim>\<open>collector_evidence.go\<close>), and the advisory preflights of a deletion
  (\<^verbatim>\<open>cloud_preflight.go\<close>) and of a transfer (\<^verbatim>\<open>ownership_eligibility.go\<close>).
\<close>

section \<open>Bootstrap of a cloud (cloud_creation.go)\<close>

record CloudCreation =
  clc_EventID :: string
  clc_OrganizationID :: string
  clc_OwnerUserID :: string
  clc_OwnershipVersion :: int
  clc_OccurredAt :: instant
  clc_EvidenceSHA256 :: string

text \<open>The digest of the event and its owner, of a text with the time to the microsecond, is a parameter.\<close>

definition valid_creation :: "(string \<times> string \<times> string \<times> instant \<Rightarrow> string) \<Rightarrow> env \<Rightarrow> CloudCreation \<Rightarrow> bool" where
  "valid_creation dg E inp =
     (canonicalUUID E (clc_EventID inp) \<and> canonicalUUID E (clc_OrganizationID inp) \<and>
      canonicalUUID E (clc_OwnerUserID inp) \<and> clc_OwnershipVersion inp = 1 \<and> clc_OccurredAt inp \<noteq> zero_time \<and>
      clc_OccurredAt inp = db_time (clc_OccurredAt inp) \<and>
      clc_EvidenceSHA256 inp =
        dg (clc_EventID inp, clc_OrganizationID inp, clc_OwnerUserID inp, clc_OccurredAt inp))"

definition receipt_of :: "CloudCreation \<Rightarrow> string \<Rightarrow> creation_receipt" where
  "receipt_of inp accountID =
     \<lparr>crc_EventID = clc_EventID inp, crc_OrganizationID = clc_OrganizationID inp, crc_AccountID = accountID,
      crc_OwnerUserID = clc_OwnerUserID inp, crc_OwnershipVersion = clc_OwnershipVersion inp,
      crc_OccurredAt = clc_OccurredAt inp, crc_EvidenceSHA256 = clc_EvidenceSHA256 inp\<rparr>"

definition creation_audit :: "CloudCreation \<Rightarrow> string \<Rightarrow> audit_event" where
  "creation_audit inp accountID =
     \<lparr>ae_OrganizationID = clc_OrganizationID inp, ae_EventType = ''billing.cloud_creation.bootstrap'',
      ae_ActorType = ''service'', ae_ActorID = ''account_manager_cloud_creation'',
      ae_SubjectType = ''commercial_account'', ae_SubjectID = accountID, ae_RequestID = clc_EventID inp,
      ae_Payload = [(''owner_user_id'', clc_OwnerUserID inp), (''ownership_version'', ''1''),
                    (''evidence_sha256'', clc_EvidenceSHA256 inp)]\<rparr>"

definition BootstrapBrandCloud :: "(string \<times> string \<times> string \<times> instant \<Rightarrow> string) \<Rightarrow> env \<Rightarrow> CloudCreation \<Rightarrow>
    ownership_db \<Rightarrow> error + (creation_receipt \<times> ownership_db)" where
  "BootstrapBrandCloud dg E inp s =
     (if \<not> valid_creation dg E inp then Inl ErrConflict
      else case find (\<lambda>r. crc_OrganizationID r = clc_OrganizationID inp \<or> crc_EventID r = clc_EventID inp)
             (od_creations s) of
        Some out \<Rightarrow> if out \<noteq> receipt_of inp (crc_AccountID out) then Inl ErrIdempotencyConflict else Inr (out, s)
      | None \<Rightarrow>
          if \<not> clc_OccurredAt inp \<le> env_clock E then Inl ErrConflict
          else (case sql_insert_account E (clc_OrganizationID inp) Settlement (od_pay s) of
            Inl e \<Rightarrow> Inl (if e = ErrNoRows then ErrOwnershipEvidenceMissing else e)
          | Inr (account, d) \<Rightarrow>
              bindE (sql_insert_period E
                \<lparr>rp_ID = [], rp_AccountID = ca_ID account, rp_OwnerUserID = clc_OwnerUserID inp,
                 rp_OwnershipVersion = 1, rp_EffectiveFrom = clc_OccurredAt inp, rp_EffectiveUntil = None,
                 rp_SourceEvidenceSHA256 = clc_EvidenceSHA256 inp, rp_OpeningOperationID = [],
                 rp_OpeningBalanceMinor = None\<rparr> d) (\<lambda>d.
              if list_ex (\<lambda>r. crc_AccountID r = ca_ID account) (od_creations s)
              then Inl (unique_violation ''billing_cloud_creation_receipts_account_id_key'')
              else Inr (receipt_of inp (ca_ID account),
                s\<lparr>od_pay := sql_insert_audit (creation_audit inp (ca_ID account)) d,
                  od_creations := od_creations s @ [receipt_of inp (ca_ID account)]\<rparr>))))"

section \<open>Evidence of the collector (collector_evidence.go)\<close>

record ReconcileSettlementInput =
  rse_OrganizationID :: string
  rse_State :: SettlementState
  rse_CoveredThrough :: instant
  rse_ProducerCheckpointSHA256 :: string

record ReconciledSettlementEvidence =
  rev_Financial :: FinancialEvidence
  rev_UsageCheckpointSHA256 :: string
  rev_InvoiceCheckpointSHA256 :: string
  rev_ProviderCheckpointSHA256 :: string

text \<open>A fact is settled when an invoice that is settled refers to it and its window is covered.\<close>

definition usage_settled :: "CommercialAccount \<Rightarrow> instant \<Rightarrow> ownership_db \<Rightarrow> bool" where
  "usage_settled account covered s =
     list_all (\<lambda>u. uf_OrganizationID u = ca_OrganizationID account \<and> uf_WindowStart u < covered \<longrightarrow>
         uf_WindowEnd u \<le> covered \<and>
         list_ex (\<lambda>i. iv_PeriodStart i < covered \<and> iv_State i = InvoiceStateSettled \<and>
             list_ex (\<lambda>l. uf_UsageID u \<in> set (il_UsageFactRefs l)) (iv_Lines i))
           (account_invoices (od_pay s) (ca_ID account))) (od_usage s)"

definition invoices_reconciled :: "CommercialAccount \<Rightarrow> instant \<Rightarrow> ownership_db \<Rightarrow> bool" where
  "invoices_reconciled account covered s =
     (list_all (\<lambda>p. bpd_OrganizationID p = ca_OrganizationID account \<and> bpd_PeriodStart p < covered \<longrightarrow>
          bpd_State p = ''closed'') (od_billing_periods s) \<and>
      list_all (\<lambda>i. iv_PeriodStart i < covered \<longrightarrow>
          (iv_State i = InvoiceStateSettled \<or> iv_State i = InvoiceStateVoid) \<and> iv_AmountDueMinor i = 0 \<and>
          (iv_TotalMinor i > 0 \<longrightarrow>
             list_ex (\<lambda>l. sl_InvoiceID l = iv_ID i \<and> sl_State l = ''posted'' \<and> sl_LedgerEntryID l \<noteq> [])
               (od_links s))) (account_invoices (od_pay s) (ca_ID account)))"

definition provider_work_reconciled :: "CommercialAccount \<Rightarrow> ownership_db \<Rightarrow> bool" where
  "provider_work_reconciled account s =
     (let d = od_pay s; x = ca_ID account in
      \<not> list_ex (\<lambda>i. intent_open (pi_State i)) (account_intents d x) \<and>
      \<not> list_ex (\<lambda>j. rj_Status j \<noteq> ReconciliationStatusCompleted) (account_jobs d x) \<and>
      \<not> list_ex (\<lambda>a. pa_CompletedAt a = None) (account_attempts d x) \<and>
      \<not> list_ex setup_open (account_setups s x) \<and>
      \<not> list_ex (\<lambda>w. wr_ProcessingState w \<noteq> ''processed'') (account_webhooks d x) \<and>
      \<not> list_ex (\<lambda>e. re_AccountID e = x \<and> \<not> list_ex (\<lambda>a. ral_EventID a = re_ID e) (db_reversal_allocations d))
          (db_reversal_events d))"

text \<open>
  A checkpoint is the digest of a domain, the producer's checkpoint where there is one, what the
  domain's query read, and the state; the reading is a function of the account, the horizon and
  the state of the database.
\<close>

type_synonym checkpoint = "string \<Rightarrow> string list \<Rightarrow> CommercialAccount \<Rightarrow> instant \<Rightarrow> ownership_db \<Rightarrow> string"

definition ReconcileSettlementEvidence :: "(settlement_view \<Rightarrow> string) \<Rightarrow> checkpoint \<Rightarrow> env \<Rightarrow> ReconcileSettlementInput \<Rightarrow>
    ownership_db \<Rightarrow> error + ReconciledSettlementEvidence" where
  "ReconcileSettlementEvidence sha cp E inp s =
     (if \<not> canonicalUUID E (rse_OrganizationID inp) \<or> \<not> validLowerSHA256 (ss_SHA256 (rse_State inp)) \<or>
         \<not> validLowerSHA256 (rse_ProducerCheckpointSHA256 inp) \<or> rse_CoveredThrough inp = zero_time \<or>
         rse_CoveredThrough inp \<noteq> db_time (rse_CoveredThrough inp)
      then Inl ErrConflict
      else
        bindE (find_org_account (od_pay s) (rse_OrganizationID inp) Settlement) (\<lambda>account.
        bindE (captureSettlementStateTx sha account s) (\<lambda>state.
        if ss_SHA256 state \<noteq> ss_SHA256 (rse_State inp) then Inl ErrSettlementEvidenceStale
        else
          let t = rse_CoveredThrough inp; sha0 = ss_SHA256 (rse_State inp);
              invoices = invoices_reconciled account t s;
              usage = usage_settled account t s \<and> invoices;
              provider = provider_work_reconciled account s
          in Inr \<lparr>rev_Financial = (ss_Financial state)\<lparr>fe_UsageSettled := usage, fe_InvoicesReconciled := invoices,
                     fe_ProviderWorkReconciled := provider\<rparr>,
               rev_UsageCheckpointSHA256 = (if usage
                 then cp ''billing-settled-usage-v1'' [rse_ProducerCheckpointSHA256 inp, sha0] account t s else []),
               rev_InvoiceCheckpointSHA256 = (if invoices
                 then cp ''billing-reconciled-invoices-v1'' [sha0] account t s else []),
               rev_ProviderCheckpointSHA256 = (if provider
                 then cp ''billing-reconciled-provider-work-v1'' [sha0] account t s else [])\<rparr>)))"

definition IsCollectorRetryable :: "error \<Rightarrow> bool" where
  "IsCollectorRetryable e = (e = ErrSettlementEvidenceStale \<or> e = ErrOwnershipVersionConflict \<or> e = ErrConflict)"

definition take_rows :: "int \<Rightarrow> 'a list \<Rightarrow> 'a list" where
  "take_rows limit rows = take (nat limit) rows"

definition ListCloudPreflightScopes :: "env \<Rightarrow> string \<Rightarrow> int \<Rightarrow> ownership_db \<Rightarrow> error + CloudPreflightScope list" where
  "ListCloudPreflightScopes E after limit s =
     (if limit < 1 \<or> limit > 500 \<or> (after \<noteq> [] \<and> \<not> canonicalUUID E after) then Inl ErrConflict
      else Inr (take_rows limit (sort_key cpf_OrganizationID
        [\<lparr>cpf_OrganizationID = ca_OrganizationID a, cpf_OwnerUserID = rp_OwnerUserID p,
          cpf_OwnershipVersion = rp_OwnershipVersion p\<rparr>.
           a \<leftarrow> db_accounts (od_pay s), p \<leftarrow> db_periods (od_pay s),
           rp_AccountID p = ca_ID a \<and> rp_EffectiveUntil p = None \<and> ca_State a \<noteq> AccountStateClosed \<and>
           (after = [] \<or> ca_OrganizationID a > after)])))"

section \<open>Preflights (cloud_preflight.go, ownership_eligibility.go)\<close>

record CloudPreflightState =
  cpt_Scope :: CloudPreflightScope
  cpt_State :: SettlementState
  cpt_ObservedAt :: instant

record RecordCloudPreflightInput =
  rcp_State :: CloudPreflightState
  rcp_ReceiptID :: string
  rcp_UsageCheckpointSHA256 :: string
  rcp_InvoiceCheckpointSHA256 :: string
  rcp_ProviderCheckpointSHA256 :: string
  rcp_ExpiresAt :: instant

record CloudDeletionPreflight =
  cdp_Scope :: CloudPreflightScope
  cdp_Eligible :: bool
  cdp_Blockers :: "string list"
  cdp_BalanceMinor :: int
  cdp_Currency :: Code
  cdp_ObservedAt :: instant
  cdp_ExpiresAt :: instant
  cdp_receiptID :: string
  cdp_receiptSHA256 :: string
  cdp_complete :: bool

definition loadCloudPreflightAccountTx :: "CloudPreflightScope \<Rightarrow> ownership_db \<Rightarrow> error + CommercialAccount" where
  "loadCloudPreflightAccountTx scope s =
     bindE (find_org_account (od_pay s) (cpf_OrganizationID scope) Settlement) (\<lambda>account.
     case current_period (od_pay s) (ca_ID account) of
       None \<Rightarrow> Inl ErrOwnershipEvidenceMissing
     | Some p \<Rightarrow>
         if rp_OwnerUserID p \<noteq> cpf_OwnerUserID scope \<or> rp_OwnershipVersion p \<noteq> cpf_OwnershipVersion scope
         then Inl ErrOwnershipVersionConflict else Inr account)"

definition CaptureCloudPreflightState :: "(settlement_view \<Rightarrow> string) \<Rightarrow> env \<Rightarrow> CloudPreflightScope \<Rightarrow> ownership_db \<Rightarrow>
    error + CloudPreflightState" where
  "CaptureCloudPreflightState sha E scope s =
     (if \<not> valid_preflight_scope E scope then Inl ErrConflict
      else bindE (loadCloudPreflightAccountTx scope s) (\<lambda>account.
        bindE (captureSettlementStateTx sha account s) (\<lambda>state.
        Inr \<lparr>cpt_Scope = scope, cpt_State = state, cpt_ObservedAt = env_now E\<rparr>)))"

definition preflight_audit :: "CommercialAccount \<Rightarrow> string \<Rightarrow> string \<Rightarrow> audit_event" where
  "preflight_audit account receiptID digest =
     \<lparr>ae_OrganizationID = ca_OrganizationID account, ae_EventType = ''billing.cloud_preflight.evidence'',
      ae_ActorType = ''service'', ae_ActorID = ''billing_settlement_collector'',
      ae_SubjectType = ''commercial_account'', ae_SubjectID = ca_ID account, ae_RequestID = receiptID,
      ae_Payload = [(''request_sha256'', digest)]\<rparr>"

definition sql_insert_preflight :: "preflight_receipt \<Rightarrow> ownership_db \<Rightarrow> error + ownership_db" where
  "sql_insert_preflight row s =
     (if \<not> validLowerSHA256 (pfr_RequestSHA256 row) \<or> \<not> validLowerSHA256 (pfr_StateSHA256 row) \<or>
         \<not> (pfr_ExpiresAt row > pfr_ObservedAt row \<and> pfr_ExpiresAt row \<le> pfr_ObservedAt row + five_minutes)
      then Inl (check_violation ''billing_cloud_preflight_receipts_check'')
      else if list_ex (\<lambda>r. pfr_ID r = pfr_ID row) (od_preflights s)
      then Inl (unique_violation ''billing_cloud_preflight_receipts_pkey'')
      else Inr (s\<lparr>od_preflights := od_preflights s @ [row]\<rparr>))"

definition RecordCloudPreflightEvidence :: "(settlement_view \<Rightarrow> string) \<Rightarrow> (RecordCloudPreflightInput \<Rightarrow> string) \<Rightarrow> env \<Rightarrow>
    RecordCloudPreflightInput \<Rightarrow> ownership_db \<Rightarrow> error + ownership_db" where
  "RecordCloudPreflightEvidence sha dg E inp0 s =
     (let st = rcp_State inp0; f = ss_Financial (cpt_State st) in
      if \<not> valid_preflight_scope E (cpt_Scope st) \<or> \<not> canonicalUUID E (rcp_ReceiptID inp0) \<or>
         \<not> validLowerSHA256 (ss_SHA256 (cpt_State st)) \<or>
         \<not> validCheckpoint (fe_UsageSettled f) (rcp_UsageCheckpointSHA256 inp0) \<or>
         \<not> validCheckpoint (fe_InvoicesReconciled f) (rcp_InvoiceCheckpointSHA256 inp0) \<or>
         \<not> validCheckpoint (fe_ProviderWorkReconciled f) (rcp_ProviderCheckpointSHA256 inp0) \<or>
         cpt_ObservedAt st = zero_time \<or> rcp_ExpiresAt inp0 \<le> cpt_ObservedAt st \<or>
         rcp_ExpiresAt inp0 > cpt_ObservedAt st + five_minutes \<or> negative_counts f
      then Inl ErrConflict
      else
        let st = st\<lparr>cpt_ObservedAt := db_time (cpt_ObservedAt st)\<rparr>;
            inp = inp0\<lparr>rcp_State := st, rcp_ExpiresAt := db_time (rcp_ExpiresAt inp0)\<rparr> in
        bindE (json_digest dg [cpt_ObservedAt st, rcp_ExpiresAt inp] inp) (\<lambda>digest.
        bindE (loadCloudPreflightAccountTx (cpt_Scope st) s) (\<lambda>account.
        case find (\<lambda>r. pfr_ID r = rcp_ReceiptID inp) (od_preflights s) of
          Some prior \<Rightarrow> if pfr_RequestSHA256 prior \<noteq> digest then Inl ErrIdempotencyConflict else Inr s
        | None \<Rightarrow>
            let now = db_time (env_clock E) in
            if cpt_ObservedAt st > now \<or> rcp_ExpiresAt inp \<le> now then Inl ErrSettlementEvidenceStale
            else
            bindE (captureSettlementStateTx sha account s) (\<lambda>local.
            if ss_SHA256 local \<noteq> ss_SHA256 (cpt_State st) \<or> \<not> fe_BalanceKnown f \<or>
               fe_BalanceMinor f \<noteq> fe_BalanceMinor (ss_Financial local) \<or>
               fe_Currency f \<noteq> fe_Currency (ss_Financial local)
            then Inl ErrSettlementEvidenceStale
            else
            bindE (sql_insert_preflight
              \<lparr>pfr_ID = rcp_ReceiptID inp, pfr_AccountID = ca_ID account,
               pfr_OwnerUserID = cpf_OwnerUserID (cpt_Scope st),
               pfr_OwnershipVersion = cpf_OwnershipVersion (cpt_Scope st), pfr_RequestSHA256 = digest,
               pfr_StateSHA256 = ss_SHA256 (cpt_State st),
               pfr_FinancialEvidence = mergeSettlementEvidence f (ss_Financial local),
               pfr_ObservedAt = cpt_ObservedAt st, pfr_ExpiresAt = rcp_ExpiresAt inp,
               pfr_CreatedAt = env_now E\<rparr> s) (\<lambda>s.
            Inr (pay (sql_insert_audit (preflight_audit account (rcp_ReceiptID inp) digest)) s))))))"

definition latest_preflight :: "ownership_db \<Rightarrow> string \<Rightarrow> CloudPreflightScope \<Rightarrow> preflight_receipt option" where
  "latest_preflight s accountID scope =
     (case rev (sort_key (\<lambda>r. (pfr_ObservedAt r, pfr_CreatedAt r, pfr_ID r))
        (filter (\<lambda>r. pfr_AccountID r = accountID \<and> pfr_OwnerUserID r = cpf_OwnerUserID scope \<and>
                     pfr_OwnershipVersion r = cpf_OwnershipVersion scope) (od_preflights s))) of
        [] \<Rightarrow> None | r # _ \<Rightarrow> Some r)"

definition current_preflight :: "SettlementState \<Rightarrow> instant \<Rightarrow> preflight_receipt option \<Rightarrow> preflight_receipt option" where
  "current_preflight state now receipt =
     (case receipt of
        None \<Rightarrow> None
      | Some r \<Rightarrow>
          if pfr_StateSHA256 r = ss_SHA256 state \<and> pfr_ObservedAt r \<le> now \<and> pfr_ExpiresAt r > now \<and>
             pfr_ObservedAt r > now - five_minutes
          then Some r else None)"

text \<open>The code of an advisory answer for a blocker.\<close>

definition preflight_code :: "bool \<Rightarrow> string \<Rightarrow> string" where
  "preflight_code transfer code =
     (if code = ''balance_negative'' \<or> code = ''balance_positive''
      then (if transfer then ''balance_negative'' else ''balance_nonzero'')
      else if code = ''usage_unsettled'' then code
      else if code = ''unpaid_invoices'' \<or> code = ''outstanding_debt'' then ''debt_outstanding''
      else if code = ''payments_pending'' \<or> code = ''payment_setups_pending'' then ''payment_pending''
      else if code = ''refunds_pending'' then ''refund_pending''
      else if code = ''disputes_open'' then ''dispute_pending''
      else ''evidence_unavailable'')"

fun add_codes :: "string list \<Rightarrow> string list \<Rightarrow> string list" where
  "add_codes out [] = out"
| "add_codes out (code # codes) = add_codes (if code \<in> set out then out else out @ [code]) codes"

definition getCloudFinancialPreflight :: "(settlement_view \<Rightarrow> string) \<Rightarrow> env \<Rightarrow> CloudPreflightScope \<Rightarrow> bool \<Rightarrow>
    ownership_db \<Rightarrow> error + CloudDeletionPreflight" where
  "getCloudFinancialPreflight sha E scope transfer s =
     (if \<not> valid_preflight_scope E scope then Inl ErrConflict
      else bindE (loadCloudPreflightAccountTx scope s) (\<lambda>account.
        bindE (captureSettlementStateTx sha account s) (\<lambda>state.
        let now = db_time (env_clock E);
            receipt = current_preflight state now (latest_preflight s (ca_ID account) scope);
            financial = (case receipt of None \<Rightarrow> ss_Financial state
                         | Some r \<Rightarrow> mergeSettlementEvidence (pfr_FinancialEvidence r) (ss_Financial state));
            blockers = (if transfer then OwnershipTransferBlockers financial else CloudClosureBlockers financial);
            active = handoff_open (od_pay s) (ca_ID account) \<or> closure_active (od_pay s) (ca_ID account);
            codes = add_codes [] ((case receipt of None \<Rightarrow> [''evidence_unavailable''] | Some _ \<Rightarrow> []) @
                      map (preflight_code transfer) blockers @
                      (if active \<or> ca_State account \<noteq> AccountStateActive then [''lifecycle_conflict''] else []));
            expires = now + 30 * second_ns
        in Inr \<lparr>cdp_Scope = scope, cdp_Eligible = (codes = []), cdp_Blockers = codes,
             cdp_BalanceMinor = fe_BalanceMinor (ss_Financial state), cdp_Currency = fe_Currency (ss_Financial state),
             cdp_ObservedAt = now,
             cdp_ExpiresAt = (case receipt of None \<Rightarrow> expires | Some r \<Rightarrow> min (pfr_ExpiresAt r) expires),
             cdp_receiptID = (case receipt of None \<Rightarrow> [] | Some r \<Rightarrow> pfr_ID r),
             cdp_receiptSHA256 = (case receipt of None \<Rightarrow> [] | Some r \<Rightarrow> pfr_RequestSHA256 r),
             cdp_complete = (receipt \<noteq> None \<and> fe_BalanceKnown financial \<and> fe_UsageSettled financial \<and>
               fe_InvoicesReconciled financial \<and> fe_ProviderWorkReconciled financial)\<rparr>)))"

definition GetCloudDeletionPreflight :: "(settlement_view \<Rightarrow> string) \<Rightarrow> env \<Rightarrow> CloudPreflightScope \<Rightarrow> ownership_db \<Rightarrow>
    error + CloudDeletionPreflight" where
  "GetCloudDeletionPreflight sha E scope s = getCloudFinancialPreflight sha E scope False s"

record OwnershipEligibilityRequest =
  oer_CloudID :: string
  oer_SourceUserID :: string
  oer_TargetUserID :: string
  oer_TransferID :: string
  oer_Action :: string
  oer_OwnershipVersion :: int

record OwnershipEligibility =
  oel_ReceiptID :: string
  oel_EvidenceSHA256 :: string
  oel_Currency :: Code
  oel_BalanceMinor :: int
  oel_Complete :: bool
  oel_Blockers :: "string list"
  oel_ObservedAt :: instant
  oel_ExpiresAt :: instant

definition valid_eligibility :: "env \<Rightarrow> OwnershipEligibilityRequest \<Rightarrow> bool" where
  "valid_eligibility E inp =
     (canonicalUUID E (oer_CloudID inp) \<and> canonicalUUID E (oer_SourceUserID inp) \<and>
      canonicalUUID E (oer_TargetUserID inp) \<and> oer_SourceUserID inp \<noteq> oer_TargetUserID inp \<and>
      oer_OwnershipVersion inp > 0 \<and>
      (oer_Action inp = ''request'' \<and> oer_TransferID inp = [] \<or>
       oer_Action inp = ''accept'' \<and> canonicalUUID E (oer_TransferID inp)))"

definition CheckOwnershipEligibility :: "(settlement_view \<Rightarrow> string) \<Rightarrow>
    (OwnershipEligibilityRequest \<times> string \<times> string \<Rightarrow> string) \<Rightarrow> env \<Rightarrow> OwnershipEligibilityRequest \<Rightarrow> ownership_db \<Rightarrow>
    error + OwnershipEligibility" where
  "CheckOwnershipEligibility sha dg E inp s =
     (if \<not> valid_eligibility E inp then Inl ErrConflict
      else bindE (getCloudFinancialPreflight sha E
          \<lparr>cpf_OrganizationID = oer_CloudID inp, cpf_OwnerUserID = oer_SourceUserID inp,
           cpf_OwnershipVersion = oer_OwnershipVersion inp\<rparr> True s) (\<lambda>view.
        Inr \<lparr>oel_ReceiptID = cdp_receiptID view,
             oel_EvidenceSHA256 = (if cdp_receiptID view = [] then []
               else dg (inp, cdp_receiptID view, cdp_receiptSHA256 view)),
             oel_Currency = cdp_Currency view, oel_BalanceMinor = cdp_BalanceMinor view,
             oel_Complete = cdp_complete view, oel_Blockers = cdp_Blockers view,
             oel_ObservedAt = cdp_ObservedAt view, oel_ExpiresAt = cdp_ExpiresAt view\<rparr>))"

end
