(* ===== verification/Ownership_Machine.thy ===== *)
theory Ownership_Machine
  imports Setup_Store Cloud_Store Payment_Machine
begin

text \<open>
  The ownership protocols and the payment store as one machine: a step is a transaction of the
  store, of a handoff, of a closure or of a setup, or a change another component makes to the tables
  of usage, billing periods, invoices, profiles and access states. The two transactions of
  \<^verbatim>\<open>FinalizeOwnershipHandoff\<close> are two steps, so that others come in between.
\<close>

section \<open>Operations and steps\<close>

record digests =
  dig_reversal :: "RecordProviderReversalInput \<Rightarrow> string"
  dig_prepare :: "PrepareOwnershipHandoffInput \<Rightarrow> string"
  dig_settlement :: "RecordSettlementInput \<Rightarrow> string"
  dig_authorize :: "AuthorizeHandoffCommitInput \<Rightarrow> string"
  dig_finalize :: "FinalizeHandoffInput \<Rightarrow> string"
  dig_abort :: "BeginHandoffAbortInput \<Rightarrow> string"
  dig_setup :: "PaymentIntentState \<times> string \<times> string \<times> string \<Rightarrow> string"
  dig_closure :: closure_digests
  dig_prepare_closure :: "PrepareCloudClosureInput \<Rightarrow> string"
  dig_closure_settlement :: "RecordCloudClosureSettlementInput \<Rightarrow> string"
  dig_close :: "CloseCloudInput \<Rightarrow> string"
  dig_creation :: "string \<times> string \<times> string \<times> instant \<Rightarrow> string"
  dig_preflight :: "RecordCloudPreflightInput \<Rightarrow> string"

abbreviation dig_state :: "digests \<Rightarrow> settlement_view \<Rightarrow> string" where
  "dig_state D \<equiv> cd_state (dig_closure D)"

datatype ownership_op =
    OwStore store_op
  | OwInitialize ctx InitialResponsibilityInput
  | OwPrepare PrepareOwnershipHandoffInput
  | OwSettle RecordSettlementInput
  | OwConfirm ConfirmHandoffSnapshotInput
  | OwAuthorize AuthorizeHandoffCommitInput
  | OwDecide FinalizeHandoffInput
  | OwFinalize FinalizeHandoffInput
  | OwBeginAbort BeginHandoffAbortInput
  | OwCompleteAbort CompleteHandoffAbortInput
  | OwBeginSetup ctx BeginPaymentMethodSetupInput
  | OwCompleteSetup ctx CompletePaymentMethodSetupInput
  | OwPrepareClosure PrepareCloudClosureInput
  | OwRevocation CloudClosureScope CloudClosureRevocation string
  | OwClosureSettlement RecordCloudClosureSettlementInput
  | OwClose CloseCloudInput
  | OwRetire CloseCloudInput
  | OwCancel CloudClosureScope string string
  | OwCompleteCancel CloudClosureScope string string
  | OwBootstrap CloudCreation
  | OwPreflight RecordCloudPreflightInput
  | OwTables "UsageFact list" "billing_period list" "settlement_link list" "Invoice list" "BillingProfile list"
      "access_state list"

abbreviation result :: "error + ('r \<times> ownership_db) \<Rightarrow> error + ownership_db" where
  "result m \<equiv> bindE m (\<lambda>(_, s). Inr s)"

fun own_exec :: "digests \<Rightarrow> env \<Rightarrow> ownership_op \<Rightarrow> ownership_db \<Rightarrow> error + ownership_db" where
  "own_exec D E (OwStore op) s =
     (if is_fence_op op then Inl ErrConflict
      else bindE (exec (dig_reversal D) E op (od_pay s)) (\<lambda>d. Inr (s\<lparr>od_pay := d\<rparr>)))"
| "own_exec D E (OwInitialize ctx inp) s = InitializeResponsibility E ctx inp s"
| "own_exec D E (OwPrepare inp) s = result (PrepareOwnershipHandoff (dig_prepare D) E inp s)"
| "own_exec D E (OwSettle inp) s = result (RecordHandoffSettlement (dig_state D) (dig_settlement D) E inp s)"
| "own_exec D E (OwConfirm inp) s = result (ConfirmHandoffSnapshot (dig_state D) E inp s)"
| "own_exec D E (OwAuthorize inp) s = result (AuthorizeHandoffCommit (dig_state D) (dig_authorize D) E inp s)"
| "own_exec D E (OwDecide inp) s =
     bindE (check_finalize (dig_finalize D) E inp) (\<lambda>(inp, digest). recordCommittedHandoffDecision E inp digest s)"
| "own_exec D E (OwFinalize inp) s =
     bindE (check_finalize (dig_finalize D) E inp) (\<lambda>(inp, digest). result (finalize_tx (dig_state D) E inp digest s))"
| "own_exec D E (OwBeginAbort inp) s = result (BeginOwnershipHandoffAbort (dig_abort D) E inp s)"
| "own_exec D E (OwCompleteAbort inp) s = result (CompleteOwnershipHandoffAbort E inp s)"
| "own_exec D E (OwBeginSetup ctx inp) s = result (BeginPaymentMethodSetup E ctx inp s)"
| "own_exec D E (OwCompleteSetup ctx inp) s =
     bindE (CompletePaymentMethodSetup (dig_setup D) E ctx inp s) (\<lambda>(_, _, s). Inr s)"
| "own_exec D E (OwPrepareClosure inp) s = result (PrepareCloudClosure (dig_prepare_closure D) E inp s)"
| "own_exec D E (OwRevocation scope task sha) s = RecordCloudClosureRevocation E scope task sha s"
| "own_exec D E (OwClosureSettlement inp) s =
     RecordCloudClosureSettlement (dig_closure D) (dig_closure_settlement D) E inp s"
| "own_exec D E (OwClose inp) s = result (CloseCloud (dig_closure D) (dig_close D) E inp s)"
| "own_exec D E (OwRetire inp) s = result (RetireCloudClose (dig_closure D) (dig_close D) E inp s)"
| "own_exec D E (OwCancel scope x sha) s = result (CancelCloudClosure E scope x sha s)"
| "own_exec D E (OwCompleteCancel scope x sha) s = result (CompleteCloudClosureCancellation E scope x sha s)"
| "own_exec D E (OwBootstrap inp) s = result (BootstrapBrandCloud (dig_creation D) E inp s)"
| "own_exec D E (OwPreflight inp) s = RecordCloudPreflightEvidence (dig_state D) (dig_preflight D) E inp s"
| "own_exec D E (OwTables us ps ls is profs accs) s =
     Inr (s\<lparr>od_usage := us, od_billing_periods := ps, od_links := ls, od_access := accs,
            od_pay := (od_pay s)\<lparr>db_invoices := is, db_profiles := profs\<rparr>\<rparr>)"

inductive own_step :: "digests \<Rightarrow> ownership_db \<Rightarrow> ownership_db \<Rightarrow> bool" for D where
  transaction: "good_env E \<Longrightarrow> own_exec D E op s = Inr s' \<Longrightarrow> own_step D s s'"

inductive_cases own_stepE: "own_step D s s'"

abbreviation own_reachable :: "digests \<Rightarrow> ownership_db \<Rightarrow> bool" where
  "own_reachable D s \<equiv> (own_step D)\<^sup>*\<^sup>* empty_ownership_db s"

fun own_run :: "digests \<Rightarrow> (env \<times> ownership_op) list \<Rightarrow> ownership_db \<Rightarrow> ownership_db" where
  "own_run D [] s = s"
| "own_run D ((E, op) # ops) s = own_run D ops (case own_exec D E op s of Inl _ \<Rightarrow> s | Inr s' \<Rightarrow> s')"

lemma own_run_reachable: "list_all (good_env \<circ> fst) ops \<Longrightarrow> (own_step D)\<^sup>*\<^sup>* s (own_run D ops s)"
proof (induction D ops s rule: own_run.induct)
  case (2 D E op ops s)
  then show ?case
    by (cases "own_exec D E op s") (auto intro: converse_rtranclp_into_rtranclp own_step.transaction)
qed simp

text \<open>A call of \<^verbatim>\<open>FinalizeOwnershipHandoff\<close> is at most two steps, whatever it returns.\<close>

lemma finalize_steps:
  assumes "FinalizeOwnershipHandoff (dig_state D) (dig_finalize D) E E' inp s = (r, s')"
    and "good_env E" and "good_env E'" and "check_finalize (dig_finalize D) E' inp = check_finalize (dig_finalize D) E inp"
  shows "(own_step D)\<^sup>*\<^sup>* s s'"
proof (cases "check_finalize (dig_finalize D) E inp")
  case (Inr c)
  obtain inp' digest where c: "check_finalize (dig_finalize D) E inp = Inr (inp', digest)" using Inr by (cases c) auto
  show ?thesis
  proof (cases "recordCommittedHandoffDecision E inp' digest s")
    case (Inr s1)
    have 1: "own_step D s s1" using assms(2) c Inr by (auto intro!: own_step.transaction [where E = E and op = "OwDecide inp"])
    show ?thesis
    proof (cases "finalize_tx (dig_state D) E' inp' digest s1")
      case (Inr r2)
      moreover obtain ack s2 where "r2 = (ack, s2)" by fastforce
      ultimately have "own_step D s1 s2" and "s' = s2"
        using assms c \<open>recordCommittedHandoffDecision E inp' digest s = Inr s1\<close>
        by (auto simp: FinalizeOwnershipHandoff_def intro!: own_step.transaction [where E = E' and op = "OwFinalize inp"])
      with 1 show ?thesis by auto
    qed (use assms c Inr 1 in \<open>auto simp: FinalizeOwnershipHandoff_def\<close>)
  qed (use assms c in \<open>auto simp: FinalizeOwnershipHandoff_def\<close>)
qed (use assms in \<open>auto simp: FinalizeOwnershipHandoff_def\<close>)

end
