(* ===== verification/Ownership_Frames.thy ===== *)
theory Ownership_Frames
  imports Ownership_Machine
begin

text \<open>
  What the ownership protocols preserve of the payment tables. A property that is stable under the
  statements a group of operations issues is stable under the operations; it is interpreted on the
  books, the handoff tables, the closures and the ledger.
\<close>

section \<open>Stable properties of the payment tables\<close>

locale own_frame =
  fixes P :: "payment_db \<Rightarrow> bool"
  assumes P_touch [intro!]: "P d \<Longrightarrow> P (touch_account E x d)"
    and P_methods [intro!]: "P d \<Longrightarrow> P (db_methods_update f1 d)"
    and P_consents [intro!]: "P d \<Longrightarrow> P (db_consents_update f2 d)"
    and P_method_responsibility [intro!]: "P d \<Longrightarrow> P (db_method_responsibility_update f3 d)"
    and P_profiles [intro!]: "P d \<Longrightarrow> P (db_profiles_update f4 d)"
    and P_audit [intro!]: "P d \<Longrightarrow> P (db_audit_update f5 d)"
    and P_seq [intro!]: "P d \<Longrightarrow> P (db_seq_update f6 d)"
    and P_own_policy: "sql_update_policy E q g d = Inr (u, d') \<Longrightarrow>
      (\<And>p. atp_ID (g p) = atp_ID p \<and> atp_AccountID (g p) = atp_AccountID p) \<Longrightarrow> P d \<Longrightarrow> P d'"
    and P_invoices [intro!]: "P d \<Longrightarrow> P (db_invoices_update f9 d)"
begin

lemma P_drawn' [intro!]: "P d \<Longrightarrow> P (drawn d)"
  by (auto simp: drawn_def)

lemma P_insert_audit' [intro!]: "P d \<Longrightarrow> P (sql_insert_audit e d)"
  by (auto simp: sql_insert_audit_def)

lemma P_revoke_methods [intro!]: "P d \<Longrightarrow> P (revoke_methods E p d)"
  by (auto simp: revoke_methods_def)

lemma P_revoke_consents [intro!]: "P d \<Longrightarrow> P (revoke_consents E p r d)"
  by (auto simp: revoke_consents_def)

lemma P_replace_profile [intro!]: "P d \<Longrightarrow> P (replace_profile E org v d)"
  by (auto simp: replace_profile_def split: option.splits)

lemma P_insert_consent: "sql_insert_consent E c d = Inr (r, d') \<Longrightarrow> P d \<Longrightarrow> P d'"
  by (auto simp: sql_insert_consent_def Let_def split: if_splits)

lemma P_insert_method: "sql_insert_method E m d = Inr (r, d') \<Longrightarrow> P d \<Longrightarrow> P d'"
  by (auto simp: sql_insert_method_def Let_def split: if_splits)

lemma P_insert_setup: "sql_insert_setup E r s = Inr (r', s') \<Longrightarrow> P (od_pay s) \<Longrightarrow> P (od_pay s')"
  by (auto simp: sql_insert_setup_def Let_def split: if_splits)

lemma P_update_setup: "sql_update_setup E x f s = Inr (r, s') \<Longrightarrow> P (od_pay s) \<Longrightarrow> P (od_pay s')"
  by (auto simp: sql_update_setup_def Let_def split: option.splits)

lemma P_update_method: "sql_update_method E x f s = Inr (r, s') \<Longrightarrow> P (od_pay s) \<Longrightarrow> P (od_pay s')"
  by (auto simp: sql_update_method_def Let_def split: option.splits)

lemmas P_own_statements = P_insert_consent P_insert_method P_insert_setup P_update_setup
  P_update_method

lemma P_BeginSetup: "BeginPaymentMethodSetup E ctx inp s = Inr (r, s') \<Longrightarrow> P (od_pay s) \<Longrightarrow> P (od_pay s')"
  by (auto simp: BeginPaymentMethodSetup_def Let_def split: if_splits sum.splits dest!: P_own_statements)

lemma P_CompleteSetup:
  "CompletePaymentMethodSetup dg E ctx inp s = Inr (r, e, s') \<Longrightarrow> P (od_pay s) \<Longrightarrow> P (od_pay s')"
  by (auto simp: CompletePaymentMethodSetup_def complete_setup_def observe_setup_def Let_def
      split: if_splits dest!: P_own_statements)

lemma P_invalidate_setups [intro!]: "P (od_pay s) \<Longrightarrow> P (od_pay (invalidate_setups E x op s))"
  by (auto simp: invalidate_setups_def Let_def)

lemma P_protocol_audit [intro!]: "P (od_pay s) \<Longrightarrow> P (od_pay (handoffProtocolAuditTx scope e r dg s))"
  by (auto simp: handoffProtocolAuditTx_def)

lemma P_closure_audit [intro!]: "P (od_pay s) \<Longrightarrow> P (od_pay (cloudClosureAuditTx scope a dg s))"
  by (auto simp: cloudClosureAuditTx_def)

lemma P_insert_receipt: "sql_insert_receipt r s = Inr s' \<Longrightarrow> P (od_pay s) \<Longrightarrow> P (od_pay s')"
  by (auto simp: sql_insert_receipt_def split: if_splits)

lemma P_insert_snapshot: "sql_insert_snapshot r s = Inr s' \<Longrightarrow> P (od_pay s) \<Longrightarrow> P (od_pay s')"
  by (auto simp: sql_insert_snapshot_def split: if_splits)

lemma P_insert_cancellation: "sql_insert_cancellation r s = Inr s' \<Longrightarrow> P (od_pay s) \<Longrightarrow> P (od_pay s')"
  by (auto simp: sql_insert_cancellation_def split: if_splits)

lemma P_insert_completion: "sql_insert_completion r s = Inr s' \<Longrightarrow> P (od_pay s) \<Longrightarrow> P (od_pay s')"
  by (auto simp: sql_insert_completion_def split: if_splits)

lemma P_ConfirmHandoffSnapshot: "ConfirmHandoffSnapshot sha E inp s = Inr (r, s') \<Longrightarrow> P (od_pay s) \<Longrightarrow> P (od_pay s')"
  by (auto simp: ConfirmHandoffSnapshot_def Let_def split: if_splits option.splits)

lemma P_RecordCloudClosureRevocation:
  "RecordCloudClosureRevocation E scope task sha s = Inr s' \<Longrightarrow> P (od_pay s) \<Longrightarrow> P (od_pay s')"
  by (auto simp: RecordCloudClosureRevocation_def split: if_splits option.splits)

lemma P_RecordCloudClosureSettlement:
  "RecordCloudClosureSettlement dg dgr E inp s = Inr s' \<Longrightarrow> P (od_pay s) \<Longrightarrow> P (od_pay s')"
  by (auto simp: RecordCloudClosureSettlement_def sql_insert_closure_settlement_def Let_def
      split: if_splits option.splits)

lemma P_RetireCloudClose: "RetireCloudClose dg dgc E inp s = Inr (r, s') \<Longrightarrow> P (od_pay s) \<Longrightarrow> P (od_pay s')"
  by (auto simp: RetireCloudClose_def Let_def split: if_splits option.splits)

lemma P_RecordCloudPreflightEvidence:
  "RecordCloudPreflightEvidence sha dg E inp s = Inr s' \<Longrightarrow> P (od_pay s) \<Longrightarrow> P (od_pay s')"
  by (auto simp: RecordCloudPreflightEvidence_def sql_insert_preflight_def Let_def split: if_splits option.splits)

end

text \<open>
  Properties that are stable under the responsibility periods: the first period of an account, one
  that no handoff opens, and the end of a period.
\<close>

locale period_frame = own_frame +
  assumes P_bootstrap: "sql_insert_account E org c d = Inr (a, d1) \<Longrightarrow> sql_insert_period E p d1 = Inr d2 \<Longrightarrow>
      rp_AccountID p = ca_ID a \<Longrightarrow> rp_EffectiveUntil p = None \<Longrightarrow> rp_OpeningOperationID p = [] \<Longrightarrow> P d \<Longrightarrow> P d2"
    and P_first_period: "sql_insert_period E p d = Inr d' \<Longrightarrow> find_account d (rp_AccountID p) \<noteq> None \<Longrightarrow>
      \<forall>q \<in> set (db_periods d). rp_AccountID q \<noteq> rp_AccountID p \<Longrightarrow> rp_EffectiveUntil p = None \<Longrightarrow>
      rp_OpeningOperationID p = [] \<Longrightarrow> P d \<Longrightarrow> P d'"
    and P_ended [intro]: "find q (db_periods d) = Some old \<Longrightarrow> rp_EffectiveUntil old = None \<Longrightarrow> rp_EffectiveFrom old < u \<Longrightarrow> P d \<Longrightarrow>
      P (d\<lparr>db_periods := update_where (\<lambda>r. rp_ID r = rp_ID old) (\<lambda>_. old\<lparr>rp_EffectiveUntil := Some u\<rparr>) (db_periods d)\<rparr>)"
begin

lemma P_end_period:
  assumes "sql_end_period E q t s = Inr (r, s')" and "P (od_pay s)" and "\<And>p. q p \<Longrightarrow> rp_EffectiveUntil p = None"
  shows "P (od_pay s')"
proof (cases "find q (db_periods (od_pay s))")
  case (Some old)
  with assms(3) have "rp_EffectiveUntil old = None" by (auto dest!: find_Some_mem)
  with assms(1,2) Some show ?thesis
    by (auto simp: sql_end_period_def Let_def period_check_def split: if_splits)
qed (use assms in \<open>auto simp: sql_end_period_def\<close>)

lemma first_period_None: "first_period d x = None \<Longrightarrow> \<forall>q \<in> set (db_periods d). rp_AccountID q \<noteq> x"
proof -
  assume "first_period d x = None"
  then have "sort_key rp_OwnershipVersion (filter (\<lambda>p. rp_AccountID p = x) (db_periods d)) = []"
    by (simp add: first_period_def split: list.splits)
  then have "set (sort_key rp_OwnershipVersion (filter (\<lambda>p. rp_AccountID p = x) (db_periods d))) = {}"
    by (simp only: list.set)
  then show ?thesis by auto
qed

lemma P_InitializeResponsibility:
  assumes "InitializeResponsibility E ctx inp s = Inr s'" and "P (od_pay s)"
  shows "P (od_pay s')"
proof (cases "s' = s")
  case False
  with assms(1) obtain a p d e where "getAccountForUpdate E ctx (od_pay s) (iri_AccountID inp) = Inr a"
      and none: "first_period (od_pay s) (iri_AccountID inp) = None"
      and ins: "sql_insert_period E p (od_pay s) = Inr d" and p: "rp_AccountID p = iri_AccountID inp"
        "rp_EffectiveUntil p = None" "rp_OpeningOperationID p = []"
      and s': "s' = s\<lparr>od_pay := sql_insert_audit e d\<rparr>"
    by (auto simp: InitializeResponsibility_def Let_def split: if_splits option.splits)
  then have "find_account (od_pay s) (rp_AccountID p) \<noteq> None" by (auto dest: account_for_update)
  then have "P d" using P_first_period [OF ins] first_period_None [OF none] p assms(2) by simp
  then show ?thesis by (auto simp: s')
qed (use assms in simp)

lemma P_BootstrapBrandCloud:
  assumes "BootstrapBrandCloud dg E inp s = Inr (r, s')" and "P (od_pay s)"
  shows "P (od_pay s')"
proof (cases "s' = s")
  case False
  with assms(1) obtain a d1 p d2 e where "sql_insert_account E (clc_OrganizationID inp) Settlement (od_pay s) = Inr (a, d1)"
      and "sql_insert_period E p d1 = Inr d2" and p: "rp_AccountID p = ca_ID a"
        "rp_EffectiveUntil p = None" "rp_OpeningOperationID p = []"
      and s': "od_pay s' = sql_insert_audit e d2"
    by (auto simp: BootstrapBrandCloud_def split: if_splits option.splits sum.splits)
  then have "P d2" using P_bootstrap assms(2) by blast
  then show ?thesis by (auto simp: s')
qed (use assms in simp)

end

text \<open>Properties that the closures do not enter.\<close>

locale closure_frame = period_frame +
  assumes P_closures [intro!]: "P d \<Longrightarrow> P (db_closures_update f d)"
    and P_close_state: "sql_update_account E x (\<lambda>a. a\<lparr>ca_State := st, ca_Version := ca_Version a + 1\<rparr>) d = Inr (a', d') \<Longrightarrow>
      P d \<Longrightarrow> P d'"
begin

lemma P_insert_closure: "sql_insert_closure E c d = Inr d' \<Longrightarrow> P d \<Longrightarrow> P d'"
  by (auto simp: sql_insert_closure_def split: if_splits)

lemma P_revoke_for_closure: "revoke_for_closure E op x s = Inr s' \<Longrightarrow> P (od_pay s) \<Longrightarrow> P (od_pay s')"
  by (auto simp: revoke_for_closure_def Let_def intro: P_own_policy)

lemma P_PrepareCloudClosure: "PrepareCloudClosure dg E inp s = Inr (r, s') \<Longrightarrow> P (od_pay s) \<Longrightarrow> P (od_pay s')"
  by (auto simp: PrepareCloudClosure_def Let_def split: if_splits option.splits
      dest!: P_insert_closure P_revoke_for_closure)

lemma P_update_closure: "sql_update_closure E op ph s = Inr (r, s') \<Longrightarrow> P (od_pay s) \<Longrightarrow> P (od_pay s')"
  by (auto simp: sql_update_closure_def Let_def split: if_splits)

lemma P_close_account: "close_account E a op t s = Inr s' \<Longrightarrow> P (od_pay s) \<Longrightarrow> P (od_pay s')"
  by (auto simp: close_account_def dest!: P_update_closure P_close_state dest: P_end_period)

lemma od_pay_close_access [simp]: "od_pay (close_access org s) = od_pay s"
  by (simp add: close_access_def)

lemma P_CloseCloud: "CloseCloud dg dgc E inp s = Inr (r, s') \<Longrightarrow> P (od_pay s) \<Longrightarrow> P (od_pay s')"
  by (auto simp: CloseCloud_def Let_def split: if_splits option.splits dest!: P_close_account P_insert_completion)

lemma P_CancelCloudClosure: "CancelCloudClosure E scope x sha s = Inr (r, s') \<Longrightarrow> P (od_pay s) \<Longrightarrow> P (od_pay s')"
  by (auto simp: CancelCloudClosure_def split: if_splits option.splits dest!: P_update_closure)

lemma P_CompleteCloudClosureCancellation:
  "CompleteCloudClosureCancellation E scope x sha s = Inr (r, s') \<Longrightarrow> P (od_pay s) \<Longrightarrow> P (od_pay s')"
  by (auto simp: CompleteCloudClosureCancellation_def split: if_splits option.splits dest!: P_update_closure)

end

text \<open>Properties that the handoffs do not enter.\<close>

locale handoff_frame = own_frame +
  assumes P_handoffs [intro!]: "P d \<Longrightarrow> P (db_handoffs_update f d)"
    and P_decisions [intro!]: "P d \<Longrightarrow> P (db_committed_decisions_update f2 d)"
begin

lemma P_update_handoff [intro!]: "P d \<Longrightarrow> P (sql_update_handoff E op f d)"
  by (auto simp: sql_update_handoff_def)

lemma P_insert_handoff: "sql_insert_handoff E h d = Inr d' \<Longrightarrow> P d \<Longrightarrow> P d'"
  by (auto simp: sql_insert_handoff_def split: if_splits)

lemma P_PrepareOwnershipHandoff: "PrepareOwnershipHandoff dg E inp s = Inr (r, s') \<Longrightarrow> P (od_pay s) \<Longrightarrow> P (od_pay s')"
  by (auto simp: PrepareOwnershipHandoff_def Let_def split: if_splits option.splits sum.splits dest!: P_insert_handoff)

lemma P_RecordHandoffSettlement:
  "RecordHandoffSettlement sha dg E inp s = Inr (r, s') \<Longrightarrow> P (od_pay s) \<Longrightarrow> P (od_pay s')"
  by (auto simp: RecordHandoffSettlement_def Let_def split: if_splits option.splits sum.splits
      dest!: P_insert_receipt P_insert_snapshot)

lemma P_recordCommittedHandoffDecision:
  "recordCommittedHandoffDecision E inp dg s = Inr s' \<Longrightarrow> P (od_pay s) \<Longrightarrow> P (od_pay s')"
  by (auto simp: recordCommittedHandoffDecision_def split: if_splits option.splits)

lemma P_BeginOwnershipHandoffAbort:
  "BeginOwnershipHandoffAbort dg E inp s = Inr (r, s') \<Longrightarrow> P (od_pay s) \<Longrightarrow> P (od_pay s')"
  by (auto simp: BeginOwnershipHandoffAbort_def Let_def split: if_splits option.splits dest!: P_insert_cancellation)

lemma P_CompleteOwnershipHandoffAbort:
  "CompleteOwnershipHandoffAbort E inp s = Inr (r, s') \<Longrightarrow> P (od_pay s) \<Longrightarrow> P (od_pay s')"
  by (auto simp: CompleteOwnershipHandoffAbort_def Let_def split: if_splits option.splits)

end

text \<open>
  Properties that are stable under a finalization: the source period ends and the next one opens
  where it ended, with the next version.
\<close>

locale finalize_frame = handoff_frame + period_frame +
  assumes P_next_period: "sql_insert_period E p d' = Inr d'' \<Longrightarrow> rp_EffectiveUntil p = None \<Longrightarrow>
      d' = d\<lparr>db_periods := update_where (\<lambda>r. rp_ID r = rp_ID old) (\<lambda>_. old\<lparr>rp_EffectiveUntil := Some (rp_EffectiveFrom p)\<rparr>) (db_periods d)\<rparr> \<Longrightarrow>
      find q (db_periods d) = Some old \<Longrightarrow> rp_EffectiveUntil old = None \<Longrightarrow> rp_EffectiveFrom old < rp_EffectiveFrom p \<Longrightarrow>
      rp_AccountID p = rp_AccountID old \<Longrightarrow> rp_OwnershipVersion p = rp_OwnershipVersion old + 1 \<Longrightarrow> P d \<Longrightarrow> P d''"
begin

lemma P_transfer:
  assumes "transfer_responsibility E inp account op s = Inr s'" and "P (od_pay s)"
    and "db_time (fhi_CommittedAt inp) = fhi_CommittedAt inp"
    and "fhi_CommittedOwnershipVersion inp = oh_OwnershipVersion op + 1"
  shows "P (od_pay s')"
proof -
  let ?q = "\<lambda>p. rp_AccountID p = ca_ID account \<and> rp_OwnerUserID p = oh_SourceUserID op \<and>
    rp_OwnershipVersion p = oh_OwnershipVersion op \<and> rp_EffectiveUntil p = None \<and> rp_EffectiveFrom p < fhi_CommittedAt inp"
  let ?p = "\<lparr>rp_ID = [], rp_AccountID = ca_ID account, rp_OwnerUserID = oh_TargetUserID op,
    rp_OwnershipVersion = fhi_CommittedOwnershipVersion inp, rp_EffectiveFrom = fhi_CommittedAt inp,
    rp_EffectiveUntil = None, rp_SourceEvidenceSHA256 = fhi_AMCommitSHA256 inp, rp_OpeningOperationID = oh_ID op,
    rp_OpeningBalanceMinor = Some (ca_AvailableBalanceMinor account)\<rparr>"
  from assms(1) obtain source s1 d s2 where ended: "sql_end_period E ?q (fhi_CommittedAt inp) s = Inr (Some source, s1)"
      and ins: "sql_insert_period E ?p (od_pay s1) = Inr d"
      and "retire_profile (oh_ID op) (rp_ID source) (ca_OrganizationID account) (s1\<lparr>od_pay := d\<rparr>) = Inr s2"
      and end_policy: "\<exists>u. sql_update_policy E (\<lambda>p. atp_AccountID p = ca_ID account)
        (\<lambda>p. p\<lparr>atp_Enabled := False, atp_Armed := False, atp_Version := atp_Version p + 1, atp_Generation := atp_Generation p + 1\<rparr>)
        (revoke_methods E (\<lambda>m. pm_AccountID m = ca_ID account \<and> pm_Status m \<noteq> PaymentMethodStatusRevoked)
          (revoke_consents E (\<lambda>c. pco_AccountID c = ca_ID account) ''ownership_transferred''
            (replace_profile E (ca_OrganizationID account) (fhi_CommittedOwnershipVersion inp) (od_pay s2)))) = Inr (u, od_pay s')"
    unfolding transfer_responsibility_def Let_def by (auto split: option.splits)
  then have "od_pay s2 = d" by (auto simp: retire_profile_def Let_def split: if_splits)
  with end_policy have rest: "P (od_pay s')" if "P d"
    using that by (elim exE) (erule P_own_policy, auto)
  from ended obtain old where old: "find ?q (db_periods (od_pay s)) = Some old"
      and s1: "od_pay s1 = touch_account E (rp_AccountID old) ((od_pay s)\<lparr>db_periods := update_where (\<lambda>r. rp_ID r = rp_ID old)
        (\<lambda>_. old\<lparr>rp_EffectiveUntil := Some (fhi_CommittedAt inp)\<rparr>) (db_periods (od_pay s))\<rparr>)"
    by (auto simp: sql_end_period_def assms(3) Let_def split: if_splits option.splits)
  have "P (touch_account E (rp_AccountID old) (od_pay s))" using assms(2) by blast
  with old s1 rest show ?thesis
    using P_next_period [OF ins, where d = "touch_account E (rp_AccountID old) (od_pay s)" and old = old and q = ?q] assms(4)
    by (auto simp: touch_account_def dest: find_Some_mem)
qed

lemma P_finalize_tx:
  assumes "finalize_tx sha E inp dg s = Inr (r, s')" and "check_finalize dgf E inp0 = Inr (inp, dg)" and "P (od_pay s)"
  shows "P (od_pay s')"
proof -
  have "db_time (fhi_CommittedAt inp) = fhi_CommittedAt inp"
      and "fhi_CommittedOwnershipVersion inp = hs_OwnershipVersion (fhi_Scope inp) + 1"
    using assms(2) by (auto simp: check_finalize_def db_time_def Let_def split: if_splits sum.splits)
  moreover have "oh_OwnershipVersion op = hs_OwnershipVersion scope"
    if "lockHandoffOperationTx scope s = Inr (account, op)" for scope account op
    using that by (auto simp: lockHandoffOperationTx_def split: if_splits)
  ultimately show ?thesis
    using assms(1,3) by (auto simp: finalize_tx_def Let_def split: if_splits option.splits dest!: P_transfer)
qed

end

text \<open>Properties that the authorizations do not enter.\<close>

locale commit_frame = handoff_frame +
  assumes P_authorizations [intro!]: "P d \<Longrightarrow> P (db_commit_authorizations_update f1 d)"
begin

lemma P_AuthorizeHandoffCommit:
  "AuthorizeHandoffCommit sha dg E inp s = Inr (r, s') \<Longrightarrow> P (od_pay s) \<Longrightarrow> P (od_pay s')"
  by (auto simp: AuthorizeHandoffCommit_def sql_insert_authorization_def Let_def split: if_splits option.splits)

end

section \<open>All operations\<close>

locale protocol_frame = closure_frame + handoff_frame
begin

lemmas P_protocol_operations = P_InitializeResponsibility P_PrepareOwnershipHandoff P_RecordHandoffSettlement
  P_ConfirmHandoffSnapshot P_recordCommittedHandoffDecision
  P_BeginOwnershipHandoffAbort P_CompleteOwnershipHandoffAbort P_BeginSetup P_CompleteSetup
  P_PrepareCloudClosure P_RecordCloudClosureRevocation P_RecordCloudClosureSettlement P_CloseCloud
  P_RetireCloudClose P_CancelCloudClosure P_CompleteCloudClosureCancellation
  P_RecordCloudPreflightEvidence P_BootstrapBrandCloud

lemma P_protocol_exec:
  assumes "own_exec D E op s = Inr s'" and "P (od_pay s)"
    and "\<And>inp. op \<noteq> OwAuthorize inp" and "\<And>inp. op \<noteq> OwFinalize inp"
    and "\<And>sop. op = OwStore sop \<Longrightarrow> \<not> is_fence_op sop \<Longrightarrow>
      exec (dig_reversal D) E sop (od_pay s) = Inr (od_pay s') \<Longrightarrow> P (od_pay s')"
  shows "P (od_pay s')"
proof (cases op)
  case (OwStore sop)
  with assms(1) have "\<not> is_fence_op sop" "exec (dig_reversal D) E sop (od_pay s) = Inr (od_pay s')"
    by (auto split: if_splits)
  with assms(5) OwStore show ?thesis by blast
next
  case (OwTables us ps ls invs profs accs)
  with assms(1,2) show ?thesis by auto
qed (use assms in \<open>auto dest: P_protocol_operations\<close>)

end

locale transfer_frame = protocol_frame + finalize_frame
begin

lemma P_transfer_exec:
  assumes "own_exec D E op s = Inr s'" and "P (od_pay s)" and "\<And>inp. op \<noteq> OwAuthorize inp"
    and "\<And>sop. op = OwStore sop \<Longrightarrow> \<not> is_fence_op sop \<Longrightarrow>
      exec (dig_reversal D) E sop (od_pay s) = Inr (od_pay s') \<Longrightarrow> P (od_pay s')"
  shows "P (od_pay s')"
proof (cases "\<exists>inp. op = OwFinalize inp")
  case True
  with assms(1,2) show ?thesis by (auto dest: P_finalize_tx)
qed (use assms P_protocol_exec in blast)

end

locale grant_frame = protocol_frame + commit_frame
begin

lemma P_grant_exec:
  assumes "own_exec D E op s = Inr s'" and "P (od_pay s)" and "\<And>inp. op \<noteq> OwFinalize inp"
    and "\<And>sop. op = OwStore sop \<Longrightarrow> \<not> is_fence_op sop \<Longrightarrow>
      exec (dig_reversal D) E sop (od_pay s) = Inr (od_pay s') \<Longrightarrow> P (od_pay s')"
  shows "P (od_pay s')"
proof (cases "\<exists>inp. op = OwAuthorize inp")
  case True
  with assms(1,2) show ?thesis by (auto dest: P_AuthorizeHandoffCommit)
qed (use assms P_protocol_exec in blast)

end

locale ownership_frame = transfer_frame + grant_frame
begin

lemma P_own_exec:
  assumes "own_exec D E op s = Inr s'" and "P (od_pay s)"
    and "\<And>sop. op = OwStore sop \<Longrightarrow> \<not> is_fence_op sop \<Longrightarrow>
      exec (dig_reversal D) E sop (od_pay s) = Inr (od_pay s') \<Longrightarrow> P (od_pay s')"
  shows "P (od_pay s')"
proof (cases "\<exists>inp. op = OwAuthorize inp")
  case True
  with assms(1,2) show ?thesis by (auto dest: P_AuthorizeHandoffCommit)
qed (use assms P_transfer_exec in blast)

end

end
