(* ===== verification/Ownership_Books.thy ===== *)
theory Ownership_Books
  imports Ownership_Frames
begin

text \<open>
  The ownership machine keeps the books: every transaction of a handoff, a closure, a setup or a
  bootstrap, and every transaction of the store between them, is a sequence of steps of
  \<open>Payment_Books\<close>. So the invariants of the books hold in every state the two together reach.
\<close>

section \<open>The books under the protocols\<close>

definition books_from :: "books \<Rightarrow> payment_db \<Rightarrow> bool" where
  "books_from b d \<longleftrightarrow> wf_books (books_of d) \<and> book_steps b (books_of d)"

lemma books_from_step: "books_from b d \<Longrightarrow> book_step (books_of d) (books_of d') \<Longrightarrow> books_from b d'"
  by (auto simp: books_from_def intro: wf_books_step rtranclp.rtrancl_into_rtrancl)

lemma books_from_cong: "books_of d' = books_of d \<Longrightarrow> books_from b d' = books_from b d"
  by (simp add: books_from_def)

lemma step_touch:
  assumes "wf_books (books_of d)"
  shows "books_of (touch_account E x d) = books_of d \<or> book_step (books_of d) (books_of (touch_account E x d))"
proof (cases "find_account d x")
  case None
  then have "x \<notin> ca_ID ` set (db_accounts d)" by (simp add: find_account_def find_key_None)
  then have "books_of (touch_account E x d) = books_of d"
    by (simp add: touch_account_def books_of_def update_where_def) (rule map_idI, auto)
  then show ?thesis ..
next
  case (Some a)
  then have x: "ca_ID a = x" "find (\<lambda>r. ca_ID r = x) (db_accounts d) = Some a"
    by (auto simp: find_account_def dest: find_key_Some)
  have dist: "distinct (map ca_ID (db_accounts d))" using assms by (simp add: wf_books_def accounts_ok_def)
  define a' where "a' = a\<lparr>ca_UpdatedAt := env_now E\<rparr>"
  have "r = a" if "r \<in> set (db_accounts d)" "ca_ID r = x" for r
    using find_key_unique [OF dist that(1), of a] that(2) x by simp
  then have "books_of (touch_account E x d) = set_account a' (books_of d)"
    using x by (auto simp: touch_account_def books_of_def set_account_def update_where_def a'_def)
  moreover have "book_step (books_of d) (set_account a' (books_of d))"
    using x by (intro book_step.account_status [where a = a]) (simp_all add: a'_def same_account_def)
  ultimately show ?thesis by simp
qed

lemma books_from_touch: "books_from b d \<Longrightarrow> books_from b (touch_account E x d)"
proof -
  assume b: "books_from b d"
  then have "wf_books (books_of d)" by (simp add: books_from_def)
  from step_touch [OF this] show ?thesis
    using b books_from_cong books_from_step by blast
qed

lemma books_from_close_state:
  "sql_update_account E x (\<lambda>a. a\<lparr>ca_State := st, ca_Version := ca_Version a + 1\<rparr>) d = Inr (a', d') \<Longrightarrow>
   books_from b d \<Longrightarrow> books_from b d'"
  by (rule books_from_step) (auto intro: step_update_account(1) simp: same_account_def)

lemma books_from_tables [simp]:
  "books_from b (db_methods_update f1 d) = books_from b d"
  "books_from b (db_consents_update f2 d) = books_from b d"
  "books_from b (db_method_responsibility_update f3 d) = books_from b d"
  "books_from b (db_profiles_update f4 d) = books_from b d"
  "books_from b (db_audit_update f5 d) = books_from b d"
  "books_from b (db_seq_update f6 d) = books_from b d"
  "books_from b (db_policies_update f7 d) = books_from b d"
  "books_from b (db_retired_policies_update f8 d) = books_from b d"
  "books_from b (db_invoices_update f9 d) = books_from b d"
  "books_from b (db_periods_update f10 d) = books_from b d"
  "books_from b (db_closures_update f11 d) = books_from b d"
  "books_from b (db_handoffs_update f12 d) = books_from b d"
  "books_from b (db_commit_authorizations_update f13 d) = books_from b d"
  "books_from b (db_committed_decisions_update f14 d) = books_from b d"
  by (simp_all add: books_from_def books_of_def)

lemma books_from_insert_period: "sql_insert_period E p d = Inr d' \<Longrightarrow> books_from b d' = books_from b (touch_account E (rp_AccountID p) (drawn d))"
  by (auto simp: sql_insert_period_def Let_def books_from_def books_of_def touch_account_def drawn_def split: if_splits)

lemma books_from_drawn [simp]: "books_from b (drawn d) = books_from b d"
  by (simp add: drawn_def)

interpretation bf: ownership_frame "books_from b" for b
proof unfold_locales
  show "books_from b d2" if "sql_insert_account E org c d = Inr (a, d1)" "sql_insert_period E p d1 = Inr d2" "books_from b d"
    for E org c d a d1 p d2
    using that books_from_step [OF that(3) step_insert_account [OF that(1)]]
    by (simp add: books_from_insert_period books_from_touch)
  show "books_from b d'" if "sql_update_policy E q g d = Inr (u, d')" "books_from b d" for E q g d u d'
    using that books_update_policy [OF that(1)] by (simp add: books_from_def)
qed (auto intro: books_from_touch books_from_close_state simp: books_from_insert_period)

section \<open>The simulation\<close>

lemma own_exec_books:
  assumes "own_exec D E op s = Inr s'" and "good_env E" and "books_from b (od_pay s)"
  shows "books_from b (od_pay s')"
proof (rule bf.P_own_exec [OF assms(1,3)])
  fix sop
  assume "exec (dig_reversal D) E sop (od_pay s) = Inr (od_pay s')"
  with assms(2,3) show "books_from b (od_pay s')"
    by (auto simp: books_from_def dest: exec_simulates intro: wf_books_steps steps_trans)
qed

interpretation own: growing_refinement "\<lambda>s. books_of (od_pay s)" book_step "own_step D" wf_books books_grow for D
proof unfold_locales
  show "book_steps (books_of (od_pay s)) (books_of (od_pay s'))"
    if "own_step D s s'" "wf_books (books_of (od_pay s))" for s s'
    using that own_exec_books [where b = "books_of (od_pay s)"] by (auto elim!: own_stepE simp: books_from_def)
qed (auto intro: wf_books_step books_grow_refl books_grow_trans books_grow_step)

lemma own_reachable_wf: "own_reachable D s \<Longrightarrow> wf_books (books_of (od_pay s))"
  using own.runs_simulate [of D empty_ownership_db s] wf_empty by (simp add: empty_ownership_db_def)

end
