(* ===== verification/Handoff_Refinement.thy ===== *)
theory Handoff_Refinement
  imports Handoff_Spec Ownership_Books
begin

text \<open>
  The stores refine the protocol of \<open>Handoff_Spec\<close>: each operation of a handoff that succeeds is at
  most one step of the file of one operation, and nothing else touches a file.
\<close>

section \<open>What leaves the files alone\<close>

definition handoff_tables :: "payment_db \<Rightarrow>
    OwnershipHandoff list \<times> HandoffCommitAuthorization list \<times> committed_decision list" where
  "handoff_tables d = (db_handoffs d, db_commit_authorizations d, db_committed_decisions d)"

definition handoff_rows :: "ownership_db \<Rightarrow> settlement_receipt list \<times> balance_snapshot list \<times> handoff_confirmation list \<times>
    committed_decision list \<times> handoff_cancellation list \<times> abort_acknowledgment list" where
  "handoff_rows s =
     (od_receipts s, od_snapshots s, od_confirmations s, od_finalizations s, od_cancellations s, od_abort_acks s)"

lemma file_of_cong:
  "handoff_tables (od_pay s') = handoff_tables (od_pay s) \<Longrightarrow> handoff_rows s' = handoff_rows s \<Longrightarrow> file_of s' = file_of s"
  by (simp add: file_of_def handoff_tables_def handoff_rows_def fun_eq_iff)

lemma tables_simps [simp]:
  "handoff_tables (touch_account E x d) = handoff_tables d" "handoff_tables (drawn d) = handoff_tables d"
  "handoff_tables (sql_insert_audit e d) = handoff_tables d"
  by (simp_all add: handoff_tables_def touch_account_def drawn_def sql_insert_audit_def)

interpretation ht: closure_frame "\<lambda>d. handoff_tables d = v" for v
  by unfold_locales
     (auto simp: handoff_tables_def touch_account_def sql_update_account_def sql_insert_account_def
      sql_insert_period_def sql_update_policy_def drawn_def Let_def split: option.splits if_splits)

lemmas ht_operations = ht.P_InitializeResponsibility ht.P_BeginSetup ht.P_CompleteSetup ht.P_PrepareCloudClosure
  ht.P_RecordCloudClosureRevocation ht.P_RecordCloudClosureSettlement ht.P_CloseCloud
  ht.P_RetireCloudClose ht.P_CancelCloudClosure ht.P_CompleteCloudClosureCancellation
  ht.P_RecordCloudPreflightEvidence ht.P_BootstrapBrandCloud

text \<open>The operations of a handoff.\<close>

fun is_handoff_op :: "ownership_op \<Rightarrow> bool" where
  "is_handoff_op (OwPrepare _) = True"
| "is_handoff_op (OwSettle _) = True"
| "is_handoff_op (OwConfirm _) = True"
| "is_handoff_op (OwAuthorize _) = True"
| "is_handoff_op (OwDecide _) = True"
| "is_handoff_op (OwFinalize _) = True"
| "is_handoff_op (OwBeginAbort _) = True"
| "is_handoff_op (OwCompleteAbort _) = True"
| "is_handoff_op _ = False"

lemma exec_handoff_tables:
  assumes "exec dg E op d = Inr d'" and "\<not> is_fence_op op"
  shows "handoff_tables d' = handoff_tables d"
  using fence.P_exec_store [OF assms(1) refl assms(2)] by (simp add: fences_def handoff_tables_def)

lemma other_tables:
  assumes "own_exec D E op s = Inr s'" and "\<not> is_handoff_op op"
  shows "handoff_tables (od_pay s') = handoff_tables (od_pay s)"
proof (cases op)
  case (OwStore sop)
  with assms show ?thesis by (auto split: if_splits dest: exec_handoff_tables)
next
  case (OwTables us ps ls invs profs accs)
  with assms show ?thesis by (auto simp: handoff_tables_def)
qed (use assms in \<open>auto dest: ht_operations [OF _ refl]\<close>)

section \<open>Rows of the protocols besides the payment tables\<close>

lemma rows_updates [simp]:
  "handoff_rows (s\<lparr>od_pay := d\<rparr>) = handoff_rows s"
  "handoff_rows (s\<lparr>od_observations := os\<rparr>) = handoff_rows s"
  "handoff_rows (s\<lparr>od_revocation_acks := as\<rparr>) = handoff_rows s"
  "handoff_rows (s\<lparr>od_retired_commands := rs\<rparr>) = handoff_rows s"
  "handoff_rows (s\<lparr>od_closure_cancellations := cs\<rparr>) = handoff_rows s"
  "handoff_rows (s\<lparr>od_release_acks := ks\<rparr>) = handoff_rows s"
  "handoff_rows (s\<lparr>od_creations := ns\<rparr>) = handoff_rows s"
  "handoff_rows (s\<lparr>od_retired_profiles := ps\<rparr>) = handoff_rows s"
  by (simp_all add: handoff_rows_def)

lemma rows_audit [simp]:
  "handoff_rows (handoffProtocolAuditTx scope e r dg s) = handoff_rows s"
  "handoff_rows (cloudClosureAuditTx scope' a dg s) = handoff_rows s"
  "handoff_rows (close_access org s) = handoff_rows s"
  by (simp_all add: handoffProtocolAuditTx_def cloudClosureAuditTx_def close_access_def handoff_rows_def)

lemma rows_InitializeResponsibility: "InitializeResponsibility E ctx inp s = Inr s' \<Longrightarrow> handoff_rows s' = handoff_rows s"
  by (auto simp: InitializeResponsibility_def Let_def split: if_splits option.splits)

lemma rows_setup:
  "sql_insert_setup E r s = Inr (r', s') \<Longrightarrow> handoff_rows s' = handoff_rows s"
  "sql_update_setup E x f s = Inr (r', s') \<Longrightarrow> handoff_rows s' = handoff_rows s"
  "sql_update_method E x g s = Inr (m, s') \<Longrightarrow> handoff_rows s' = handoff_rows s"
  by (auto simp: sql_insert_setup_def sql_update_setup_def sql_update_method_def Let_def handoff_rows_def
      split: if_splits option.splits)

lemma rows_BeginSetup: "BeginPaymentMethodSetup E ctx inp s = Inr (r, s') \<Longrightarrow> handoff_rows s' = handoff_rows s"
  by (auto simp: BeginPaymentMethodSetup_def Let_def split: if_splits sum.splits dest!: rows_setup)

lemma rows_CompleteSetup:
  "CompletePaymentMethodSetup dg E ctx inp s = Inr (r, e, s') \<Longrightarrow> handoff_rows s' = handoff_rows s"
  by (auto simp: CompletePaymentMethodSetup_def complete_setup_def observe_setup_def Let_def
      split: if_splits dest!: rows_setup)

lemma rows_closure_statements:
  "revoke_for_closure E op x s = Inr s' \<Longrightarrow> handoff_rows s' = handoff_rows s"
  "sql_update_closure E c ph s = Inr (c', s') \<Longrightarrow> handoff_rows s' = handoff_rows s"
  "sql_end_period E q t s = Inr (p, s') \<Longrightarrow> handoff_rows s' = handoff_rows s"
  "sql_insert_completion m s = Inr s' \<Longrightarrow> handoff_rows s' = handoff_rows s"
  "sql_insert_closure_settlement k s = Inr s' \<Longrightarrow> handoff_rows s' = handoff_rows s"
  "sql_insert_preflight j s = Inr s' \<Longrightarrow> handoff_rows s' = handoff_rows s"
  by (auto simp: revoke_for_closure_def sql_update_closure_def sql_end_period_def sql_insert_completion_def
      sql_insert_closure_settlement_def sql_insert_preflight_def Let_def handoff_rows_def split: if_splits option.splits)

lemma rows_close_account: "close_account E a op t s = Inr s' \<Longrightarrow> handoff_rows s' = handoff_rows s"
  by (auto simp: close_account_def dest!: rows_closure_statements)

lemma rows_PrepareCloudClosure: "PrepareCloudClosure dg E inp s = Inr (r, s') \<Longrightarrow> handoff_rows s' = handoff_rows s"
  by (auto simp: PrepareCloudClosure_def Let_def split: if_splits option.splits dest!: rows_closure_statements)

lemma rows_RecordCloudClosureRevocation:
  "RecordCloudClosureRevocation E scope task sha s = Inr s' \<Longrightarrow> handoff_rows s' = handoff_rows s"
  by (auto simp: RecordCloudClosureRevocation_def split: if_splits option.splits)

lemma rows_RecordCloudClosureSettlement:
  "RecordCloudClosureSettlement dg dgr E inp s = Inr s' \<Longrightarrow> handoff_rows s' = handoff_rows s"
  by (auto simp: RecordCloudClosureSettlement_def Let_def split: if_splits option.splits dest!: rows_closure_statements)

lemma rows_CloseCloud: "CloseCloud dg dgc E inp s = Inr (r, s') \<Longrightarrow> handoff_rows s' = handoff_rows s"
  by (auto simp: CloseCloud_def Let_def split: if_splits option.splits dest!: rows_closure_statements rows_close_account)

lemma rows_RetireCloudClose: "RetireCloudClose dg dgc E inp s = Inr (r, s') \<Longrightarrow> handoff_rows s' = handoff_rows s"
  by (auto simp: RetireCloudClose_def Let_def split: if_splits option.splits)

lemma rows_cancellation:
  "CancelCloudClosure E scope x sha s = Inr (r, s') \<Longrightarrow> handoff_rows s' = handoff_rows s"
  "CompleteCloudClosureCancellation E scope x sha s = Inr (r, s') \<Longrightarrow> handoff_rows s' = handoff_rows s"
  by (auto simp: CancelCloudClosure_def CompleteCloudClosureCancellation_def split: if_splits option.splits
      dest!: rows_closure_statements)

lemma rows_preflight:
  "RecordCloudPreflightEvidence sha dg E inp s = Inr s' \<Longrightarrow> handoff_rows s' = handoff_rows s"
  by (auto simp: RecordCloudPreflightEvidence_def Let_def split: if_splits option.splits dest!: rows_closure_statements)

lemma rows_Bootstrap: "BootstrapBrandCloud dg E inp s = Inr (r, s') \<Longrightarrow> handoff_rows s' = handoff_rows s"
  by (auto simp: BootstrapBrandCloud_def split: if_splits option.splits sum.splits)

lemmas rows_operations = rows_InitializeResponsibility rows_BeginSetup rows_CompleteSetup rows_PrepareCloudClosure
  rows_RecordCloudClosureRevocation rows_RecordCloudClosureSettlement rows_CloseCloud rows_RetireCloudClose
  rows_cancellation rows_preflight rows_Bootstrap

lemma other_rows:
  assumes "own_exec D E op s = Inr s'" and "\<not> is_handoff_op op"
  shows "handoff_rows s' = handoff_rows s"
proof (cases op)
  case (OwStore sop)
  with assms show ?thesis by (auto simp: handoff_rows_def split: if_splits)
next
  case (OwTables us ps ls invs profs accs)
  with assms show ?thesis by (auto simp: handoff_rows_def)
qed (use assms in \<open>auto dest: rows_operations\<close>)

lemma other_files: "own_exec D E op s = Inr s' \<Longrightarrow> \<not> is_handoff_op op \<Longrightarrow> file_of s' = file_of s"
  by (intro file_of_cong other_tables other_rows)

section \<open>Steps of the files\<close>

lemma handoff_stepI:
  assumes "file_step (file_of s x) (file_of s' x)" and "\<And>y. y \<noteq> x \<Longrightarrow> file_of s' y = file_of s y"
  shows "handoff_step (file_of s) (file_of s')"
proof -
  have "file_of s' = (file_of s)(x := file_of s' x)" using assms(2) by (auto simp: fun_eq_iff)
  then show ?thesis using handoff_step.operation [of "file_of s" x "file_of s' x"] assms(1) by simp
qed

lemma filter_update_where:
  assumes "\<And>h. k (f h) = k h"
  shows "filter (\<lambda>h. k h = x) (update_where (\<lambda>h. k h = y) f hs) =
    (if x = y then map f (filter (\<lambda>h. k h = x) hs) else filter (\<lambda>h. k h = x) hs)"
  using assms by (induction hs) auto

lemma handoff_keys [simp]:
  "oh_ID (set_phase p h) = oh_ID h"
  by (simp add: set_phase_def)

text \<open>The row an operation locks is the one row of its file.\<close>

lemma locked_file:
  assumes "lockHandoffOperationTx scope s = Inr (account, op)" and "handoff_inv (file_of s)"
  shows "hf_handoffs (file_of s (oh_ID op)) = [op]" and "phase_evidence (file_of s (oh_ID op)) op"
proof -
  have "op \<in> set (hf_handoffs (file_of s (oh_ID op)))"
    using assms(1) by (auto simp: lockHandoffOperationTx_def file_of_def scan_def query_row_def
        split: if_splits option.splits sum.splits dest!: find_Some_mem)
  with assms(2) file_inv_single [of "file_of s (oh_ID op)" op]
  show "hf_handoffs (file_of s (oh_ID op)) = [op]" "phase_evidence (file_of s (oh_ID op)) op"
    by (simp_all add: handoff_inv_def)
qed

lemma filter_key_find_None: "find (\<lambda>r. k r = x) rows = None \<Longrightarrow> filter (\<lambda>r. k r = x) rows = []"
  by (auto simp: find_None_iff filter_empty_conv)

lemma loadHandoffScope_lock: "loadHandoffScopeTx scope s = Inr (account, op) \<Longrightarrow> lockHandoffOperationTx scope s = Inr (account, op)"
  by (auto simp: loadHandoffScopeTx_def)

lemma tables_statements:
  "sql_end_period E q t s = Inr (r, s') \<Longrightarrow> handoff_tables (od_pay s') = handoff_tables (od_pay s)"
  "sql_insert_period E v d = Inr d' \<Longrightarrow> handoff_tables d' = handoff_tables d"
  "retire_profile x y z s = Inr s' \<Longrightarrow> od_pay s' = od_pay s"
  "sql_update_policy E w f d = Inr (m, d') \<Longrightarrow> handoff_tables d' = handoff_tables d"
  by (auto simp: sql_end_period_def sql_insert_period_def retire_profile_def sql_update_policy_def touch_account_def
      drawn_def handoff_tables_def Let_def split: if_splits option.splits)

lemma tables_revoke [simp]:
  "handoff_tables (revoke_methods E w d) = handoff_tables d" "handoff_tables (revoke_consents E u x d) = handoff_tables d"
  "handoff_tables (replace_profile E y n d) = handoff_tables d"
  by (simp_all add: revoke_methods_def revoke_consents_def replace_profile_def handoff_tables_def split: option.splits)

lemma transfer_tables: "transfer_responsibility E inp a op s = Inr s' \<Longrightarrow> handoff_tables (od_pay s') = handoff_tables (od_pay s)"
  by (auto simp: transfer_responsibility_def Let_def split: option.splits dest!: tables_statements)

lemma rows_transfer: "transfer_responsibility E inp a op s = Inr s' \<Longrightarrow> handoff_rows s' = handoff_rows s"
  by (auto simp: transfer_responsibility_def retire_profile_def Let_def split: if_splits option.splits
      dest!: rows_closure_statements)

lemmas file_updates = file_of_def sql_update_handoff_def touch_account_def handoffProtocolAuditTx_def
  sql_insert_audit_def filter_update_where

lemma refine_decide:
  assumes "recordCommittedHandoffDecision E inp dg s = Inr s'" and "handoff_inv (file_of s)"
  shows "handoff_step\<^sup>=\<^sup>= (file_of s) (file_of s')"
proof -
  from assms(1) obtain account op where lock: "lockHandoffOperationTx (fhi_Scope inp) s = Inr (account, op)"
    by (auto simp: recordCommittedHandoffDecision_def)
  note row = locked_file [OF lock assms(2)]
  show ?thesis
  proof (cases "s' = s")
    case False
    with assms(1) lock have none: "find (\<lambda>d. hcd_OperationID d = oh_ID op) (db_committed_decisions (od_pay s)) = None"
      and phase: "oh_Phase op = HandoffCommitAuthorized"
      and s': "s' = handoffProtocolAuditTx (fhi_Scope inp) ''commit_observed'' (fhi_AuthorizationID inp) dg
        (pay (\<lambda>d. sql_update_handoff E op (set_phase HandoffFinalizing)
          (d\<lparr>db_committed_decisions := db_committed_decisions (od_pay s) @ [decision_of (oh_ID op) dg inp]\<rparr>)) s)"
      by (auto simp: recordCommittedHandoffDecision_def sql_insert_decision_def split: option.splits if_splits)
    let ?f = "file_of s (oh_ID op)"
    have "file_of s' (oh_ID op) = ?f\<lparr>hf_handoffs := [set_phase HandoffFinalizing op], hf_decisions := [decision_of (oh_ID op) dg inp]\<rparr>"
      using row(1) filter_key_find_None [OF none] by (simp add: s' file_updates decision_of_def)
    moreover have "hf_decisions ?f = []" using filter_key_find_None [OF none] by (simp add: file_of_def)
    ultimately have "file_step ?f (file_of s' (oh_ID op))" using file_step.decide [OF row(1) phase] by simp
    moreover have "file_of s' y = file_of s y" if "y \<noteq> oh_ID op" for y
      using that by (simp add: s' file_updates decision_of_def)
    ultimately show ?thesis using handoff_stepI by blast
  qed simp
qed

lemma refine_finalize:
  assumes "finalize_tx sha E inp dg s = Inr (r, s')" and "handoff_inv (file_of s)"
  shows "handoff_step\<^sup>=\<^sup>= (file_of s) (file_of s')"
proof -
  from assms(1) obtain account op where lock: "lockHandoffOperationTx (fhi_Scope inp) s = Inr (account, op)"
    by (auto simp: finalize_tx_def)
  note row = locked_file [OF lock assms(2)]
  show ?thesis
  proof (cases "s' = s")
    case False
    with assms(1) lock obtain s1 where none: "find (\<lambda>d. hcd_OperationID d = oh_ID op) (od_finalizations s) = None"
      and phase: "oh_Phase op = HandoffFinalizing"
      and transfer: "transfer_responsibility E inp account op
        (s\<lparr>od_finalizations := od_finalizations s @ [decision_of (oh_ID op) dg inp]\<rparr>) = Inr s1"
      and s': "s' = handoffProtocolAuditTx (fhi_Scope inp) ''finalize'' (fhi_AuthorizationID inp) dg
        (pay (sql_update_handoff E op (set_phase HandoffFinalized)) s1)"
      by (auto simp: finalize_tx_def Let_def sql_insert_decision_def split: option.splits if_splits)
    have s1: "file_of s1 = file_of (s\<lparr>od_finalizations := od_finalizations s @ [decision_of (oh_ID op) dg inp]\<rparr>)"
      using transfer_tables [OF transfer] rows_transfer [OF transfer] by (intro file_of_cong) simp_all
    let ?f = "file_of s (oh_ID op)"
    have upd: "file_of s' y = (file_of s1 y)\<lparr>hf_handoffs := (if y = oh_ID op then map (set_phase HandoffFinalized) else id) (hf_handoffs (file_of s1 y))\<rparr>" for y
      by (simp add: s' file_updates)
    have "file_of s' (oh_ID op) = ?f\<lparr>hf_handoffs := [set_phase HandoffFinalized op], hf_finalizations := [decision_of (oh_ID op) dg inp]\<rparr>"
      using row(1) filter_key_find_None [OF none] by (simp add: upd s1) (simp add: file_of_def decision_of_def)
    moreover have "hf_finalizations ?f = []" using filter_key_find_None [OF none] by (simp add: file_of_def)
    ultimately have "file_step ?f (file_of s' (oh_ID op))" using file_step.finalize [OF row(1) phase] by simp
    moreover have "file_of s' y = file_of s y" if "y \<noteq> oh_ID op" for y
      using that by (simp add: upd s1) (simp add: file_of_def decision_of_def)
    ultimately show ?thesis using handoff_stepI by blast
  qed simp
qed

lemma refine_begin_abort:
  assumes "BeginOwnershipHandoffAbort dg E inp s = Inr (r, s')" and "handoff_inv (file_of s)"
  shows "handoff_step\<^sup>=\<^sup>= (file_of s) (file_of s')"
proof -
  from assms(1) obtain account op where lock: "lockHandoffOperationTx (bha_Scope inp) s = Inr (account, op)"
    by (auto simp: BeginOwnershipHandoffAbort_def Let_def split: if_splits)
  note row = locked_file [OF lock assms(2)]
  show ?thesis
  proof (cases "s' = s")
    case False
    define c where "c = \<lparr>hcx_OperationID = oh_ID op, hcx_CancellationID = bha_CancellationID inp,
      hcx_RequestSHA256 = dg inp, hcx_AMCancellationSHA256 = bha_AMCancellationSHA256 inp\<rparr>"
    have c: "hcx_OperationID c = oh_ID op" by (simp add: c_def)
    from False assms(1) lock have none: "find (\<lambda>c. hcx_OperationID c = oh_ID op) (od_cancellations s) = None"
      and phase: "preparing op \<or> oh_Phase op = HandoffCommitAuthorized"
      and s': "s' = handoffProtocolAuditTx (bha_Scope inp) ''abort_requested'' (bha_CancellationID inp) (dg inp)
        (pay (sql_update_handoff E op (set_phase HandoffAbortPending)) (s\<lparr>od_cancellations := od_cancellations s @ [c]\<rparr>))"
      by (auto simp: BeginOwnershipHandoffAbort_def sql_insert_cancellation_def c_def Let_def split: option.splits if_splits)
    let ?f = "file_of s (oh_ID op)"
    have "file_of s' (oh_ID op) = ?f\<lparr>hf_handoffs := [set_phase HandoffAbortPending op], hf_cancellations := [c]\<rparr>"
      using row(1) filter_key_find_None [OF none] c by (simp add: s' file_updates)
    moreover have "hf_cancellations ?f = []" using filter_key_find_None [OF none] by (simp add: file_of_def)
    ultimately have "file_step ?f (file_of s' (oh_ID op))" using file_step.abort [OF row(1) phase] by simp
    moreover have "file_of s' y = file_of s y" if "y \<noteq> oh_ID op" for y
      using that c by (simp add: s' file_updates)
    ultimately show ?thesis using handoff_stepI by blast
  qed simp
qed

lemma refine_complete_abort:
  assumes "CompleteOwnershipHandoffAbort E inp s = Inr (r, s')" and "handoff_inv (file_of s)"
  shows "handoff_step\<^sup>=\<^sup>= (file_of s) (file_of s')"
proof -
  from assms(1) obtain account op where lock: "lockHandoffOperationTx (cha_Scope inp) s = Inr (account, op)"
    by (auto simp: CompleteOwnershipHandoffAbort_def Let_def split: if_splits)
  note row = locked_file [OF lock assms(2)]
  show ?thesis
  proof (cases "s' = s")
    case False
    define k where "k = \<lparr>aa_OperationID = oh_ID op, aa_HoldReleaseSHA256 = cha_HoldReleaseSHA256 inp\<rparr>"
    have k: "aa_OperationID k = oh_ID op" by (simp add: k_def)
    from False assms(1) lock have none: "find (\<lambda>a. aa_OperationID a = oh_ID op) (od_abort_acks s) = None"
      and phase: "oh_Phase op = HandoffAbortPending"
      and s': "s' = handoffProtocolAuditTx (cha_Scope inp) ''abort_completed'' (cha_CancellationID inp)
        (cha_HoldReleaseSHA256 inp)
        (pay (sql_update_handoff E op (set_phase HandoffAborted)) (s\<lparr>od_abort_acks := od_abort_acks s @ [k]\<rparr>))"
      by (auto simp: CompleteOwnershipHandoffAbort_def k_def Let_def split: option.splits if_splits)
    let ?f = "file_of s (oh_ID op)"
    have "file_of s' (oh_ID op) = ?f\<lparr>hf_handoffs := [set_phase HandoffAborted op], hf_abort_acks := [k]\<rparr>"
      using row(1) filter_key_find_None [OF none] k by (simp add: s' file_updates)
    moreover have "hf_abort_acks ?f = []" using filter_key_find_None [OF none] by (simp add: file_of_def)
    ultimately have "file_step ?f (file_of s' (oh_ID op))" using file_step.aborted [OF row(1) phase] by simp
    moreover have "file_of s' y = file_of s y" if "y \<noteq> oh_ID op" for y
      using that k by (simp add: s' file_updates)
    ultimately show ?thesis using handoff_stepI by blast
  qed simp
qed

lemma refine_prepare:
  assumes "PrepareOwnershipHandoff dg E inp s = Inr (r, s')" and "handoff_inv (file_of s)"
  shows "handoff_step\<^sup>=\<^sup>= (file_of s) (file_of s')"
proof (cases "s' = s")
  case False
  with assms(1) obtain op d e where ins: "sql_insert_handoff E op (od_pay s) = Inr d"
      and phase: "oh_Phase op = HandoffPreparing"
      and s': "s' = pay (sql_insert_audit e) (invalidate_setups E (oh_AccountID op) (oh_ID op) (s\<lparr>od_pay := d\<rparr>))"
    by (auto simp: PrepareOwnershipHandoff_def Let_def split: if_splits option.splits sum.splits)
  have "file_of s' = file_of (s\<lparr>od_pay := d\<rparr>)"
    unfolding s' using ht.P_invalidate_setups [of "s\<lparr>od_pay := d\<rparr>", OF refl]
    by (intro file_of_cong) (simp_all add: invalidate_setups_def Let_def handoff_rows_def)
  moreover have "file_of (s\<lparr>od_pay := d\<rparr>) y =
      (if y = oh_ID op then (file_of s y)\<lparr>hf_handoffs := [op]\<rparr> else file_of s y)"
    and "hf_handoffs (file_of s (oh_ID op)) = []" for y
    using ins by (auto simp: sql_insert_handoff_def file_of_def touch_account_def list_ex_iff filter_empty_conv
        split: if_splits)
  ultimately show ?thesis
    using handoff_stepI [of s "oh_ID op" s'] file_step.prepare [of "file_of s (oh_ID op)" op] phase by simp
qed simp

lemma confirmed_iff: "confirmed s op v user \<longleftrightarrow> confirms (file_of s op) v user"
  by (auto simp: confirmed_def confirms_def file_of_def list_ex_iff)

text \<open>What a status with a snapshot tells.\<close>

lemma no_settlement_blockers:
  "settlement_blockers st account receipt = [] \<Longrightarrow> \<exists>c. receipt = Some c \<and> sr_StateSHA256 c = ss_SHA256 st"
  by (auto simp: settlement_blockers_def split: option.splits if_splits)

lemma status_snapshot_row:
  assumes "handoffSettlementStatusTx sha account op s = Inr status" and "hst_Snapshot status = Some snap"
  obtains st c b where "preparing op" and "captureSettlementStateTx sha account s = Inr st"
    and "find_receipt s (oh_ID op) (oh_Version op) = Some c" and "sr_StateSHA256 c = ss_SHA256 st"
    and "find (\<lambda>b. bs_OperationID b = oh_ID op \<and> bs_Version b = oh_Version op) (od_snapshots s) = Some b"
    and "hbs_Version snap = bs_Version b" and "hbs_BalanceMinor snap = bs_BalanceMinor b"
    and "hbs_SourceConfirmed snap = confirmed s (oh_ID op) (oh_Version op) (oh_SourceUserID op)"
    and "hbs_TargetConfirmed snap = confirmed s (oh_ID op) (oh_Version op) (oh_TargetUserID op)"
  using assms by (auto simp: handoffSettlementStatusTx_def Let_def split: if_splits dest!: no_settlement_blockers)

lemma status_snapshot:
  assumes "handoffSettlementStatusTx sha account op s = Inr status" and "hst_Snapshot status = Some snap"
  shows "preparing op" and "has_snapshot (file_of s (oh_ID op)) (oh_Version op)" and "hbs_Version snap = oh_Version op"
    and "hbs_SourceConfirmed snap = confirms (file_of s (oh_ID op)) (oh_Version op) (oh_SourceUserID op)"
    and "hbs_TargetConfirmed snap = confirms (file_of s (oh_ID op)) (oh_Version op) (oh_TargetUserID op)"
  by (rule status_snapshot_row [OF assms];
      auto simp: confirmed_iff has_snapshot_def file_of_def dest!: find_Some_mem; fail)+

lemma refine_confirm:
  assumes "ConfirmHandoffSnapshot sha E inp s = Inr (r, s')" and "handoff_inv (file_of s)"
  shows "handoff_step\<^sup>=\<^sup>= (file_of s) (file_of s')"
proof (cases "s' = s")
  case False
  with assms(1) obtain account op status snap e where load: "loadHandoffScopeTx (chs_Scope inp) s = Inr (account, op)"
      and user: "chs_UserID inp = oh_SourceUserID op \<or> chs_UserID inp = oh_TargetUserID op"
      and status: "handoffSettlementStatusTx sha account op s = Inr status" "hst_Snapshot status = Some snap"
      and version: "hbs_Version snap = chs_SnapshotVersion inp"
      and s': "s' = pay (sql_insert_audit e) (s\<lparr>od_confirmations := od_confirmations s @
        [\<lparr>hc_OperationID = oh_ID op, hc_SnapshotVersion = chs_SnapshotVersion inp, hc_UserID = chs_UserID inp\<rparr>]\<rparr>)"
    by (auto simp: ConfirmHandoffSnapshot_def Let_def split: if_splits option.splits)
  note row = locked_file [OF loadHandoffScope_lock [OF load] assms(2)] and st = status_snapshot [OF status]
  let ?f = "file_of s (oh_ID op)" and
    ?c = "\<lparr>hc_OperationID = oh_ID op, hc_SnapshotVersion = chs_SnapshotVersion inp, hc_UserID = chs_UserID inp\<rparr>"
  have "file_of s' (oh_ID op) = ?f\<lparr>hf_confirmations := hf_confirmations ?f @ [?c]\<rparr>"
    by (simp add: s' file_of_def sql_insert_audit_def)
  then have "file_step ?f (file_of s' (oh_ID op))"
    using file_step.confirm [OF row(1) st(1,2), of ?c] user version st(3) by simp
  moreover have "file_of s' y = file_of s y" if "y \<noteq> oh_ID op" for y
    using that by (simp add: s' file_of_def sql_insert_audit_def)
  ultimately show ?thesis using handoff_stepI by blast
qed simp

text \<open>A new authorization.\<close>

lemma authorize_new:
  assumes "AuthorizeHandoffCommit sha dg E inp s = Inr (r, s')" and "s' \<noteq> s"
  obtains account op status snap where "loadHandoffScopeTx (ahc_Scope inp) s = Inr (account, op)"
    and "find_authorization s (oh_ID op) = None"
    and "handoffSettlementStatusTx sha account op s = Inr status" and "hst_Snapshot status = Some snap"
    and "hbs_SourceConfirmed snap" and "hbs_TargetConfirmed snap"
    and "hca_OperationID r = oh_ID op" and "hca_SnapshotVersion r = hbs_Version snap"
    and "s' = handoffProtocolAuditTx (ahc_Scope inp) ''authorize_commit'' (ahc_AuthorizationID inp) (dg inp)
      (s\<lparr>od_pay := sql_update_handoff E op (set_phase HandoffCommitAuthorized)
        ((od_pay s)\<lparr>db_commit_authorizations := db_commit_authorizations (od_pay s) @ [r]\<rparr>)\<rparr>)"
  using assms by (auto simp: AuthorizeHandoffCommit_def sql_insert_authorization_def Let_def split: if_splits option.splits)

lemma refine_authorize:
  assumes "AuthorizeHandoffCommit sha dg E inp s = Inr (r, s')" and "handoff_inv (file_of s)"
  shows "handoff_step\<^sup>=\<^sup>= (file_of s) (file_of s')"
proof (cases "s' = s")
  case False
  obtain account op status snap where load: "loadHandoffScopeTx (ahc_Scope inp) s = Inr (account, op)"
      and none: "find_authorization s (oh_ID op) = None"
      and status: "handoffSettlementStatusTx sha account op s = Inr status" "hst_Snapshot status = Some snap"
      and snap: "hbs_SourceConfirmed snap" "hbs_TargetConfirmed snap"
      and grant: "hca_OperationID r = oh_ID op" "hca_SnapshotVersion r = hbs_Version snap"
      and s': "s' = handoffProtocolAuditTx (ahc_Scope inp) ''authorize_commit'' (ahc_AuthorizationID inp) (dg inp)
        (s\<lparr>od_pay := sql_update_handoff E op (set_phase HandoffCommitAuthorized)
          ((od_pay s)\<lparr>db_commit_authorizations := db_commit_authorizations (od_pay s) @ [r]\<rparr>)\<rparr>)"
    by (rule authorize_new [OF assms(1) False])
  note row = locked_file [OF loadHandoffScope_lock [OF load] assms(2)] and st = status_snapshot [OF status]
  let ?f = "file_of s (oh_ID op)"
  have auths: "hf_authorizations ?f = []"
    using filter_key_find_None [OF none [unfolded find_authorization_def]] by (simp add: file_of_def)
  then have "file_of s' (oh_ID op) = ?f\<lparr>hf_handoffs := [set_phase HandoffCommitAuthorized op], hf_authorizations := [r]\<rparr>"
    using row(1) grant by (simp add: s' file_updates)
  then have "file_step ?f (file_of s' (oh_ID op))"
    using file_step.authorize [OF row(1) st(1) auths st(2), of r] snap grant st(3,4,5) by simp
  moreover have "file_of s' y = file_of s y" if "y \<noteq> oh_ID op" for y
    using that grant by (simp add: s' file_updates)
  ultimately show ?thesis using handoff_stepI by blast
qed simp

text \<open>A settlement that is recorded: the receipt, the handoff and the snapshot it leaves.\<close>

lemma settlement_recorded:
  assumes "RecordHandoffSettlement sha dg E inp s = Inr (r, s')" and "s' \<noteq> s"
  obtains account op st receipt snaps ph e where "loadHandoffScopeTx (rsi_Scope inp) s = Inr (account, op)"
    and "preparing op" and "captureSettlementStateTx sha account s = Inr st"
    and "sr_OperationID receipt = oh_ID op" and "sr_OperationVersion receipt = oh_Version op + 1"
    and "sr_StateSHA256 receipt = ss_SHA256 st"
    and "\<not> list_ex (\<lambda>c. sr_OperationID c = oh_ID op \<and> sr_OperationVersion c = oh_Version op + 1) (od_receipts s)"
    and "ph = HandoffPreparing \<and> snaps = [] \<or>
      ph = HandoffPrepared \<and> (\<exists>b. snaps = [b] \<and> bs_OperationID b = oh_ID op \<and> bs_Version b = oh_Version op + 1 \<and>
        bs_BalanceMinor b = fe_BalanceMinor (ss_Financial st) \<and> bs_Currency b = fe_Currency (ss_Financial st) \<and>
        bs_ReceiptID b = sr_ID receipt)"
    and "s' = pay (\<lambda>d. sql_insert_audit e (sql_update_handoff E op
          (\<lambda>h. h\<lparr>oh_Phase := ph, oh_Version := oh_Version op + 1\<rparr>) d))
        (s\<lparr>od_receipts := od_receipts s @ [receipt], od_snapshots := od_snapshots s @ snaps\<rparr>)"
proof -
  from assms obtain account op st where load: "loadHandoffScopeTx (rsi_Scope inp) s = Inr (account, op)"
      and prep: "preparing op" and cap: "captureSettlementStateTx sha account s = Inr st"
    by (auto simp: RecordHandoffSettlement_def Let_def split: if_splits option.splits)
  define receipt where "receipt =
    \<lparr>sr_ID = rsi_ReceiptID inp, sr_OperationID = oh_ID op, sr_OperationVersion = oh_Version op + 1,
     sr_RequestSHA256 = dg inp, sr_StateSHA256 = ss_SHA256 st,
     sr_UsageCheckpointSHA256 = rsi_UsageCheckpointSHA256 inp,
     sr_InvoiceCheckpointSHA256 = rsi_InvoiceCheckpointSHA256 inp,
     sr_ProviderCheckpointSHA256 = rsi_ProviderCheckpointSHA256 inp,
     sr_FinancialEvidence = mergeSettlementEvidence (rsi_Financial inp) (ss_Financial st)\<rparr>"
  define b where "b = \<lparr>bs_OperationID = oh_ID op, bs_Version = oh_Version op + 1, bs_ReceiptID = rsi_ReceiptID inp,
     bs_BalanceMinor = fe_BalanceMinor (ss_Financial st), bs_Currency = fe_Currency (ss_Financial st),
     bs_Cutoff = oh_Cutoff op\<rparr>"
  define ph where "ph = (if OwnershipTransferBlockers (sr_FinancialEvidence receipt) @
      (if ca_State account = AccountStateClosed then [''account_closed''] else []) = [] then HandoffPrepared else HandoffPreparing)"
  define e where "e = handoff_audit (hs_OrganizationID (rsi_Scope inp)) ''settlement'' ''service''
    ''billing_settlement_collector'' (oh_ID op) (rsi_ReceiptID inp)
    [(''version'', decimal (oh_Version op + 1)), (''phase'', phase_text ph), (''request_sha256'', dg inp)]"
  have merge: "fe_BalanceMinor (mergeSettlementEvidence x y) = fe_BalanceMinor y"
      "fe_Currency (mergeSettlementEvidence x y) = fe_Currency y" for x y
    by (simp_all add: mergeSettlementEvidence_def)
  from assms load prep cap have
    "\<not> list_ex (\<lambda>c. sr_OperationID c = oh_ID op \<and> sr_OperationVersion c = oh_Version op + 1) (od_receipts s) \<and>
     s' = pay (\<lambda>d. sql_insert_audit e (sql_update_handoff E op
          (\<lambda>h. h\<lparr>oh_Phase := ph, oh_Version := oh_Version op + 1\<rparr>) d))
        (s\<lparr>od_receipts := od_receipts s @ [receipt],
           od_snapshots := od_snapshots s @ (if ph = HandoffPrepared then [b] else [])\<rparr>)"
    by (auto simp: RecordHandoffSettlement_def Let_def sql_insert_receipt_def sql_insert_snapshot_def merge
        receipt_def b_def ph_def e_def sql_update_handoff_def list_ex_iff split: if_splits option.splits sum.splits)
  then show thesis
    by (intro that [OF load prep cap, of receipt ph "if ph = HandoffPrepared then [b] else []" e])
       (auto simp: receipt_def b_def ph_def)
qed

lemma refine_settle:
  assumes "RecordHandoffSettlement sha dg E inp s = Inr (r, s')" and "handoff_inv (file_of s)"
  shows "handoff_step\<^sup>=\<^sup>= (file_of s) (file_of s')"
proof (cases "s' = s")
  case False
  obtain account op snaps ph e receipt where
      load: "loadHandoffScopeTx (rsi_Scope inp) s = Inr (account, op)" and prep: "preparing op"
      and ph: "ph = HandoffPreparing \<and> snaps = [] \<or> ph = HandoffPrepared \<and>
        (\<exists>b. snaps = [b] \<and> bs_OperationID b = oh_ID op \<and> bs_Version b = oh_Version op + 1)"
      and s': "s' = pay (\<lambda>d. sql_insert_audit e (sql_update_handoff E op
          (\<lambda>h. h\<lparr>oh_Phase := ph, oh_Version := oh_Version op + 1\<rparr>) d))
        (s\<lparr>od_receipts := od_receipts s @ [receipt], od_snapshots := od_snapshots s @ snaps\<rparr>)"
    by (rule settlement_recorded [OF assms(1) False]) blast
  note row = locked_file [OF loadHandoffScope_lock [OF load] assms(2)]
  let ?f = "file_of s (oh_ID op)"
  have "file_of s' (oh_ID op) = ?f\<lparr>hf_handoffs := [op\<lparr>oh_Phase := ph, oh_Version := oh_Version op + 1\<rparr>],
      hf_snapshots := hf_snapshots ?f @ snaps\<rparr>"
    using row(1) ph by (auto simp: s' file_updates)
  then have "file_step ?f (file_of s' (oh_ID op))"
    using file_step.resettle [OF row(1) prep] file_step.settle [OF row(1) prep] ph by auto
  moreover have "file_of s' y = file_of s y" if "y \<noteq> oh_ID op" for y
    using that ph by (auto simp: s' file_updates)
  ultimately show ?thesis using handoff_stepI by blast
qed simp

section \<open>The refinement\<close>

lemmas refine_handoff = refine_prepare refine_settle refine_confirm refine_authorize refine_decide refine_finalize
  refine_begin_abort refine_complete_abort

lemma own_exec_handoff:
  assumes "own_exec D E op s = Inr s'" and "handoff_inv (file_of s)"
  shows "handoff_step\<^sup>=\<^sup>= (file_of s) (file_of s')"
proof (cases "is_handoff_op op")
  case False
  with assms other_files show ?thesis by auto
next
  case True
  then show ?thesis using assms by (cases op) (auto dest: refine_handoff [OF _ assms(2)])
qed

interpretation hand: growing_refinement file_of handoff_step "own_step D" handoff_inv handoffs_grow for D
proof unfold_locales
  show "handoff_step\<^sup>*\<^sup>* (file_of s) (file_of s')" if "own_step D s s'" "handoff_inv (file_of s)" for s s'
    using that(1)
  proof (rule own_stepE)
    fix E op
    assume "own_exec D E op s = Inr s'"
    from own_exec_handoff [OF this that(2)] show ?thesis by auto
  qed
qed (auto intro: handoff_inv_step handoffs_grow_refl handoffs_grow_trans handoffs_grow_step)

lemma own_reachable_handoff: "own_reachable D s \<Longrightarrow> handoff_inv (file_of s)"
proof -
  have "handoff_inv (file_of empty_ownership_db)"
    using empty_file_inv
    by (simp add: handoff_inv_def file_of_def empty_ownership_db_def empty_db_def empty_file_def)
  then show "own_reachable D s \<Longrightarrow> handoff_inv (file_of s)" using hand.runs_simulate by blast
qed

end
