(* ===== verification/Responsibility.thy ===== *)
theory Responsibility
  imports Ownership_Books
begin

text \<open>
  Who is responsible for an account: the periods of an account follow each other without gap or
  overlap and their versions count up, whatever handoffs, closures, bootstraps and payments come
  between.
\<close>

section \<open>The chain of periods\<close>

fun period_chain :: "responsibility_period list \<Rightarrow> bool" where
  "period_chain [] = True"
| "period_chain [p] = (case rp_EffectiveUntil p of None \<Rightarrow> True | Some t \<Rightarrow> rp_EffectiveFrom p < t)"
| "period_chain (p # q # ps) =
     (rp_EffectiveUntil p = Some (rp_EffectiveFrom q) \<and> rp_EffectiveFrom p < rp_EffectiveFrom q \<and>
      rp_OwnershipVersion q = rp_OwnershipVersion p + 1 \<and> period_chain (q # ps))"

definition periods_of :: "string \<Rightarrow> payment_db \<Rightarrow> responsibility_period list" where
  "periods_of x d = filter (\<lambda>p. rp_AccountID p = x) (db_periods d)"

lemma chain_open_last: "period_chain (xs @ p # ys) \<Longrightarrow> rp_EffectiveUntil p = None \<Longrightarrow> ys = []"
proof (induction xs rule: period_chain.induct)
  case 1
  then show ?case by (cases ys) auto
next
  case (2 q)
  then show ?case by (cases ys) auto
qed auto

lemma chain_end_last:
  "period_chain (xs @ [p]) \<Longrightarrow> rp_EffectiveFrom p < t \<Longrightarrow> period_chain (xs @ [p\<lparr>rp_EffectiveUntil := Some t\<rparr>])"
  by (induction xs rule: period_chain.induct) auto

lemma chain_snoc:
  "period_chain (xs @ [p]) \<Longrightarrow> rp_EffectiveUntil p = Some (rp_EffectiveFrom q) \<Longrightarrow>
   rp_OwnershipVersion q = rp_OwnershipVersion p + 1 \<Longrightarrow> rp_EffectiveUntil q = None \<Longrightarrow> period_chain (xs @ [p, q])"
  by (induction xs rule: period_chain.induct) auto

section \<open>The invariant\<close>

definition responsibility_ok :: "payment_db \<Rightarrow> bool" where
  "responsibility_ok d \<longleftrightarrow>
     distinct (map rp_ID (db_periods d)) \<and> (\<forall>p \<in> set (db_periods d). rp_AccountID p \<in> ca_ID ` set (db_accounts d)) \<and>
     (\<forall>x. period_chain (periods_of x d))"

lemma insert_period_row:
  assumes "sql_insert_period E p d = Inr d'"
  obtains p' where "db_periods d' = db_periods d @ [p']" and "p' = p\<lparr>rp_ID := next_uuid E d\<rparr>"
    and "\<forall>q \<in> set (db_periods d). rp_ID q \<noteq> rp_ID p'" and "map ca_ID (db_accounts d') = map ca_ID (db_accounts d)"
    and "period_check p'"
  using assms by (auto simp: sql_insert_period_def Let_def touch_account_def drawn_def period_conflict_def list_ex_iff
      map_update_where split: if_splits)

lemma responsibility_insert:
  assumes ins: "sql_insert_period E p d = Inr d'" and ok: "responsibility_ok d"
    and known: "rp_AccountID p \<in> ca_ID ` set (db_accounts d)"
    and chain: "\<And>i. period_chain (periods_of (rp_AccountID p) d @ [p\<lparr>rp_ID := i\<rparr>])"
  shows "responsibility_ok d'"
proof -
  obtain p' where d': "db_periods d' = db_periods d @ [p']" and p': "p' = p\<lparr>rp_ID := next_uuid E d\<rparr>"
      and fresh: "\<forall>q \<in> set (db_periods d). rp_ID q \<noteq> rp_ID p'" and ids: "map ca_ID (db_accounts d') = map ca_ID (db_accounts d)"
    by (rule insert_period_row [OF ins])
  have "ca_ID ` set (db_accounts d') = ca_ID ` set (db_accounts d)" using arg_cong [OF ids, of set] by simp
  moreover have "period_chain (periods_of x d')" for x
    using ok chain by (cases "x = rp_AccountID p") (auto simp: responsibility_ok_def periods_of_def d' p')
  ultimately show ?thesis using ok known fresh by (auto simp: responsibility_ok_def d' p')
qed

text \<open>The end of the open period of an account, the last of its chain.\<close>

lemma update_row_last:
  "distinct (map k (xs @ [r])) \<Longrightarrow> update_where (\<lambda>q. k q = k r) (\<lambda>_. r') (xs @ [r]) = xs @ [r']"
  by (induction xs) auto

lemma filter_update_row:
  assumes "distinct (map k rows)" and "r \<in> set rows" and "g r' = g r"
  shows "filter (\<lambda>q. g q = x) (update_where (\<lambda>q. k q = k r) (\<lambda>_. r') rows) =
    update_where (\<lambda>q. k q = k r) (\<lambda>_. r') (filter (\<lambda>q. g q = x) rows)"
proof -
  have "q = r" if "q \<in> set rows" "k q = k r" for q
    using that assms(1,2) by (auto simp: distinct_map dest: inj_onD)
  then show ?thesis using assms(3) by (induction rows) auto
qed

lemma end_period_chain:
  assumes ok: "responsibility_ok d" and old: "old \<in> set (db_periods d)" "rp_EffectiveUntil old = None"
    and t: "rp_EffectiveFrom old < t"
    and d': "d' = d\<lparr>db_periods := update_where (\<lambda>r. rp_ID r = rp_ID old) (\<lambda>_. old\<lparr>rp_EffectiveUntil := Some t\<rparr>) (db_periods d)\<rparr>"
  shows "responsibility_ok d'" and "\<exists>xs. periods_of (rp_AccountID old) d' = xs @ [old\<lparr>rp_EffectiveUntil := Some t\<rparr>]"
proof -
  let ?new = "old\<lparr>rp_EffectiveUntil := Some t\<rparr>" and ?x = "rp_AccountID old"
  have dist: "distinct (map rp_ID (db_periods d))" using ok by (simp add: responsibility_ok_def)
  have of': "periods_of x d' = update_where (\<lambda>r. rp_ID r = rp_ID old) (\<lambda>_. ?new) (periods_of x d)" for x
    using filter_update_row [OF dist old(1), of rp_AccountID ?new x] by (simp add: periods_of_def d')
  have "old \<in> set (periods_of ?x d)" using old by (simp add: periods_of_def)
  then obtain xs ys where split: "periods_of ?x d = xs @ old # ys" by (meson split_list)
  have chain: "period_chain (periods_of ?x d)" using ok by (simp add: responsibility_ok_def)
  then have ys: "ys = []" using chain_open_last old(2) split by metis
  have "distinct (map rp_ID (periods_of ?x d))" using dist by (simp add: periods_of_def distinct_map_filter)
  then have x: "periods_of ?x d' = xs @ [?new]" using update_row_last [of rp_ID xs old ?new] by (simp add: of' split ys)
  show "\<exists>xs. periods_of ?x d' = xs @ [?new]" using x by blast
  have "period_chain (periods_of y d')" for y
  proof (cases "y = ?x")
    case True
    then show ?thesis using chain_end_last [of xs old t] chain t by (simp add: x split ys)
  next
    case False
    then have "periods_of y d' = periods_of y d"
      unfolding of' using old dist
      by (auto simp: update_where_def periods_of_def distinct_map intro!: map_idI dest: inj_onD)
    then show ?thesis using ok by (simp add: responsibility_ok_def)
  qed
  moreover have "map rp_ID (db_periods d') = map rp_ID (db_periods d)" by (simp add: d' map_update_where)
  moreover have "\<forall>p \<in> set (db_periods d'). \<exists>q \<in> set (db_periods d). rp_AccountID p = rp_AccountID q"
    using old(1) by (auto simp: d' set_update_where)
  moreover have "db_accounts d' = db_accounts d" by (simp add: d')
  ultimately show "responsibility_ok d'" using ok unfolding responsibility_ok_def by fastforce
qed

lemma touch_ids: "map ca_ID (db_accounts (touch_account E x d)) = map ca_ID (db_accounts d)"
  by (simp add: touch_account_def map_update_where)

lemma responsibility_tables:
  assumes "db_periods d' = db_periods d" and "ca_ID ` set (db_accounts d) \<subseteq> ca_ID ` set (db_accounts d')" and "responsibility_ok d"
  shows "responsibility_ok d'"
  using assms unfolding responsibility_ok_def periods_of_def by auto

lemma responsibility_touch: "responsibility_ok d \<Longrightarrow> responsibility_ok (touch_account E x d)"
  using arg_cong [OF touch_ids, of set E x d]
  by (intro responsibility_tables [of "touch_account E x d" d]) (auto simp: touch_account_def)

lemma no_periods: "\<forall>q \<in> set (db_periods d). rp_AccountID q \<noteq> x \<Longrightarrow> periods_of x d = []"
  by (simp add: periods_of_def filter_empty_conv)

interpretation resp: ownership_frame responsibility_ok
proof unfold_locales
  show "responsibility_ok d2" if "sql_insert_account E org c d = Inr (a, d1)" "sql_insert_period E p d1 = Inr d2"
      "rp_AccountID p = ca_ID a" "rp_EffectiveUntil p = None" "responsibility_ok d" for E org c d a d1 p d2
  proof -
    from that(1) have d1: "db_periods d1 = db_periods d" "db_accounts d1 = db_accounts d @ [a]"
        and fresh: "ca_ID a \<notin> ca_ID ` set (db_accounts d)"
      by (auto simp: sql_insert_account_def Let_def drawn_def list_ex_iff split: if_splits)
    then have "responsibility_ok d1" using that(5) by (intro responsibility_tables [of d1 d]) auto
    moreover have "rp_AccountID q \<noteq> ca_ID a" if "q \<in> set (db_periods d1)" for q
      using that fresh \<open>responsibility_ok d\<close> unfolding responsibility_ok_def d1 by metis
    then have "periods_of (ca_ID a) d1 = []" by (intro no_periods) blast
    ultimately show ?thesis using that by (intro responsibility_insert [OF that(2)]) (simp_all add: d1)
  qed
next
  show "responsibility_ok d'" if "sql_insert_period E p d = Inr d'" "find_account d (rp_AccountID p) \<noteq> None"
      "\<forall>q \<in> set (db_periods d). rp_AccountID q \<noteq> rp_AccountID p" "rp_EffectiveUntil p = None" "responsibility_ok d"
    for E p d d'
    using that no_periods [OF that(3)]
    by (intro responsibility_insert [OF that(1)]) (auto simp: find_account_def find_key_None)
next
  show "responsibility_ok d''" if "sql_insert_period E p d' = Inr d''" "rp_EffectiveUntil p = None"
      "d' = d\<lparr>db_periods := update_where (\<lambda>r. rp_ID r = rp_ID old) (\<lambda>_. old\<lparr>rp_EffectiveUntil := Some (rp_EffectiveFrom p)\<rparr>) (db_periods d)\<rparr>"
      "find q (db_periods d) = Some old" "rp_EffectiveUntil old = None" "rp_EffectiveFrom old < rp_EffectiveFrom p"
      "rp_AccountID p = rp_AccountID old" "rp_OwnershipVersion p = rp_OwnershipVersion old + 1" "responsibility_ok d"
    for E p d d' d'' old q
  proof -
    have old: "old \<in> set (db_periods d)" using that(4) by (simp add: find_Some_mem)
    note ended = end_period_chain [OF that(9) old that(5,6,3)]
    from ended(2) obtain xs where xs: "periods_of (rp_AccountID old) d' = xs @ [old\<lparr>rp_EffectiveUntil := Some (rp_EffectiveFrom p)\<rparr>]"
      by blast
    moreover have "period_chain (periods_of (rp_AccountID old) d')" using ended(1) by (simp add: responsibility_ok_def)
    ultimately have "period_chain (periods_of (rp_AccountID p) d' @ [p\<lparr>rp_ID := i\<rparr>])" for i
      using chain_snoc [of xs "old\<lparr>rp_EffectiveUntil := Some (rp_EffectiveFrom p)\<rparr>" "p\<lparr>rp_ID := i\<rparr>"] that by simp
    moreover have "rp_AccountID p \<in> ca_ID ` set (db_accounts d')"
      using that(3,7,9) old by (auto simp: responsibility_ok_def)
    ultimately show ?thesis by (intro responsibility_insert [OF that(1) ended(1)])
  qed
next
  show "responsibility_ok (d\<lparr>db_periods := update_where (\<lambda>r. rp_ID r = rp_ID old) (\<lambda>_. old\<lparr>rp_EffectiveUntil := Some u\<rparr>) (db_periods d)\<rparr>)"
    if "find q (db_periods d) = Some old" "rp_EffectiveUntil old = None" "rp_EffectiveFrom old < u" "responsibility_ok d"
    for q d old u
    using that by (intro end_period_chain(1) [OF that(4) _ that(2,3) refl]) (simp add: find_Some_mem)
next
  show "responsibility_ok d'" if "sql_update_account E x (\<lambda>a. a\<lparr>ca_State := st, ca_Version := ca_Version a + 1\<rparr>) d = Inr (a', d')"
      "responsibility_ok d" for E x st d a' d'
  proof -
    have ids: "map ca_ID (db_accounts d') = map ca_ID (db_accounts d)" and "db_periods d' = db_periods d"
      using that(1) by (auto simp: sql_update_account_def Let_def find_account_def
          split: option.splits if_splits dest!: find_key_Some intro!: map_update_where)
    moreover have "ca_ID ` set (db_accounts d) \<subseteq> ca_ID ` set (db_accounts d')" using arg_cong [OF ids, of set] by simp
    ultimately show ?thesis using responsibility_tables [of d' d] that(2) by blast
  qed
next
  show "responsibility_ok d'" if "sql_update_policy E q g d = Inr (u, d')" "responsibility_ok d" for E q g d u d'
    using that by (auto simp: sql_update_policy_def Let_def responsibility_ok_def periods_of_def split: option.splits)
qed (erule responsibility_touch | simp add: responsibility_ok_def periods_of_def)+

lemma responsibility_store:
  assumes "exec dg E op d = Inr d'" and "\<not> is_fence_op op" and "good_env E" and "wf_books (books_of d)" and "responsibility_ok d"
  shows "responsibility_ok d'"
proof (rule responsibility_tables [OF _ _ assms(5)])
  show "db_periods d' = db_periods d" using fence.P_exec_store [OF assms(1) refl assms(2)] by (simp add: fences_def)
  have "books_grow (books_of d) (books_of d')" using books_grow_steps [OF exec_simulates [OF assms(1,3,4)]] .
  then have "find_account d x \<noteq> None \<Longrightarrow> find_account d' x \<noteq> None" for x
    unfolding books_grow_def find_account_books by blast
  then show "ca_ID ` set (db_accounts d) \<subseteq> ca_ID ` set (db_accounts d')"
    by (auto simp: find_account_def find_key_None)
qed

lemma own_reachable_responsibility: "own_reachable D s \<Longrightarrow> responsibility_ok (od_pay s)"
proof (induction rule: rtranclp_induct)
  case base
  show ?case by (simp add: responsibility_ok_def periods_of_def empty_ownership_db_def empty_db_def)
next
  case (step s s')
  from step(2) obtain E op where E: "good_env E" and ex: "own_exec D E op s = Inr s'" by (rule own_stepE)
  show ?case
    using resp.P_own_exec [OF ex step(3)] responsibility_store [OF _ _ E own_reachable_wf [OF step(1)] step(3)] by blast
qed

text \<open>So an account has at most one open period, and the query for it finds that one.\<close>

lemma open_period_unique:
  assumes "responsibility_ok d" and "p \<in> set (db_periods d)" and "rp_EffectiveUntil p = None"
  shows "current_period d (rp_AccountID p) = Some p"
proof -
  have chain: "period_chain (periods_of (rp_AccountID p) d)" using assms(1) by (simp add: responsibility_ok_def)
  have ends: "\<exists>xs. periods_of (rp_AccountID p) d = xs @ [q]"
    if "q \<in> set (db_periods d)" "rp_AccountID q = rp_AccountID p" "rp_EffectiveUntil q = None" for q
  proof -
    have "q \<in> set (periods_of (rp_AccountID p) d)" using that by (simp add: periods_of_def)
    then obtain xs ys where split: "periods_of (rp_AccountID p) d = xs @ q # ys" by (meson split_list)
    with chain have "ys = []" using chain_open_last [of xs q ys] that(3) by simp
    with split show ?thesis by blast
  qed
  then obtain xs where xs: "periods_of (rp_AccountID p) d = xs @ [p]" using assms by blast
  have "q = p" if "q \<in> set (db_periods d)" "rp_AccountID q = rp_AccountID p" "rp_EffectiveUntil q = None" for q
    using ends [OF that] xs by auto
  moreover obtain q where "current_period d (rp_AccountID p) = Some q"
    using assms by (cases "current_period d (rp_AccountID p)") (auto simp: current_period_def find_None_iff)
  ultimately show ?thesis by (auto simp: current_period_def dest!: find_Some_mem)
qed

end
