(* ===== verification/Handoff_Safety.thy ===== *)
theory Handoff_Safety
  imports Handoff_Refinement Responsibility
begin

text \<open>
  What a handoff guarantees: a balance that both participants confirmed is the one the successor's
  period opens with, nothing the predecessor authorized survives the commit, and a handoff is
  committed or canceled, never both.
\<close>

section \<open>Effects of a finalization\<close>

text \<open>The rows a new finalization leaves.\<close>

lemma handoff_finalized_new:
  assumes "finalize_tx sha E inp dg s = Inr (r, s')" and "s' \<noteq> s"
  obtains account op s1 where "lockHandoffOperationTx (fhi_Scope inp) s = Inr (account, op)"
    and "oh_Phase op = HandoffFinalizing" and "fhi_CommittedOwnerUserID inp = oh_TargetUserID op"
    and "transfer_responsibility E inp account op
      (s\<lparr>od_finalizations := od_finalizations s @ [decision_of (oh_ID op) dg inp]\<rparr>) = Inr s1"
    and "s' = handoffProtocolAuditTx (fhi_Scope inp) ''finalize'' (fhi_AuthorizationID inp) dg
      (pay (sql_update_handoff E op (set_phase HandoffFinalized)) s1)"
  using assms by (auto simp: finalize_tx_def Let_def sql_insert_decision_def split: option.splits if_splits)

lemma update_policy_tables:
  assumes "sql_update_policy E q g d = Inr (u, d')"
  shows "db_periods d' = db_periods d" "db_accounts d' = db_accounts d" "db_methods d' = db_methods d"
    "db_consents d' = db_consents d"
  using assms by (auto simp: sql_update_policy_def Let_def split: option.splits)

lemma no_policy_left:
  assumes "sql_update_policy E (\<lambda>p. atp_AccountID p = x) g d = Inr (u, d')" and "policies_ok d"
    and "\<And>p. atp_ID (g p) = atp_ID p \<and> \<not> atp_Enabled (g p) \<and> \<not> atp_Armed (g p)"
    and "p \<in> set (db_policies d')" and "atp_AccountID p = x"
  shows "\<not> atp_Enabled p \<and> \<not> atp_Armed p"
proof (cases "find (\<lambda>p. atp_AccountID p = x) (db_policies d)")
  case None
  with assms show ?thesis by (auto simp: sql_update_policy_def find_None_iff)
next
  case (Some old)
  have "distinct (map atp_AccountID (db_policies d))" using assms(2) by (simp add: policies_ok_def)
  then have "q = old" if "q \<in> set (db_policies d)" "atp_AccountID q = x" for q
    using that find_key_Some [OF Some] by (auto simp: distinct_map dest: inj_onD)
  with assms Some show ?thesis
    by (auto simp: sql_update_policy_def Let_def set_update_where split: option.splits)
qed

lemma transfer_rows:
  assumes "transfer_responsibility E inp account op s = Inr s'"
  obtains old p where
    "find (\<lambda>p. rp_AccountID p = ca_ID account \<and> rp_OwnerUserID p = oh_SourceUserID op \<and>
       rp_OwnershipVersion p = oh_OwnershipVersion op \<and> rp_EffectiveUntil p = None \<and>
       rp_EffectiveFrom p < fhi_CommittedAt inp) (db_periods (od_pay s)) = Some old"
    and "db_periods (od_pay s') = update_where (\<lambda>r. rp_ID r = rp_ID old)
       (\<lambda>_. old\<lparr>rp_EffectiveUntil := Some (db_time (fhi_CommittedAt inp))\<rparr>) (db_periods (od_pay s)) @ [p]"
    and "rp_AccountID p = ca_ID account" and "rp_OwnerUserID p = oh_TargetUserID op"
    and "rp_OwnershipVersion p = fhi_CommittedOwnershipVersion inp" and "rp_EffectiveFrom p = fhi_CommittedAt inp"
    and "rp_EffectiveUntil p = None" and "rp_OpeningOperationID p = oh_ID op"
    and "rp_OpeningBalanceMinor p = Some (ca_AvailableBalanceMinor account)"
    and "db_methods (od_pay s') = db_methods (revoke_methods E (\<lambda>m. pm_AccountID m = ca_ID account \<and>
       pm_Status m \<noteq> PaymentMethodStatusRevoked) (od_pay s))"
    and "db_consents (od_pay s') = db_consents (revoke_consents E (\<lambda>c. pco_AccountID c = ca_ID account)
       ''ownership_transferred'' (od_pay s))"
    and "map ca_ID (db_accounts (od_pay s')) = map ca_ID (db_accounts (od_pay s))"
    and "policies_ok (od_pay s) \<Longrightarrow> \<forall>q \<in> set (db_policies (od_pay s')). atp_AccountID q = ca_ID account \<longrightarrow>
       \<not> atp_Enabled q \<and> \<not> atp_Armed q"
proof -
  from assms obtain source s1 d s2 u where ended: "sql_end_period E (\<lambda>p. rp_AccountID p = ca_ID account \<and>
        rp_OwnerUserID p = oh_SourceUserID op \<and> rp_OwnershipVersion p = oh_OwnershipVersion op \<and>
        rp_EffectiveUntil p = None \<and> rp_EffectiveFrom p < fhi_CommittedAt inp) (fhi_CommittedAt inp) s = Inr (Some source, s1)"
      and ins: "sql_insert_period E
         \<lparr>rp_ID = [], rp_AccountID = ca_ID account, rp_OwnerUserID = oh_TargetUserID op,
          rp_OwnershipVersion = fhi_CommittedOwnershipVersion inp, rp_EffectiveFrom = fhi_CommittedAt inp,
          rp_EffectiveUntil = None, rp_SourceEvidenceSHA256 = fhi_AMCommitSHA256 inp,
          rp_OpeningOperationID = oh_ID op,
          rp_OpeningBalanceMinor = Some (ca_AvailableBalanceMinor account)\<rparr> (od_pay s1) = Inr d"
      and ret: "retire_profile (oh_ID op) (rp_ID source) (ca_OrganizationID account) (s1\<lparr>od_pay := d\<rparr>) = Inr s2"
      and pol: "sql_update_policy E (\<lambda>p. atp_AccountID p = ca_ID account)
        (\<lambda>p. p\<lparr>atp_Enabled := False, atp_Armed := False, atp_Version := atp_Version p + 1, atp_Generation := atp_Generation p + 1\<rparr>)
        (revoke_methods E (\<lambda>m. pm_AccountID m = ca_ID account \<and> pm_Status m \<noteq> PaymentMethodStatusRevoked)
          (revoke_consents E (\<lambda>c. pco_AccountID c = ca_ID account) ''ownership_transferred''
            (replace_profile E (ca_OrganizationID account) (fhi_CommittedOwnershipVersion inp) (od_pay s2)))) = Inr (u, od_pay s')"
    unfolding transfer_responsibility_def Let_def by (auto split: option.splits)
  have s2: "od_pay s2 = d" using ret by (auto simp: retire_profile_def Let_def split: if_splits)
  obtain old where old: "find (\<lambda>p. rp_AccountID p = ca_ID account \<and> rp_OwnerUserID p = oh_SourceUserID op \<and>
       rp_OwnershipVersion p = oh_OwnershipVersion op \<and> rp_EffectiveUntil p = None \<and>
       rp_EffectiveFrom p < fhi_CommittedAt inp) (db_periods (od_pay s)) = Some old"
      and s1: "od_pay s1 = touch_account E (rp_AccountID old) ((od_pay s)\<lparr>db_periods := update_where (\<lambda>r. rp_ID r = rp_ID old)
        (\<lambda>_. old\<lparr>rp_EffectiveUntil := Some (db_time (fhi_CommittedAt inp))\<rparr>) (db_periods (od_pay s))\<rparr>)"
    using ended by (auto simp: sql_end_period_def Let_def split: if_splits option.splits)
  obtain p where p: "db_periods d = db_periods (od_pay s1) @ [p]"
      "rp_AccountID p = ca_ID account" "rp_OwnerUserID p = oh_TargetUserID op"
      "rp_OwnershipVersion p = fhi_CommittedOwnershipVersion inp" "rp_EffectiveFrom p = fhi_CommittedAt inp"
      "rp_EffectiveUntil p = None" "rp_OpeningOperationID p = oh_ID op"
      "rp_OpeningBalanceMinor p = Some (ca_AvailableBalanceMinor account)"
      and ids: "map ca_ID (db_accounts d) = map ca_ID (db_accounts (od_pay s1))"
    by (rule insert_period_row [OF ins]) simp
  have d: "db_methods d = db_methods (od_pay s)" "db_consents d = db_consents (od_pay s)"
      "db_policies d = db_policies (od_pay s)"
    using ins by (auto simp: sql_insert_period_def Let_def touch_account_def drawn_def s1 split: if_splits)
  have s': "db_periods (od_pay s') = db_periods d" "db_accounts (od_pay s') = db_accounts d"
      "db_methods (od_pay s') = db_methods (revoke_methods E (\<lambda>m. pm_AccountID m = ca_ID account \<and>
         pm_Status m \<noteq> PaymentMethodStatusRevoked) d)"
      "db_consents (od_pay s') = db_consents (revoke_consents E (\<lambda>c. pco_AccountID c = ca_ID account) ''ownership_transferred'' d)"
    by (simp_all add: update_policy_tables [OF pol] s2 revoke_methods_def revoke_consents_def replace_profile_def
        split: option.splits)
  have "\<forall>q \<in> set (db_policies (od_pay s')). atp_AccountID q = ca_ID account \<longrightarrow> \<not> atp_Enabled q \<and> \<not> atp_Armed q"
    if "policies_ok (od_pay s)"
    using no_policy_left [OF pol] that
    by (auto simp: policies_ok_def s2 d revoke_methods_def revoke_consents_def replace_profile_def split: option.splits)
  then show thesis
    by (rule that [OF old _ p(2-8), rotated -1])
       (simp_all add: s' p(1) s1 touch_account_def d revoke_methods_def revoke_consents_def ids map_update_where)
qed

section \<open>Policies and ledger under the protocols\<close>

interpretation opol: ownership_frame policies_ok
proof unfold_locales
  show "policies_ok d'" if "sql_update_policy E q g d = Inr (u, d')"
      "\<And>p. atp_ID (g p) = atp_ID p \<and> atp_AccountID (g p) = atp_AccountID p" "policies_ok d" for E q g d u d'
    using policies_ok_update that by blast
qed (auto simp: policies_ok_def touch_account_def sql_insert_account_def sql_insert_period_def sql_update_account_def
    drawn_def Let_def split: if_splits option.splits)

lemma own_reachable_policies: "own_reachable D s \<Longrightarrow> policies_ok (od_pay s)"
proof (induction rule: rtranclp_induct)
  case (step s s')
  from step(2) obtain E op where "own_exec D E op s = Inr s'" by (rule own_stepE)
  from opol.P_own_exec [OF this step(3)] show ?case using pol.P_exec_store step(3) by blast
qed (simp add: policies_ok_def empty_ownership_db_def empty_db_def)

interpretation oled: ownership_frame "\<lambda>d. db_ledger d = v" for v
  by unfold_locales (auto simp: touch_account_def sql_insert_account_def sql_insert_period_def sql_update_account_def
    sql_update_policy_def drawn_def Let_def split: if_splits option.splits)

definition ledger_sum :: "string \<Rightarrow> payment_db \<Rightarrow> int" where
  "ledger_sum x d = (\<Sum>e\<leftarrow>ledger_of x d. signed_amount (le_Direction e) (le_AmountMinor e))"

lemma balance_ledger_sum:
  "wf_books (books_of d) \<Longrightarrow> a \<in> set (db_accounts d) \<Longrightarrow> ca_AvailableBalanceMinor a = ledger_sum (ca_ID a) d"
  unfolding ledger_sum_def ledger_of_def
  by (auto simp: wf_books_def accounts_ok_def entries_of_def dest!: balance_chain_sum)

text \<open>At the commit barrier the ledger of the account stands still, whatever transaction comes.\<close>

lemma barrier_ledger:
  assumes "own_exec D E op s = Inr s'" and "commit_pending (od_pay s) x"
  shows "ledger_of x (od_pay s') = ledger_of x (od_pay s)"
proof (cases op)
  case (OwStore sop)
  with assms(1) have "exec (dig_reversal D) E sop (od_pay s) = Inr (od_pay s')" "\<not> is_fence_op sop"
    by (auto split: if_splits)
  then show ?thesis
    using frozen.P_exec_store [of _ _ _ _ _ x "ledger_of x (od_pay s)"] assms(2) by (auto simp: ledger_frozen_def)
qed (use oled.P_own_exec [OF assms(1) refl] in \<open>simp_all add: ledger_of_def\<close>)

section \<open>The balance that is confirmed\<close>

definition view_balance :: "settlement_view \<Rightarrow> int" where
  "view_balance v = fst (snd (sv_account v))"

text \<open>
  What the protocol relies on of the digest of the settlement state: states of different balances
  have different digests.
\<close>

definition balance_digest :: "(settlement_view \<Rightarrow> string) \<Rightarrow> bool" where
  "balance_digest sha \<longleftrightarrow> (\<forall>v w. sha v = sha w \<longrightarrow> view_balance v = view_balance w)"

text \<open>A snapshot has a receipt, and the digest in it is of a state with the snapshot's balance.\<close>

definition snapshots_ok :: "digests \<Rightarrow> ownership_db \<Rightarrow> bool" where
  "snapshots_ok D s \<longleftrightarrow>
     (\<forall>b \<in> set (od_snapshots s).
        (\<exists>c \<in> set (od_receipts s). sr_OperationID c = bs_OperationID b \<and> sr_OperationVersion c = bs_Version b) \<and>
        (\<forall>c \<in> set (od_receipts s). sr_OperationID c = bs_OperationID b \<and> sr_OperationVersion c = bs_Version b \<longrightarrow>
           (\<exists>v. sr_StateSHA256 c = dig_state D v \<and> view_balance v = bs_BalanceMinor b)))"

lemma capture_state:
  "captureSettlementStateTx sha account s = Inr st \<Longrightarrow>
   ss_SHA256 st = sha (settlement_view_of account s) \<and> fe_BalanceMinor (ss_Financial st) = ca_AvailableBalanceMinor account"
  by (auto simp: captureSettlementStateTx_def Let_def split: if_splits)

lemma view_balance_of [simp]: "view_balance (settlement_view_of account s) = ca_AvailableBalanceMinor account"
  by (simp add: view_balance_def settlement_view_of_def Let_def)

lemma snapshots_ok_settle:
  assumes "RecordHandoffSettlement (dig_state D) dg E inp s = Inr (r, s')" and ok: "snapshots_ok D s"
  shows "snapshots_ok D s'"
proof (cases "s' = s")
  case False
  show ?thesis
  proof (rule settlement_recorded [OF assms(1) False])
    fix account op st receipt snaps ph e
    assume cap: "captureSettlementStateTx (dig_state D) account s = Inr st"
      and receipt: "sr_OperationID receipt = oh_ID op" "sr_OperationVersion receipt = oh_Version op + 1"
        "sr_StateSHA256 receipt = ss_SHA256 st"
      and fresh: "\<not> list_ex (\<lambda>c. sr_OperationID c = oh_ID op \<and> sr_OperationVersion c = oh_Version op + 1) (od_receipts s)"
      and snaps: "ph = HandoffPreparing \<and> snaps = [] \<or> ph = HandoffPrepared \<and> (\<exists>b. snaps = [b] \<and>
        bs_OperationID b = oh_ID op \<and> bs_Version b = oh_Version op + 1 \<and>
        bs_BalanceMinor b = fe_BalanceMinor (ss_Financial st) \<and> bs_Currency b = fe_Currency (ss_Financial st) \<and>
        bs_ReceiptID b = sr_ID receipt)"
      and s': "s' = pay (\<lambda>d. sql_insert_audit e (sql_update_handoff E op
          (\<lambda>h. h\<lparr>oh_Phase := ph, oh_Version := oh_Version op + 1\<rparr>) d))
        (s\<lparr>od_receipts := od_receipts s @ [receipt], od_snapshots := od_snapshots s @ snaps\<rparr>)"
    have new: "\<exists>v. sr_StateSHA256 receipt = dig_state D v \<and> view_balance v = bs_BalanceMinor b" if "b \<in> set snaps" for b
      using that snaps capture_state [OF cap] receipt(3) by (intro exI [of _ "settlement_view_of account s"]) auto
    have old: "\<not> (bs_OperationID b = oh_ID op \<and> bs_Version b = oh_Version op + 1)" if "b \<in> set (od_snapshots s)" for b
      using that ok fresh unfolding snapshots_ok_def list_ex_iff by metis
    have "od_snapshots s' = od_snapshots s @ snaps" "od_receipts s' = od_receipts s @ [receipt]" by (simp_all add: s')
    then show ?thesis
      using ok new old fresh receipt(1,2) snaps unfolding snapshots_ok_def list_ex_iff by fastforce
  qed
qed (use ok in simp)

lemma settlement_rows_kept:
  "PrepareOwnershipHandoff dg E pin s = Inr (h, s') \<Longrightarrow> od_receipts s' = od_receipts s \<and> od_snapshots s' = od_snapshots s"
  "ConfirmHandoffSnapshot sha E cin s = Inr (st, s') \<Longrightarrow> od_receipts s' = od_receipts s \<and> od_snapshots s' = od_snapshots s"
  "AuthorizeHandoffCommit sha dga E ain s = Inr (a, s') \<Longrightarrow> od_receipts s' = od_receipts s \<and> od_snapshots s' = od_snapshots s"
  "recordCommittedHandoffDecision E fin dgs s = Inr s' \<Longrightarrow> od_receipts s' = od_receipts s \<and> od_snapshots s' = od_snapshots s"
  "BeginOwnershipHandoffAbort dgb E bin s = Inr (k, s') \<Longrightarrow> od_receipts s' = od_receipts s \<and> od_snapshots s' = od_snapshots s"
  "CompleteOwnershipHandoffAbort E cab s = Inr (k, s') \<Longrightarrow> od_receipts s' = od_receipts s \<and> od_snapshots s' = od_snapshots s"
       apply (auto simp: PrepareOwnershipHandoff_def invalidate_setups_def Let_def split: if_splits option.splits sum.splits)[1]
      apply (auto simp: ConfirmHandoffSnapshot_def Let_def split: if_splits option.splits)[1]
     apply (auto simp: AuthorizeHandoffCommit_def handoffProtocolAuditTx_def Let_def split: if_splits option.splits)[1]
    apply (auto simp: recordCommittedHandoffDecision_def handoffProtocolAuditTx_def split: if_splits option.splits)[1]
   apply (auto simp: BeginOwnershipHandoffAbort_def sql_insert_cancellation_def handoffProtocolAuditTx_def Let_def
      split: if_splits option.splits)[1]
  apply (auto simp: CompleteOwnershipHandoffAbort_def handoffProtocolAuditTx_def Let_def split: if_splits option.splits)[1]
  done

lemma finalize_rows_kept:
  assumes "finalize_tx sha E inp dg s = Inr (r, s')"
  shows "od_receipts s' = od_receipts s \<and> od_snapshots s' = od_snapshots s"
proof (cases "s' = s")
  case False
  show ?thesis
  proof (rule handoff_finalized_new [OF assms False])
    fix account op s1
    assume "transfer_responsibility E inp account op
        (s\<lparr>od_finalizations := od_finalizations s @ [decision_of (oh_ID op) dg inp]\<rparr>) = Inr s1"
      and s': "s' = handoffProtocolAuditTx (fhi_Scope inp) ''finalize'' (fhi_AuthorizationID inp) dg
        (pay (sql_update_handoff E op (set_phase HandoffFinalized)) s1)"
    from rows_transfer [OF this(1)] show ?thesis by (simp add: s' handoffProtocolAuditTx_def handoff_rows_def)
  qed
qed simp

lemma own_settlement_rows:
  assumes "own_exec D E op s = Inr s'" and "\<And>inp. op \<noteq> OwSettle inp"
  shows "od_receipts s' = od_receipts s" and "od_snapshots s' = od_snapshots s"
proof -
  have "od_receipts s' = od_receipts s \<and> od_snapshots s' = od_snapshots s"
  proof (cases "is_handoff_op op")
    case False
    from other_rows [OF assms(1) this] show ?thesis by (simp add: handoff_rows_def)
  next
    case True
    then show ?thesis using assms
      by (cases op) (auto dest: settlement_rows_kept [THEN conjunct1] settlement_rows_kept [THEN conjunct2] finalize_rows_kept)
  qed
  then show "od_receipts s' = od_receipts s" "od_snapshots s' = od_snapshots s" by blast+
qed

lemma own_exec_snapshots:
  assumes "own_exec D E op s = Inr s'" and "snapshots_ok D s"
  shows "snapshots_ok D s'"
proof (cases "\<exists>inp. op = OwSettle inp")
  case True
  with assms show ?thesis by (auto intro: snapshots_ok_settle)
next
  case False
  then have "\<And>inp. op \<noteq> OwSettle inp" by blast
  from own_settlement_rows [OF assms(1) this] assms(2) show ?thesis by (simp add: snapshots_ok_def)
qed

section \<open>The balance at the commit barrier\<close>

text \<open>
  From its authorization on, until it is finalized, the account of a handoff holds the balance of
  the authorized snapshot.
\<close>

definition barrier_ok :: "ownership_db \<Rightarrow> bool" where
  "barrier_ok s \<longleftrightarrow>
     (\<forall>h \<in> set (db_handoffs (od_pay s)). \<forall>a \<in> set (db_commit_authorizations (od_pay s)). \<forall>b \<in> set (od_snapshots s).
        (oh_Phase h = HandoffCommitAuthorized \<or> oh_Phase h = HandoffFinalizing) \<and> hca_OperationID a = oh_ID h \<and>
        bs_OperationID b = oh_ID h \<and> bs_Version b = hca_SnapshotVersion a \<longrightarrow>
        ledger_sum (oh_AccountID h) (od_pay s) = bs_BalanceMinor b)"

interpretation oauth: transfer_frame "\<lambda>d. db_commit_authorizations d = v" for v
  by unfold_locales (auto simp: touch_account_def sql_insert_account_def sql_insert_period_def sql_update_account_def
    sql_update_policy_def drawn_def Let_def split: if_splits option.splits)

lemma authorizations_kept:
  assumes "own_exec D E op s = Inr s'" and "\<And>inp. op \<noteq> OwAuthorize inp"
  shows "db_commit_authorizations (od_pay s') = db_commit_authorizations (od_pay s)"
proof (rule oauth.P_transfer_exec [OF assms(1) refl assms(2)])
  fix sop
  assume "exec (dig_reversal D) E sop (od_pay s) = Inr (od_pay s')" "\<not> is_fence_op sop"
  from fence.P_exec_store [OF this(1) refl this(2)]
  show "db_commit_authorizations (od_pay s') = db_commit_authorizations (od_pay s)" by (simp add: fences_def)
qed

text \<open>A pending row was pending before, unless it has just been authorized.\<close>

lemma pending_before:
  assumes "own_exec D E op s = Inr s'" and inv: "handoff_inv (file_of s)" and "\<And>inp. op \<noteq> OwAuthorize inp"
    and h': "h' \<in> set (db_handoffs (od_pay s'))" "oh_Phase h' = HandoffCommitAuthorized \<or> oh_Phase h' = HandoffFinalizing"
  obtains h where "h \<in> set (db_handoffs (od_pay s))" and "oh_Phase h = HandoffCommitAuthorized \<or> oh_Phase h = HandoffFinalizing"
    and "oh_ID h = oh_ID h'" and "oh_AccountID h = oh_AccountID h'"
    and "filter (\<lambda>b. bs_OperationID b = oh_ID h') (od_snapshots s') = filter (\<lambda>b. bs_OperationID b = oh_ID h') (od_snapshots s)"
proof -
  let ?f = "file_of s (oh_ID h')" and ?f' = "file_of s' (oh_ID h')"
  have mem: "h' \<in> set (hf_handoffs ?f')" using h' by (simp add: file_of_def)
  have auths: "hf_authorizations ?f' = hf_authorizations ?f"
    using authorizations_kept [OF assms(1,3)] by (simp add: file_of_def)
  from own_exec_handoff [OF assms(1) inv] have "?f' = ?f \<or> file_step ?f ?f'"
    by (auto elim!: handoff_step.cases simp: fun_eq_iff)
  then have "\<exists>h. h \<in> set (hf_handoffs ?f) \<and> (oh_Phase h = HandoffCommitAuthorized \<or> oh_Phase h = HandoffFinalizing) \<and>
      oh_ID h = oh_ID h' \<and> oh_AccountID h = oh_AccountID h' \<and> hf_snapshots ?f' = hf_snapshots ?f"
  proof
    assume "?f' = ?f"
    then show ?thesis using mem h'(2) by auto
  next
    assume "file_step ?f ?f'"
    then show ?thesis using mem h'(2) auths by cases (auto simp: phase_defs)
  qed
  then show thesis using that by (auto simp: file_of_def)
qed

lemma barrier_other:
  assumes "own_exec D E op s = Inr s'" and "handoff_inv (file_of s)" and "\<And>inp. op \<noteq> OwAuthorize inp" and ok: "barrier_ok s"
  shows "barrier_ok s'"
  unfolding barrier_ok_def
proof (intro ballI impI)
  fix h' a b
  assume h': "h' \<in> set (db_handoffs (od_pay s'))" and a: "a \<in> set (db_commit_authorizations (od_pay s'))"
    and b: "b \<in> set (od_snapshots s')"
    and c: "(oh_Phase h' = HandoffCommitAuthorized \<or> oh_Phase h' = HandoffFinalizing) \<and> hca_OperationID a = oh_ID h' \<and>
      bs_OperationID b = oh_ID h' \<and> bs_Version b = hca_SnapshotVersion a"
  obtain h where h: "h \<in> set (db_handoffs (od_pay s))" "oh_Phase h = HandoffCommitAuthorized \<or> oh_Phase h = HandoffFinalizing"
      and same: "oh_ID h = oh_ID h'" "oh_AccountID h = oh_AccountID h'"
      and snaps: "filter (\<lambda>b. bs_OperationID b = oh_ID h') (od_snapshots s') = filter (\<lambda>b. bs_OperationID b = oh_ID h') (od_snapshots s)"
    by (rule pending_before [OF assms(1-3) h' conjunct1 [OF c]])
  have "b \<in> set (od_snapshots s)" using b c arg_cong [OF snaps, of set] by auto
  moreover have "a \<in> set (db_commit_authorizations (od_pay s))" using a authorizations_kept [OF assms(1,3)] by simp
  ultimately have "ledger_sum (oh_AccountID h) (od_pay s) = bs_BalanceMinor b"
    using ok h same c unfolding barrier_ok_def by metis
  moreover have "commit_pending (od_pay s) (oh_AccountID h)" using h by (auto simp: commit_pending_def list_ex_iff)
  ultimately show "ledger_sum (oh_AccountID h') (od_pay s') = bs_BalanceMinor b"
    using barrier_ledger [OF assms(1)] same by (simp add: ledger_sum_def)
qed

text \<open>The account an operation locks.\<close>

lemma locked_account:
  assumes "lockHandoffOperationTx scope s = Inr (account, op)"
  shows "account \<in> set (db_accounts (od_pay s))" and "ca_ID account = oh_AccountID op" and "op \<in> set (db_handoffs (od_pay s))"
    and "oh_OwnershipVersion op = hs_OwnershipVersion scope"
  using assms by (auto simp: lockHandoffOperationTx_def find_org_account_def split: if_splits dest!: find_Some_mem)

lemma authorized_balance:
  assumes "AuthorizeHandoffCommit (dig_state D) dg E inp s = Inr (r, s')" and "s' \<noteq> s" and wf: "wf_books (books_of (od_pay s))"
    and ok: "snapshots_ok D s" and dig: "balance_digest (dig_state D)"
    and b: "b \<in> set (od_snapshots s)" "bs_OperationID b = hca_OperationID r" "bs_Version b = hca_SnapshotVersion r"
    and h: "h \<in> set (db_handoffs (od_pay s))" "oh_ID h = hca_OperationID r" and inv: "handoff_inv (file_of s)"
  shows "ledger_sum (oh_AccountID h) (od_pay s) = bs_BalanceMinor b"
proof -
  obtain account op status snap where load: "loadHandoffScopeTx (ahc_Scope inp) s = Inr (account, op)"
      and status: "handoffSettlementStatusTx (dig_state D) account op s = Inr status" "hst_Snapshot status = Some snap"
      and grant: "hca_OperationID r = oh_ID op" "hca_SnapshotVersion r = hbs_Version snap"
    by (rule authorize_new [OF assms(1,2)])
  note lock = loadHandoffScope_lock [OF load]
  have "h \<in> set (hf_handoffs (file_of s (oh_ID op)))" using h grant(1) by (simp add: file_of_def)
  then have op: "h = op" using locked_file(1) [OF lock inv] by simp
  obtain st c where cap: "captureSettlementStateTx (dig_state D) account s = Inr st"
      and c: "find_receipt s (oh_ID op) (oh_Version op) = Some c" "sr_StateSHA256 c = ss_SHA256 st"
      and v: "hbs_Version snap = oh_Version op"
    by (rule status_snapshot_row [OF status]) (auto dest!: find_Some_mem)
  have "c \<in> set (od_receipts s)" "sr_OperationID c = bs_OperationID b" "sr_OperationVersion c = bs_Version b"
    using c(1) b grant v by (auto simp: find_receipt_def dest!: find_Some_mem)
  with ok b(1) obtain w where w: "sr_StateSHA256 c = dig_state D w" "view_balance w = bs_BalanceMinor b"
    unfolding snapshots_ok_def by blast
  have "dig_state D (settlement_view_of account s) = dig_state D w" using w(1) c(2) capture_state [OF cap] by simp
  then have "view_balance (settlement_view_of account s) = view_balance w" using dig unfolding balance_digest_def by blast
  then have "ca_AvailableBalanceMinor account = bs_BalanceMinor b" using w(2) by simp
  then show ?thesis using balance_ledger_sum [OF wf locked_account(1) [OF lock]] locked_account(2) [OF lock] op by simp
qed

lemma barrier_authorize:
  assumes "AuthorizeHandoffCommit (dig_state D) dg E inp s = Inr (r, s')" and wf: "wf_books (books_of (od_pay s))"
    and ok: "snapshots_ok D s" and dig: "balance_digest (dig_state D)" and inv: "handoff_inv (file_of s)"
    and bar: "barrier_ok s"
  shows "barrier_ok s'"
proof (cases "s' = s")
  case False
  obtain account op status snap where grant: "hca_OperationID r = oh_ID op" and none: "find_authorization s (oh_ID op) = None"
      and s': "s' = handoffProtocolAuditTx (ahc_Scope inp) ''authorize_commit'' (ahc_AuthorizationID inp) (dg inp)
        (s\<lparr>od_pay := sql_update_handoff E op (set_phase HandoffCommitAuthorized)
          ((od_pay s)\<lparr>db_commit_authorizations := db_commit_authorizations (od_pay s) @ [r]\<rparr>)\<rparr>)"
    by (rule authorize_new [OF assms(1) False])
  have same: "ledger_of x (od_pay s') = ledger_of x (od_pay s)" "od_snapshots s' = od_snapshots s"
      "db_commit_authorizations (od_pay s') = db_commit_authorizations (od_pay s) @ [r]"
      "db_handoffs (od_pay s') = update_where (\<lambda>h. oh_ID h = oh_ID op) (set_phase HandoffCommitAuthorized) (db_handoffs (od_pay s))" for x
    by (simp_all add: s' ledger_of_def handoffProtocolAuditTx_def sql_insert_audit_def sql_update_handoff_def touch_account_def)
  show ?thesis
    unfolding barrier_ok_def
  proof (intro ballI impI)
    fix h' a b
    assume h': "h' \<in> set (db_handoffs (od_pay s'))" and a: "a \<in> set (db_commit_authorizations (od_pay s'))"
      and b: "b \<in> set (od_snapshots s')"
      and c: "(oh_Phase h' = HandoffCommitAuthorized \<or> oh_Phase h' = HandoffFinalizing) \<and> hca_OperationID a = oh_ID h' \<and>
        bs_OperationID b = oh_ID h' \<and> bs_Version b = hca_SnapshotVersion a"
    from h' obtain h where h: "h \<in> set (db_handoffs (od_pay s))"
        "h' = (if oh_ID h = oh_ID op then set_phase HandoffCommitAuthorized h else h)"
      by (auto simp: same(4) set_update_where)
    have ids: "oh_ID h' = oh_ID h" "oh_AccountID h' = oh_AccountID h" by (simp_all add: h(2) set_phase_def)
    have "ledger_sum (oh_AccountID h) (od_pay s) = bs_BalanceMinor b"
    proof (cases "oh_ID h = oh_ID op")
      case True
      have "a \<noteq> x" if "x \<in> set (db_commit_authorizations (od_pay s))" for x
        using that none c True ids by (auto simp: find_authorization_def find_None_iff)
      then have "a = r" using a by (auto simp: same(3))
      then show ?thesis
        using authorized_balance [OF assms(1) False wf ok dig _ _ _ h(1) _ inv] b c True grant ids by (simp add: same(2))
    next
      case False
      then have "a \<in> set (db_commit_authorizations (od_pay s))" using a c grant ids by (auto simp: same(3))
      then show ?thesis using bar h b c False ids unfolding barrier_ok_def same(2) by auto
    qed
    then show "ledger_sum (oh_AccountID h') (od_pay s') = bs_BalanceMinor b" by (simp add: ledger_sum_def same(1) ids)
  qed
qed (use bar in simp)

section \<open>The opening balance\<close>

text \<open>A finalized handoff opened a period with these values.\<close>

definition opened :: "(string \<Rightarrow> handoff_file) \<Rightarrow> string \<times> string \<times> string \<times> int option \<Rightarrow> bool" where
  "opened F k = (case k of (operation, account, owner, balance) \<Rightarrow>
     \<exists>h a b. hf_handoffs (F operation) = [h] \<and> oh_Phase h = HandoffFinalized \<and> oh_AccountID h = account \<and>
       oh_TargetUserID h = owner \<and> a \<in> set (hf_authorizations (F operation)) \<and> b \<in> set (hf_snapshots (F operation)) \<and>
       bs_Version b = hca_SnapshotVersion a \<and> balance = Some (bs_BalanceMinor b))"

definition opening_key :: "responsibility_period \<Rightarrow> string \<times> string \<times> string \<times> int option" where
  "opening_key p = (rp_OpeningOperationID p, rp_AccountID p, rp_OwnerUserID p, rp_OpeningBalanceMinor p)"

definition openings :: "payment_db \<Rightarrow> (string \<times> string \<times> string \<times> int option) list" where
  "openings d = map opening_key (filter (\<lambda>p. rp_OpeningOperationID p \<noteq> []) (db_periods d))"

definition opening_ok :: "ownership_db \<Rightarrow> bool" where
  "opening_ok s \<longleftrightarrow> (\<forall>k \<in> set (openings (od_pay s)). opened (file_of s) k)"

lemma opened_grow: "opened F k \<Longrightarrow> handoffs_grow F F' \<Longrightarrow> opened F' k"
proof -
  assume "opened F k" and grow: "handoffs_grow F F'"
  then obtain op x u bal h a b where k: "k = (op, x, u, bal)" and h: "hf_handoffs (F op) = [h]" "oh_Phase h = HandoffFinalized"
      "oh_AccountID h = x" "oh_TargetUserID h = u" and ab: "a \<in> set (hf_authorizations (F op))" "b \<in> set (hf_snapshots (F op))"
      "bs_Version b = hca_SnapshotVersion a" "bal = Some (bs_BalanceMinor b)"
    by (auto simp: opened_def)
  have f: "file_grow (F op) (F' op)" using grow by (simp add: handoffs_grow_def)
  then have "hf_handoffs (F' op) = [h]" using h by (auto simp: file_grow_def list_all2_Cons1 same_handoff_def)
  moreover have "a \<in> set (hf_authorizations (F' op))" "b \<in> set (hf_snapshots (F' op))"
    using f ab by (auto simp: file_grow_def dest!: set_mono_prefix)
  ultimately show ?thesis using k h ab by (auto simp: opened_def)
qed

lemma openings_end:
  assumes "distinct (map rp_ID ps)" and "old \<in> set ps"
  shows "map opening_key (filter (\<lambda>p. rp_OpeningOperationID p \<noteq> [])
     (update_where (\<lambda>r. rp_ID r = rp_ID old) (\<lambda>_. old\<lparr>rp_EffectiveUntil := t\<rparr>) ps)) =
   map opening_key (filter (\<lambda>p. rp_OpeningOperationID p \<noteq> []) ps)"
proof -
  have "r = old" if "r \<in> set ps" "rp_ID r = rp_ID old" for r
    using that assms by (auto simp: distinct_map dest: inj_onD)
  then show ?thesis by (induction ps) (auto simp: opening_key_def)
qed

interpretation oopen: grant_frame "\<lambda>d. responsibility_ok d \<and> openings d = v" for v
proof unfold_locales
  show "responsibility_ok d2 \<and> openings d2 = v"
    if "sql_insert_account E org c d = Inr (a, d1)" "sql_insert_period E p d1 = Inr d2" "rp_AccountID p = ca_ID a"
      "rp_EffectiveUntil p = None" "rp_OpeningOperationID p = []" "responsibility_ok d \<and> openings d = v" for E org c d a d1 p d2
    using resp.P_bootstrap [OF that(1-5)] that
    by (auto simp: sql_insert_account_def sql_insert_period_def openings_def Let_def touch_account_def drawn_def split: if_splits)
next
  show "responsibility_ok d' \<and> openings d' = v"
    if "sql_insert_period E p d = Inr d'" "find_account d (rp_AccountID p) \<noteq> None"
      "\<forall>q \<in> set (db_periods d). rp_AccountID q \<noteq> rp_AccountID p" "rp_EffectiveUntil p = None" "rp_OpeningOperationID p = []"
      "responsibility_ok d \<and> openings d = v" for E p d d'
    using resp.P_first_period [OF that(1-5)] that
    by (auto simp: sql_insert_period_def openings_def Let_def touch_account_def drawn_def split: if_splits)
next
  show "responsibility_ok (d\<lparr>db_periods := update_where (\<lambda>r. rp_ID r = rp_ID old) (\<lambda>_. old\<lparr>rp_EffectiveUntil := Some u\<rparr>) (db_periods d)\<rparr>) \<and>
      openings (d\<lparr>db_periods := update_where (\<lambda>r. rp_ID r = rp_ID old) (\<lambda>_. old\<lparr>rp_EffectiveUntil := Some u\<rparr>) (db_periods d)\<rparr>) = v"
    if "find q (db_periods d) = Some old" "rp_EffectiveUntil old = None" "rp_EffectiveFrom old < u"
      "responsibility_ok d \<and> openings d = v" for q d old u
    using resp.P_ended [OF that(1-3)] openings_end [of "db_periods d" old] that
    by (auto simp: openings_def responsibility_ok_def dest: find_Some_mem)
next
  show "responsibility_ok d' \<and> openings d' = v" if "sql_update_policy E q g d = Inr (u, d')"
      "\<And>p. atp_ID (g p) = atp_ID p \<and> atp_AccountID (g p) = atp_AccountID p" "responsibility_ok d \<and> openings d = v" for E q g d u d'
    using resp.P_own_policy [OF that(1,2)] that(3) by (simp add: openings_def update_policy_tables [OF that(1)])
next
  show "responsibility_ok d' \<and> openings d' = v"
    if "sql_update_account E x (\<lambda>a. a\<lparr>ca_State := st, ca_Version := ca_Version a + 1\<rparr>) d = Inr (a', d')"
      "responsibility_ok d \<and> openings d = v" for E x st d a' d'
    using resp.P_close_state [OF that(1)] that
    by (auto simp: sql_update_account_def openings_def Let_def split: option.splits if_splits)
next
  show "responsibility_ok (touch_account E x d) \<and> openings (touch_account E x d) = v"
    if "responsibility_ok d \<and> openings d = v" for d E x
    using that responsibility_touch by (simp add: openings_def touch_account_def)
qed (simp_all add: responsibility_ok_def openings_def periods_of_def)

lemma openings_kept:
  assumes "own_exec D E op s = Inr s'" and "\<And>inp. op \<noteq> OwFinalize inp" and "responsibility_ok (od_pay s)"
    and "good_env E" and "wf_books (books_of (od_pay s))"
  shows "openings (od_pay s') = openings (od_pay s)"
proof -
  have "responsibility_ok (od_pay s') \<and> openings (od_pay s') = openings (od_pay s)"
  proof (rule oopen.P_grant_exec [OF assms(1) _ assms(2)])
    fix sop
    assume ex: "exec (dig_reversal D) E sop (od_pay s) = Inr (od_pay s')" "\<not> is_fence_op sop"
    have "db_periods (od_pay s') = db_periods (od_pay s)" using fence.P_exec_store [OF ex(1) refl ex(2)] by (simp add: fences_def)
    then show "responsibility_ok (od_pay s') \<and> openings (od_pay s') = openings (od_pay s)"
      using responsibility_store [OF ex assms(4,5,3)] by (simp add: openings_def)
  qed (use assms(3) in simp)
  then show ?thesis ..
qed

lemma phase_evidence_authorized:
  assumes "phase_evidence f h" and "committing (oh_Phase h)"
  obtains a b where "hf_authorizations f = [a]" and "b \<in> set (hf_snapshots f)" and "bs_Version b = hca_SnapshotVersion a"
    and "confirms f (hca_SnapshotVersion a) (oh_SourceUserID h)" and "confirms f (hca_SnapshotVersion a) (oh_TargetUserID h)"
proof -
  have "length (hf_authorizations f) = 1" using assms by (auto simp: phase_evidence_def le_Suc_eq)
  then obtain a where a: "hf_authorizations f = [a]" by (auto simp: length_Suc_conv)
  then have "authorization_ok f h a" using assms(1) by (simp add: phase_evidence_def)
  then show thesis using that a by (auto simp: authorization_ok_def has_snapshot_def)
qed

lemma opened_finalize:
  assumes fin: "finalize_tx sha E inp dg s = Inr (r, s')" and new: "s' \<noteq> s" and wf: "wf_books (books_of (od_pay s))"
    and inv: "handoff_inv (file_of s)" and bar: "barrier_ok s" and resp: "responsibility_ok (od_pay s)"
    and grow: "handoffs_grow (file_of s) (file_of s')"
  shows "\<exists>ks. openings (od_pay s') = openings (od_pay s) @ ks \<and> (\<forall>k \<in> set ks. opened (file_of s') k)"
proof -
  obtain account op s1 where lock: "lockHandoffOperationTx (fhi_Scope inp) s = Inr (account, op)"
      and phase: "oh_Phase op = HandoffFinalizing"
      and transfer: "transfer_responsibility E inp account op
        (s\<lparr>od_finalizations := od_finalizations s @ [decision_of (oh_ID op) dg inp]\<rparr>) = Inr s1"
      and s': "s' = handoffProtocolAuditTx (fhi_Scope inp) ''finalize'' (fhi_AuthorizationID inp) dg
        (pay (sql_update_handoff E op (set_phase HandoffFinalized)) s1)"
    by (rule handoff_finalized_new [OF fin new])
  obtain old p where old: "old \<in> set (db_periods (od_pay s))"
      and periods: "db_periods (od_pay s1) = update_where (\<lambda>r. rp_ID r = rp_ID old)
       (\<lambda>_. old\<lparr>rp_EffectiveUntil := Some (db_time (fhi_CommittedAt inp))\<rparr>) (db_periods (od_pay s)) @ [p]"
      and p: "rp_AccountID p = ca_ID account" "rp_OwnerUserID p = oh_TargetUserID op" "rp_OpeningOperationID p = oh_ID op"
        "rp_OpeningBalanceMinor p = Some (ca_AvailableBalanceMinor account)"
    by (rule transfer_rows [OF transfer]) (auto dest!: find_Some_mem)
  have s1: "db_periods (od_pay s') = db_periods (od_pay s1)"
    by (simp add: s' handoffProtocolAuditTx_def sql_insert_audit_def sql_update_handoff_def touch_account_def)
  have dist: "distinct (map rp_ID (db_periods (od_pay s)))" using resp by (simp add: responsibility_ok_def)
  have openings: "openings (od_pay s') = openings (od_pay s) @ (if oh_ID op = [] then [] else [opening_key p])"
    by (simp add: openings_def s1 periods openings_end [OF dist old] p)
  note row = locked_file [OF lock inv] and acc = locked_account [OF lock]
  obtain a b where ab: "hf_authorizations (file_of s (oh_ID op)) = [a]" "b \<in> set (hf_snapshots (file_of s (oh_ID op)))"
      "bs_Version b = hca_SnapshotVersion a"
    by (rule phase_evidence_authorized [OF row(2)]) (simp add: phase committing_def)
  have "a \<in> set (hf_authorizations (file_of s (oh_ID op)))" using ab(1) by simp
  then have "ledger_sum (oh_AccountID op) (od_pay s) = bs_BalanceMinor b"
    using bar acc(3) phase ab(2,3) unfolding barrier_ok_def file_of_def by auto
  then have bal: "ca_AvailableBalanceMinor account = bs_BalanceMinor b"
    using balance_ledger_sum [OF wf acc(1)] acc(2) by simp
  have f: "file_grow (file_of s (oh_ID op)) (file_of s' (oh_ID op))" using grow by (simp add: handoffs_grow_def)
  have "file_of s1 = file_of (s\<lparr>od_finalizations := od_finalizations s @ [decision_of (oh_ID op) dg inp]\<rparr>)"
    using transfer_tables [OF transfer] rows_transfer [OF transfer] by (intro file_of_cong) simp_all
  then have "hf_handoffs (file_of s1 (oh_ID op)) = [op]" using row(1) by (simp add: file_of_def)
  then have "hf_handoffs (file_of s' (oh_ID op)) = [set_phase HandoffFinalized op]" by (simp add: s' file_updates)
  moreover have "a \<in> set (hf_authorizations (file_of s' (oh_ID op)))" "b \<in> set (hf_snapshots (file_of s' (oh_ID op)))"
    using f ab by (auto simp: file_grow_def dest!: set_mono_prefix)
  ultimately have "opened (file_of s') (opening_key p)"
    using p bal ab(3) acc(2) by (auto simp: opened_def opening_key_def set_phase_def)
  then show ?thesis
    using openings by (intro exI [of _ "if oh_ID op = [] then [] else [opening_key p]"]) simp
qed

definition handoff_safe :: "digests \<Rightarrow> ownership_db \<Rightarrow> bool" where
  "handoff_safe D s \<longleftrightarrow> snapshots_ok D s \<and> barrier_ok s \<and> opening_ok s"

lemma handoff_safe_step:
  assumes r: "own_reachable D s" and step: "own_step D s s'" and safe: "handoff_safe D s" and dig: "balance_digest (dig_state D)"
  shows "handoff_safe D s'"
proof -
  from step obtain E op where E: "good_env E" and ex: "own_exec D E op s = Inr s'" by (rule own_stepE)
  note wf = own_reachable_wf [OF r] and inv = own_reachable_handoff [OF r] and resp = own_reachable_responsibility [OF r]
  have grow: "handoffs_grow (file_of s) (file_of s')" using hand.runs_grow [of D s s'] step inv by blast
  have snaps: "snapshots_ok D s'" using own_exec_snapshots [OF ex] safe by (simp add: handoff_safe_def)
  have "barrier_ok s'"
  proof (cases "\<exists>inp. op = OwAuthorize inp")
    case True
    then obtain inp where "op = OwAuthorize inp" by blast
    with ex obtain g where "AuthorizeHandoffCommit (dig_state D) (dig_authorize D) E inp s = Inr (g, s')" by auto
    from barrier_authorize [OF this wf _ dig inv] safe show ?thesis by (simp add: handoff_safe_def)
  next
    case False
    then show ?thesis using barrier_other [OF ex inv] safe by (auto simp: handoff_safe_def)
  qed
  moreover have "opening_ok s'"
  proof (cases "\<exists>inp. op = OwFinalize inp")
    case True
    then obtain inp0 inp dg g where "finalize_tx (dig_state D) E inp dg s = Inr (g, s')" using ex by auto
    then have "s' \<noteq> s \<Longrightarrow> \<exists>ks. openings (od_pay s') = openings (od_pay s) @ ks \<and>
        (\<forall>k \<in> set ks. opened (file_of s') k)"
      using opened_finalize [OF _ _ wf inv _ resp grow] safe by (auto simp: handoff_safe_def)
    then show ?thesis using safe opened_grow [OF _ grow] by (cases "s' = s") (auto simp: handoff_safe_def opening_ok_def)
  next
    case False
    then have "openings (od_pay s') = openings (od_pay s)" using openings_kept [OF ex _ resp E wf] by blast
    then show ?thesis using safe opened_grow [OF _ grow] by (auto simp: handoff_safe_def opening_ok_def)
  qed
  ultimately show ?thesis using snaps by (simp add: handoff_safe_def)
qed

lemma own_reachable_safe:
  assumes "own_reachable D s" and "balance_digest (dig_state D)"
  shows "handoff_safe D s"
  using assms(1)
proof (induction rule: rtranclp_induct)
  case base
  show ?case by (simp add: handoff_safe_def snapshots_ok_def barrier_ok_def opening_ok_def openings_def empty_ownership_db_def empty_db_def)
qed (use handoff_safe_step assms(2) in blast)

section \<open>Properties\<close>

text \<open>(C5)
  In every state the store and the protocols reach, a period that a handoff opened belongs to the
  target of a finalized handoff of its account, and it opens with the balance of a snapshot that
  both participants confirmed and that the commit was authorized for: the successor takes over
  exactly the balance the two agreed on, provided that the digest of the settlement state tells
  balances apart.
\<close>

theorem successor_opens_with_confirmed_balance:
  assumes "own_reachable D s" and "balance_digest (dig_state D)"
    and "p \<in> set (db_periods (od_pay s))" and "rp_OpeningOperationID p \<noteq> []"
  shows "\<exists>h \<in> set (db_handoffs (od_pay s)). \<exists>a \<in> set (db_commit_authorizations (od_pay s)). \<exists>b \<in> set (od_snapshots s).
    oh_ID h = rp_OpeningOperationID p \<and> oh_AccountID h = rp_AccountID p \<and> oh_TargetUserID h = rp_OwnerUserID p \<and>
    oh_Phase h = HandoffFinalized \<and> hca_OperationID a = oh_ID h \<and> bs_OperationID b = oh_ID h \<and>
    bs_Version b = hca_SnapshotVersion a \<and> rp_OpeningBalanceMinor p = Some (bs_BalanceMinor b) \<and>
    confirmed s (oh_ID h) (bs_Version b) (oh_SourceUserID h) \<and> confirmed s (oh_ID h) (bs_Version b) (oh_TargetUserID h)"
proof -
  let ?f = "file_of s (rp_OpeningOperationID p)"
  have "opened (file_of s) (opening_key p)"
    using own_reachable_safe [OF assms(1,2)] assms(3,4) by (auto simp: handoff_safe_def opening_ok_def openings_def)
  then obtain h a b where h: "hf_handoffs ?f = [h]" "oh_Phase h = HandoffFinalized" "oh_AccountID h = rp_AccountID p"
      "oh_TargetUserID h = rp_OwnerUserID p" and ab: "a \<in> set (hf_authorizations ?f)" "b \<in> set (hf_snapshots ?f)"
      "bs_Version b = hca_SnapshotVersion a" "rp_OpeningBalanceMinor p = Some (bs_BalanceMinor b)"
    by (auto simp: opened_def opening_key_def)
  have mem: "h \<in> set (db_handoffs (od_pay s))" "oh_ID h = rp_OpeningOperationID p"
      "a \<in> set (db_commit_authorizations (od_pay s))" "hca_OperationID a = rp_OpeningOperationID p"
      "b \<in> set (od_snapshots s)" "bs_OperationID b = rp_OpeningOperationID p"
    using arg_cong [OF h(1), of set] ab(1,2) by (auto simp: file_of_def)
  have "phase_evidence ?f h"
    using own_reachable_handoff [OF assms(1)] h(1) by (auto simp: handoff_inv_def file_inv_def split: list.splits)
  then have "authorization_ok ?f h a" using ab(1) by (simp add: phase_evidence_def)
  then have "confirmed s (oh_ID h) (bs_Version b) (oh_SourceUserID h)" "confirmed s (oh_ID h) (bs_Version b) (oh_TargetUserID h)"
    using ab(3) mem(2) by (simp_all add: authorization_ok_def confirmed_iff)
  then show ?thesis
    using mem h ab by (intro bexI [of _ h] bexI [of _ a] bexI [of _ b]) simp_all
qed

text \<open>(C6)
  A handoff is committed or canceled, never both: where the decision of a commit is recorded for an
  operation no cancellation of it is, and a finalized handoff has its authorization, its decision
  and one finalization.
\<close>

theorem handoff_commits_or_cancels:
  assumes "own_reachable D s" and "h \<in> set (db_handoffs (od_pay s))"
  shows "\<not> (list_ex (\<lambda>d. hcd_OperationID d = oh_ID h) (db_committed_decisions (od_pay s)) \<and>
       list_ex (\<lambda>c. hcx_OperationID c = oh_ID h) (od_cancellations s)) \<and>
    (oh_Phase h = HandoffAborted \<longrightarrow> \<not> list_ex (\<lambda>d. hcd_OperationID d = oh_ID h) (db_committed_decisions (od_pay s))) \<and>
    (oh_Phase h = HandoffFinalized \<longrightarrow> find_authorization s (oh_ID h) \<noteq> None \<and>
       list_ex (\<lambda>d. hcd_OperationID d = oh_ID h) (db_committed_decisions (od_pay s)) \<and>
       length (filter (\<lambda>d. hcd_OperationID d = oh_ID h) (od_finalizations s)) = 1)"
proof -
  let ?f = "file_of s (oh_ID h)"
  have "h \<in> set (hf_handoffs ?f)" using assms(2) by (simp add: file_of_def)
  then have ev: "phase_evidence ?f h"
    using file_inv_single own_reachable_handoff [OF assms(1)] by (simp add: handoff_inv_def)
  have "list_ex (\<lambda>d. hcd_OperationID d = oh_ID h) (db_committed_decisions (od_pay s)) \<longleftrightarrow> hf_decisions ?f \<noteq> []"
      "list_ex (\<lambda>c. hcx_OperationID c = oh_ID h) (od_cancellations s) \<longleftrightarrow> hf_cancellations ?f \<noteq> []"
      "find_authorization s (oh_ID h) = None \<longleftrightarrow> hf_authorizations ?f = []"
      "filter (\<lambda>d. hcd_OperationID d = oh_ID h) (od_finalizations s) = hf_finalizations ?f"
    by (simp_all add: file_of_def list_ex_iff filter_empty_conv find_authorization_def find_None_iff Ball_def Bex_def)
  then show ?thesis using ev by (auto simp: phase_evidence_def phase_defs split: if_splits)
qed


text \<open>(C9)
  The periods of responsibility of an account form a chain: each ends where the next begins, the
  versions count up by one, and only the last may be open. So an account has one owner at a time.
\<close>

theorem responsibility_never_overlaps:
  assumes "own_reachable D s"
  shows "period_chain (periods_of x (od_pay s)) \<and>
    (\<forall>p \<in> set (db_periods (od_pay s)). rp_EffectiveUntil p = None \<longrightarrow> current_period (od_pay s) (rp_AccountID p) = Some p)"
  using own_reachable_responsibility [OF assms] open_period_unique by (auto simp: responsibility_ok_def)

text \<open>(C11)
  After a new finalization the target of the handoff is the current owner, with the next version and
  the balance of the account, and nothing of the predecessor stays in force: no method of the account
  is usable, every consent is revoked and no automatic top-up is enabled or armed.
\<close>

theorem finalize_hands_over:
  assumes "own_reachable D s" and "good_env E" and chk: "check_finalize (dig_finalize D) E inp0 = Inr (inp, dg)"
    and fin: "finalize_tx (dig_state D) E inp dg s = Inr (r, s')" and "s' \<noteq> s"
  shows "\<exists>account op p. lockHandoffOperationTx (fhi_Scope inp) s = Inr (account, op) \<and>
    current_period (od_pay s') (ca_ID account) = Some p \<and> rp_OwnerUserID p = oh_TargetUserID op \<and>
    rp_OwnershipVersion p = oh_OwnershipVersion op + 1 \<and>
    rp_OpeningBalanceMinor p = Some (ca_AvailableBalanceMinor account) \<and>
    (\<forall>m \<in> set (db_methods (od_pay s')). pm_AccountID m = ca_ID account \<longrightarrow> pm_Status m = PaymentMethodStatusRevoked) \<and>
    (\<forall>c \<in> set (db_consents (od_pay s')). pco_AccountID c = ca_ID account \<longrightarrow> pco_RevokedAt c \<noteq> None) \<and>
    (\<forall>q \<in> set (db_policies (od_pay s')). atp_AccountID q = ca_ID account \<longrightarrow> \<not> atp_Enabled q \<and> \<not> atp_Armed q)"
proof -
  obtain account op s1 where lock: "lockHandoffOperationTx (fhi_Scope inp) s = Inr (account, op)"
      and transfer: "transfer_responsibility E inp account op
        (s\<lparr>od_finalizations := od_finalizations s @ [decision_of (oh_ID op) dg inp]\<rparr>) = Inr s1"
      and s': "s' = handoffProtocolAuditTx (fhi_Scope inp) ''finalize'' (fhi_AuthorizationID inp) dg
        (pay (sql_update_handoff E op (set_phase HandoffFinalized)) s1)"
    by (rule handoff_finalized_new [OF fin assms(5)])
  obtain old p where p: "p \<in> set (db_periods (od_pay s1))" "rp_AccountID p = ca_ID account" "rp_OwnerUserID p = oh_TargetUserID op"
      "rp_OwnershipVersion p = fhi_CommittedOwnershipVersion inp" "rp_EffectiveUntil p = None"
      "rp_OpeningBalanceMinor p = Some (ca_AvailableBalanceMinor account)"
      and m: "db_methods (od_pay s1) = db_methods (revoke_methods E (\<lambda>m. pm_AccountID m = ca_ID account \<and>
        pm_Status m \<noteq> PaymentMethodStatusRevoked) (od_pay s))"
      and c: "db_consents (od_pay s1) = db_consents (revoke_consents E (\<lambda>c. pco_AccountID c = ca_ID account)
        ''ownership_transferred'' (od_pay s))"
      and q: "\<forall>q \<in> set (db_policies (od_pay s1)). atp_AccountID q = ca_ID account \<longrightarrow> \<not> atp_Enabled q \<and> \<not> atp_Armed q"
    by (rule transfer_rows [OF transfer]) (use own_reachable_policies [OF assms(1)] in auto)
  have same: "db_periods (od_pay s') = db_periods (od_pay s1)" "db_methods (od_pay s') = db_methods (od_pay s1)"
      "db_consents (od_pay s') = db_consents (od_pay s1)" "db_policies (od_pay s') = db_policies (od_pay s1)"
    by (simp_all add: s' handoffProtocolAuditTx_def sql_insert_audit_def sql_update_handoff_def touch_account_def)
  have "own_exec D E (OwFinalize inp0) s = Inr s'" using chk fin by simp
  then have "own_step D s s'" using assms(2) by (rule own_step.transaction [rotated])
  then have "own_reachable D s'" using assms(1) by (rule rtranclp.rtrancl_into_rtrancl [rotated])
  then have "current_period (od_pay s') (ca_ID account) = Some p"
    using open_period_unique [OF own_reachable_responsibility, of D s' p] p same(1) by simp
  moreover have "fhi_CommittedOwnershipVersion inp = oh_OwnershipVersion op + 1"
    using chk locked_account(4) [OF lock] by (auto simp: check_finalize_def Let_def split: if_splits sum.splits)
  ultimately show ?thesis
    using lock p q unfolding same m c
    by (intro exI [of _ account] exI [of _ op] exI [of _ p])
       (auto simp: revoke_methods_def revoke_consents_def set_update_where)
qed

end
