(* ===== verification/Closure_Safety.thy ===== *)
theory Closure_Safety
  imports Handoff_Safety
begin

text \<open>
  The closure of a cloud: the abstract machine of the closures with the evidence kept for them, its
  invariant, and that the stores refine it. A close command is executed or retired, a closure is
  closed or canceled, and an account is never in a handoff and in a closure at once.
\<close>

section \<open>The machine of the closures\<close>

record closure_view =
  cv_closures :: "CloudClosure list"
  cv_completions :: "closure_completion list"
  cv_cancellations :: "closure_cancellation list"
  cv_releases :: "release_ack list"
  cv_retired :: "retired_command list"

definition view_of :: "ownership_db \<Rightarrow> closure_view" where
  "view_of s = \<lparr>cv_closures = db_closures (od_pay s), cv_completions = od_completions s,
     cv_cancellations = od_closure_cancellations s, cv_releases = od_release_acks s, cv_retired = od_retired_commands s\<rparr>"

definition completed :: "closure_view \<Rightarrow> string \<Rightarrow> bool" where
  "completed v x \<longleftrightarrow> (\<exists>m \<in> set (cv_completions v). ccm_OperationID m = x)"

definition withdrawn :: "closure_view \<Rightarrow> string \<Rightarrow> bool" where
  "withdrawn v x \<longleftrightarrow> (\<exists>k \<in> set (cv_cancellations v). ccx_OperationID k = x)"

definition released :: "closure_view \<Rightarrow> string \<Rightarrow> bool" where
  "released v x \<longleftrightarrow> (\<exists>k \<in> set (cv_releases v). rla_OperationID k = x)"

definition retired :: "closure_view \<Rightarrow> string \<Rightarrow> string \<Rightarrow> bool" where
  "retired v x digest \<longleftrightarrow> (\<exists>r \<in> set (cv_retired v). rc_OperationID r = x \<and> rc_RequestSHA256 r = digest)"

definition move :: "CloudClosure \<Rightarrow> closure_phase \<Rightarrow> closure_view \<Rightarrow> closure_view" where
  "move c ph v = v\<lparr>cv_closures := update_where (\<lambda>q. cc_ID q = cc_ID c)
     (\<lambda>_. c\<lparr>cc_Phase := ph, cc_Version := cc_Version c + 1\<rparr>) (cv_closures v)\<rparr>"

definition find_closure :: "closure_view \<Rightarrow> string \<Rightarrow> CloudClosure option" where
  "find_closure v x = find (\<lambda>c. cc_ID c = x) (cv_closures v)"

inductive closure_step :: "closure_view \<Rightarrow> closure_view \<Rightarrow> bool" where
  prepare: "cc_Phase c = ClosurePreparing \<Longrightarrow> cc_ID c \<notin> cc_ID ` set (cv_closures v) \<Longrightarrow>
    closure_step v (v\<lparr>cv_closures := cv_closures v @ [c]\<rparr>)"
| close: "find_closure v (cc_ID c) = Some c \<Longrightarrow> cc_Phase c = ClosurePreparing \<Longrightarrow> ccm_OperationID m = cc_ID c \<Longrightarrow>
    \<not> completed v (cc_ID c) \<Longrightarrow> \<not> retired v (cc_ID c) (ccm_RequestSHA256 m) \<Longrightarrow>
    closure_step v (move c ClosureClosed (v\<lparr>cv_completions := cv_completions v @ [m]\<rparr>))"
| retire: "find_closure v (cc_ID c) = Some c \<Longrightarrow> cc_Phase c = ClosurePreparing \<Longrightarrow> rc_OperationID r = cc_ID c \<Longrightarrow>
    \<not> completed v (cc_ID c) \<Longrightarrow> closure_step v (v\<lparr>cv_retired := cv_retired v @ [r]\<rparr>)"
| cancel: "find_closure v (cc_ID c) = Some c \<Longrightarrow> cc_Phase c = ClosurePreparing \<Longrightarrow> ccx_OperationID k = cc_ID c \<Longrightarrow>
    \<not> withdrawn v (cc_ID c) \<Longrightarrow>
    closure_step v (move c ClosureCanceling (v\<lparr>cv_cancellations := cv_cancellations v @ [k]\<rparr>))"
| release: "find_closure v (cc_ID c) = Some c \<Longrightarrow> cc_Phase c = ClosureCanceling \<Longrightarrow> rla_OperationID a = cc_ID c \<Longrightarrow>
    \<not> released v (cc_ID c) \<Longrightarrow>
    closure_step v (move c ClosureCanceled (v\<lparr>cv_releases := cv_releases v @ [a]\<rparr>))"

section \<open>Its invariant\<close>

definition closure_evidence :: "closure_view \<Rightarrow> CloudClosure \<Rightarrow> bool" where
  "closure_evidence v c \<longleftrightarrow>
     (completed v (cc_ID c) \<longleftrightarrow> cc_Phase c = ClosureClosed) \<and>
     (withdrawn v (cc_ID c) \<longleftrightarrow> cc_Phase c = ClosureCanceling \<or> cc_Phase c = ClosureCanceled) \<and>
     (released v (cc_ID c) \<longleftrightarrow> cc_Phase c = ClosureCanceled)"

definition closures_inv :: "closure_view \<Rightarrow> bool" where
  "closures_inv v \<longleftrightarrow>
     distinct (map cc_ID (cv_closures v)) \<and> (\<forall>c \<in> set (cv_closures v). closure_evidence v c) \<and>
     (\<forall>x. completed v x \<or> withdrawn v x \<or> released v x \<longrightarrow> x \<in> cc_ID ` set (cv_closures v)) \<and>
     (\<forall>m \<in> set (cv_completions v). \<not> retired v (ccm_OperationID m) (ccm_RequestSHA256 m))"

lemmas closure_defs = closures_inv_def closure_evidence_def completed_def withdrawn_def released_def retired_def

lemma move_simps [simp]:
  "completed (move c ph v) x = completed v x" "withdrawn (move c ph v) x = withdrawn v x"
  "released (move c ph v) x = released v x" "retired (move c ph v) x d = retired v x d"
  "cv_completions (move c ph v) = cv_completions v"
  by (simp_all add: move_def completed_def withdrawn_def released_def retired_def)

lemma evidence_append [simp]:
  "completed (v\<lparr>cv_completions := cv_completions v @ [m]\<rparr>) x \<longleftrightarrow> completed v x \<or> ccm_OperationID m = x"
  "completed (v\<lparr>cv_cancellations := ks\<rparr>) x = completed v x" "completed (v\<lparr>cv_releases := rs\<rparr>) x = completed v x"
  "completed (v\<lparr>cv_retired := ts\<rparr>) x = completed v x" "completed (v\<lparr>cv_closures := cs\<rparr>) x = completed v x"
  "withdrawn (v\<lparr>cv_cancellations := cv_cancellations v @ [k]\<rparr>) x \<longleftrightarrow> withdrawn v x \<or> ccx_OperationID k = x"
  "withdrawn (v\<lparr>cv_completions := ms\<rparr>) x = withdrawn v x" "withdrawn (v\<lparr>cv_releases := rs\<rparr>) x = withdrawn v x"
  "withdrawn (v\<lparr>cv_retired := ts\<rparr>) x = withdrawn v x" "withdrawn (v\<lparr>cv_closures := cs\<rparr>) x = withdrawn v x"
  "released (v\<lparr>cv_releases := cv_releases v @ [a]\<rparr>) x \<longleftrightarrow> released v x \<or> rla_OperationID a = x"
  "released (v\<lparr>cv_completions := ms\<rparr>) x = released v x" "released (v\<lparr>cv_cancellations := ks\<rparr>) x = released v x"
  "released (v\<lparr>cv_retired := ts\<rparr>) x = released v x" "released (v\<lparr>cv_closures := cs\<rparr>) x = released v x"
  "retired (v\<lparr>cv_completions := ms\<rparr>) x d = retired v x d" "retired (v\<lparr>cv_cancellations := ks\<rparr>) x d = retired v x d"
  "retired (v\<lparr>cv_releases := rs\<rparr>) x d = retired v x d" "retired (v\<lparr>cv_closures := cs\<rparr>) x d = retired v x d"
  by (auto simp: completed_def withdrawn_def released_def retired_def)

text \<open>The rows a move leaves, with distinct ids.\<close>

lemma move_rows:
  assumes "distinct (map cc_ID (cv_closures v))" and "c \<in> set (cv_closures v)"
  shows "map cc_ID (cv_closures (move c ph v)) = map cc_ID (cv_closures v)"
    and "q \<in> set (cv_closures (move c ph v)) \<Longrightarrow>
      q = c\<lparr>cc_Phase := ph, cc_Version := cc_Version c + 1\<rparr> \<or> q \<in> set (cv_closures v) \<and> cc_ID q \<noteq> cc_ID c"
    and "cc_ID ` set (cv_closures (move c ph v)) = cc_ID ` set (cv_closures v)"
proof -
  show m: "map cc_ID (cv_closures (move c ph v)) = map cc_ID (cv_closures v)" by (simp add: move_def map_update_where)
  show "cc_ID ` set (cv_closures (move c ph v)) = cc_ID ` set (cv_closures v)" using arg_cong [OF m, of set] by simp
  show "q \<in> set (cv_closures (move c ph v)) \<Longrightarrow>
      q = c\<lparr>cc_Phase := ph, cc_Version := cc_Version c + 1\<rparr> \<or> q \<in> set (cv_closures v) \<and> cc_ID q \<noteq> cc_ID c"
    by (auto simp: move_def set_update_where)
qed

lemma closures_inv_move:
  assumes v: "closures_inv v" and c: "c \<in> set (cv_closures v)"
    and w: "cv_closures w = cv_closures v"
    and own: "closure_evidence w (c\<lparr>cc_Phase := ph, cc_Version := cc_Version c + 1\<rparr>)"
    and other: "\<And>x. x \<noteq> cc_ID c \<Longrightarrow> completed w x = completed v x \<and> withdrawn w x = withdrawn v x \<and> released w x = released v x"
    and cmd: "\<forall>m \<in> set (cv_completions w). \<not> retired w (ccm_OperationID m) (ccm_RequestSHA256 m)"
  shows "closures_inv (move c ph w)"
proof -
  have dist: "distinct (map cc_ID (cv_closures w))" and c': "c \<in> set (cv_closures w)" using v c w by (auto simp: closures_inv_def)
  note rows = move_rows [OF dist c', where ph = ph]
  have "closure_evidence (move c ph w) q" if "q \<in> set (cv_closures (move c ph w))" for q
    using rows(2) [OF that] own v other [of "cc_ID q"] w by (auto simp: closure_evidence_def closures_inv_def)
  moreover have "x \<in> cc_ID ` set (cv_closures w)" if "completed w x \<or> withdrawn w x \<or> released w x" for x
    using that v other [of x] c w by (cases "x = cc_ID c") (auto simp: closures_inv_def)
  ultimately show ?thesis using dist cmd by (simp add: closures_inv_def rows)
qed

lemma find_closure_mem: "find_closure v x = Some c \<Longrightarrow> c \<in> set (cv_closures v) \<and> cc_ID c = x"
  by (auto simp: find_closure_def dest: find_key_Some)

lemma closures_inv_step:
  assumes "closure_step v v'" and "closures_inv v"
  shows "closures_inv v'"
  using assms
proof (induction rule: closure_step.induct)
  case (prepare c v)
  then show ?case by (auto simp: closures_inv_def closure_evidence_def)
next
  case (close v c m)
  then show ?case
    by (intro closures_inv_move [where v = v]) (auto simp: closures_inv_def closure_evidence_def dest!: find_closure_mem)
next
  case (retire v c r)
  have "\<not> retired (v\<lparr>cv_retired := cv_retired v @ [r]\<rparr>) (ccm_OperationID m) (ccm_RequestSHA256 m)"
    if "m \<in> set (cv_completions v)" for m
    using that retire by (auto simp: closures_inv_def retired_def completed_def dest!: find_closure_mem)
  then show ?case using retire by (simp add: closures_inv_def closure_evidence_def)
next
  case (cancel v c k)
  then show ?case
    by (intro closures_inv_move [where v = v]) (auto simp: closures_inv_def closure_evidence_def dest!: find_closure_mem)
next
  case (release v c a)
  then show ?case
    by (intro closures_inv_move [where v = v]) (auto simp: closures_inv_def closure_evidence_def dest!: find_closure_mem)
qed

section \<open>How it grows\<close>

text \<open>A closure keeps its identity, and its phase once it is closed or canceled.\<close>

definition same_closure :: "CloudClosure \<Rightarrow> CloudClosure \<Rightarrow> bool" where
  "same_closure c c' \<longleftrightarrow> c' = c\<lparr>cc_Phase := cc_Phase c', cc_Version := cc_Version c'\<rparr> \<and>
     (cc_Phase c = ClosureClosed \<or> cc_Phase c = ClosureCanceled \<longrightarrow> c' = c)"

definition closures_grow :: "closure_view \<Rightarrow> closure_view \<Rightarrow> bool" where
  "closures_grow v v' \<longleftrightarrow>
     (\<forall>x c. find_closure v x = Some c \<longrightarrow> (\<exists>c'. find_closure v' x = Some c' \<and> same_closure c c')) \<and>
     prefix (cv_completions v) (cv_completions v') \<and> prefix (cv_retired v) (cv_retired v')"

lemma same_closure_refl: "same_closure c c"
  by (simp add: same_closure_def)

lemma same_closure_trans: "same_closure a b \<Longrightarrow> same_closure b c \<Longrightarrow> same_closure a c"
  by (cases a; cases b; cases c) (auto simp: same_closure_def)

lemma closures_grow_refl: "closures_grow v v"
  by (simp add: closures_grow_def same_closure_refl)

lemma closures_grow_trans:
  assumes "closures_grow u v" and "closures_grow v w"
  shows "closures_grow u w"
  unfolding closures_grow_def
proof (intro conjI allI impI)
  fix x c
  assume "find_closure u x = Some c"
  then show "\<exists>c'. find_closure w x = Some c' \<and> same_closure c c'"
    using assms same_closure_trans unfolding closures_grow_def by meson
qed (use assms in \<open>auto simp: closures_grow_def\<close>)

lemma grow_move:
  assumes "find_closure v x = Some q" and "find_closure v (cc_ID c) = Some c"
    and "cc_Phase c \<noteq> ClosureClosed" and "cc_Phase c \<noteq> ClosureCanceled" and "cv_closures w = cv_closures v"
  shows "\<exists>q'. find_closure (move c ph w) x = Some q' \<and> same_closure q q'"
proof -
  have x: "cc_ID q = x" using assms(1) by (auto simp: find_closure_def dest: find_key_Some)
  have "q = c" if "cc_ID q = cc_ID c"
  proof -
    from that x have "x = cc_ID c" by simp
    with assms(1,2) show ?thesis by simp
  qed
  then have "same_closure q (if cc_ID q = cc_ID c then c\<lparr>cc_Phase := ph, cc_Version := cc_Version c + 1\<rparr> else q)"
    using assms(3,4) by (cases "cc_ID q = cc_ID c") (auto simp: same_closure_def)
  moreover have "find_closure (move c ph w) x =
      Some (if cc_ID q = cc_ID c then c\<lparr>cc_Phase := ph, cc_Version := cc_Version c + 1\<rparr> else q)"
    using assms(1) by (simp add: find_closure_def move_def assms(5) find_key_update_where)
  ultimately show ?thesis by blast
qed

lemma move_tables [simp]:
  "cv_completions (move c ph v) = cv_completions v" "cv_retired (move c ph v) = cv_retired v"
  by (simp_all add: move_def)

lemma closures_grow_step: "closure_step v v' \<Longrightarrow> closures_grow v v'"
proof (induction rule: closure_step.induct)
  case (prepare c v)
  then show ?case by (auto simp: closures_grow_def find_closure_def find_append same_closure_refl)
next
  case (retire v c r)
  then show ?case by (auto simp: closures_grow_def find_closure_def same_closure_refl)
next
  case (close v c m)
  then show ?case using grow_move [OF _ close(1)] by (auto simp: closures_grow_def)
next
  case (cancel v c k)
  then show ?case using grow_move [OF _ cancel(1)] by (auto simp: closures_grow_def)
next
  case (release v c a)
  then show ?case using grow_move [OF _ release(1)] by (auto simp: closures_grow_def)
qed

section \<open>What leaves the closures alone\<close>

definition closure_rows :: "ownership_db \<Rightarrow> closure_completion list \<times> closure_cancellation list \<times> release_ack list \<times> retired_command list" where
  "closure_rows s = (od_completions s, od_closure_cancellations s, od_release_acks s, od_retired_commands s)"

fun is_closure_op :: "ownership_op \<Rightarrow> bool" where
  "is_closure_op (OwPrepareClosure _) = True"
| "is_closure_op (OwClose _) = True"
| "is_closure_op (OwRetire _) = True"
| "is_closure_op (OwCancel _ _ _) = True"
| "is_closure_op (OwCompleteCancel _ _ _) = True"
| "is_closure_op _ = False"

interpretation ocl: finalize_frame "\<lambda>d. db_closures d = v" for v
  by unfold_locales (auto simp: touch_account_def sql_insert_account_def sql_insert_period_def
    sql_update_policy_def drawn_def Let_def split: if_splits option.splits)

interpretation ocl: commit_frame "\<lambda>d. db_closures d = v" for v
  by unfold_locales simp

lemmas ocl_operations = ocl.P_InitializeResponsibility ocl.P_PrepareOwnershipHandoff ocl.P_RecordHandoffSettlement
  ocl.P_ConfirmHandoffSnapshot ocl.P_recordCommittedHandoffDecision ocl.P_AuthorizeHandoffCommit
  ocl.P_BeginOwnershipHandoffAbort ocl.P_CompleteOwnershipHandoffAbort ocl.P_BeginSetup ocl.P_CompleteSetup
  ocl.P_RecordCloudClosureRevocation ocl.P_RecordCloudClosureSettlement
  ocl.P_RecordCloudPreflightEvidence ocl.P_BootstrapBrandCloud

lemma closures_kept:
  assumes "own_exec D E op s = Inr s'" and "\<not> is_closure_op op"
  shows "db_closures (od_pay s') = db_closures (od_pay s)"
proof (cases op)
  case (OwStore sop)
  with assms(1) have ex: "\<not> is_fence_op sop" "exec (dig_reversal D) E sop (od_pay s) = Inr (od_pay s')" by (auto split: if_splits)
  show ?thesis using fence.P_exec_store [OF ex(2) refl ex(1)] by (simp add: fences_def)
next
  case (OwTables us ps ls invs profs accs)
  with assms(1) show ?thesis by auto
next
  case (OwFinalize inp)
  with assms(1) show ?thesis by (auto dest: ocl.P_finalize_tx [OF _ _ refl])
qed (use assms in \<open>auto dest: ocl_operations [OF _ refl]\<close>)

lemma closure_rows_updates [simp]:
  "closure_rows (s\<lparr>od_pay := d\<rparr>) = closure_rows s" "closure_rows (s\<lparr>od_observations := os\<rparr>) = closure_rows s"
  "closure_rows (s\<lparr>od_revocation_acks := as\<rparr>) = closure_rows s" "closure_rows (s\<lparr>od_creations := ns\<rparr>) = closure_rows s"
  "closure_rows (s\<lparr>od_retired_profiles := ps\<rparr>) = closure_rows s" "closure_rows (s\<lparr>od_abort_acks := ks\<rparr>) = closure_rows s"
  "closure_rows (s\<lparr>od_confirmations := cs\<rparr>) = closure_rows s" "closure_rows (s\<lparr>od_finalizations := fs\<rparr>) = closure_rows s"
  "closure_rows (s\<lparr>od_receipts := rs\<rparr>) = closure_rows s" "closure_rows (s\<lparr>od_snapshots := bs\<rparr>) = closure_rows s"
  by (simp_all add: closure_rows_def)

lemma closure_rows_statements:
  "sql_insert_setup E r s = Inr (r', s') \<Longrightarrow> closure_rows s' = closure_rows s"
  "sql_update_setup E x f s = Inr (r', s') \<Longrightarrow> closure_rows s' = closure_rows s"
  "sql_update_method E x g s = Inr (m, s') \<Longrightarrow> closure_rows s' = closure_rows s"
  "sql_end_period E q t s = Inr (p, s') \<Longrightarrow> closure_rows s' = closure_rows s"
  "sql_insert_closure_settlement k s = Inr s' \<Longrightarrow> closure_rows s' = closure_rows s"
  "sql_insert_preflight j s = Inr s' \<Longrightarrow> closure_rows s' = closure_rows s"
  "sql_insert_receipt c s = Inr s' \<Longrightarrow> closure_rows s' = closure_rows s"
  "sql_insert_snapshot b s = Inr s' \<Longrightarrow> closure_rows s' = closure_rows s"
  "sql_insert_cancellation n s = Inr s' \<Longrightarrow> closure_rows s' = closure_rows s"
  by (auto simp: sql_insert_setup_def sql_update_setup_def sql_update_method_def sql_end_period_def
      sql_insert_closure_settlement_def sql_insert_preflight_def sql_insert_receipt_def sql_insert_snapshot_def
      sql_insert_cancellation_def Let_def closure_rows_def split: if_splits option.splits)

lemma closure_rows_audit [simp]:
  "closure_rows (handoffProtocolAuditTx scope e r dg s) = closure_rows s"
  "closure_rows (cloudClosureAuditTx scope' a dg s) = closure_rows s"
  "closure_rows (invalidate_setups E x op s) = closure_rows s"
  by (simp_all add: handoffProtocolAuditTx_def cloudClosureAuditTx_def invalidate_setups_def closure_rows_def Let_def)

lemma closure_rows_settle:
  assumes "RecordHandoffSettlement sha dg E inp s = Inr (r, s')"
  shows "closure_rows s' = closure_rows s"
proof (cases "s' = s")
  case False
  show ?thesis by (rule settlement_recorded [OF assms False]) simp
qed simp

lemma closure_rows_finalize:
  assumes "finalize_tx sha E inp dg s = Inr (r, s')"
  shows "closure_rows s' = closure_rows s"
proof (cases "s' = s")
  case False
  have transfer: "closure_rows t' = closure_rows t" if "transfer_responsibility E inp a op t = Inr t'" for a op t t'
    using that by (auto simp: transfer_responsibility_def retire_profile_def Let_def split: if_splits option.splits
        dest!: closure_rows_statements)
  show ?thesis by (rule handoff_finalized_new [OF assms False]) (auto dest!: transfer)
qed simp

lemma closure_rows_operations:
  "InitializeResponsibility E ctx iin s = Inr s' \<Longrightarrow> closure_rows s' = closure_rows s"
  "PrepareOwnershipHandoff dg E pin s = Inr (h, s') \<Longrightarrow> closure_rows s' = closure_rows s"
  "ConfirmHandoffSnapshot sha E cin s = Inr (st, s') \<Longrightarrow> closure_rows s' = closure_rows s"
  "AuthorizeHandoffCommit sha dga E ain s = Inr (a, s') \<Longrightarrow> closure_rows s' = closure_rows s"
  "recordCommittedHandoffDecision E fin dgs s = Inr s' \<Longrightarrow> closure_rows s' = closure_rows s"
  "BeginOwnershipHandoffAbort dgb E bin s = Inr (k, s') \<Longrightarrow> closure_rows s' = closure_rows s"
  "CompleteOwnershipHandoffAbort E cab s = Inr (k, s') \<Longrightarrow> closure_rows s' = closure_rows s"
  "BeginPaymentMethodSetup E ctx bms s = Inr (br, s') \<Longrightarrow> closure_rows s' = closure_rows s"
  "CompletePaymentMethodSetup dgc E ctx cms s = Inr (cr, e, s') \<Longrightarrow> closure_rows s' = closure_rows s"
  "RecordCloudClosureRevocation E scope task rsha s = Inr s' \<Longrightarrow> closure_rows s' = closure_rows s"
  "RecordCloudClosureSettlement cdg dgr E rin s = Inr s' \<Longrightarrow> closure_rows s' = closure_rows s"
  "RecordCloudPreflightEvidence sha dgp E fpin s = Inr s' \<Longrightarrow> closure_rows s' = closure_rows s"
  "BootstrapBrandCloud dgn E nin s = Inr (nr, s') \<Longrightarrow> closure_rows s' = closure_rows s"
  subgoal by (auto simp: InitializeResponsibility_def Let_def split: if_splits option.splits)
  subgoal by (auto simp: PrepareOwnershipHandoff_def Let_def split: if_splits option.splits sum.splits)
  subgoal by (auto simp: ConfirmHandoffSnapshot_def Let_def split: if_splits option.splits)
  subgoal by (auto simp: AuthorizeHandoffCommit_def Let_def split: if_splits option.splits)
  subgoal by (auto simp: recordCommittedHandoffDecision_def split: if_splits option.splits)
  subgoal by (auto simp: BeginOwnershipHandoffAbort_def Let_def split: if_splits option.splits dest!: closure_rows_statements)
  subgoal by (auto simp: CompleteOwnershipHandoffAbort_def Let_def split: if_splits option.splits)
  subgoal by (auto simp: BeginPaymentMethodSetup_def Let_def split: if_splits sum.splits dest!: closure_rows_statements)
  subgoal by (auto simp: CompletePaymentMethodSetup_def complete_setup_def observe_setup_def Let_def
      split: if_splits dest!: closure_rows_statements)
  subgoal by (auto simp: RecordCloudClosureRevocation_def split: if_splits option.splits)
  subgoal by (auto simp: RecordCloudClosureSettlement_def Let_def split: if_splits option.splits dest!: closure_rows_statements)
  subgoal by (auto simp: RecordCloudPreflightEvidence_def Let_def split: if_splits option.splits dest!: closure_rows_statements)
  subgoal by (auto simp: BootstrapBrandCloud_def split: if_splits option.splits sum.splits)
  done

lemma view_kept:
  assumes "own_exec D E op s = Inr s'" and "\<not> is_closure_op op"
  shows "view_of s' = view_of s"
proof -
  have "closure_rows s' = closure_rows s"
  proof (cases op)
    case (OwStore sop)
    with assms(1) show ?thesis by (auto split: if_splits)
  next
    case (OwTables us ps ls invs profs accs)
    with assms(1) show ?thesis by (auto simp: closure_rows_def)
  qed (use assms in \<open>auto dest: closure_rows_operations closure_rows_settle closure_rows_finalize\<close>)
  then show ?thesis using closures_kept [OF assms] by (simp add: view_of_def closure_rows_def)
qed

section \<open>Steps of the closures\<close>

lemma load_closure:
  assumes "loadCloudClosureTx scope s = Inr (account, op)" and "closures_inv (view_of s)"
  shows "find_closure (view_of s) (cc_ID op) = Some op" and "account \<in> set (db_accounts (od_pay s))"
    and "cc_AccountID op = ca_ID account"
proof -
  have "op \<in> set (cv_closures (view_of s))" and "account \<in> set (db_accounts (od_pay s))" and "cc_AccountID op = ca_ID account"
    using assms(1) by (auto simp: loadCloudClosureTx_def find_org_account_def view_of_def split: if_splits dest!: find_Some_mem)
  then show "find_closure (view_of s) (cc_ID op) = Some op" "account \<in> set (db_accounts (od_pay s))"
      "cc_AccountID op = ca_ID account"
    using find_key_mem [of cc_ID "cv_closures (view_of s)" op] assms(2) by (simp_all add: closures_inv_def find_closure_def)
qed

lemma update_closure_view:
  assumes "sql_update_closure E op ph s = Inr (r, s')"
  shows "view_of s' = move op ph (view_of s)" and "closure_step_ok s op ph"
  using assms by (auto simp: sql_update_closure_def view_of_def move_def touch_account_def Let_def split: if_splits)

lemma audit_view [simp]: "view_of (cloudClosureAuditTx scope a dg s) = view_of s" "view_of (close_access org s) = view_of s"
  by (simp_all add: cloudClosureAuditTx_def close_access_def view_of_def sql_insert_audit_def)

lemma not_completed: "find (\<lambda>c. ccm_OperationID c = x) (od_completions s) = None \<Longrightarrow> \<not> completed (view_of s) x"
  by (auto simp: completed_def view_of_def find_None_iff)

lemma view_simps:
  "view_of (s\<lparr>od_completions := ms\<rparr>) = (view_of s)\<lparr>cv_completions := ms\<rparr>"
  "view_of (s\<lparr>od_closure_cancellations := ks\<rparr>) = (view_of s)\<lparr>cv_cancellations := ks\<rparr>"
  "view_of (s\<lparr>od_release_acks := as\<rparr>) = (view_of s)\<lparr>cv_releases := as\<rparr>"
  "view_of (s\<lparr>od_retired_commands := rs\<rparr>) = (view_of s)\<lparr>cv_retired := rs\<rparr>"
  by (simp_all add: view_of_def)

lemma close_account_view:
  assumes "close_account E a op t s = Inr s'"
  shows "view_of s' = move op ClosureClosed (view_of s)" and "cc_Phase op = ClosurePreparing"
proof -
  from assms obtain c s1 a' d p where upd: "sql_update_closure E op ClosureClosed s = Inr (c, s1)"
      and acc: "sql_update_account E (ca_ID a) (\<lambda>a. a\<lparr>ca_State := AccountStateClosed, ca_Version := ca_Version a + 1\<rparr>)
        (od_pay s1) = Inr (a', d)"
      and per: "sql_end_period E (\<lambda>p. rp_ID p = cc_SourcePeriodID op \<and> rp_EffectiveUntil p = None) t (s1\<lparr>od_pay := d\<rparr>) = Inr (p, s')"
    by (auto simp: close_account_def)
  have "view_of s' = view_of (s1\<lparr>od_pay := d\<rparr>)"
    using per by (auto simp: sql_end_period_def view_of_def touch_account_def Let_def split: if_splits option.splits)
  also have "\<dots> = view_of s1"
    using acc by (auto simp: sql_update_account_def view_of_def Let_def split: option.splits if_splits)
  finally show "view_of s' = move op ClosureClosed (view_of s)" using update_closure_view [OF upd] by simp
  show "cc_Phase op = ClosurePreparing" using update_closure_view(2) [OF upd] by (auto simp: closure_step_ok_def)
qed

text \<open>A new execution of a close command.\<close>

definition completion_of :: "CloseCloudInput \<Rightarrow> CloudClosure \<Rightarrow> string \<Rightarrow> string \<Rightarrow> instant \<Rightarrow> closure_completion" where
  "completion_of inp op digest receipt t =
     \<lparr>ccm_OperationID = cc_ID op, ccm_SettlementID = cci_SettlementID inp,
      ccm_AMReadinessSHA256 = cci_AMReadinessSHA256 inp, ccm_RequestSHA256 = digest,
      ccm_ReceiptSHA256 = receipt, ccm_ClosedAt = t\<rparr>"

lemma close_new:
  assumes "CloseCloud dg dgc E inp s = Inr (r, s')" and "s' \<noteq> s"
  obtains account op status receipt s1 where "loadCloudClosureTx (cci_Scope inp) s = Inr (account, op)"
    and "\<not> command_retired s (cc_ID op) (dgc inp)" and "find (\<lambda>c. ccm_OperationID c = cc_ID op) (od_completions s) = None"
    and "cloudClosureStatusTx dg E account op (cci_Scope inp) s = Inr status" and "ccst_Ready status"
    and "ccst_ReceiptID status = cci_SettlementID inp"
    and "close_account E account op (db_time (env_clock E))
      (s\<lparr>od_completions := od_completions s @ [completion_of inp op (dgc inp) receipt (db_time (env_clock E))]\<rparr>) = Inr s1"
    and "s' = cloudClosureAuditTx (cci_Scope inp) ''closed'' (dgc inp) (close_access (cpf_OrganizationID (cci_Scope inp)) s1)"
    and "completion_consistent (cc_ID op) (db_time (env_clock E)) s'"
  using assms by (auto simp: CloseCloud_def Let_def sql_insert_completion_def completion_of_def split: if_splits option.splits)

lemma refine_close:
  assumes "CloseCloud dg dgc E inp s = Inr (r, s')" and "closures_inv (view_of s)"
  shows "closure_step\<^sup>=\<^sup>= (view_of s) (view_of s')"
proof (cases "s' = s")
  case False
  obtain account op receipt s1 where load: "loadCloudClosureTx (cci_Scope inp) s = Inr (account, op)"
      and cmd: "\<not> command_retired s (cc_ID op) (dgc inp)"
      and none: "find (\<lambda>c. ccm_OperationID c = cc_ID op) (od_completions s) = None"
      and acc: "close_account E account op (db_time (env_clock E))
        (s\<lparr>od_completions := od_completions s @ [completion_of inp op (dgc inp) receipt (db_time (env_clock E))]\<rparr>) = Inr s1"
      and s': "s' = cloudClosureAuditTx (cci_Scope inp) ''closed'' (dgc inp) (close_access (cpf_OrganizationID (cci_Scope inp)) s1)"
    by (rule close_new [OF assms(1) False])
  note op = load_closure(1) [OF load assms(2)] and v = close_account_view [OF acc]
  let ?m = "completion_of inp op (dgc inp) receipt (db_time (env_clock E))"
  have m: "ccm_OperationID ?m = cc_ID op" by (simp add: completion_of_def)
  have "\<not> retired (view_of s) (cc_ID op) (ccm_RequestSHA256 ?m)"
    using cmd by (auto simp: command_retired_def retired_def view_of_def list_ex_iff completion_of_def)
  from closure_step.close [OF op v(2) m not_completed [OF none] this]
  show ?thesis by (simp add: s' v(1) view_simps) (simp add: view_of_def)
qed simp

lemma refine_retire:
  assumes "RetireCloudClose dg dgc E inp s = Inr (r, s')" and "closures_inv (view_of s)"
  shows "closure_step\<^sup>=\<^sup>= (view_of s) (view_of s')"
proof (cases "s' = s")
  case False
  with assms(1) obtain account op t dgr where load: "loadCloudClosureTx (cci_Scope inp) s = Inr (account, op)"
      and none: "find (\<lambda>c. ccm_OperationID c = cc_ID op) (od_completions s) = None"
      and phase: "cc_Phase op = ClosurePreparing"
      and s': "s' = cloudClosureAuditTx (cci_Scope inp) ''command_retired'' dgr
        (s\<lparr>od_retired_commands := od_retired_commands s @
          [\<lparr>rc_OperationID = cc_ID op, rc_RequestSHA256 = dgc inp, rc_SettlementID = cci_SettlementID inp,
            rc_AMReadinessSHA256 = cci_AMReadinessSHA256 inp, rc_ReceiptSHA256 = dgr, rc_RetiredAt = t\<rparr>]\<rparr>)"
    by (auto simp: RetireCloudClose_def Let_def split: if_splits option.splits)
  from closure_step.retire [OF load_closure(1) [OF load assms(2)] phase _ not_completed [OF none]]
  show ?thesis by (simp add: s' view_simps) (simp add: view_of_def)
qed simp

lemma refine_cancel:
  assumes "CancelCloudClosure E scope x sha s = Inr (r, s')" and "closures_inv (view_of s)"
  shows "closure_step\<^sup>=\<^sup>= (view_of s) (view_of s')"
proof (cases "s' = s")
  case False
  with assms(1) obtain account op c s1 where load: "loadCloudClosureTx scope s = Inr (account, op)"
      and none: "find (\<lambda>c. ccx_OperationID c = cc_ID op) (od_closure_cancellations s) = None"
      and phase: "cc_Phase op = ClosurePreparing"
      and upd: "sql_update_closure E op ClosureCanceling (s\<lparr>od_closure_cancellations := od_closure_cancellations s @
        [\<lparr>ccx_OperationID = cc_ID op, ccx_CancellationID = x, ccx_AMCancellationSHA256 = sha\<rparr>]\<rparr>) = Inr (c, s1)"
      and s': "s' = cloudClosureAuditTx scope ''canceling'' sha s1"
    by (auto simp: CancelCloudClosure_def split: if_splits option.splits)
  have "\<not> withdrawn (view_of s) (cc_ID op)" using none by (auto simp: withdrawn_def view_of_def find_None_iff)
  from closure_step.cancel [OF load_closure(1) [OF load assms(2)] phase _ this]
  show ?thesis by (simp add: s' update_closure_view(1) [OF upd] view_simps) (simp add: view_of_def)
qed simp

lemma refine_release:
  assumes "CompleteCloudClosureCancellation E scope x sha s = Inr (r, s')" and "closures_inv (view_of s)"
  shows "closure_step\<^sup>=\<^sup>= (view_of s) (view_of s')"
proof (cases "s' = s")
  case False
  with assms(1) obtain account op c s1 where load: "loadCloudClosureTx scope s = Inr (account, op)"
      and none: "find (\<lambda>r. rla_OperationID r = cc_ID op) (od_release_acks s) = None"
      and phase: "cc_Phase op = ClosureCanceling"
      and upd: "sql_update_closure E op ClosureCanceled (s\<lparr>od_release_acks := od_release_acks s @
        [\<lparr>rla_OperationID = cc_ID op, rla_ReceiptSHA256 = sha\<rparr>]\<rparr>) = Inr (c, s1)"
      and s': "s' = cloudClosureAuditTx scope ''canceled'' sha s1"
    by (auto simp: CompleteCloudClosureCancellation_def split: if_splits option.splits)
  have "\<not> released (view_of s) (cc_ID op)" using none by (auto simp: released_def view_of_def find_None_iff)
  from closure_step.release [OF load_closure(1) [OF load assms(2)] phase _ this]
  show ?thesis by (simp add: s' update_closure_view(1) [OF upd] view_simps) (simp add: view_of_def)
qed simp

lemma prepare_closure_new:
  assumes "PrepareCloudClosure dg E inp s = Inr (r, s')" and "s' \<noteq> s"
  shows "view_of s' = (view_of s)\<lparr>cv_closures := db_closures (od_pay s) @ [r]\<rparr>" and "closure_insert_ok (od_pay s) r"
    and "cc_Phase r = ClosurePreparing" and "cc_ID r \<notin> cc_ID ` set (db_closures (od_pay s))"
proof -
  from assms obtain d s1 a where ins: "sql_insert_closure E r (od_pay s) = Inr d" and phase: "cc_Phase r = ClosurePreparing"
      and rev: "revoke_for_closure E (cc_ID r) a (s\<lparr>od_pay := d\<rparr>) = Inr s1"
      and s': "s' = cloudClosureAuditTx (pcc_Scope inp) ''prepare'' (cc_RequestSHA256 r) s1"
    by (auto simp: PrepareCloudClosure_def Let_def split: if_splits option.splits)
  have "view_of s1 = view_of (s\<lparr>od_pay := d\<rparr>)"
    using rev by (auto simp: revoke_for_closure_def view_of_def sql_update_policy_def revoke_methods_def Let_def
        split: option.splits)
  moreover have "view_of (s\<lparr>od_pay := d\<rparr>) = (view_of s)\<lparr>cv_closures := db_closures (od_pay s) @ [r]\<rparr>"
    using ins by (auto simp: sql_insert_closure_def view_of_def touch_account_def split: if_splits)
  ultimately show "view_of s' = (view_of s)\<lparr>cv_closures := db_closures (od_pay s) @ [r]\<rparr>" by (simp add: s')
  show "closure_insert_ok (od_pay s) r" "cc_ID r \<notin> cc_ID ` set (db_closures (od_pay s))"
    using ins by (auto simp: sql_insert_closure_def list_ex_iff image_iff split: if_splits)
  show "cc_Phase r = ClosurePreparing" by (rule phase)
qed

lemma refine_prepare_closure:
  assumes "PrepareCloudClosure dg E inp s = Inr (r, s')"
  shows "closure_step\<^sup>=\<^sup>= (view_of s) (view_of s')"
proof (cases "s' = s")
  case False
  note new = prepare_closure_new [OF assms False]
  show ?thesis using closure_step.prepare [OF new(3), of "view_of s"] new(4) by (simp add: new(1)) (simp add: view_of_def)
qed simp

lemma own_exec_closure:
  assumes "own_exec D E op s = Inr s'" and "closures_inv (view_of s)"
  shows "closure_step\<^sup>=\<^sup>= (view_of s) (view_of s')"
proof (cases "is_closure_op op")
  case False
  with view_kept [OF assms(1)] show ?thesis by simp
next
  case True
  then show ?thesis using assms
    by (cases op) (auto dest: refine_prepare_closure refine_close [OF _ assms(2)] refine_retire [OF _ assms(2)]
        refine_cancel [OF _ assms(2)] refine_release [OF _ assms(2)])
qed

interpretation clos: growing_refinement view_of closure_step "own_step D" closures_inv closures_grow for D
proof unfold_locales
  show "closure_step\<^sup>*\<^sup>* (view_of s) (view_of s')" if "own_step D s s'" "closures_inv (view_of s)" for s s'
    using that(1)
  proof (rule own_stepE)
    fix E op
    assume "own_exec D E op s = Inr s'"
    from own_exec_closure [OF this that(2)] show ?thesis by auto
  qed
qed (auto intro: closures_inv_step closures_grow_refl closures_grow_trans closures_grow_step)

lemma own_reachable_closures: "own_reachable D s \<Longrightarrow> closures_inv (view_of s)"
proof -
  have "closures_inv (view_of empty_ownership_db)"
    by (simp add: closure_defs view_of_def empty_ownership_db_def empty_db_def)
  then show "own_reachable D s \<Longrightarrow> closures_inv (view_of s)" using clos.runs_simulate by blast
qed

section \<open>A handoff and a closure exclude each other\<close>

text \<open>Only their preparation adds a row to the handoffs and to the closures.\<close>

lemma update_handoff_ids:
  "(\<And>h. oh_ID (f h) = oh_ID h) \<Longrightarrow> map oh_ID (db_handoffs (sql_update_handoff E op f d)) = map oh_ID (db_handoffs d)"
  by (simp add: sql_update_handoff_def touch_account_def map_update_where)

lemma audit_handoffs [simp]:
  "db_handoffs (od_pay (handoffProtocolAuditTx scope e r dg s)) = db_handoffs (od_pay s)"
  "db_handoffs (sql_insert_audit a d) = db_handoffs d"
  by (simp_all add: handoffProtocolAuditTx_def sql_insert_audit_def)

lemma handoff_ids_finalize:
  assumes "finalize_tx sha E inp dg s = Inr (r, s')"
  shows "map oh_ID (db_handoffs (od_pay s')) = map oh_ID (db_handoffs (od_pay s))"
proof (cases "s' = s")
  case False
  show ?thesis
    by (rule handoff_finalized_new [OF assms False])
       (auto simp: update_handoff_ids handoff_tables_def dest!: transfer_tables)
qed simp

lemma handoff_ids_settle:
  assumes "RecordHandoffSettlement sha dg E inp s = Inr (r, s')"
  shows "map oh_ID (db_handoffs (od_pay s')) = map oh_ID (db_handoffs (od_pay s))"
proof (cases "s' = s")
  case False
  show ?thesis by (rule settlement_recorded [OF assms False]) (simp add: update_handoff_ids)
qed simp

lemma handoff_ids_operations:
  "ConfirmHandoffSnapshot sha E cin s = Inr (st, s') \<Longrightarrow> map oh_ID (db_handoffs (od_pay s')) = map oh_ID (db_handoffs (od_pay s))"
  "AuthorizeHandoffCommit sha dga E ain s = Inr (a, s') \<Longrightarrow> map oh_ID (db_handoffs (od_pay s')) = map oh_ID (db_handoffs (od_pay s))"
  "recordCommittedHandoffDecision E fin dgs s = Inr s' \<Longrightarrow> map oh_ID (db_handoffs (od_pay s')) = map oh_ID (db_handoffs (od_pay s))"
  "BeginOwnershipHandoffAbort dgb E bin s = Inr (k, s') \<Longrightarrow> map oh_ID (db_handoffs (od_pay s')) = map oh_ID (db_handoffs (od_pay s))"
  "CompleteOwnershipHandoffAbort E cab s = Inr (k, s') \<Longrightarrow> map oh_ID (db_handoffs (od_pay s')) = map oh_ID (db_handoffs (od_pay s))"
  subgoal by (auto simp: ConfirmHandoffSnapshot_def Let_def split: if_splits option.splits)
  subgoal by (auto simp: AuthorizeHandoffCommit_def sql_insert_authorization_def update_handoff_ids Let_def split: if_splits option.splits)
  subgoal by (auto simp: recordCommittedHandoffDecision_def update_handoff_ids split: if_splits option.splits)
  subgoal by (auto simp: BeginOwnershipHandoffAbort_def sql_insert_cancellation_def update_handoff_ids Let_def split: if_splits option.splits)
  subgoal by (auto simp: CompleteOwnershipHandoffAbort_def update_handoff_ids Let_def split: if_splits option.splits)
  done

lemma handoff_ids_kept:
  assumes "own_exec D E op s = Inr s'" and "\<And>inp. op \<noteq> OwPrepare inp"
  shows "map oh_ID (db_handoffs (od_pay s')) = map oh_ID (db_handoffs (od_pay s))"
proof (cases "is_handoff_op op")
  case False
  from other_tables [OF assms(1) this] show ?thesis by (simp add: handoff_tables_def)
next
  case True
  then show ?thesis using assms
    by (cases op) (auto dest: handoff_ids_operations handoff_ids_settle handoff_ids_finalize)
qed

lemma handoff_open_before:
  assumes ex: "own_exec D E op s = Inr s'" and inv: "handoff_inv (file_of s)" and np: "\<And>inp. op \<noteq> OwPrepare inp"
    and "handoff_open (od_pay s') x"
  shows "handoff_open (od_pay s) x"
proof -
  from assms(4) obtain h' where h': "h' \<in> set (db_handoffs (od_pay s'))" "oh_AccountID h' = x"
      "oh_Phase h' \<noteq> HandoffFinalized" "oh_Phase h' \<noteq> HandoffAborted"
    by (auto simp: handoff_open_def list_ex_iff)
  let ?f = "file_of s (oh_ID h')" and ?f' = "file_of s' (oh_ID h')"
  have mem: "h' \<in> set (hf_handoffs ?f')" using h' by (simp add: file_of_def)
  have "oh_ID h' \<in> set (map oh_ID (db_handoffs (od_pay s)))"
    using handoff_ids_kept [OF ex np] h'(1) by (metis imageI list.set_map)
  then have some: "hf_handoffs ?f \<noteq> []" by (auto simp: file_of_def filter_empty_conv)
  from own_exec_handoff [OF ex inv] have "?f' = ?f \<or> file_step ?f ?f'"
    by (auto elim!: handoff_step.cases simp: fun_eq_iff)
  then have "\<exists>h \<in> set (hf_handoffs ?f). oh_AccountID h = x \<and> oh_Phase h \<noteq> HandoffFinalized \<and> oh_Phase h \<noteq> HandoffAborted"
  proof
    assume "file_step ?f ?f'"
    then show ?thesis using mem h' some by cases (auto simp: phase_defs)
  qed (use mem h' in auto)
  then show ?thesis by (auto simp: file_of_def handoff_open_def list_ex_iff)
qed

lemma closure_ids_operations:
  "CancelCloudClosure E scope x sha s = Inr (c, s') \<Longrightarrow> map cc_ID (cv_closures (view_of s')) = map cc_ID (cv_closures (view_of s))"
  "CompleteCloudClosureCancellation E scope x sha s = Inr (c, s') \<Longrightarrow> map cc_ID (cv_closures (view_of s')) = map cc_ID (cv_closures (view_of s))"
  "RetireCloudClose dg dgc E inp s = Inr (r, s') \<Longrightarrow> map cc_ID (cv_closures (view_of s')) = map cc_ID (cv_closures (view_of s))"
  "CloseCloud dg dgc E inp s = Inr (k, s') \<Longrightarrow> map cc_ID (cv_closures (view_of s')) = map cc_ID (cv_closures (view_of s))"
  subgoal by (auto simp: CancelCloudClosure_def move_def map_update_where view_simps split: if_splits option.splits
      dest!: update_closure_view(1))
  subgoal by (auto simp: CompleteCloudClosureCancellation_def move_def map_update_where view_simps split: if_splits option.splits
      dest!: update_closure_view(1))
  subgoal by (auto simp: RetireCloudClose_def view_simps Let_def split: if_splits option.splits)
  subgoal by (auto simp: CloseCloud_def sql_insert_completion_def move_def map_update_where view_simps Let_def
      split: if_splits option.splits dest!: close_account_view(1))
  done

lemma closure_ids_kept:
  assumes "own_exec D E op s = Inr s'" and "\<And>inp. op \<noteq> OwPrepareClosure inp"
  shows "map cc_ID (cv_closures (view_of s')) = map cc_ID (cv_closures (view_of s))"
proof (cases "is_closure_op op")
  case False
  from view_kept [OF assms(1) this] show ?thesis by simp
next
  case True
  then show ?thesis using assms by (cases op) (auto dest: closure_ids_operations)
qed

lemma closure_active_before:
  assumes ex: "own_exec D E op s = Inr s'" and inv: "closures_inv (view_of s)" and np: "\<And>inp. op \<noteq> OwPrepareClosure inp"
    and "closure_active (od_pay s') x"
  shows "closure_active (od_pay s) x"
proof -
  have active: "closure_active (od_pay t) x \<longleftrightarrow> (\<exists>c \<in> set (cv_closures (view_of t)). cc_AccountID c = x \<and> cc_Phase c \<noteq> ClosureCanceled)" for t
    by (simp add: closure_active_def view_of_def list_ex_iff)
  have moved: ?thesis if "view_of s' = move c ph w" "find_closure (view_of s) (cc_ID c) = Some c"
      "cv_closures w = cv_closures (view_of s)" "cc_Phase c \<noteq> ClosureCanceled" for c ph w
  proof -
    from assms(4) obtain q where "q \<in> set (cv_closures (view_of s'))" "cc_AccountID q = x" "cc_Phase q \<noteq> ClosureCanceled"
      unfolding active by blast
    then have "q \<in> set (cv_closures (move c ph w))" "cc_AccountID q = x" "cc_Phase q \<noteq> ClosureCanceled" by (simp_all add: that(1))
    then show ?thesis
      using that(2-4) unfolding active by (auto simp: move_def set_update_where dest!: find_closure_mem)
  qed
  from own_exec_closure [OF ex inv] have "view_of s' = view_of s \<or> closure_step (view_of s) (view_of s')" by auto
  then show ?thesis
  proof
    assume "closure_step (view_of s) (view_of s')"
    then show ?thesis
    proof cases
      case (prepare c)
      with closure_ids_kept [OF ex np] show ?thesis by simp
    next
      case (retire c r)
      with assms(4) show ?thesis unfolding active by simp
    qed (use moved in auto)
  qed (use assms(4) in \<open>simp add: active\<close>)
qed

definition exclusive :: "ownership_db \<Rightarrow> bool" where
  "exclusive s \<longleftrightarrow> (\<forall>x. \<not> (handoff_open (od_pay s) x \<and> closure_active (od_pay s) x))"

lemma prepare_handoff_new:
  assumes "PrepareOwnershipHandoff dg E inp s = Inr (r, s')" and "s' \<noteq> s"
  shows "db_handoffs (od_pay s') = db_handoffs (od_pay s) @ [r]" and "\<not> closure_active (od_pay s) (oh_AccountID r)"
proof -
  from assms obtain d e where ins: "sql_insert_handoff E r (od_pay s) = Inr d"
      and s': "s' = pay (sql_insert_audit e) (invalidate_setups E (oh_AccountID r) (oh_ID r) (s\<lparr>od_pay := d\<rparr>))"
    by (auto simp: PrepareOwnershipHandoff_def Let_def split: if_splits option.splits sum.splits)
  have "db_handoffs (od_pay s') = db_handoffs d"
    by (simp add: s' invalidate_setups_def revoke_methods_def revoke_consents_def Let_def)
  then show "db_handoffs (od_pay s') = db_handoffs (od_pay s) @ [r]"
    using ins by (auto simp: sql_insert_handoff_def touch_account_def split: if_splits)
  show "\<not> closure_active (od_pay s) (oh_AccountID r)"
    using ins by (auto simp: sql_insert_handoff_def split: if_splits)
qed

lemma exclusive_step:
  assumes ex: "own_exec D E op s = Inr s'" and inv: "handoff_inv (file_of s)" "closures_inv (view_of s)" and ok: "exclusive s"
  shows "exclusive s'"
proof (cases op)
  case (OwPrepare inp)
  then have np: "\<And>i. op \<noteq> OwPrepareClosure i" by simp
  show ?thesis
  proof (cases "s' = s")
    case False
    from OwPrepare ex obtain r where "PrepareOwnershipHandoff (dig_prepare D) E inp s = Inr (r, s')" by auto
    note new = prepare_handoff_new [OF this False]
    have "handoff_open (od_pay s') x \<Longrightarrow> handoff_open (od_pay s) x \<or> x = oh_AccountID r" for x
      by (auto simp: handoff_open_def new(1))
    then show ?thesis using ok new(2) closure_active_before [OF ex inv(2) np] unfolding exclusive_def by metis
  qed (use ok in simp)
next
  case (OwPrepareClosure inp)
  then have np: "\<And>i. op \<noteq> OwPrepare i" by simp
  show ?thesis
  proof (cases "s' = s")
    case False
    from OwPrepareClosure ex obtain r where "PrepareCloudClosure (dig_prepare_closure D) E inp s = Inr (r, s')" by auto
    note new = prepare_closure_new [OF this False]
    have "closure_active (od_pay s') x \<Longrightarrow> closure_active (od_pay s) x \<or> x = cc_AccountID r" for x
      using new(1) by (auto simp: closure_active_def view_of_def)
    moreover have "\<not> handoff_open (od_pay s) (cc_AccountID r)" using new(2) by (simp add: closure_insert_ok_def)
    ultimately show ?thesis using ok handoff_open_before [OF ex inv(1) np] unfolding exclusive_def by metis
  qed (use ok in simp)
qed (use ok handoff_open_before [OF ex inv(1)] closure_active_before [OF ex inv(2)] in \<open>auto simp: exclusive_def\<close>)

lemma own_reachable_exclusive: "own_reachable D s \<Longrightarrow> exclusive s"
proof (induction rule: rtranclp_induct)
  case (step s s')
  from step(2) obtain E op where "own_exec D E op s = Inr s'" by (rule own_stepE)
  from exclusive_step [OF this own_reachable_handoff [OF step(1)] own_reachable_closures [OF step(1)] step(3)] show ?case .
qed (simp add: exclusive_def handoff_open_def empty_ownership_db_def empty_db_def)

section \<open>Properties\<close>

text \<open>(C8)
  A closure is closed or canceled, never both: it is closed exactly when the execution of a close
  command is recorded for it, no such command was retired, no cancellation exists beside it, and
  once a closure is closed it stays as it is.
\<close>

theorem closure_closes_or_cancels:
  assumes "own_reachable D s" and "c \<in> set (db_closures (od_pay s))" and "(own_step D)\<^sup>*\<^sup>* s s'"
  shows "(cc_Phase c = ClosureClosed \<longleftrightarrow> list_ex (\<lambda>m. ccm_OperationID m = cc_ID c) (od_completions s)) \<and>
    \<not> (list_ex (\<lambda>m. ccm_OperationID m = cc_ID c) (od_completions s) \<and>
       list_ex (\<lambda>k. ccx_OperationID k = cc_ID c) (od_closure_cancellations s)) \<and>
    list_all (\<lambda>m. \<not> command_retired s (ccm_OperationID m) (ccm_RequestSHA256 m)) (od_completions s) \<and>
    (cc_Phase c = ClosureClosed \<longrightarrow> c \<in> set (db_closures (od_pay s')))"
proof -
  let ?v = "view_of s"
  note inv = own_reachable_closures [OF assms(1)]
  have c: "c \<in> set (cv_closures ?v)" using assms(2) by (simp add: view_of_def)
  have ev: "closure_evidence ?v c" using inv c by (simp add: closures_inv_def)
  have "find_closure ?v (cc_ID c) = Some c"
    using inv c find_key_mem [of cc_ID "cv_closures ?v" c] by (simp add: closures_inv_def find_closure_def)
  moreover have "closures_grow ?v (view_of s')" using clos.runs_grow [OF assms(3) inv] .
  ultimately obtain c' where c': "find_closure (view_of s') (cc_ID c) = Some c'" "same_closure c c'"
    unfolding closures_grow_def by blast
  have "c' \<in> set (db_closures (od_pay s'))" using find_closure_mem [OF c'(1)] by (simp add: view_of_def)
  then have "cc_Phase c = ClosureClosed \<longrightarrow> c \<in> set (db_closures (od_pay s'))" using c'(2) by (auto simp: same_closure_def)
  moreover have "list_all (\<lambda>m. \<not> command_retired s (ccm_OperationID m) (ccm_RequestSHA256 m)) (od_completions s)"
    using inv by (auto simp: closures_inv_def retired_def command_retired_def view_of_def list_all_iff list_ex_iff)
  ultimately show ?thesis
    using ev by (auto simp: closure_evidence_def completed_def withdrawn_def view_of_def list_ex_iff)
qed

text \<open>(C10)
  An account is never in an open handoff and in a closure that is not canceled at once.
\<close>

theorem handoff_excludes_closure:
  assumes "own_reachable D s"
  shows "\<not> (handoff_open (od_pay s) x \<and> closure_active (od_pay s) x)"
  using own_reachable_exclusive [OF assms] by (simp add: exclusive_def)

text \<open>(C7)
  A cloud is closed only when everything is settled: at the time of the command its account has
  balance zero and was active, the latest settlement receipt is the one the command names, it is of
  the current state, covers the cutoff and has not expired, the evidence it leaves with the local
  records has nothing pending, and every provider has acknowledged its revocations.
\<close>

theorem cloud_closes_settled:
  assumes "CloseCloud dg dgc E inp s = Inr (r, s')" and "s' \<noteq> s"
  shows "\<exists>account op c st. loadCloudClosureTx (cci_Scope inp) s = Inr (account, op) \<and>
    ca_State account = AccountStateActive \<and> ca_AvailableBalanceMinor account = 0 \<and>
    captureCloudClosureStateTx dg E account op (cci_Scope inp) s = Inr st \<and>
    latest_settlement s (cc_ID op) = Some c \<and> cst_ID c = cci_SettlementID inp \<and> cst_StateSHA256 c = cls_SHA256 st \<and>
    cst_CoveredThrough c \<ge> cc_Cutoff op \<and> cst_ExpiresAt c > db_time (env_clock E) \<and>
    all_settled (mergeSettlementEvidence (cst_FinancialEvidence c) (cls_Financial st)) \<and>
    list_all (\<lambda>t. ccr_OperationID t = cc_ID op \<longrightarrow> acked s t) (od_revocations s)"
proof -
  obtain account op status where load: "loadCloudClosureTx (cci_Scope inp) s = Inr (account, op)"
      and status: "cloudClosureStatusTx dg E account op (cci_Scope inp) s = Inr status" "ccst_Ready status"
        "ccst_ReceiptID status = cci_SettlementID inp"
    by (rule close_new [OF assms])
  from status obtain st where st: "captureCloudClosureStateTx dg E account op (cci_Scope inp) s = Inr st"
      and none: "remdups_adj (sort (closure_blockers account op st s)) = []"
      and id: "(case current_settlement op st s of None \<Rightarrow> [] | Some c \<Rightarrow> cst_ID c) = cci_SettlementID inp"
    by (auto simp: cloudClosureStatusTx_def Let_def split: if_splits)
  have "set (remdups_adj (sort (closure_blockers account op st s))) = {}" using none by simp
  then have blockers: "closure_blockers account op st s = []" by simp
  then obtain c where c: "current_settlement op st s = Some c" by (auto simp: closure_blockers_def split: option.splits)
  have settled: "CloudClosureBlockers (mergeSettlementEvidence (cst_FinancialEvidence c) (cls_Financial st)) = []"
      and acks: "\<not> list_ex (\<lambda>t. ccr_OperationID t = cc_ID op \<and> \<not> acked s t) (od_revocations s)"
      and active: "ca_State account = AccountStateActive"
    using blockers c by (auto simp: closure_blockers_def split: if_splits)
  have "fe_BalanceMinor (cls_Financial st) = ca_AvailableBalanceMinor account" "cls_ObservedAt st = db_time (env_clock E)"
    using st by (auto simp: captureCloudClosureStateTx_def dest!: capture_state)
  moreover have "fe_BalanceMinor (cls_Financial st) = 0"
    using settled by (simp add: closure_unblocked_iff mergeSettlementEvidence_def)
  moreover have "list_all (\<lambda>t. ccr_OperationID t = cc_ID op \<longrightarrow> acked s t) (od_revocations s)"
    using acks by (auto simp: list_ex_iff list_all_iff)
  ultimately show ?thesis
    using load active st c id settled
    by (auto simp: current_settlement_def closure_unblocked_iff split: option.splits if_splits)
qed

end
