(* ===== verification/Ownership_Scenario.thy ===== *)
theory Ownership_Scenario
  imports Ownership_Machine Payment_Scenario
begin

text \<open>
  Two worked scenarios of the ownership protocols. In the first a cloud is bootstrapped, its account
  is credited and the setup of a card begun; then the cloud is handed over to a successor with its
  balance. In the second a cloud is bootstrapped and closed. Properties are instantiated on the
  states of these runs.
\<close>

text \<open>A digest that tells balances apart, and gives the balance of the handoff a digest of the right form.\<close>

definition demo_state_digest :: "settlement_view \<Rightarrow> string" where
  "demo_state_digest v =
     (let b = fst (snd (sv_account v)) in
      if b = 1000 then demo_sha else (if b < 0 then CHR ''n'' else CHR ''p'') # replicate (nat \<bar>b\<bar>) CHR ''x'')"

definition demo_digests :: digests where
  "demo_digests = \<lparr>dig_reversal = demo_digest, dig_prepare = \<lambda>_. demo_sha, dig_settlement = \<lambda>_. demo_sha,
     dig_authorize = \<lambda>_. demo_sha, dig_finalize = \<lambda>_. demo_sha, dig_abort = \<lambda>_. demo_sha, dig_setup = \<lambda>_. demo_sha,
     dig_closure = \<lparr>cd_state = demo_state_digest, cd_closure = \<lambda>_. demo_sha, cd_receipt = \<lambda>_. demo_sha\<rparr>,
     dig_prepare_closure = \<lambda>_. demo_sha, dig_closure_settlement = \<lambda>_. demo_sha, dig_close = \<lambda>_. demo_sha,
     dig_creation = \<lambda>_. demo_sha, dig_preflight = \<lambda>_. demo_sha\<rparr>"

definition demo_creation :: CloudCreation where
  "demo_creation = \<lparr>clc_EventID = ''event'', clc_OrganizationID = ''org'', clc_OwnerUserID = ''owner'',
     clc_OwnershipVersion = 1, clc_OccurredAt = 10 * second_ns, clc_EvidenceSHA256 = demo_sha\<rparr>"

definition demo_setup_input :: BeginPaymentMethodSetupInput where
  "demo_setup_input = \<lparr>bms_AccountID = demo_uuid 0, bms_Provider = ''simulator'', bms_IdempotencyKey = ''setup'',
     bms_RequestSHA256 = demo_sha, bms_CorrelationID = ''cor'', bms_Capabilities = demo_caps,
     bms_Consent = demo_consent ''payment_method'', bms_Now = 30 * second_ns\<rparr>"

definition demo_evidence :: "int \<Rightarrow> FinancialEvidence" where
  "demo_evidence balance =
     \<lparr>fe_BalanceKnown = True, fe_Currency = TWD, fe_BalanceMinor = balance, fe_UsageSettled = True,
      fe_InvoicesReconciled = True, fe_ProviderWorkReconciled = True, fe_UnpaidInvoiceCount = 0, fe_DebtMinor = 0,
      fe_PendingPaymentCount = 0, fe_PendingRefundCount = 0, fe_OpenDisputeCount = 0, fe_PendingSetupCount = 0,
      fe_UnresolvedProviderEventCount = 0\<rparr>"

definition demo_prepare :: PrepareOwnershipHandoffInput where
  "demo_prepare = \<lparr>poh_OperationID = ''handoff'', poh_OrganizationID = ''org'', poh_SourceUserID = ''owner'',
     poh_TargetUserID = ''heir'', poh_OwnershipVersion = 1, poh_Cutoff = 40 * second_ns\<rparr>"

definition demo_handoff_scope :: HandoffScope where
  "demo_handoff_scope = \<lparr>hs_OrganizationID = ''org'', hs_OperationID = ''handoff'', hs_OwnershipVersion = 1\<rparr>"

definition demo_settlement :: RecordSettlementInput where
  "demo_settlement = \<lparr>rsi_Scope = demo_handoff_scope, rsi_ReceiptID = ''receipt'', rsi_StateSHA256 = demo_sha,
     rsi_UsageCheckpointSHA256 = demo_sha, rsi_InvoiceCheckpointSHA256 = demo_sha,
     rsi_ProviderCheckpointSHA256 = demo_sha, rsi_Financial = demo_evidence 1000\<rparr>"

definition demo_confirm :: "string \<Rightarrow> ConfirmHandoffSnapshotInput" where
  "demo_confirm user = \<lparr>chs_Scope = demo_handoff_scope, chs_UserID = user, chs_SnapshotVersion = 2,
     chs_BalanceMinor = 1000, chs_Currency = TWD\<rparr>"

definition demo_authorize :: AuthorizeHandoffCommitInput where
  "demo_authorize = \<lparr>ahc_Scope = demo_handoff_scope, ahc_AuthorizationID = ''grant'', ahc_SnapshotVersion = 2\<rparr>"

definition demo_commit :: FinalizeHandoffInput where
  "demo_commit = \<lparr>fhi_Scope = demo_handoff_scope, fhi_AuthorizationID = ''grant'', fhi_CommittedOwnerUserID = ''heir'',
     fhi_CommittedOwnershipVersion = 2, fhi_CommittedAt = 50 * second_ns, fhi_AMCommitSHA256 = demo_sha\<rparr>"

definition demo_closure_scope :: CloudClosureScope where
  "demo_closure_scope = \<lparr>cpf_OrganizationID = ''org'', cpf_OwnerUserID = ''owner'', cpf_OwnershipVersion = 1,
     ccs_OperationID = ''closure''\<rparr>"

definition demo_closure :: PrepareCloudClosureInput where
  "demo_closure = \<lparr>pcc_Scope = demo_closure_scope, pcc_Cutoff = 60 * second_ns, pcc_AMRequestSHA256 = demo_sha\<rparr>"

definition demo_closure_settlement :: RecordCloudClosureSettlementInput where
  "demo_closure_settlement =
     \<lparr>rcs_State = \<lparr>cls_Scope = demo_closure_scope, cls_SHA256 = demo_sha, cls_Financial = demo_evidence 0,
        cls_Cutoff = 60 * second_ns, cls_ObservedAt = 70 * second_ns\<rparr>,
      rcs_ReceiptID = ''settled'', rcs_CoveredThrough = 65 * second_ns, rcs_ExpiresAt = 90 * second_ns,
      rcs_UsageCheckpointSHA256 = demo_sha, rcs_InvoiceCheckpointSHA256 = demo_sha, rcs_ProviderCheckpointSHA256 = demo_sha\<rparr>"

definition demo_close :: CloseCloudInput where
  "demo_close = \<lparr>cci_Scope = demo_closure_scope, cci_SettlementID = ''settled'', cci_AMReadinessSHA256 = demo_sha\<rparr>"

definition own_authorized :: ownership_db where
  "own_authorized = own_run demo_digests
     [(demo_env 20, OwBootstrap demo_creation),
      (demo_env 25, OwStore (OpPostLedgerEntry None demo_credit)),
      (demo_env 30, OwBeginSetup None demo_setup_input),
      (demo_env 40, OwPrepare demo_prepare),
      (demo_env 41, OwSettle demo_settlement),
      (demo_env 42, OwConfirm (demo_confirm ''owner'')),
      (demo_env 43, OwConfirm (demo_confirm ''heir'')),
      (demo_env 44, OwAuthorize demo_authorize)] empty_ownership_db"

definition own_finalizing :: ownership_db where
  "own_finalizing = own_run demo_digests [(demo_env 51, OwDecide demo_commit)] own_authorized"

definition own_handed_over :: ownership_db where
  "own_handed_over = own_run demo_digests [(demo_env 52, OwFinalize demo_commit)] own_finalizing"

definition own_debited :: ownership_db where
  "own_debited = own_run demo_digests
     [(demo_env 55, OwStore (OpPostLedgerEntry None (demo_entry LedgerDirectionDebit 1000 LedgerReasonManualAdjustmentDebit ''k9'')))]
     own_handed_over"

definition own_settled :: ownership_db where
  "own_settled = own_run demo_digests
     [(demo_env 20, OwBootstrap demo_creation),
      (demo_env 60, OwPrepareClosure demo_closure),
      (demo_env 71, OwClosureSettlement demo_closure_settlement)] empty_ownership_db"

definition own_closed :: ownership_db where
  "own_closed = own_run demo_digests [(demo_env 72, OwClose demo_close)] own_settled"

section \<open>What the runs reach\<close>

lemma own_demo_step:
  "(own_step demo_digests)\<^sup>*\<^sup>* own_authorized own_finalizing"
  "(own_step demo_digests)\<^sup>*\<^sup>* own_finalizing own_handed_over"
  "(own_step demo_digests)\<^sup>*\<^sup>* own_handed_over own_debited"
  "(own_step demo_digests)\<^sup>*\<^sup>* own_settled own_closed"
  unfolding own_finalizing_def own_handed_over_def own_debited_def own_closed_def
  by (rule own_run_reachable, simp add: demo_env_good)+

lemma own_demo_reachable:
  "own_reachable demo_digests own_finalizing" "own_reachable demo_digests own_handed_over"
  "own_reachable demo_digests own_settled" "own_reachable demo_digests own_closed"
proof -
  have "own_reachable demo_digests own_authorized"
    unfolding own_authorized_def by (rule own_run_reachable) (simp add: demo_env_good)
  then show "own_reachable demo_digests own_finalizing" using own_demo_step(1) by (rule rtranclp_trans)
  then show "own_reachable demo_digests own_handed_over" using own_demo_step(2) by (rule rtranclp_trans)
  show "own_reachable demo_digests own_settled"
    unfolding own_settled_def by (rule own_run_reachable) (simp add: demo_env_good)
  then show "own_reachable demo_digests own_closed" using own_demo_step(4) by (rule rtranclp_trans)
qed

text \<open>What one evaluation of the run has to show: the outcome of the two last commands.\<close>

definition finalize_outcome :: "ownership_db \<Rightarrow> bool" where
  "finalize_outcome s \<longleftrightarrow>
     (case check_finalize (dig_finalize demo_digests) (demo_env 52) demo_commit of Inl _ \<Rightarrow> False
      | Inr (inp, dg) \<Rightarrow>
          (case finalize_tx (dig_state demo_digests) (demo_env 52) inp dg s of Inl _ \<Rightarrow> False
           | Inr (r, s') \<Rightarrow>
               length (db_periods (od_pay s)) = 1 \<and> map rp_OpeningOperationID (db_periods (od_pay s')) = [[], ''handoff''] \<and>
               map oh_Phase (db_handoffs (od_pay s')) = [HandoffFinalized]))"

lemma own_finalize_outcome: "finalize_outcome own_finalizing"
  by code_simp

definition close_outcome :: "ownership_db \<Rightarrow> bool" where
  "close_outcome s \<longleftrightarrow>
     (case CloseCloud (dig_closure demo_digests) (dig_close demo_digests) (demo_env 72) demo_close s of Inl _ \<Rightarrow> False
      | Inr (r, s') \<Rightarrow>
          od_completions s = [] \<and> length (od_completions s') = 1 \<and> map cc_Phase (db_closures (od_pay s')) = [ClosureClosed] \<and>
          map ca_State (db_accounts (od_pay s')) = [AccountStateClosed])"

lemma own_close_outcome: "close_outcome own_settled"
  by code_simp

lemma own_handed_over_outcome:
  obtains inp dg r where "check_finalize (dig_finalize demo_digests) (demo_env 52) demo_commit = Inr (inp, dg)"
    and "finalize_tx (dig_state demo_digests) (demo_env 52) inp dg own_finalizing = Inr (r, own_handed_over)"
    and "own_handed_over \<noteq> own_finalizing"
    and "map rp_OpeningOperationID (db_periods (od_pay own_handed_over)) = [[], ''handoff'']"
    and "map oh_Phase (db_handoffs (od_pay own_handed_over)) = [HandoffFinalized]"
proof -
  note out = own_finalize_outcome [unfolded finalize_outcome_def]
  obtain inp dg where chk: "check_finalize (dig_finalize demo_digests) (demo_env 52) demo_commit = Inr (inp, dg)"
    using out by (cases "check_finalize (dig_finalize demo_digests) (demo_env 52) demo_commit") auto
  obtain r s' where fin: "finalize_tx (dig_state demo_digests) (demo_env 52) inp dg own_finalizing = Inr (r, s')"
    using out chk by (cases "finalize_tx (dig_state demo_digests) (demo_env 52) inp dg own_finalizing") auto
  have s': "length (db_periods (od_pay own_finalizing)) = 1" "map rp_OpeningOperationID (db_periods (od_pay s')) = [[], ''handoff'']"
      "map oh_Phase (db_handoffs (od_pay s')) = [HandoffFinalized]"
    using out chk fin by simp_all
  have "own_handed_over = s'" using chk fin by (simp add: own_handed_over_def)
  moreover have "length (db_periods (od_pay s')) = 2" using arg_cong [OF s'(2), of length] by simp
  ultimately show thesis using that chk fin s' by fastforce
qed

lemma own_closed_outcome:
  obtains r where "CloseCloud (dig_closure demo_digests) (dig_close demo_digests) (demo_env 72) demo_close own_settled
      = Inr (r, own_closed)"
    and "own_closed \<noteq> own_settled" and "length (od_completions own_closed) = 1"
    and "map cc_Phase (db_closures (od_pay own_closed)) = [ClosureClosed]"
    and "map ca_State (db_accounts (od_pay own_closed)) = [AccountStateClosed]"
proof -
  note out = own_close_outcome [unfolded close_outcome_def]
  obtain r s' where cl: "CloseCloud (dig_closure demo_digests) (dig_close demo_digests) (demo_env 72) demo_close own_settled = Inr (r, s')"
    using out by (cases "CloseCloud (dig_closure demo_digests) (dig_close demo_digests) (demo_env 72) demo_close own_settled") auto
  have s': "od_completions own_settled = []" "length (od_completions s') = 1" "map cc_Phase (db_closures (od_pay s')) = [ClosureClosed]"
      "map ca_State (db_accounts (od_pay s')) = [AccountStateClosed]"
    using out cl by simp_all
  have "own_closed = s'" using cl by (simp add: own_closed_def)
  then show thesis using that cl s' by fastforce
qed

end
