(* ===== verification/Ownership_Witnesses.thy ===== *)
theory Ownership_Witnesses
  imports Closure_Safety Ownership_Scenario
begin

text \<open>
  The properties of handoffs and closures at the states of the worked scenarios: each is applied to
  a run in which all its hypotheses hold.
\<close>

lemma demo_balance_digest: "balance_digest (dig_state demo_digests)"
proof -
  define sign where "sign b = (if b < 0 then CHR ''n'' else CHR ''p'')" for b :: int
  define word where "word b = (if b = 1000 then demo_sha else sign b # replicate (nat \<bar>b\<bar>) CHR ''x'')" for b :: int
  have hd_word: "hd (word b) = (if b = 1000 then CHR ''0'' else sign b)" for b
    by (simp add: word_def demo_sha_def)
  have "b = c" if eq: "word b = word c" for b c
  proof (cases "b = 1000 \<or> c = 1000")
    case True
    then show ?thesis using arg_cong [OF eq, of hd] unfolding hd_word by (auto simp: sign_def split: if_splits)
  next
    case False
    then have "sign b = sign c" "nat \<bar>b\<bar> = nat \<bar>c\<bar>" using eq by (simp_all add: word_def)
    then show ?thesis by (auto simp: sign_def split: if_splits)
  qed
  moreover have "demo_state_digest v = word (view_balance v)" for v
    by (simp add: demo_state_digest_def word_def sign_def view_balance_def)
  ultimately show ?thesis by (simp add: balance_digest_def demo_digests_def)
qed

text \<open>The period the handoff opened, the handoff itself, and the closure of the second run.\<close>

lemma demo_successor:
  obtains p where "p \<in> set (db_periods (od_pay own_handed_over))" and "rp_OpeningOperationID p = ''handoff''"
  by (rule own_handed_over_outcome) (fastforce simp: map_eq_Cons_conv)

lemma demo_handoff:
  obtains h where "h \<in> set (db_handoffs (od_pay own_handed_over))" and "oh_Phase h = HandoffFinalized"
  by (rule own_handed_over_outcome) (fastforce simp: map_eq_Cons_conv)

lemma demo_closed:
  obtains c where "c \<in> set (db_closures (od_pay own_closed))" and "cc_Phase c = ClosureClosed"
  by (rule own_closed_outcome) (fastforce simp: map_eq_Cons_conv)

theorem successor_opens_with_confirmed_balance_witness:
  "\<exists>p \<in> set (db_periods (od_pay own_handed_over)). rp_OpeningOperationID p = ''handoff'' \<and>
    (\<exists>h \<in> set (db_handoffs (od_pay own_handed_over)). \<exists>b \<in> set (od_snapshots own_handed_over).
      oh_ID h = ''handoff'' \<and> oh_TargetUserID h = rp_OwnerUserID p \<and> rp_OpeningBalanceMinor p = Some (bs_BalanceMinor b))"
proof -
  obtain p where p: "p \<in> set (db_periods (od_pay own_handed_over))" "rp_OpeningOperationID p = ''handoff''"
    by (rule demo_successor)
  then have "rp_OpeningOperationID p \<noteq> []" by simp
  from successor_opens_with_confirmed_balance [OF own_demo_reachable(2) demo_balance_digest p(1) this]
  show ?thesis using p by fastforce
qed

theorem handoff_commits_or_cancels_witness:
  "\<exists>h \<in> set (db_handoffs (od_pay own_handed_over)).
    list_ex (\<lambda>d. hcd_OperationID d = oh_ID h) (db_committed_decisions (od_pay own_handed_over)) \<and>
    \<not> list_ex (\<lambda>c. hcx_OperationID c = oh_ID h) (od_cancellations own_handed_over)"
proof -
  obtain h where h: "h \<in> set (db_handoffs (od_pay own_handed_over))" "oh_Phase h = HandoffFinalized" by (rule demo_handoff)
  from handoff_commits_or_cancels [OF own_demo_reachable(2) h(1)] show ?thesis using h by blast
qed


theorem responsibility_never_overlaps_witness: "period_chain (periods_of (demo_uuid 0) (od_pay own_handed_over))"
  using responsibility_never_overlaps [OF own_demo_reachable(2)] by blast

theorem finalize_hands_over_witness:
  "\<exists>x p. current_period (od_pay own_handed_over) x = Some p \<and>
    (\<forall>m \<in> set (db_methods (od_pay own_handed_over)). pm_AccountID m = x \<longrightarrow> pm_Status m = PaymentMethodStatusRevoked)"
proof -
  obtain inp dg r where chk: "check_finalize (dig_finalize demo_digests) (demo_env 52) demo_commit = Inr (inp, dg)"
      and fin: "finalize_tx (dig_state demo_digests) (demo_env 52) inp dg own_finalizing = Inr (r, own_handed_over)"
      and ne: "own_handed_over \<noteq> own_finalizing"
    by (rule own_handed_over_outcome)
  from finalize_hands_over [OF own_demo_reachable(1) demo_env_good chk fin ne] show ?thesis by blast
qed

theorem closure_closes_or_cancels_witness:
  "\<exists>c \<in> set (db_closures (od_pay own_closed)). cc_Phase c = ClosureClosed \<and>
    \<not> list_ex (\<lambda>k. ccx_OperationID k = cc_ID c) (od_closure_cancellations own_closed)"
proof -
  obtain c where c: "c \<in> set (db_closures (od_pay own_closed))" "cc_Phase c = ClosureClosed" by (rule demo_closed)
  from closure_closes_or_cancels [OF own_demo_reachable(4) c(1) rtranclp.rtrancl_refl] show ?thesis using c by blast
qed

theorem handoff_excludes_closure_witness:
  "\<not> (handoff_open (od_pay own_closed) (demo_uuid 0) \<and> closure_active (od_pay own_closed) (demo_uuid 0))"
  by (rule handoff_excludes_closure [OF own_demo_reachable(4)])

theorem cloud_closes_settled_witness:
  "\<exists>account op. loadCloudClosureTx (cci_Scope demo_close) own_settled = Inr (account, op) \<and> ca_AvailableBalanceMinor account = 0"
proof -
  obtain r where cl: "CloseCloud (dig_closure demo_digests) (dig_close demo_digests) (demo_env 72) demo_close own_settled
      = Inr (r, own_closed)" and ne: "own_closed \<noteq> own_settled"
    by (rule own_closed_outcome)
  from cloud_closes_settled [OF cl ne] show ?thesis by blast
qed

end
