(* ===== verification/Topup_Email.thy ===== *)
theory Topup_Email
  imports Payment_Machine "HOL-Library.Product_Lexorder"
begin

text \<open>
  The outbox of receipt mails: \<^verbatim>\<open>internal/paymentstore/topup_email.go\<close>, the table of
  \<^verbatim>\<open>migrations/064_topup_email_outbox\<close> and the loop of \<^verbatim>\<open>cmd/payment-worker\<close> that sends
  the mails. A claim leases the mails that are due; the holder of a lease is known by the attempt
  it was given. The sender is a parameter.
\<close>

section \<open>The outbox\<close>

datatype email_status = EmailPending | EmailSending | EmailSent

record email_row = topup_email +
  em_Status :: email_status
  em_AttemptCount :: int
  em_AvailableAt :: instant
  em_LeaseUntil :: "instant option"
  em_SentAt :: "instant option"
  em_CreatedAt :: instant
  em_UpdatedAt :: instant

definition hour_ns :: int where "hour_ns = 60 * minute_ns"

text \<open>
  The row a settled payment leaves (\<open>queue_topup_email\<close>): it is available when the payment completed,
  the rest is the defaults of the table.
\<close>

definition email_entry :: "env \<Rightarrow> topup_email \<Rightarrow> email_row" where
  "email_entry E m = topup_email.extend m
     \<lparr>em_Status = EmailPending, em_AttemptCount = 0, em_AvailableAt = te_PaymentCompletedAt m, em_LeaseUntil = None,
      em_SentAt = None, em_CreatedAt = env_now E, em_UpdatedAt = env_now E\<rparr>"

definition enqueue_email :: "env \<Rightarrow> topup_email \<Rightarrow> email_row list \<Rightarrow> email_row list" where
  "enqueue_email E m rows =
     (if list_ex (\<lambda>r. te_IntentID r = te_IntentID m) rows then rows else rows @ [email_entry E m])"

definition email_due :: "instant \<Rightarrow> email_row \<Rightarrow> bool" where
  "email_due now r =
     (em_Status r = EmailPending \<and> em_AvailableAt r \<le> db_time now \<or>
      em_Status r = EmailSending \<and> (case em_LeaseUntil r of None \<Rightarrow> False | Some t \<Rightarrow> t \<le> db_time now))"

definition lease_email :: "instant \<Rightarrow> email_row \<Rightarrow> email_row" where
  "lease_email now r =
     r\<lparr>em_Status := EmailSending, em_LeaseUntil := Some (db_time (now + 5 * minute_ns)),
       em_AttemptCount := em_AttemptCount r + 1, em_UpdatedAt := db_time now\<rparr>"

text \<open>
  The rows other transactions hold locked are skipped (\<^verbatim>\<open>SKIP LOCKED\<close>); they are a parameter.
  The statement fails as a whole when the 32-bit attempt counter of a row would overflow.
\<close>

definition ClaimTopUpEmails :: "string list \<Rightarrow> instant \<Rightarrow> int \<Rightarrow> email_row list \<Rightarrow>
    error + (email_row list \<times> email_row list)" where
  "ClaimTopUpEmails locked now limit rows =
     (let limit = (if limit < 1 \<or> limit > 100 then 25 else limit);
          ready = take (nat limit) (sort_key (\<lambda>r. (em_AvailableAt r, em_CreatedAt r))
            (filter (\<lambda>r. email_due now r \<and> te_IntentID r \<notin> set locked) rows))
      in if list_ex (\<lambda>r. em_AttemptCount r \<ge> 2 ^ 31 - 1) ready then Inl (PgError ''22003'' [])
         else Inr (map (lease_email now) ready,
                   update_where (\<lambda>r. te_IntentID r \<in> te_IntentID ` set ready) (lease_email now) rows))"

definition holds_email :: "string \<Rightarrow> int \<Rightarrow> email_row \<Rightarrow> bool" where
  "holds_email intentID attempt r =
     (te_IntentID r = intentID \<and> em_Status r = EmailSending \<and> em_AttemptCount r = attempt)"

definition MarkTopUpEmailSent :: "string \<Rightarrow> int \<Rightarrow> instant \<Rightarrow> email_row list \<Rightarrow> bool \<times> email_row list" where
  "MarkTopUpEmailSent intentID attempt now rows =
     (length (filter (holds_email intentID attempt) rows) = 1,
      update_where (holds_email intentID attempt)
        (\<lambda>r. r\<lparr>em_Status := EmailSent, em_SentAt := Some (db_time now), em_LeaseUntil := None,
               em_UpdatedAt := db_time now\<rparr>) rows)"

text \<open>The delay doubles with every attempt until it reaches an hour.\<close>

function backoff :: "int \<Rightarrow> int \<Rightarrow> int \<Rightarrow> int" where
  "backoff attempt i delay =
     (if i < attempt \<and> delay < hour_ns then backoff attempt (i + 1) (delay * 2) else delay)"
  by pat_completeness auto
termination by (relation "measure (\<lambda>(attempt, i, _). nat (attempt - i))") auto

declare backoff.simps [simp del]

definition retry_delay :: "int \<Rightarrow> int" where
  "retry_delay attempt =
     (let delay = backoff attempt 1 (30 * second_ns) in if delay > hour_ns then hour_ns else delay)"

definition RetryTopUpEmail :: "string \<Rightarrow> int \<Rightarrow> instant \<Rightarrow> email_row list \<Rightarrow> bool \<times> email_row list" where
  "RetryTopUpEmail intentID attempt now rows =
     (length (filter (holds_email intentID attempt) rows) = 1,
      update_where (holds_email intentID attempt)
        (\<lambda>r. r\<lparr>em_Status := EmailPending, em_AvailableAt := db_time (now + retry_delay attempt),
               em_LeaseUntil := None, em_UpdatedAt := db_time now\<rparr>) rows)"

section \<open>The worker\<close>

text \<open>One turn of \<^verbatim>\<open>runTopUpEmailWorker\<close>: \<open>clock n\<close> is the time at its \<open>n\<close>-th reading.\<close>

fun deliver :: "(email_row \<Rightarrow> bool) \<Rightarrow> (nat \<Rightarrow> instant) \<Rightarrow> email_row list \<Rightarrow> email_row list \<Rightarrow> email_row list" where
  "deliver send clock [] rows = rows"
| "deliver send clock (m # ms) rows =
     deliver send (\<lambda>n. clock (Suc n)) ms
       (snd (if send m then MarkTopUpEmailSent (te_IntentID m) (em_AttemptCount m) (clock 0) rows
             else RetryTopUpEmail (te_IntentID m) (em_AttemptCount m) (clock 0) rows))"

definition email_turn :: "(email_row \<Rightarrow> bool) \<Rightarrow> string list \<Rightarrow> (nat \<Rightarrow> instant) \<Rightarrow> email_row list \<Rightarrow> email_row list" where
  "email_turn send locked clock rows =
     (case ClaimTopUpEmails locked (clock 0) 10 rows of
        Inl _ \<Rightarrow> rows | Inr (messages, rows) \<Rightarrow> deliver send (\<lambda>n. clock (Suc n)) messages rows)"

section \<open>Steps of the outbox\<close>

text \<open>The workers run side by side, so their statements interleave.\<close>

inductive email_step :: "email_row list \<Rightarrow> email_row list \<Rightarrow> bool" where
  enqueue: "email_step rows (enqueue_email E m rows)"
| claim: "ClaimTopUpEmails locked now limit rows = Inr (ms, rows') \<Longrightarrow> email_step rows rows'"
| mark: "email_step rows (snd (MarkTopUpEmailSent x n now rows))"
| retry: "email_step rows (snd (RetryTopUpEmail x n now rows))"

inductive_cases email_stepE: "email_step rows rows'"

section \<open>What the outbox promises\<close>

text \<open>
  The abstract machine of the mails: a mail is queued once, leased while it is not sent, and its
  holder, known by the number of the attempt, sends it or gives it back.
\<close>

type_synonym mails = "string \<Rightarrow> (email_status \<times> int) list"

inductive mail_step :: "mails \<Rightarrow> mails \<Rightarrow> bool" where
  queue: "f x = [] \<Longrightarrow> mail_step f (f(x := [(EmailPending, 0)]))"
| lease: "(\<And>x. x \<in> X \<Longrightarrow> \<exists>st n. f x = [(st, n)] \<and> st \<noteq> EmailSent) \<Longrightarrow>
    mail_step f (\<lambda>x. if x \<in> X then map (\<lambda>(_, n). (EmailSending, n + 1)) (f x) else f x)"
| finish: "f x = [(EmailSending, n)] \<Longrightarrow> st \<noteq> EmailSending \<Longrightarrow> mail_step f (f(x := [(st, n)]))"

definition mails_inv :: "mails \<Rightarrow> bool" where
  "mails_inv f \<longleftrightarrow> (\<forall>x. length (f x) \<le> 1)"

text \<open>A mail stays, its attempts only count up, and a sent mail is never touched again.\<close>

definition mail_later :: "email_status \<times> int \<Rightarrow> email_status \<times> int \<Rightarrow> bool" where
  "mail_later m m' \<longleftrightarrow> snd m \<le> snd m' \<and> (fst m = EmailSent \<longrightarrow> m' = m) \<and>
     (fst m \<noteq> EmailSending \<and> fst m' = EmailSending \<longrightarrow> snd m < snd m')"

definition mails_grow :: "mails \<Rightarrow> mails \<Rightarrow> bool" where
  "mails_grow f f' \<longleftrightarrow> (\<forall>x m. f x = [m] \<longrightarrow> (\<exists>m'. f' x = [m'] \<and> mail_later m m'))"

lemma mails_inv_step: "mail_step f f' \<Longrightarrow> mails_inv f \<Longrightarrow> mails_inv f'"
  by (induction rule: mail_step.induct) (auto simp: mails_inv_def)

lemma mails_grow_step: "mail_step f f' \<Longrightarrow> mails_grow f f'"
  by (induction rule: mail_step.induct) (fastforce simp: mails_grow_def mail_later_def)+

definition mails_of :: "email_row list \<Rightarrow> mails" where
  "mails_of rows x = map (\<lambda>r. (em_Status r, em_AttemptCount r)) (filter (\<lambda>r. te_IntentID r = x) rows)"

lemma filter_update_commute:
  "(\<And>r. p r \<Longrightarrow> k (f r) = k r) \<Longrightarrow>
   filter (\<lambda>r. k r = x) (update_where p f rows) = update_where p f (filter (\<lambda>r. k r = x) rows)"
  by (induction rows) auto

lemma mails_of_member:
  assumes "r \<in> set rows" and "mails_inv (mails_of rows)"
  shows "filter (\<lambda>q. te_IntentID q = te_IntentID r) rows = [r]"
proof -
  let ?rs = "filter (\<lambda>q. te_IntentID q = te_IntentID r) rows"
  have "r \<in> set ?rs" using assms(1) by simp
  moreover have "length ?rs \<le> 1" using assms(2) unfolding mails_inv_def mails_of_def length_map by blast
  ultimately show ?thesis by (cases ?rs) auto
qed

lemma mails_distinct: "mails_inv (mails_of rows) \<Longrightarrow> distinct (map te_IntentID rows)"
proof (induction rows)
  case (Cons r rows)
  have le: "length (filter (\<lambda>q. te_IntentID q = x) (r # rows)) \<le> 1" for x
    using Cons.prems unfolding mails_inv_def mails_of_def length_map by blast
  have "length (filter (\<lambda>q. te_IntentID q = x) rows) \<le> 1" for x using le [of x] by (simp split: if_splits)
  moreover have "filter (\<lambda>q. te_IntentID q = te_IntentID r) rows = []" using le [of "te_IntentID r"] by simp
  then have "te_IntentID r \<notin> set (map te_IntentID rows)" by (auto simp: filter_empty_conv)
  ultimately show ?case using Cons.IH by (simp add: mails_inv_def mails_of_def)
qed simp

lemma mails_of_singleton: "r \<in> set rows \<Longrightarrow> mails_inv (mails_of rows) \<Longrightarrow>
    mails_of rows (te_IntentID r) = [(em_Status r, em_AttemptCount r)]"
  by (simp add: mails_of_def mails_of_member)

subsection \<open>The statements\<close>

lemma mails_of_enqueue: "mail_step\<^sup>*\<^sup>* (mails_of rows) (mails_of (enqueue_email E m rows))"
proof (cases "list_ex (\<lambda>r. te_IntentID r = te_IntentID m) rows")
  case False
  then have none: "mails_of rows (te_IntentID m) = []" by (auto simp: mails_of_def list_ex_iff filter_empty_conv)
  have "mails_of (enqueue_email E m rows) = (mails_of rows)(te_IntentID m := [(EmailPending, 0)])"
    using False none by (auto simp: enqueue_email_def mails_of_def email_entry_def topup_email.defs fun_eq_iff)
  then show ?thesis using mail_step.queue [of "mails_of rows", OF none] by simp
qed (simp add: enqueue_email_def)

lemma claimed_emails:
  assumes "ClaimTopUpEmails locked now limit rows = Inr (ms, rows')"
  obtains ready where "ms = map (lease_email now) ready" and "set ready \<subseteq> set rows" and "\<forall>r \<in> set ready. email_due now r"
    and "rows' = update_where (\<lambda>r. te_IntentID r \<in> te_IntentID ` set ready) (lease_email now) rows"
    and "length ready \<le> 100" and "distinct (map te_IntentID rows) \<longrightarrow> distinct (map te_IntentID ready)"
proof -
  let ?limit = "if limit < 1 \<or> limit > 100 then 25 else limit"
  let ?ready = "take (nat ?limit) (sort_key (\<lambda>r. (em_AvailableAt r, em_CreatedAt r))
            (filter (\<lambda>r. email_due now r \<and> te_IntentID r \<notin> set locked) rows))"
  have "set ?ready \<subseteq> {r \<in> set rows. email_due now r}" by (auto dest!: in_set_takeD)
  moreover have "nat ?limit \<le> 100" by auto
  then have "length ?ready \<le> 100" by (simp add: min.coboundedI2)
  moreover have "distinct (map te_IntentID ?ready)" if "distinct (map te_IntentID rows)"
    using that by (auto simp: distinct_map distinct_take inj_on_def dest!: in_set_takeD)
  ultimately show thesis
    using assms by (intro that [of ?ready]) (auto simp: ClaimTopUpEmails_def Let_def split: if_splits)
qed

lemma due_not_sent: "email_due now r \<Longrightarrow> em_Status r \<noteq> EmailSent"
  by (auto simp: email_due_def)

lemma mails_of_claim:
  assumes "ClaimTopUpEmails locked now limit rows = Inr (ms, rows')" and inv: "mails_inv (mails_of rows)"
  shows "mail_step (mails_of rows) (mails_of rows')"
proof -
  obtain ready where ready: "set ready \<subseteq> set rows" "\<forall>r \<in> set ready. email_due now r"
      "rows' = update_where (\<lambda>r. te_IntentID r \<in> te_IntentID ` set ready) (lease_email now) rows"
    using assms(1) by (rule claimed_emails)
  let ?X = "te_IntentID ` set ready"
  have "mails_of rows' = (\<lambda>x. if x \<in> ?X then map (\<lambda>(_, n). (EmailSending, n + 1)) (mails_of rows x) else mails_of rows x)"
    unfolding ready(3) mails_of_def
    by (subst filter_update_commute) (auto simp: lease_email_def update_where_def fun_eq_iff intro!: map_cong)
  moreover have "\<exists>st n. mails_of rows x = [(st, n)] \<and> st \<noteq> EmailSent" if "x \<in> ?X" for x
    using that ready(1,2) mails_of_singleton [OF _ inv] due_not_sent by fastforce
  ultimately show ?thesis using mail_step.lease [of ?X "mails_of rows"] by simp
qed

lemma filter_is_single: "filter p rows = [r] \<Longrightarrow> p r"
  by (induction rows) (auto split: if_splits)

lemma mails_of_finished:
  assumes inv: "mails_inv (mails_of rows)" and f: "\<And>r. te_IntentID (f r) = te_IntentID r"
    "\<And>r. em_AttemptCount (f r) = em_AttemptCount r" "\<And>r. em_Status (f r) = st"
    and m: "mails_of rows x = [(EmailSending, n)]"
  shows "mails_of (update_where (holds_email x n) f rows) = (mails_of rows)(x := [(st, n)])"
proof
  fix y
  have upd: "mails_of (update_where (holds_email x n) f rows) y =
      map (\<lambda>r. (em_Status r, em_AttemptCount r)) (update_where (holds_email x n) f (filter (\<lambda>q. te_IntentID q = y) rows))"
    unfolding mails_of_def by (subst filter_update_commute) (simp_all add: f)
  show "mails_of (update_where (holds_email x n) f rows) y = ((mails_of rows)(x := [(st, n)])) y"
  proof (cases "y = x")
    case True
    obtain r where r: "filter (\<lambda>q. te_IntentID q = x) rows = [r]" "em_Status r = EmailSending" "em_AttemptCount r = n"
      using m by (auto simp: mails_of_def map_eq_Cons_conv)
    then have "holds_email x n r" using filter_is_single [OF r(1)] by (simp add: holds_email_def)
    then show ?thesis using True r unfolding upd by (simp add: f)
  next
    case False
    then have "update_where (holds_email x n) f (filter (\<lambda>q. te_IntentID q = y) rows) = filter (\<lambda>q. te_IntentID q = y) rows"
      by (induction rows) (auto simp: holds_email_def)
    then show ?thesis using False unfolding upd by (simp add: mails_of_def)
  qed
qed

lemma mails_of_finish:
  assumes inv: "mails_inv (mails_of rows)" and f: "\<And>r. te_IntentID (f r) = te_IntentID r"
    "\<And>r. em_AttemptCount (f r) = em_AttemptCount r" "\<And>r. em_Status (f r) = st" and st: "st \<noteq> EmailSending"
  shows "mail_step\<^sup>*\<^sup>* (mails_of rows) (mails_of (update_where (holds_email x n) f rows))"
proof (cases "\<exists>r \<in> set rows. holds_email x n r")
  case True
  then have m: "mails_of rows x = [(EmailSending, n)]"
    using mails_of_singleton [OF _ inv] by (auto simp: holds_email_def)
  show ?thesis
    unfolding mails_of_finished [OF inv f m] using mail_step.finish [of "mails_of rows" x n st, OF m st] by simp
next
  case False
  then have "update_where (holds_email x n) f rows = rows" by (induction rows) auto
  then show ?thesis by simp
qed

interpretation outbox: growing_refinement mails_of mail_step email_step mails_inv mails_grow
proof unfold_locales
  show "mail_step\<^sup>*\<^sup>* (mails_of s) (mails_of s')" if "email_step s s'" "mails_inv (mails_of s)" for s s'
    using that
    by (cases rule: email_step.cases)
       (auto simp: MarkTopUpEmailSent_def RetryTopUpEmail_def intro!: mails_of_enqueue mails_of_finish
         dest: mails_of_claim)
  show "mails_grow f h" if "mails_grow f g" "mails_grow g h" for f g h
    using that unfolding mails_grow_def mail_later_def by fastforce
  show "mails_grow f f" for f by (simp add: mails_grow_def mail_later_def)
qed (auto intro: mails_inv_step mails_grow_step)

abbreviation outbox_reachable :: "email_row list \<Rightarrow> bool" where
  "outbox_reachable rows \<equiv> email_step\<^sup>*\<^sup>* [] rows"

lemma outbox_reachable_inv: "outbox_reachable rows \<Longrightarrow> mails_inv (mails_of rows)"
  using outbox.runs_simulate [of "[]" rows] by (simp add: mails_inv_def mails_of_def)

section \<open>A turn of the worker\<close>

definition delivered :: "bool \<Rightarrow> email_status" where
  "delivered ok = (if ok then EmailSent else EmailPending)"

lemma deliver_mails:
  assumes "mails_inv (mails_of rows)" and "distinct (map te_IntentID ms)"
    and "\<forall>m \<in> set ms. mails_of rows (te_IntentID m) = [(EmailSending, em_AttemptCount m)]"
  shows "(\<forall>m \<in> set ms. mails_of (deliver send clock ms rows) (te_IntentID m) = [(delivered (send m), em_AttemptCount m)]) \<and>
    (\<forall>x. x \<notin> te_IntentID ` set ms \<longrightarrow> mails_of (deliver send clock ms rows) x = mails_of rows x)"
  using assms
proof (induction send clock ms rows rule: deliver.induct)
  case (2 send clock m ms rows)
  let ?rows = "snd (if send m then MarkTopUpEmailSent (te_IntentID m) (em_AttemptCount m) (clock 0) rows
      else RetryTopUpEmail (te_IntentID m) (em_AttemptCount m) (clock 0) rows)"
  have m: "mails_of rows (te_IntentID m) = [(EmailSending, em_AttemptCount m)]" using "2.prems"(3) by simp
  have eq: "mails_of ?rows = (mails_of rows)(te_IntentID m := [(delivered (send m), em_AttemptCount m)])"
    by (simp add: MarkTopUpEmailSent_def RetryTopUpEmail_def delivered_def mails_of_finished [OF "2.prems"(1) _ _ _ m])
  have "mails_inv (mails_of ?rows)" using "2.prems"(1) unfolding eq by (simp add: mails_inv_def)
  moreover have "\<forall>q \<in> set ms. mails_of ?rows (te_IntentID q) = [(EmailSending, em_AttemptCount q)]"
  proof
    fix q assume q: "q \<in> set ms"
    then have "te_IntentID q \<noteq> te_IntentID m" using "2.prems"(2) by (metis distinct.simps(2) image_eqI list.simps(9) set_map)
    then show "mails_of ?rows (te_IntentID q) = [(EmailSending, em_AttemptCount q)]" using "2.prems"(3) q unfolding eq by simp
  qed
  moreover have "distinct (map te_IntentID ms)" "te_IntentID m \<notin> te_IntentID ` set ms" using "2.prems"(2) by simp_all
  ultimately have
      "\<forall>q \<in> set ms. mails_of (deliver send clock (m # ms) rows) (te_IntentID q) = [(delivered (send q), em_AttemptCount q)]"
      "\<forall>x. x \<notin> te_IntentID ` set ms \<longrightarrow> mails_of (deliver send clock (m # ms) rows) x = mails_of ?rows x"
    using "2.IH" unfolding deliver.simps by blast+
  then show ?case using \<open>te_IntentID m \<notin> te_IntentID ` set ms\<close> unfolding eq by simp
qed simp

lemma claimed_mails:
  assumes "ClaimTopUpEmails locked now limit rows = Inr (ms, rows')" and inv: "mails_inv (mails_of rows)"
  shows "distinct (map te_IntentID ms)" and "\<forall>m \<in> set ms. mails_of rows' (te_IntentID m) = [(EmailSending, em_AttemptCount m)]"
    and "\<forall>x. x \<notin> te_IntentID ` set ms \<longrightarrow> mails_of rows' x = mails_of rows x" and "mails_inv (mails_of rows')"
proof -
  show inv': "mails_inv (mails_of rows')" using mails_inv_step [OF mails_of_claim [OF assms] inv] .
  obtain ready where r: "ms = map (lease_email now) ready" "set ready \<subseteq> set rows"
      "rows' = update_where (\<lambda>r. te_IntentID r \<in> te_IntentID ` set ready) (lease_email now) rows"
      and dist: "distinct (map te_IntentID rows) \<longrightarrow> distinct (map te_IntentID ready)"
    using assms(1) by (rule claimed_emails)
  have key: "te_IntentID (lease_email now q) = te_IntentID q" for q by (simp add: lease_email_def)
  show "\<forall>m \<in> set ms. mails_of rows' (te_IntentID m) = [(EmailSending, em_AttemptCount m)]"
  proof
    fix m assume "m \<in> set ms"
    then have "m \<in> set rows'" using r by (force simp: set_update_where)
    with mails_of_singleton [OF this inv'] \<open>m \<in> set ms\<close> show "mails_of rows' (te_IntentID m) = [(EmailSending, em_AttemptCount m)]"
      by (auto simp: r(1) lease_email_def)
  qed
  show "\<forall>x. x \<notin> te_IntentID ` set ms \<longrightarrow> mails_of rows' x = mails_of rows x"
    unfolding r(3) mails_of_def
    by (subst filter_update_commute) (auto simp: key r(1) image_image update_where_def intro!: map_cong)
  show "distinct (map te_IntentID ms)"
    using dist mails_distinct [OF inv] by (simp add: r(1) key comp_def)
qed

section \<open>The delay\<close>

lemma hour_seconds: "hour_ns = 120 * (30 * second_ns)"
  by (simp add: hour_ns_def minute_ns_def)

lemma backoff_doubles:
  "backoff attempt i (30 * second_ns * 2 ^ k) =
     30 * second_ns * 2 ^ (k + min (nat (attempt - i)) (7 - k))" if "k \<le> 7"
  using that
proof (induction "nat (attempt - i)" arbitrary: i k)
  case 0
  then show ?case by (simp add: backoff.simps)
next
  case (Suc d)
  have small: "30 * second_ns * 2 ^ k < hour_ns \<longleftrightarrow> k < 7"
  proof -
    have "30 * second_ns * 2 ^ k < hour_ns \<longleftrightarrow> (2::int) ^ k < 120" by (simp add: hour_seconds second_ns_def)
    also have "\<dots> \<longleftrightarrow> k < 7"
    proof
      assume lt: "(2::int) ^ k < 120"
      show "k < 7"
      proof (rule ccontr)
        assume "\<not> k < 7"
        then have "(2::int) ^ 7 \<le> 2 ^ k" by (intro power_increasing) auto
        with lt show False by simp
      qed
    next
      assume "k < 7"
      then have "(2::int) ^ k \<le> 2 ^ 6" by (intro power_increasing) auto
      then show "(2::int) ^ k < 120" by simp
    qed
    finally show ?thesis .
  qed
  show ?case
  proof (cases "k < 7")
    case True
    have "i < attempt" using Suc.hyps(2) by linarith
    then have "backoff attempt i (30 * second_ns * 2 ^ k) = backoff attempt (i + 1) (30 * second_ns * 2 ^ Suc k)"
      using small True by (subst backoff.simps) (simp add: algebra_simps)
    also have "\<dots> = 30 * second_ns * 2 ^ (Suc k + min (nat (attempt - (i + 1))) (7 - Suc k))"
      using Suc.hyps(2) True by (intro Suc.hyps(1)) auto
    also have "Suc k + min (nat (attempt - (i + 1))) (7 - Suc k) = k + min (nat (attempt - i)) (7 - k)"
      using Suc.hyps(2) True by (simp add: nat_diff_distrib min_def) linarith
    finally show ?thesis .
  next
    case False
    then show ?thesis using Suc.prems small by (subst backoff.simps) simp
  qed
qed

section \<open>Properties\<close>

text \<open>(C36)
  The delay before a mail is tried again is computed in at most seven doublings, whatever the number
  of the attempt: it is thirty seconds for the first, doubles with each further one and is capped at
  an hour.
\<close>

theorem retry_delay_ends:
  "\<exists>k \<le> 7. backoff attempt 1 (30 * second_ns) = 30 * second_ns * 2 ^ k \<and>
     k = min (nat (attempt - 1)) 7 \<and> retry_delay attempt = min hour_ns (30 * second_ns * 2 ^ k) \<and>
     30 * second_ns \<le> retry_delay attempt \<and> retry_delay attempt \<le> hour_ns"
proof (intro exI [of _ "min (nat (attempt - 1)) 7"] conjI)
  let ?k = "min (nat (attempt - 1)) 7"
  show b: "backoff attempt 1 (30 * second_ns) = 30 * second_ns * 2 ^ ?k"
    using backoff_doubles [of 0 attempt 1] by simp
  show m: "retry_delay attempt = min hour_ns (30 * second_ns * 2 ^ ?k)"
    by (simp add: retry_delay_def b Let_def min_def)
  show "30 * second_ns \<le> retry_delay attempt"
    unfolding m by (simp add: hour_seconds second_ns_def)
qed (simp_all add: retry_delay_def Let_def)


text \<open>A turn of the worker settles every mail it claimed: with no other worker in between, a mail whose
  delivery succeeded is sent, one whose delivery failed is pending again for a later attempt, and no
  other mail is touched.
\<close>

theorem email_turn_settles:
  assumes "outbox_reachable rows" and "ClaimTopUpEmails locked (clock 0) 10 rows = Inr (ms, rows1)"
  shows "(\<forall>m \<in> set ms. mails_of (email_turn send locked clock rows) (te_IntentID m) =
        [(if send m then EmailSent else EmailPending, em_AttemptCount m)]) \<and>
    (\<forall>x. x \<notin> te_IntentID ` set ms \<longrightarrow> mails_of (email_turn send locked clock rows) x = mails_of rows x)"
proof -
  note c = claimed_mails [OF assms(2) outbox_reachable_inv [OF assms(1)]]
  show ?thesis
    using deliver_mails [OF c(4,1,2), of send "\<lambda>n. clock (Suc n)"] c(3) by (simp add: email_turn_def assms(2) delivered_def)
qed

section \<open>The properties on a run\<close>

definition demo_mail :: topup_email where
  "demo_mail = \<lparr>te_IntentID = ''intent'', te_OrganizationID = ''org'', te_RecipientEmail = ''a@b'', te_RecipientName = ''A'',
     te_AmountMinor = 100, te_Currency = TWD, te_Provider = ''paypal'', te_PaymentCreatedAt = 0, te_PaymentCompletedAt = second_ns\<rparr>"

definition demo_mail_env :: env where
  "demo_mail_env = \<lparr>env_now = 0, env_clock = 0, env_uuid = (\<lambda>_. []), env_uuid_text = Some\<rparr>"

definition demo_outbox :: "email_row list" where
  "demo_outbox = enqueue_email demo_mail_env demo_mail []"

definition demo_turn_clock :: "nat \<Rightarrow> instant" where
  "demo_turn_clock n = int (Suc n) * second_ns"

definition demo_outbox_sent :: "email_row list" where
  "demo_outbox_sent = email_turn (\<lambda>_. True) [] demo_turn_clock demo_outbox"

lemma demo_outbox_reachable: "outbox_reachable demo_outbox"
  unfolding demo_outbox_def by (rule r_into_rtranclp) (rule email_step.enqueue)

lemma demo_outbox_claim:
  "ClaimTopUpEmails [] (demo_turn_clock 0) 10 demo_outbox =
     Inr (map (lease_email second_ns) demo_outbox, map (lease_email second_ns) demo_outbox)"
proof -
  have due: "email_due second_ns (email_entry demo_mail_env demo_mail)"
    by (simp add: email_due_def email_entry_def demo_mail_def demo_mail_env_def topup_email.defs db_time_def second_ns_def)
  have "em_AttemptCount (email_entry demo_mail_env demo_mail) = 0" by (simp add: email_entry_def topup_email.defs)
  then show ?thesis
    by (simp add: ClaimTopUpEmails_def demo_outbox_def enqueue_email_def demo_turn_clock_def due)
qed

theorem email_turn_settles_witness:
  "\<exists>n. mails_of demo_outbox_sent ''intent'' = [(EmailSent, n)]"
proof -
  have "te_IntentID (lease_email second_ns (email_entry demo_mail_env demo_mail)) = ''intent''"
    by (simp add: lease_email_def email_entry_def topup_email.defs demo_mail_def)
  moreover have "lease_email second_ns (email_entry demo_mail_env demo_mail) \<in> set (map (lease_email second_ns) demo_outbox)"
    by (simp add: demo_outbox_def enqueue_email_def)
  ultimately show ?thesis
    using email_turn_settles [of demo_outbox "[]" demo_turn_clock _ _ "\<lambda>_. True", OF demo_outbox_reachable demo_outbox_claim] unfolding demo_outbox_sent_def by force
qed


end
