(* ===== verification/Reference_Crypto.thy ===== *)
theory Reference_Crypto
  imports Go_Prelude
begin

text \<open>
  The envelopes of provider references: \<^verbatim>\<open>internal/paymentcrypto/cipher.go\<close>. The authenticated
  cipher (AES-GCM of the standard library) and the source of nonces are parameters; the base64
  decoding of the key is written out.
\<close>

section \<open>Base64\<close>

definition b64_chars :: string where
  "b64_chars = ''ABCDEFGHIJKLMNOPQRSTUVWXYZabcdefghijklmnopqrstuvwxyz0123456789+/''"

definition b64_char :: "nat \<Rightarrow> char" where
  "b64_char n = b64_chars ! n"

definition b64_value :: "char \<Rightarrow> nat option" where
  "b64_value c = (let n = length (takeWhile (\<lambda>d. d \<noteq> c) b64_chars) in if n < 64 then Some n else None)"

text \<open>
  \<^verbatim>\<open>base64.StdEncoding.DecodeString\<close> skips line breaks, wants whole groups of four characters,
  accepts padding in the last group only and ignores the bits the padding leaves over.
\<close>

fun b64_groups :: "string \<Rightarrow> nat list option" where
  "b64_groups [] = Some []"
| "b64_groups (c0 # c1 # c2 # c3 # cs) =
     (case (b64_value c0, b64_value c1) of
        (Some s0, Some s1) \<Rightarrow>
          if cs = [] \<and> c2 = CHR ''='' \<and> c3 = CHR ''='' then Some [s0 * 4 + s1 div 16]
          else (case b64_value c2 of
                  None \<Rightarrow> None
                | Some s2 \<Rightarrow>
                    if cs = [] \<and> c3 = CHR ''='' then Some [s0 * 4 + s1 div 16, s1 mod 16 * 16 + s2 div 4]
                    else (case b64_value c3 of
                            None \<Rightarrow> None
                          | Some s3 \<Rightarrow> map_option (\<lambda>bs. [s0 * 4 + s1 div 16, s1 mod 16 * 16 + s2 div 4, s2 mod 4 * 64 + s3] @ bs)
                              (b64_groups cs)))
      | _ \<Rightarrow> None)"
| "b64_groups _ = None"

definition b64_decode :: "string \<Rightarrow> string option" where
  "b64_decode t = map_option (map char_of) (b64_groups (filter (\<lambda>c. c \<noteq> CHR 0x0A \<and> c \<noteq> CHR 0x0D) t))"

section \<open>The cipher\<close>

datatype crypto_error = ErrInvalidCiphertext | ErrInvalidKey | ErrEntropy

record aead =
  gcm_NonceSize :: nat
  gcm_Overhead :: nat
  gcm_Seal :: "string \<Rightarrow> string \<Rightarrow> string \<Rightarrow> string"
  gcm_Open :: "string \<Rightarrow> string \<Rightarrow> string \<Rightarrow> string option"

definition envelopeVersion :: char where
  "envelopeVersion = CHR 0x01"

definition reference_context :: string where
  "reference_context = ''rtk-account-manager/payment-method-reference/v1''"

text \<open>The construction from a key of the configuration; \<open>gcm\<close> builds the cipher of a key of 32 bytes.\<close>

definition New_cipher :: "(string \<Rightarrow> aead) \<Rightarrow> string \<Rightarrow> crypto_error + aead" where
  "New_cipher gcm encodedKey =
     (case b64_decode (TrimSpace encodedKey) of
        None \<Rightarrow> Inl ErrInvalidKey
      | Some key \<Rightarrow> if length key \<noteq> 32 then Inl ErrInvalidKey else Inr (gcm key))"

text \<open>\<open>rand n\<close> is what reading \<open>n\<close> bytes of entropy gives, or nothing when that fails.\<close>

definition EncryptMethodReference :: "aead \<Rightarrow> (nat \<Rightarrow> string option) \<Rightarrow> string \<Rightarrow> crypto_error + string" where
  "EncryptMethodReference A rand reference0 =
     (let reference = TrimSpace reference0 in
      if reference = [] \<or> length reference > 1024 then Inl ErrInvalidCiphertext
      else case rand (gcm_NonceSize A) of
        None \<Rightarrow> Inl ErrEntropy
      | Some nonce \<Rightarrow> Inr (envelopeVersion # nonce @ gcm_Seal A nonce reference reference_context))"

definition ResolveMethodReference :: "aead \<Rightarrow> string \<Rightarrow> crypto_error + string" where
  "ResolveMethodReference A envelope =
     (if length envelope < 1 + gcm_NonceSize A + gcm_Overhead A \<or> hd envelope \<noteq> envelopeVersion
      then Inl ErrInvalidCiphertext
      else
        let nonce = take (gcm_NonceSize A) (drop 1 envelope) in
        case gcm_Open A nonce (drop (1 + gcm_NonceSize A) envelope) reference_context of
          None \<Rightarrow> Inl ErrInvalidCiphertext
        | Some reference \<Rightarrow>
            if TrimSpace reference = [] \<or> length reference > 1024 then Inl ErrInvalidCiphertext else Inr reference)"

section \<open>Keys\<close>

fun b64_encode :: "nat list \<Rightarrow> string" where
  "b64_encode [] = []"
| "b64_encode [a] = [b64_char (a div 4), b64_char (a mod 4 * 16), CHR ''='', CHR ''='']"
| "b64_encode [a, b] = [b64_char (a div 4), b64_char (a mod 4 * 16 + b div 16), b64_char (b mod 16 * 4), CHR ''='']"
| "b64_encode (a # b # c # bs) =
     [b64_char (a div 4), b64_char (a mod 4 * 16 + b div 16), b64_char (b mod 16 * 4 + c div 64), b64_char (c mod 64)] @
     b64_encode bs"

lemma b64_table:
  "list_all (\<lambda>n. b64_value (b64_char n) = Some n \<and> b64_char n \<noteq> CHR ''='' \<and> b64_char n \<noteq> CHR 0x0A \<and>
     b64_char n \<noteq> CHR 0x0D \<and> graphic (b64_char n)) [0..<64]"
  by code_simp

lemma b64_char_facts:
  assumes "n < 64"
  shows "b64_value (b64_char n) = Some n" and "b64_char n \<noteq> CHR ''=''" and "b64_char n \<noteq> CHR 0x0A"
    and "b64_char n \<noteq> CHR 0x0D" and "graphic (b64_char n)"
  using b64_table assms by (simp_all add: list_all_iff)

lemma sextets:
  fixes a b c :: nat
  assumes "a < 256" and "b < 256" and "c < 256"
  shows "a div 4 < 64" "a mod 4 * 16 < 64" "a mod 4 * 16 + b div 16 < 64" "b mod 16 * 4 < 64" "b mod 16 * 4 + c div 64 < 64"
    "c mod 64 < 64"
  using assms by linarith+

lemma octets:
  fixes b :: nat
  assumes "b < 256"
  shows "b div 16 div 16 = 0" "b div 64 div 4 = 0" "b div 16 mod 16 * 16 + b mod 16 = b" "b div 64 mod 4 * 64 + b mod 64 = b"
proof -
  have "b div 16 < 16" "b div 64 < 4" using assms by linarith+
  then show "b div 16 div 16 = 0" "b div 64 div 4 = 0" "b div 16 mod 16 * 16 + b mod 16 = b"
      "b div 64 mod 4 * 64 + b mod 64 = b"
    by simp_all
qed

lemma b64_groups_encode: "list_all (\<lambda>b. b < 256) bs \<Longrightarrow> b64_groups (b64_encode bs) = Some bs"
proof (induction bs rule: b64_encode.induct)
  case (2 a)
  then show ?case using sextets [of a a a] by (simp add: b64_char_facts octets)
next
  case (3 a b)
  then show ?case using sextets [of a b b] by (simp add: b64_char_facts octets)
next
  case (4 a b c bs)
  then show ?case
    using sextets [of a b c] by (simp add: b64_char_facts octets)
qed simp

lemma b64_encode_graphic: "list_all (\<lambda>b. b < 256) bs \<Longrightarrow> list_all (\<lambda>c. graphic c \<and> c \<noteq> CHR 0x0A \<and> c \<noteq> CHR 0x0D) (b64_encode bs)"
proof (induction bs rule: b64_encode.induct)
  case (2 a)
  have "graphic (CHR ''='')" by (simp add: graphic_def)
  then show ?case using 2 sextets [of a a a] by (simp add: b64_char_facts)
next
  case (3 a b)
  have "graphic (CHR ''='')" by (simp add: graphic_def)
  then show ?case using 3 sextets [of a b b] by (simp add: b64_char_facts)
next
  case (4 a b c bs)
  then show ?case using sextets [of a b c] by (simp add: b64_char_facts)
qed simp

lemma b64_decode_encode:
  "b64_decode (b64_encode (map of_char key)) = Some key" "TrimSpace (b64_encode (map of_char key)) = b64_encode (map of_char key)"
proof -
  have bytes: "list_all (\<lambda>b. b < 256) (map of_char key :: nat list)" by (simp add: list_all_iff)
  note g = b64_encode_graphic [OF bytes]
  have "filter (\<lambda>c. c \<noteq> CHR 0x0A \<and> c \<noteq> CHR 0x0D) (b64_encode (map of_char key)) = b64_encode (map of_char key)"
    using g by (simp add: list_all_iff)
  then show "b64_decode (b64_encode (map of_char key)) = Some key"
    by (simp add: b64_decode_def b64_groups_encode [OF bytes] map_idI)
  show "TrimSpace (b64_encode (map of_char key)) = b64_encode (map of_char key)"
    using g by (intro TrimSpace_graphic) (simp add: list_all_iff)
qed

section \<open>Properties\<close>

text \<open>
  What is relied on of the cipher, for nonces of its size and references of at most 1024 bytes: opening
  is the inverse of sealing under the same nonce and context, and gives a reference for nothing but
  its sealing; sealing adds the overhead.
\<close>

definition aead_ok :: "aead \<Rightarrow> bool" where
  "aead_ok A \<longleftrightarrow>
     (\<forall>n p. length n = gcm_NonceSize A \<and> length p \<le> 1024 \<longrightarrow>
        (\<forall>c. gcm_Open A n c reference_context = Some p \<longleftrightarrow> c = gcm_Seal A n p reference_context) \<and>
        length (gcm_Seal A n p reference_context) = length p + gcm_Overhead A)"

text \<open>(C37)
  A reference that was sealed is resolved again: whatever the nonce, the envelope of a reference
  resolves to that reference without the surrounding white space; and a key that was configured as
  base64 text of its 32 bytes gives the cipher of that key.
\<close>

theorem reference_roundtrip:
  assumes "aead_ok A" and "\<forall>n b. rand n = Some b \<longrightarrow> length b = n"
    and "EncryptMethodReference A rand reference = Inr envelope" and "length key = 32"
  shows "ResolveMethodReference A envelope = Inr (TrimSpace reference) \<and>
    New_cipher gcm (b64_encode (map of_char key)) = Inr (gcm key)"
proof -
  obtain nonce where n: "rand (gcm_NonceSize A) = Some nonce" "length nonce = gcm_NonceSize A"
      and r: "TrimSpace reference \<noteq> []" "length (TrimSpace reference) \<le> 1024"
      and e: "envelope = envelopeVersion # nonce @ gcm_Seal A nonce (TrimSpace reference) reference_context"
    using assms(2,3) by (auto simp: EncryptMethodReference_def Let_def split: if_splits option.splits)
  have "gcm_Open A nonce (gcm_Seal A nonce (TrimSpace reference) reference_context) reference_context = Some (TrimSpace reference)"
      "length (gcm_Seal A nonce (TrimSpace reference) reference_context) = length (TrimSpace reference) + gcm_Overhead A"
    using assms(1) n(2) r(2) by (simp_all add: aead_ok_def)
  then have "ResolveMethodReference A envelope = Inr (TrimSpace reference)"
    using n(2) r by (simp add: e ResolveMethodReference_def Let_def)
  then show ?thesis using assms(4) by (simp add: New_cipher_def b64_decode_encode)
qed

text \<open>Only envelopes of this version that the cipher sealed are resolved: what is resolved is a
  non-blank reference of at most 1024 bytes, and the envelope is the version, a nonce and exactly the
  sealing of that reference; every other envelope is refused as invalid.
\<close>

theorem only_sealed_references_resolve:
  assumes "aead_ok A"
  shows "case ResolveMethodReference A envelope of
      Inr reference \<Rightarrow> TrimSpace reference \<noteq> [] \<and> length reference \<le> 1024 \<and>
        (\<exists>nonce. length nonce = gcm_NonceSize A \<and> envelope = envelopeVersion # nonce @ gcm_Seal A nonce reference reference_context)
    | Inl e \<Rightarrow> e = ErrInvalidCiphertext"
proof (cases "ResolveMethodReference A envelope")
  case (Inl e)
  then show ?thesis by (auto simp: ResolveMethodReference_def Let_def split: if_splits option.splits)
next
  case (Inr reference)
  let ?nonce = "take (gcm_NonceSize A) (drop 1 envelope)" and ?rest = "drop (1 + gcm_NonceSize A) envelope"
  have ok: "length envelope \<ge> 1 + gcm_NonceSize A + gcm_Overhead A" "hd envelope = envelopeVersion"
      "gcm_Open A ?nonce ?rest reference_context = Some reference" "TrimSpace reference \<noteq> []" "length reference \<le> 1024"
    using Inr by (auto simp: ResolveMethodReference_def Let_def split: if_splits option.splits)
  have len: "length ?nonce = gcm_NonceSize A" using ok(1) by simp
  have "?rest = gcm_Seal A ?nonce reference reference_context" using ok(3,5) len assms unfolding aead_ok_def by blast
  moreover have "envelope = hd envelope # ?nonce @ ?rest"
    using ok(1) by (cases envelope) (simp_all flip: append_take_drop_id [of "gcm_NonceSize A" "tl envelope"])
  ultimately have "envelope = envelopeVersion # ?nonce @ gcm_Seal A ?nonce reference reference_context" using ok(2) by metis
  then show ?thesis using Inr ok(4,5) len by (auto intro: exI [of _ ?nonce])
qed

text \<open>A cipher with these laws, that adds a tag of sixteen bytes.\<close>

definition tag_cipher :: aead where
  "tag_cipher = \<lparr>gcm_NonceSize = 12, gcm_Overhead = 16, gcm_Seal = (\<lambda>n p a. p @ replicate 16 CHR ''t''),
     gcm_Open = (\<lambda>n c a. if length c \<ge> 16 \<and> drop (length c - 16) c = replicate 16 CHR ''t''
       then Some (take (length c - 16) c) else None)\<rparr>"

lemma tag_cipher_ok: "aead_ok tag_cipher"
proof -
  have "c = take (length c - 16) c @ replicate 16 CHR ''t''"
    if "drop (length c - 16) c = replicate 16 CHR ''t''" for c :: string
    using that by (metis append_take_drop_id)
  then show ?thesis unfolding aead_ok_def tag_cipher_def by auto
qed

theorem reference_roundtrip_witness:
  "ResolveMethodReference tag_cipher (envelopeVersion # replicate 12 CHR ''n'' @ ''ref'' @ replicate 16 CHR ''t'') = Inr ''ref''"
proof -
  have trim: "TrimSpace '' ref'' = ''ref''" by code_simp
  have enc: "EncryptMethodReference tag_cipher (\<lambda>n. Some (replicate n CHR ''n'')) '' ref'' =
      Inr (envelopeVersion # replicate 12 CHR ''n'' @ ''ref'' @ replicate 16 CHR ''t'')"
    by (simp add: EncryptMethodReference_def trim tag_cipher_def)
  show ?thesis
    using reference_roundtrip [OF tag_cipher_ok _ enc, of "replicate 32 CHR ''k''" "\<lambda>_. tag_cipher"] trim by simp
qed

theorem only_sealed_references_resolve_witness:
  "ResolveMethodReference tag_cipher ''x'' = Inl ErrInvalidCiphertext"
  using only_sealed_references_resolve [OF tag_cipher_ok, of "''x''"]
  by (simp add: ResolveMethodReference_def tag_cipher_def envelopeVersion_def)

end
