(* ===== verification/Spec2Isabelle.thy ===== *)
theory Spec2Isabelle
  imports Billing_Draft Domain_Behaviour Payment_Safety Worker_Safety Ownership_Witnesses
    Topup_Email Reference_Crypto
begin

text \<open>
  A verification development of the billing service: prepaid accounts of organizations, their
  ledger, the payments that top them up, the invoices of their usage, and the protocols by which
  the financial responsibility for a cloud passes to a new owner or ends with the cloud.

  \<^bold>\<open>The program.\<close> The service is a set of programs around one PostgreSQL database. Pure packages
  (\<^verbatim>\<open>internal/currency\<close>, \<^verbatim>\<open>internal/payment\<close>, \<^verbatim>\<open>internal/billing\<close>) hold the data and the
  decisions. \<^verbatim>\<open>internal/paymentstore\<close> runs the transactions: each locks the row of an account,
  checks the fences that a handoff or a closure sets, and writes; the constraints and triggers of
  \<^verbatim>\<open>migrations/\<close> check again. \<^verbatim>\<open>internal/paymentservice\<close> is the worker that leases jobs, calls
  the payment providers and records what they say; providers also send webhooks. The API and other
  services call the store for customers, for handoffs and for closures.

  \<^bold>\<open>How it is modelled.\<close> A table is a list of rows, a statement a function from the database to an
  error or a new database that applies the checks, unique indexes and triggers of its table, and an
  operation of the store a function to an error or a result and a new database. Go's errors are the
  left values of a sum; an error rolls the transaction back. Definitions carry the names of the Go
  functions.

  \<^item> Shared: \<open>Go_Prelude\<close> (early returns, \<^verbatim>\<open>int64\<close> with its wrap-around, instants in nanoseconds,
    string functions, tables), \<open>Currency_Code\<close> (\<^verbatim>\<open>internal/currency\<close>).

  \<^item> Domain: \<open>Payment_Core\<close> (\<^verbatim>\<open>internal/payment\<close>); \<open>Billing_Money\<close>, \<open>Billing_Ota\<close>,
    \<open>Billing_Invoice\<close>, \<open>Billing_Handoff\<close> (\<^verbatim>\<open>internal/billing\<close>: \<^verbatim>\<open>types.go\<close> and \<^verbatim>\<open>money.go\<close>,
    \<^verbatim>\<open>ota.go\<close> and \<^verbatim>\<open>ota_card_review.go\<close>, \<^verbatim>\<open>invoice.go\<close>, \<^verbatim>\<open>handoff.go\<close>).

  \<^item> Database: \<open>Payment_Db\<close> and \<open>Payment_Sql\<close> (the tables of the payment store and the statements on
    them, with \<^verbatim>\<open>migrations/039\<close> to \<^verbatim>\<open>055\<close> and \<^verbatim>\<open>064\<close>); \<open>Ownership_Db\<close> (the tables the
    ownership protocols add, \<^verbatim>\<open>041\<close> and \<^verbatim>\<open>049\<close> to \<^verbatim>\<open>057\<close>).

  \<^item> Payment store (\<^verbatim>\<open>internal/paymentstore\<close>): \<open>Ledger_Store\<close> (\<^verbatim>\<open>accounts.go\<close>, \<^verbatim>\<open>ledger.go\<close>,
    \<^verbatim>\<open>privacy.go\<close>, and \<^verbatim>\<open>billingidentity/owner.go\<close>), \<open>Intent_Store\<close> (\<^verbatim>\<open>intents.go\<close>),
    \<open>Customer_Store\<close> (\<^verbatim>\<open>customer.go\<close>, \<^verbatim>\<open>methods.go\<close>, \<^verbatim>\<open>policy.go\<close>), \<open>Orchestration_Store\<close>
    (\<^verbatim>\<open>orchestration.go\<close>, \<^verbatim>\<open>webhooks.go\<close>), \<open>Reversal_Store\<close> (\<^verbatim>\<open>reversals.go\<close>),
    \<open>Topup_Email\<close> (\<^verbatim>\<open>topup_email.go\<close> and the delivery loop of \<^verbatim>\<open>cmd/payment-worker\<close>).

  \<^item> Ownership (\<^verbatim>\<open>internal/paymentstore\<close>): \<open>Handoff_Store\<close> and \<open>Handoff_Protocol\<close> (\<^verbatim>\<open>handoff.go\<close>,
    \<^verbatim>\<open>handoff_settlement.go\<close>, \<^verbatim>\<open>handoff_commit.go\<close>), \<open>Setup_Store\<close> (\<^verbatim>\<open>setups.go\<close>),
    \<open>Closure_Store\<close> (\<^verbatim>\<open>cloud_closure.go\<close>, \<^verbatim>\<open>cloud_closure_retirement.go\<close>), \<open>Cloud_Store\<close>
    (\<^verbatim>\<open>cloud_creation.go\<close>, \<^verbatim>\<open>collector_evidence.go\<close>, \<^verbatim>\<open>cloud_preflight.go\<close>,
    \<^verbatim>\<open>ownership_eligibility.go\<close>).

  \<^item> Worker: \<open>Payment_Worker\<close> (\<^verbatim>\<open>internal/paymentservice\<close>); \<open>Reference_Crypto\<close>
    (\<^verbatim>\<open>internal/paymentcrypto\<close>), the envelopes the worker resolves.

  \<^bold>\<open>Machines.\<close> \<open>Payment_Machine\<close> makes the payment store a transition system: one transaction per
  step, and between them any change the other components make to the tables of fences, profiles and
  invoices. \<open>Ownership_Machine\<close> extends it by the transactions of handoffs, closures, setups and
  bootstraps; the two transactions of \<^verbatim>\<open>FinalizeOwnershipHandoff\<close> are two steps. \<open>Worker_Safety\<close>
  runs any number of workers over the store: a job is processed in stages, one for each transaction
  or provider call, stages of different workers interleave with each other and with every other
  transaction, and a worker may crash between any two. \<open>Topup_Email\<close> has the machine of the outbox.

  \<^bold>\<open>Specifications and refinement.\<close> The locales \<open>refinement\<close> and \<open>growing_refinement\<close> of
  \<open>Payment_Machine\<close> say what it is to refine an abstract machine with an invariant and an order it
  respects. They are interpreted five times: \<open>Payment_Books\<close> is the abstract machine of
  accounts, ledger and intents, refined by the payment store (\<open>Books_Refinement\<close>) and by the
  ownership machine (\<open>Ownership_Books\<close>); \<open>Handoff_Spec\<close> the machine of the file of a handoff
  (\<open>Handoff_Refinement\<close>); \<open>Closure_Safety\<close> has that of closures, and \<open>Topup_Email\<close> that of mails.
  \<open>Store_Frames\<close> and \<open>Ownership_Frames\<close> prove once, in locales, that what every statement of a group
  of operations preserves is preserved by the operations; they are interpreted on the tables an
  operation does not write and on what the fences guard. \<open>Store_Replay\<close> states idempotence as a
  locale and interprets it on the operations that take an idempotency key.

  \<^bold>\<open>What is shown.\<close>

  \<^item> \<open>Payment_Safety\<close>: a balance is the sum of the entries of its account, the ledger only grows, a
    settled payment is credited once and a payment charged at most once, reversals stay within the
    payment, an ended payment stays ended, and fences stop postings and new payments.

  \<^item> \<open>Payment_Behaviour\<close>, \<open>Job_Behaviour\<close>: what the operations do, retries included: automatic
    top-ups stay within their policy, leases are exclusive and required, an unknown outcome is
    followed up, unverified webhooks change nothing, a tenant acts only on the account it answers for.

  \<^item> \<open>Worker_Safety\<close>: over all interleavings and crashes a provider is asked to charge for a payment
    at most once and for what the payment says; a failed lookup leaves a payment open.

  \<^item> \<open>Handoff_Safety\<close>, \<open>Responsibility\<close>: a successor opens with the balance both participants
    confirmed, a handoff commits or is canceled and never both, its end is final, nothing the
    predecessor authorized survives it, and the periods of an account follow each other without gap
    or overlap. \<open>Closure_Safety\<close>: a cloud closes only when it is settled, a closure closes or is
    canceled, and handoff and closure exclude each other. \<open>Ownership_Witnesses\<close> applies them to the
    runs of \<open>Ownership_Scenario\<close>.

  \<^item> \<open>Billing_Draft\<close>: every billable fact is billed on exactly one line at the rate of its meter, the
    totals of a drafted invoice add up, and the allocation of tax is exact and fair to one unit.
    \<open>Domain_Behaviour\<close>: exact arithmetic of balances, rounding as rational rounding, windows of a
    day, the review of a price card.

  \<^item> \<open>Topup_Email\<close>: a lost lease of a mail cannot be used again and the delay of a retry is bounded.
    \<open>Reference_Crypto\<close>: a sealed reference resolves to itself, and only sealed ones resolve.

  \<^bold>\<open>Abstractions.\<close> A transaction is atomic, since it locks the account row first; a transaction that
  the database refuses for want of a connection is one that did not run. Identifiers are canonical
  UUID text, SQL \<^verbatim>\<open>NULL\<close> text is the empty string, a transaction reads its clock once,
  \<^verbatim>\<open>timestamptz\<close> columns are rounded to microseconds, \<^verbatim>\<open>updated_at\<close> is what the triggers write,
  and version counters are not checked for the range of their column. Foreign keys are not
  modelled: rows are only written for rows that were read. Arguments of the definitions, and not
  part of the model, are: the provider adapters, the digests (SHA-256 of JSON text), the rows other
  transactions hold locked (\<^verbatim>\<open>SKIP LOCKED\<close>), random bytes, the sender of mails and the authenticated
  cipher. Two properties name what they rely on of such an argument: that the digest of a confirmed
  balance determines the balance, and that opening inverts sealing (\<open>aead_ok\<close>).

  \<^bold>\<open>Loops.\<close> Every loop is a total function: over the rows or jobs it was given, or with a measure (the
  delay of a mail). The polling loops of the programs run until they are stopped; they are modelled
  by the number of their turns.

  \<^bold>\<open>Not modelled.\<close> The HTTP API (decoding and encoding around the store), the provider adapters and
  simulators (clients of other services), the persistence of price books, usage, invoices and access
  states in \<^verbatim>\<open>internal/billingstore\<close> (its tables may change arbitrarily between two steps), the
  removal of raw usage, the settlement collector (a loop over the operations of \<open>Cloud_Store\<close> and
  \<open>Handoff_Protocol\<close>), paged listings, PDF rendering, configuration and the entry points.
\<close>

end
